(* ===== verification/Prelude.thy ===== *)
theory Prelude
  imports Main "HOL-Library.AList" "HOL-Library.Multiset" "HOL-Library.Char_ord"
    "HOL-Library.List_Lexorder" "HOL-Library.Product_Lexorder"
begin

text \<open>
  What every component of the model shares.

  A Go \<^verbatim>\<open>string\<close> or \<^verbatim>\<open>[]byte\<close> is a \<^typ>\<open>string\<close>: an Isabelle character is
  one of 256 byte values, so a string is a byte sequence, compared bytewise as Go compares
  strings.  A Go \<^verbatim>\<open>map[string]T\<close> is an association list with distinct keys (type
  \<open>gomap\<close>): the position of an entry is the place Go's iteration happens to give it, which Go
  leaves unspecified, so a result holds for Go's map when it holds for every order of the list.
  A \<^verbatim>\<open>(value, error)\<close> pair is a sum, with the error on the left.  A \<^verbatim>\<open>time.Time\<close> is
  the number of nanoseconds since the Unix epoch.

  The theory also holds the loop \<open>for k := range m { if ... delete(m, k) }\<close> that four of the
  stores run, the model of \<^verbatim>\<open>sort.SliceStable\<close>, and the interface of a store keyed by
  canonical MAC addresses.
\<close>

named_theorems gomap_simps \<open>lookup and key facts of the association-list maps\<close>
named_theorems canon_simps \<open>facts about canonical MAC addresses\<close>

type_synonym 'v gomap = "(string \<times> 'v) list"

text \<open>Nanoseconds since the Unix epoch; the zero \<^verbatim>\<open>time.Time\<close> is 1 January of year 1.\<close>

type_synonym time = int
type_synonym duration = int

abbreviation (input) second :: duration where
  "second \<equiv> 1000000000"

definition zero_time :: time where
  "zero_time = - 62135596800000000000"

definition keys_ok :: "'v gomap \<Rightarrow> bool" where
  "keys_ok m \<longleftrightarrow> distinct (map fst m)"

abbreviation mkeys :: "'v gomap \<Rightarrow> string set" where
  "mkeys m \<equiv> fst ` set m"

abbreviation mget :: "'v gomap \<Rightarrow> string \<Rightarrow> 'v option" where
  "mget \<equiv> map_of"

abbreviation mput :: "string \<Rightarrow> 'v \<Rightarrow> 'v gomap \<Rightarrow> 'v gomap" where
  "mput \<equiv> AList.update"

abbreviation mdel :: "string \<Rightarrow> 'v gomap \<Rightarrow> 'v gomap" where
  "mdel \<equiv> AList.delete"

section \<open>Maps\<close>

lemma mget_mput [gomap_simps]: "mget (mput k v m) = (mget m)(k \<mapsto> v)"
  by (simp add: AList.update_conv')

lemma mget_mdel [gomap_simps]: "mget (mdel k m) = (mget m)(k := None)"
  by (simp add: AList.delete_conv')

lemma mkeys_mput [gomap_simps]: "mkeys (mput k v m) = insert k (mkeys m)"
  by (induction m) auto

lemma mem_mput_key: "(k, v) \<in> set (mput c w m) \<Longrightarrow> k \<noteq> c \<Longrightarrow> k \<in> mkeys m"
  using mkeys_mput [of c w m] by (metis fst_conv image_eqI insertE)

lemma mkeys_mdel [gomap_simps]: "mkeys (mdel k m) = mkeys m - {k}"
  by (auto simp: AList.delete_eq)

lemma keys_ok_Nil [simp]: "keys_ok []"
  by (simp add: keys_ok_def)

lemma keys_ok_Cons: "keys_ok ((k, v) # m) \<longleftrightarrow> k \<notin> mkeys m \<and> keys_ok m"
  by (auto simp: keys_ok_def)

lemma keys_ok_mput [simp]: "keys_ok m \<Longrightarrow> keys_ok (mput k v m)"
  by (simp add: keys_ok_def AList.distinct_update)

lemma keys_ok_mdel [simp]: "keys_ok m \<Longrightarrow> keys_ok (mdel k m)"
  by (simp add: keys_ok_def AList.distinct_delete)

lemma keys_ok_filter [simp]: "keys_ok m \<Longrightarrow> keys_ok (filter P m)"
  by (induction m) (auto simp: keys_ok_def)

lemma mget_None_iff [gomap_simps]: "mget m k = None \<longleftrightarrow> k \<notin> mkeys m"
  by (simp add: map_of_eq_None_iff)

lemma mget_Some_mem: "mget m k = Some v \<Longrightarrow> (k, v) \<in> set m"
  by (rule map_of_SomeD)

lemma mem_mget: "keys_ok m \<Longrightarrow> (k, v) \<in> set m \<Longrightarrow> mget m k = Some v"
  by (simp add: keys_ok_def)

lemma mget_Some_key: "mget m k = Some v \<Longrightarrow> k \<in> mkeys m"
  by (force dest: map_of_SomeD)

lemma mkeys_obtain: "k \<in> mkeys m \<Longrightarrow> \<exists>v. mget m k = Some v"
  by (metis mget_None_iff not_Some_eq)

lemma mget_filter_key:
  "mget (filter (\<lambda>(k, v). P k) m) k = (if P k then mget m k else None)"
  by (induction m) auto

lemma mkeys_filter_key:
  "mkeys (filter (\<lambda>(k, v). P k) m) = {k \<in> mkeys m. P k}"
  by (induction m) auto

text \<open>Two association lists of one Go map are permutations of each other.\<close>

lemma gomap_mset_eq:
  assumes "keys_ok m" "keys_ok n" "mget m = mget n"
  shows "mset m = mset n"
proof -
  have "distinct m" "distinct n"
    using assms(1,2) by (auto simp: keys_ok_def distinct_map)
  moreover have "set m = set n"
    using assms by (metis map_of_eqI keys_ok_def map_of_SomeD map_of_eq_Some_iff subrelI subset_antisym)
  ultimately show ?thesis by (simp add: set_eq_iff_mset_eq_distinct)
qed

lemma AList_update_fresh: "k \<notin> mkeys m \<Longrightarrow> mput k v m = m @ [(k, v)]"
  by (induction m) auto

lemma length_mput: "length (mput k v m) = (if k \<in> mkeys m then length m else Suc (length m))"
  by (induction m) auto

lemma length_mdel: "keys_ok m \<Longrightarrow> k \<in> mkeys m \<Longrightarrow> Suc (length (mdel k m)) = length m"
proof (induction m)
  case (Cons p m)
  then show ?case
    by (cases p) (force simp: keys_ok_Cons AList.delete_eq filter_id_conv
        intro!: arg_cong [where f = length])
qed simp

section \<open>Deleting while ranging over a map\<close>

text \<open>
  \<^verbatim>\<open>for k := range m { if !keep(k) { dropped = append(dropped, k); delete(m, k); removed++ } }\<close>
  over the keys in the order the iteration gives them.
\<close>

fun range_delete :: "(string \<Rightarrow> bool) \<Rightarrow> string list \<Rightarrow> nat \<times> string list \<times> 'v gomap
    \<Rightarrow> nat \<times> string list \<times> 'v gomap" where
  "range_delete keep [] acc = acc"
| "range_delete keep (k # ks) (removed, dropped, m) =
     (if keep k then range_delete keep ks (removed, dropped, m)
      else range_delete keep ks (Suc removed, dropped @ [k], mdel k m))"

lemma range_delete_gen:
  "range_delete keep ks (r, d, m) =
     (r + length (filter (\<lambda>k. \<not> keep k) ks), d @ filter (\<lambda>k. \<not> keep k) ks,
      filter (\<lambda>(k, v). k \<in> set ks \<longrightarrow> keep k) m)"
proof (induction ks arbitrary: r d m)
  case Nil
  show ?case by (simp add: case_prod_unfold)
next
  case (Cons k ks)
  show ?case
    using Cons.IH by (auto simp: AList.delete_eq case_prod_unfold intro!: filter_cong)
qed

lemma range_delete_all:
  "range_delete keep (map fst m) (0, [], m) =
     (length (filter (\<lambda>k. \<not> keep k) (map fst m)), filter (\<lambda>k. \<not> keep k) (map fst m),
      filter (\<lambda>(k, v). keep k) m)"
  by (force simp: range_delete_gen intro!: filter_cong)

section \<open>Stable sorting by a comparison\<close>

text \<open>\<^verbatim>\<open>sort.SliceStable(xs, less)\<close>: each element goes before the first one not below it.\<close>

fun insert_by :: "('a \<Rightarrow> 'a \<Rightarrow> bool) \<Rightarrow> 'a \<Rightarrow> 'a list \<Rightarrow> 'a list" where
  "insert_by lt x [] = [x]"
| "insert_by lt x (y # ys) = (if lt y x then y # insert_by lt x ys else x # y # ys)"

definition slice_stable :: "('a \<Rightarrow> 'a \<Rightarrow> bool) \<Rightarrow> 'a list \<Rightarrow> 'a list" where
  "slice_stable lt xs = foldr (insert_by lt) xs []"

lemma insert_by_key:
  assumes "\<And>a b. lt a b \<longleftrightarrow> f a < (f b :: 'k :: linorder)"
  shows "insert_by lt x ys = insort_key f x ys"
  by (induction ys) (auto simp: assms)

lemma slice_stable_key:
  assumes "\<And>a b. lt a b \<longleftrightarrow> f a < (f b :: 'k :: linorder)"
  shows "slice_stable lt xs = sort_key f xs"
proof -
  have "insert_by lt = insort_key f"
    by (intro ext insert_by_key [OF assms])
  then show ?thesis by (simp add: slice_stable_def sort_key_def)
qed

lemma mset_insert_by [simp]: "mset (insert_by lt x ys) = add_mset x (mset ys)"
  by (induction ys) auto

lemma mset_slice_stable [simp]: "mset (slice_stable lt xs) = mset xs"
  by (induction xs) (simp_all add: slice_stable_def)

lemma set_slice_stable [simp]: "set (slice_stable lt xs) = set xs"
  by (metis mset_slice_stable set_mset_mset)

lemma length_slice_stable [simp]: "length (slice_stable lt xs) = length xs"
  by (metis mset_slice_stable size_mset)

lemma distinct_slice_stable [simp]: "distinct (slice_stable lt xs) = distinct xs"
  by (metis mset_slice_stable mset_eq_imp_distinct_iff)

text \<open>When the key tells all the elements apart, the order they came in does not matter.\<close>

lemma sort_key_order_irrelevant:
  assumes "mset xs = mset ys" "inj_on (f :: 'a \<Rightarrow> 'k :: linorder) (set xs)"
  shows "sort_key f xs = sort_key f ys"
proof -
  have "mset xs = mset (sort_key f ys)" using assms(1) by simp
  then show ?thesis
    by (rule sort_key_inj_key_eq) (use assms(2) in simp_all)
qed

section \<open>Sums as results\<close>

fun bind_sum :: "'e + 'a \<Rightarrow> ('a \<Rightarrow> 'e + 'b) \<Rightarrow> 'e + 'b" where
  "bind_sum (Inl e) k = Inl e"
| "bind_sum (Inr a) k = k a"

fun is_ok :: "'e + 'a \<Rightarrow> bool" where
  "is_ok (Inl e) = False"
| "is_ok (Inr a) = True"

lemma bind_sum_Inr: "bind_sum r k = Inr b \<longleftrightarrow> (\<exists>a. r = Inr a \<and> k a = Inr b)"
  by (cases r) auto

lemma is_ok_iff: "is_ok r \<longleftrightarrow> (\<exists>a. r = Inr a)"
  by (cases r) auto

end
