(* ===== verification/Wire.thy ===== *)
theory Wire
  imports Prelude
begin

text \<open>
  The wire types of the JSON API (\<^verbatim>\<open>pkg/pxebeacon/types.go\<close>).  A JSON body is modelled
  by the value that is encoded; the details of an error are strings or lists of strings.
\<close>

record Desired =
  ds_Action :: string
  ds_RequestedAt :: time
  ds_ExpiresAt :: time

record Observed =
  ob_Phase :: string
  ob_LastSeen :: time

record MachineView =
  mv_MAC :: string
  mv_Name :: string
  mv_Boot :: string
  mv_Desired :: Desired
  mv_Observed :: Observed

record Intent =
  in_MAC :: string
  in_Desired :: Desired
  in_Observed :: Observed

record MachineConfig =
  mc_MAC :: string
  mc_Name :: string
  mc_Boot :: string
  mc_Preseed :: string
  mc_Kickstart :: string
  mc_CloudInit :: string
  mc_Rescue :: string
  mc_IPXEScript :: string
  mc_Params :: "string gomap"

record ListResponse =
  lr_PendingTTLs :: int
  lr_Total :: int
  lr_Limit :: int
  lr_Offset :: int
  lr_Machines :: "MachineView list"

record SightingView =
  sw_MAC :: string
  sw_Arch :: string
  sw_Vendor :: string
  sw_VendorClass :: string
  sw_FirstSeen :: time
  sw_LastSeen :: time
  sw_Count :: int

record DiscoveredResponse =
  dr_Total :: int
  dr_Limit :: int
  dr_Offset :: int
  dr_Discovered :: "SightingView list"

record ServerInfo =
  si_AdvertisedIP :: string
  si_HTTPPort :: int
  si_UptimeS :: int
  si_StartedAt :: time
  si_PendingTTLs :: int

record StatusResponse =
  sr_Server :: ServerInfo
  sr_Machines :: "MachineView list"

record HealthzResponse =
  hz_Status :: string
  hz_UptimeS :: int
  hz_StartedAt :: time

record ReadyzResponse =
  rz_Status :: string
  rz_Components :: "string gomap"
  rz_PendingCount :: "int option"
  rz_TrackerCount :: "int option"

datatype ErrCode = ErrCodeFleetNotLoaded | ErrCodePendingNotConfigured | ErrCodeMACMissing | ErrCodeMACInvalid
  | ErrCodeMACNotInFleet | ErrCodeBodyInvalid | ErrCodeActionMissing | ErrCodeActionInvalid
  | ErrCodeCallbackToken | ErrCodePendingFailed | ErrCodePagingInvalid | ErrCodeContentType | ErrCodeMACExists
  | ErrCodeBootInvalid | ErrCodeValidationFailed | ErrCodePreconditionRequired | ErrCodePreconditionFailed
  | ErrCodeSaveFailed

fun code_string :: "ErrCode \<Rightarrow> string" where
  "code_string ErrCodeFleetNotLoaded = ''fleet_not_loaded''"
| "code_string ErrCodePendingNotConfigured = ''pending_not_configured''"
| "code_string ErrCodeMACMissing = ''mac_missing''"
| "code_string ErrCodeMACInvalid = ''mac_invalid''"
| "code_string ErrCodeMACNotInFleet = ''mac_not_in_fleet''"
| "code_string ErrCodeBodyInvalid = ''body_invalid''"
| "code_string ErrCodeActionMissing = ''action_missing''"
| "code_string ErrCodeActionInvalid = ''action_invalid''"
| "code_string ErrCodeCallbackToken = ''callback_token_invalid''"
| "code_string ErrCodePendingFailed = ''pending_failed''"
| "code_string ErrCodePagingInvalid = ''paging_invalid''"
| "code_string ErrCodeContentType = ''content_type_unsupported''"
| "code_string ErrCodeMACExists = ''mac_exists''"
| "code_string ErrCodeBootInvalid = ''boot_invalid''"
| "code_string ErrCodeValidationFailed = ''validation_failed''"
| "code_string ErrCodePreconditionRequired = ''precondition_required''"
| "code_string ErrCodePreconditionFailed = ''precondition_failed''"
| "code_string ErrCodeSaveFailed = ''save_failed''"

datatype detail = DetailString string | DetailStrings "string list"

record APIError =
  ae_Code :: ErrCode
  ae_Message :: string
  ae_Details :: "detail gomap"

text \<open>The machine-readable identifiers are distinct, so a client can branch on them.\<close>

lemma code_string_inj: "code_string a = code_string b \<Longrightarrow> a = b"
  by (cases a; cases b) simp_all

end
