(* ===== verification/Go_IP.thy ===== *)
theory Go_IP
  imports Go_Strings
begin

text \<open>
  Go's \<^verbatim>\<open>net.IP\<close>: a byte slice of length 4 or 16, nil as the empty one.
  \<^verbatim>\<open>To4\<close> returns the four-byte form of an IPv4 address, in either length.
\<close>

type_synonym net_ip = string

definition v4_in_v6_prefix :: string where
  "v4_in_v6_prefix = replicate 10 (CHR 0x00) @ [CHR 0xFF, CHR 0xFF]"

definition To4 :: "net_ip \<Rightarrow> net_ip option" where
  "To4 ip =
     (if length ip = 4 then Some ip
      else if length ip = 16 \<and> take 12 ip = v4_in_v6_prefix then Some (drop 12 ip)
      else None)"

text \<open>\<^verbatim>\<open>IP.String()\<close> of an address whose four-byte form is \<open>b\<close>.\<close>

definition ip4_string :: "net_ip \<Rightarrow> string" where
  "ip4_string b = Join (map (\<lambda>c. dec_nat (of_char c)) b) ''.''"

definition IPv4zero :: net_ip where
  "IPv4zero = v4_in_v6_prefix @ replicate 4 (CHR 0x00)"

definition IPv4bcast :: net_ip where
  "IPv4bcast = v4_in_v6_prefix @ replicate 4 (CHR 0xFF)"

definition IPv4 :: "nat \<Rightarrow> nat \<Rightarrow> nat \<Rightarrow> nat \<Rightarrow> net_ip" where
  "IPv4 a b c d = v4_in_v6_prefix @ [char_of a, char_of b, char_of c, char_of d]"

lemma length_To4: "To4 ip = Some b \<Longrightarrow> length b = 4"
  by (auto simp: To4_def split: if_splits)

lemma To4_IPv4 [simp]: "To4 (IPv4 a b c d) = Some [char_of a, char_of b, char_of c, char_of d]"
  by (simp add: To4_def IPv4_def v4_in_v6_prefix_def)

end
