(* ===== verification/Go_Net.thy ===== *)
theory Go_Net
  imports Go_IP
begin

text \<open>
  The parts of Go's \<^verbatim>\<open>net\<close> package the HTTP layer uses: parsing textual addresses
  (\<^verbatim>\<open>ParseIP\<close>, the algorithm of \<^verbatim>\<open>netip\<close>), host and port, loopback tests and masks.
\<close>

section \<open>Addresses\<close>

text \<open>One field of a dotted address: one to three digits, no leading zero, at most 255.\<close>

definition parse_octet :: "string \<Rightarrow> char option" where
  "parse_octet s =
     (if s = [] \<or> \<not> list_all is_digit s \<or> (length s > 1 \<and> hd s = CHR ''0'') \<or> digits_value s > 255 then None
      else Some (char_of (digits_value s)))"

fun parse_octets :: "string list \<Rightarrow> string option" where
  "parse_octets [] = Some []"
| "parse_octets (f # fs) =
     (case parse_octet f of None \<Rightarrow> None
      | Some c \<Rightarrow> (case parse_octets fs of None \<Rightarrow> None | Some cs \<Rightarrow> Some (c # cs)))"

definition parse_ipv4 :: "string \<Rightarrow> string option" where
  "parse_ipv4 s = (let fs = Split s (CHR ''.'') in if length fs \<noteq> 4 then None else parse_octets fs)"

text \<open>The leading hexadecimal digits of a text, their value and the rest.\<close>

fun hex_prefix :: "string \<Rightarrow> nat \<Rightarrow> nat \<Rightarrow> nat \<times> nat \<times> string" where
  "hex_prefix [] n acc = (n, acc, [])"
| "hex_prefix (c # s) n acc =
     (case unhex c of None \<Rightarrow> (n, acc, c # s) | Some d \<Rightarrow> hex_prefix s (Suc n) (16 * acc + d))"

lemma hex_prefix_length: "hex_prefix s n acc = (m, v, r) \<Longrightarrow> length r + m = length s + n"
  by (induction s n acc rule: hex_prefix.induct) (auto split: option.splits)

text \<open>
  The loop over the 16-bit fields: \<open>bs\<close> are the bytes read so far, \<open>ell\<close> their number at the
  ellipsis.  It returns the bytes and the position of the ellipsis.
\<close>

function ipv6_fields :: "string \<Rightarrow> string \<Rightarrow> nat option \<Rightarrow> (string \<times> nat option) option" where
  "ipv6_fields s bs ell =
     (if length bs \<ge> 16 then (if s = [] then Some (bs, ell) else None)
      else case hex_prefix s 0 0 of (n, v, r) \<Rightarrow>
        if n = 0 \<or> n > 4 then None
        else if r \<noteq> [] \<and> hd r = CHR ''.'' then
          (if ell = None \<and> length bs \<noteq> 12 then None
           else if length bs + 4 > 16 then None
           else case parse_ipv4 s of None \<Rightarrow> None | Some b \<Rightarrow> Some (bs @ b, ell))
        else let bs' = bs @ [char_of (v div 256), char_of (v mod 256)] in
          if r = [] then Some (bs', ell)
          else if hd r \<noteq> CHR '':'' \<or> length r = 1 then None
          else let r' = tl r in
            if hd r' = CHR '':'' then
              (if ell \<noteq> None then None
               else if tl r' = [] then Some (bs', Some (length bs'))
               else ipv6_fields (tl r') bs' (Some (length bs')))
            else ipv6_fields r' bs' ell)"
  by pat_completeness auto

termination
proof (relation "measure (\<lambda>(s, bs, ell). length s)")
qed (auto dest!: hex_prefix_length [OF sym])

definition parse_ipv6 :: "string \<Rightarrow> string option" where
  "parse_ipv6 s =
     (let lead = HasPrefix s ''::''; s' = (if lead then drop 2 s else s) in
      if lead \<and> s' = [] then Some (replicate 16 (CHR 0x00))
      else case ipv6_fields s' [] (if lead then Some 0 else None) of None \<Rightarrow> None
        | Some (bs, ell) \<Rightarrow>
            (case ell of None \<Rightarrow> if length bs < 16 then None else Some bs
             | Some e \<Rightarrow> if length bs < 16 then Some (take e bs @ replicate (16 - length bs) (CHR 0x00) @ drop e bs)
                        else None))"

text \<open>
  \<^verbatim>\<open>ParseIP\<close> gives the sixteen-byte form.  The first dot, colon or percent sign decides how the
  text is read; an address with a zone is refused.
\<close>

definition ParseIP :: "string \<Rightarrow> net_ip option" where
  "ParseIP s =
     (case find (\<lambda>c. c = CHR ''.'' \<or> c = CHR '':'' \<or> c = CHR ''%'') s of
        None \<Rightarrow> None
      | Some c \<Rightarrow>
          if c = CHR ''.'' then map_option (\<lambda>b. v4_in_v6_prefix @ b) (parse_ipv4 s)
          else if c = CHR '':'' \<and> CHR ''%'' \<notin> set s then parse_ipv6 s
          else None)"

definition IPv6loopback :: net_ip where
  "IPv6loopback = replicate 15 (CHR 0x00) @ [CHR 0x01]"

definition IsLoopback :: "net_ip \<Rightarrow> bool" where
  "IsLoopback ip = (case To4 ip of Some b \<Rightarrow> hd b = CHR 0x7F | None \<Rightarrow> ip = IPv6loopback)"

section \<open>Host and port\<close>

definition LastIndexByte :: "string \<Rightarrow> char \<Rightarrow> nat option" where
  "LastIndexByte s c = map_option (\<lambda>i. length s - 1 - i) (IndexByte (rev s) c)"

definition SplitHostPort :: "string \<Rightarrow> (string \<times> string) option" where
  "SplitHostPort hp =
     (case LastIndexByte hp (CHR '':'') of None \<Rightarrow> None
      | Some i \<Rightarrow>
          if hd hp = CHR ''['' then
            (case IndexByte hp (CHR '']'') of None \<Rightarrow> None
             | Some e \<Rightarrow>
                 if Suc e \<noteq> i then None
                 else if CHR ''['' \<in> set (drop 1 hp) \<or> CHR '']'' \<in> set (drop (Suc e) hp) then None
                 else Some (take (e - 1) (drop 1 hp), drop (Suc i) hp))
          else if CHR '':'' \<in> set (take i hp) then None
          else if CHR ''['' \<in> set hp \<or> CHR '']'' \<in> set hp then None
          else Some (take i hp, drop (Suc i) hp))"

section \<open>Masks\<close>

text \<open>\<^verbatim>\<open>IP.Mask\<close> of two four-byte values and \<^verbatim>\<open>IPMask.Size\<close>, whose
  number of ones is 0 for a mask that is not a run of ones.\<close>

definition mask_bytes :: "net_ip \<Rightarrow> string \<Rightarrow> net_ip" where
  "mask_bytes ip m = map2 (\<lambda>a b. char_of (and (of_char a :: nat) (of_char b))) ip m"

definition byte_bits :: "char \<Rightarrow> bool list" where
  "byte_bits c = map (\<lambda>k. bit (of_char c :: nat) k) [7, 6, 5, 4, 3, 2, 1, 0]"

definition mask_ones :: "string \<Rightarrow> nat" where
  "mask_ones m =
     (let bits = concat (map byte_bits m); n = length (takeWhile (\<lambda>b. b) bits)
      in if list_all (\<lambda>b. \<not> b) (drop n bits) then n else 0)"

section \<open>Facts\<close>

lemma dec_nat_leading: "n > 0 \<Longrightarrow> hd (dec_nat n) \<noteq> CHR ''0''"
proof (induction n rule: dec_nat.induct)
  case (1 n)
  show ?case
  proof (cases "n < 10")
    case True
    have "of_char (char_of (48 + n) :: char) = (48 + n :: nat)" using True by simp
    moreover have char_zero: "of_char (CHR ''0'') = (48 :: nat)" by simp
    ultimately have "(char_of (48 + n) :: char) \<noteq> CHR ''0''" using 1(2) by (metis char_zero add_cancel_left_right less_numeral_extra(3))
    with True show ?thesis by (subst dec_nat.simps) simp
  next
    case False
    with 1 show ?thesis by (subst dec_nat.simps) simp
  qed
qed

lemma parse_octet_dec:
  assumes "n < 256"
  shows "parse_octet (dec_nat n) = Some (char_of n)"
proof -
  have "\<not> (length (dec_nat n) > 1 \<and> hd (dec_nat n) = CHR ''0'')"
  proof (cases "n = 0")
    case True
    then show ?thesis by (subst dec_nat.simps) simp
  next
    case False
    then show ?thesis using dec_nat_leading [of n] by simp
  qed
  then show ?thesis using assms by (simp add: parse_octet_def dec_nat_digits)
qed

lemma dec_nat_plain: "CHR ''.'' \<notin> set (dec_nat n)" "CHR '':'' \<notin> set (dec_nat n)"
    "CHR ''['' \<notin> set (dec_nat n)" "CHR '']'' \<notin> set (dec_nat n)" "CHR ''%'' \<notin> set (dec_nat n)"
  by (auto dest!: set_dec_nat simp: is_digit_def less_eq_char_def)

lemma ParseIP_dotted:
  "ParseIP (ip4_string [a, b, c, d]) = Some (v4_in_v6_prefix @ [a, b, c, d])"
proof -
  let ?n = "\<lambda>c. dec_nat (of_char c)"
  have split: "Split (?n a @ CHR ''.'' # ?n b @ CHR ''.'' # ?n c @ CHR ''.'' # ?n d) (CHR ''.'')
      = [?n a, ?n b, ?n c, ?n d]"
    by (simp add: Split_append_sep dec_nat_plain)
  have "find (\<lambda>c. c = CHR ''.'' \<or> c = CHR '':'' \<or> c = CHR ''%'') (xs @ CHR ''.'' # ys) = Some (CHR ''.'')"
    if "list_all is_digit xs" for xs ys
    using that by (induction xs) (auto simp: is_digit_def less_eq_char_def)
  from this [OF dec_nat_digits] show ?thesis
    by (simp add: ParseIP_def ip4_string_def parse_ipv4_def split parse_octet_dec Let_def)
qed

lemma IndexByte_rev_dec: "IndexByte (rev (dec_nat n) @ CHR '':'' # s) (CHR '':'') = Some (length (dec_nat n))"
  using IndexByte_append [of "CHR '':''" "rev (dec_nat n)" s] by (simp add: dec_nat_plain)

lemma SplitHostPort_plain:
  assumes "h \<noteq> []" "CHR '':'' \<notin> set h" "CHR ''['' \<notin> set h" "CHR '']'' \<notin> set h"
  shows "SplitHostPort (h @ CHR '':'' # dec_nat p) = Some (h, dec_nat p)"
proof -
  have "LastIndexByte (h @ CHR '':'' # dec_nat p) (CHR '':'') = Some (length h)"
    by (simp add: LastIndexByte_def IndexByte_rev_dec)
  moreover have "hd (h @ CHR '':'' # dec_nat p) \<noteq> CHR ''[''" using assms(1,3) by (cases h) auto
  ultimately show ?thesis using assms by (simp add: SplitHostPort_def dec_nat_plain)
qed

lemma ip4_string_plain:
  "ip4_string [a, b, c, d] \<noteq> []" "CHR '':'' \<notin> set (ip4_string [a, b, c, d])"
  "CHR ''['' \<notin> set (ip4_string [a, b, c, d])" "CHR '']'' \<notin> set (ip4_string [a, b, c, d])"
  by (simp_all add: ip4_string_def dec_nat_plain)

lemma IsLoopback_v4: "IsLoopback (v4_in_v6_prefix @ [a, b, c, d]) \<longleftrightarrow> a = CHR 0x7F"
  by (simp add: IsLoopback_def To4_def v4_in_v6_prefix_def)

end
