(* ===== verification/Mac.thy ===== *)
theory Mac
  imports Go_Strings
begin

text \<open>
  MAC addresses (\<^verbatim>\<open>internal/fleet/fleet.go\<close>, \<^verbatim>\<open>CanonicalMAC\<close>): the parser of Go's
  \<^verbatim>\<open>net.ParseMAC\<close>, the printer of \<^verbatim>\<open>net.HardwareAddr.String\<close>, and the normal form
  every store of the program is keyed by.  The locale \<open>canonicaliser\<close> is what the stores use of
  it, and \<open>mac_store\<close> is the contract the in-memory stores keyed by canonical MACs share.
\<close>

section \<open>net.ParseMAC and HardwareAddr.String\<close>

text \<open>
  \<^verbatim>\<open>xtoi2(s, e)\<close>: the first two bytes as a hexadecimal byte; a third byte must be \<open>e\<close>.
\<close>

fun xtoi2 :: "string \<Rightarrow> char \<Rightarrow> char option" where
  "xtoi2 (a # b # r) e =
     (if r \<noteq> [] \<and> hd r \<noteq> e then None
      else (case (unhex a, unhex b) of
              (Some h, Some l) \<Rightarrow> Some (char_of (16 * h + l))
            | _ \<Rightarrow> None))"
| "xtoi2 _ e = None"

fun mac_octets :: "nat \<Rightarrow> char \<Rightarrow> string \<Rightarrow> string option" where
  "mac_octets 0 e s = Some []"
| "mac_octets (Suc n) e s =
     (case xtoi2 s e of None \<Rightarrow> None
      | Some b \<Rightarrow> map_option (\<lambda>bs. b # bs) (mac_octets n e (drop 3 s)))"

fun mac_dotted :: "nat \<Rightarrow> string \<Rightarrow> string option" where
  "mac_dotted 0 s = Some []"
| "mac_dotted (Suc n) s =
     (case xtoi2 (take 2 s) (CHR 0x00) of None \<Rightarrow> None
      | Some b \<Rightarrow>
          (case xtoi2 (drop 2 s) (CHR ''.'') of None \<Rightarrow> None
           | Some b' \<Rightarrow> map_option (\<lambda>bs. b # b' # bs) (mac_dotted n (drop 5 s))))"

definition ParseMAC :: "string \<Rightarrow> string option" where
  "ParseMAC s =
     (if length s < 14 then None
      else if s ! 2 = CHR '':'' \<or> s ! 2 = CHR ''-'' then
        (if (length s + 1) mod 3 \<noteq> 0 then None
         else let n = (length s + 1) div 3
              in if n \<noteq> 6 \<and> n \<noteq> 8 \<and> n \<noteq> 20 then None else mac_octets n (s ! 2) s)
      else if s ! 4 = CHR ''.'' then
        (if (length s + 1) mod 5 \<noteq> 0 then None
         else let n = 2 * (length s + 1) div 5
              in if n \<noteq> 6 \<and> n \<noteq> 8 \<and> n \<noteq> 20 then None else mac_dotted (n div 2) s)
      else None)"

definition mac_string :: "string \<Rightarrow> string" where
  "mac_string hw = Join (map hex_byte hw) '':''"

section \<open>CanonicalMAC\<close>

datatype mac_error = EmptyMAC | BadMAC | NotEUI48 nat

definition insert_colons :: "string \<Rightarrow> string" where
  "insert_colons s =
     take 2 s @ '':'' @ take 2 (drop 2 s) @ '':'' @ take 2 (drop 4 s) @ '':''
       @ take 2 (drop 6 s) @ '':'' @ take 2 (drop 8 s) @ '':'' @ take 2 (drop 10 s)"

definition finish_mac :: "string \<Rightarrow> mac_error + string" where
  "finish_mac hw = (if length hw \<noteq> 6 then Inl (NotEUI48 (length hw)) else Inr (ToLower (mac_string hw)))"

definition CanonicalMAC :: "string \<Rightarrow> mac_error + string" where
  "CanonicalMAC s =
     (if s = [] then Inl EmptyMAC
      else case ParseMAC s of
        Some hw \<Rightarrow> finish_mac hw
      | None \<Rightarrow>
          (let clean = ReplaceAll (ReplaceAll s (CHR '' '') []) (CHR ''_'') []
           in if length clean = 12 then
                (case ParseMAC (insert_colons clean) of
                   Some hw2 \<Rightarrow> finish_mac hw2
                 | None \<Rightarrow> Inl BadMAC)
              else Inl BadMAC))"

definition canon_of :: "string \<Rightarrow> string option" where
  "canon_of s = (case CanonicalMAC s of Inl e \<Rightarrow> None | Inr c \<Rightarrow> Some c)"

definition is_canonical :: "string \<Rightarrow> bool" where
  "is_canonical c \<longleftrightarrow> CanonicalMAC c = Inr c"

text \<open>The hyphen form of a MAC, used in URL paths: \<^verbatim>\<open>strings.ReplaceAll(mac, ":", "-")\<close>.\<close>

definition mac_hyp :: "string \<Rightarrow> string" where
  "mac_hyp mac = ReplaceAll mac (CHR '':'') ''-''"

section \<open>Parsing what was printed\<close>

lemma hex_byte_digits:
  "unhex (hex_digits ! (of_char b div 16)) = Some (of_char b div 16)"
  "unhex (hex_digits ! (of_char b mod 16)) = Some (of_char b mod 16)"
  by (simp_all add: unhex_hex_digit)

lemma byte_recombine [simp]: "char_of (16 * ((of_char b :: nat) div 16) + of_char b mod 16) = b"
  by (metis char_of_char mult_div_mod_eq)

lemma xtoi2_hex_byte [simp]:
  "xtoi2 (hex_byte b @ []) e = Some b" "xtoi2 (hex_byte b @ e # r) e = Some b"
  by (simp_all add: hex_byte_def hex_byte_digits)

lemma xtoi2_hex_byte_Nil [simp]: "xtoi2 (hex_byte b) e = Some b"
  using xtoi2_hex_byte(1) [of b e] by (simp only: append_Nil2)

lemma mac_octets_Join:
  "mac_octets (length hw) e (Join (map hex_byte hw) [e]) = Some hw"
  by (induction hw rule: induct_list012) simp_all

lemma length_Join_hex: "hw \<noteq> [] \<Longrightarrow> length (Join (map hex_byte hw) [e]) + 1 = 3 * length hw"
  by (induction hw rule: induct_list012) simp_all

lemma Join_hex_nth2: "2 \<le> length hw \<Longrightarrow> Join (map hex_byte hw) [e] ! 2 = e"
  by (cases hw; cases "tl hw") (simp_all add: nth_append hex_byte_def)

lemma ParseMAC_Join:
  assumes "length hw = 6" "e = CHR '':'' \<or> e = CHR ''-''"
  shows "ParseMAC (Join (map hex_byte hw) [e]) = Some hw"
proof -
  let ?s = "Join (map hex_byte hw) [e]"
  have len: "length ?s + 1 = 18"
    using length_Join_hex [of hw e] assms(1) by fastforce
  have "?s ! 2 = e" using assms(1) by (simp add: Join_hex_nth2)
  moreover have "mac_octets 6 e ?s = Some hw"
    using mac_octets_Join [of hw e] assms(1) by simp
  ultimately show ?thesis using len assms(2) by (auto simp: ParseMAC_def Let_def)
qed

lemma ParseMAC_mac_string: "length hw = 6 \<Longrightarrow> ParseMAC (mac_string hw) = Some hw"
  by (simp add: mac_string_def ParseMAC_Join)

lemma lower_hex_digit: "c \<in> set hex_digits \<Longrightarrow> lower_char c = c"
  by (auto simp: hex_digits_def lower_char_def)

lemma set_mac_string: "set (mac_string hw) \<subseteq> set hex_digits \<union> {CHR '':''}"
  using set_Join [of "map hex_byte hw" "'':''"] set_hex_byte
  by (fastforce simp: mac_string_def)

lemma ToLower_mac_string [simp]: "ToLower (mac_string hw) = mac_string hw"
proof -
  have "lower_char c = c" if "c \<in> set (mac_string hw)" for c
    using that set_mac_string [of hw] lower_hex_digit [of c] by (auto simp: lower_char_def)
  then show ?thesis by (simp add: ToLower_def map_idI)
qed

lemma length_mac_string: "length hw = 6 \<Longrightarrow> length (mac_string hw) = 17"
  using length_Join_hex [of hw "CHR '':''"] by (cases hw) (simp_all add: mac_string_def)

lemma mac_string_not_Nil: "length hw = 6 \<Longrightarrow> mac_string hw \<noteq> []"
  by (drule length_mac_string) auto

lemma finish_mac_Inr: "finish_mac hw = Inr c \<longleftrightarrow> length hw = 6 \<and> c = mac_string hw"
  by (auto simp: finish_mac_def)

lemma CanonicalMAC_mac_string: "length hw = 6 \<Longrightarrow> CanonicalMAC (mac_string hw) = Inr (mac_string hw)"
  by (simp add: mac_string_not_Nil CanonicalMAC_def ParseMAC_mac_string finish_mac_def)

lemma CanonicalMAC_image:
  "CanonicalMAC s = Inr c \<Longrightarrow> \<exists>hw. length hw = 6 \<and> c = mac_string hw"
  by (auto simp: CanonicalMAC_def finish_mac_Inr Let_def split: option.splits if_splits)

lemma CanonicalMAC_idem: "CanonicalMAC s = Inr c \<Longrightarrow> CanonicalMAC c = Inr c"
  by (auto dest!: CanonicalMAC_image intro: CanonicalMAC_mac_string)

lemma is_canonical_iff: "is_canonical c \<longleftrightarrow> (\<exists>hw. length hw = 6 \<and> c = mac_string hw)"
  by (auto simp: is_canonical_def dest: CanonicalMAC_image intro: CanonicalMAC_mac_string)

lemma canon_Some_iff [canon_simps]: "canon_of s = Some c \<longleftrightarrow> CanonicalMAC s = Inr c"
  by (auto simp: canon_of_def split: sum.splits)

lemma canon_None_iff [canon_simps]: "canon_of s = None \<longleftrightarrow> (\<exists>e. CanonicalMAC s = Inl e)"
  by (auto simp: canon_of_def split: sum.splits)

lemma canonical_fixed [canon_simps]: "is_canonical c \<Longrightarrow> CanonicalMAC c = Inr c"
  by (simp add: is_canonical_def)

lemma canonical_result [canon_simps]: "CanonicalMAC s = Inr c \<Longrightarrow> is_canonical c"
  by (auto simp: is_canonical_def dest: CanonicalMAC_idem)

lemma canonical_not_Nil: "is_canonical c \<Longrightarrow> c \<noteq> []"
  by (auto simp: is_canonical_def CanonicalMAC_def)

lemma length_canonical: "is_canonical c \<Longrightarrow> length c = 17"
  by (auto simp: is_canonical_iff length_mac_string)

lemma set_canonical: "is_canonical c \<Longrightarrow> set c \<subseteq> set hex_digits \<union> {CHR '':''}"
  using set_mac_string by (auto simp: is_canonical_iff)

section \<open>The spellings of one address\<close>

lemma ReplaceAll_Join_hex:
  assumes "e \<notin> set hex_digits"
  shows "ReplaceAll (Join (map hex_byte hw) [e]) e [d] = Join (map hex_byte hw) [d]"
proof (induction hw rule: induct_list012)
  case (2 b)
  have "e \<notin> set (hex_byte b)" using assms set_hex_byte by blast
  then show ?case by simp
next
  case (3 b b' hw)
  have "e \<notin> set (hex_byte b)" using assms set_hex_byte by blast
  with 3 show ?case by simp
qed simp

lemma mac_hyp_mac_string: "mac_hyp (mac_string hw) = Join (map hex_byte hw) ''-''"
  by (simp add: mac_hyp_def mac_string_def ReplaceAll_Join_hex hex_digits_def)

lemma CanonicalMAC_mac_hyp: "is_canonical c \<Longrightarrow> CanonicalMAC (mac_hyp c) = Inr c"
proof -
  assume "is_canonical c"
  then obtain hw where hw: "length hw = 6" "c = mac_string hw" by (auto simp: is_canonical_iff)
  have "Join (map hex_byte hw) ''-'' \<noteq> []"
    using hw(1) length_Join_hex [of hw "CHR ''-''"] by fastforce
  then show ?thesis
    using hw by (simp add: mac_hyp_mac_string CanonicalMAC_def ParseMAC_Join finish_mac_def)
qed

lemma mac_hyp_inj: "is_canonical a \<Longrightarrow> is_canonical b \<Longrightarrow> mac_hyp a = mac_hyp b \<longleftrightarrow> a = b"
  by (metis CanonicalMAC_mac_hyp sum.inject(2))

lemma list6:
  assumes "length xs = 6"
  obtains a b c d e f where "xs = [a, b, c, d, e, f]"
  using assms by (auto simp: numeral_eq_Suc length_Suc_conv)

lemma CanonicalMAC_bare_hex:
  assumes "length hw = 6"
  shows "CanonicalMAC (EncodeToString hw) = Inr (mac_string hw)"
proof -
  obtain a b c d e f where hw: "hw = [a, b, c, d, e, f]" using assms by (rule list6)
  let ?s = "EncodeToString hw"
  have plain: "CHR '' '' \<notin> set ?s" "CHR ''_'' \<notin> set ?s"
    using set_EncodeToString [of hw] by (auto simp: hex_digits_def)
  have len: "length ?s = 12" using assms by simp
  have colons: "insert_colons ?s = mac_string hw"
    by (simp add: hw insert_colons_def mac_string_def EncodeToString_def hex_byte_def)
  have "?s \<noteq> []" using len by fastforce
  moreover have "ParseMAC ?s = None" using len by (simp add: ParseMAC_def)
  ultimately show ?thesis
    using assms plain len
    by (simp add: CanonicalMAC_def colons ParseMAC_mac_string finish_mac_def)
qed

section \<open>Letter case\<close>

lemma lower_char_code: "(of_char (lower_char c) :: nat) =
   (if 65 \<le> (of_char c :: nat) \<and> (of_char c :: nat) \<le> 90 then of_char c + 32 else of_char c)"
  by (auto simp: lower_char_def less_eq_char_def)

lemma unhex_lower [simp]: "unhex (lower_char c) = unhex c"
  by (auto simp: unhex_def less_eq_char_def lower_char_code)

definition caseless :: "char \<Rightarrow> bool" where
  "caseless e \<longleftrightarrow> \<not> (65 \<le> (of_char e :: nat) \<and> (of_char e :: nat) \<le> 90)
     \<and> \<not> (97 \<le> (of_char e :: nat) \<and> (of_char e :: nat) \<le> 122)"

lemma caseless_eq: "caseless e \<Longrightarrow> lower_char c = e \<longleftrightarrow> c = e"
proof -
  assume e: "caseless e"
  have "lower_char c = e \<longleftrightarrow> (of_char (lower_char c) :: nat) = of_char e" by simp
  also have "\<dots> \<longleftrightarrow> (of_char c :: nat) = of_char e"
    unfolding lower_char_code using e by (auto simp: caseless_def)
  finally show ?thesis by simp
qed

lemma caseless_seps [simp]:
  "caseless (CHR '':'')" "caseless (CHR ''-'')" "caseless (CHR ''.'')" "caseless (CHR '' '')"
  "caseless (CHR ''_'')" "caseless (CHR 0x00)"
  by (simp_all add: caseless_def)

lemma ToLower_simps [simp]: "ToLower [] = []" "ToLower (c # s) = lower_char c # ToLower s"
  by (simp_all add: ToLower_def)

lemma ToLower_take: "ToLower (take n s) = take n (ToLower s)"
  and ToLower_drop: "ToLower (drop n s) = drop n (ToLower s)"
  by (simp_all add: ToLower_def take_map drop_map)

lemma xtoi2_lower [simp]: "caseless e \<Longrightarrow> xtoi2 (ToLower s) e = xtoi2 s e"
proof (induction s e rule: xtoi2.induct)
  case (1 a b r e)
  then show ?case by (cases r) (auto simp: caseless_eq)
qed simp_all

lemma mac_octets_lower: "caseless e \<Longrightarrow> mac_octets n e (ToLower s) = mac_octets n e s"
  by (induction n arbitrary: s) (auto simp: ToLower_drop [symmetric] split: option.splits)

lemma mac_dotted_lower: "mac_dotted n (ToLower s) = mac_dotted n s"
  by (induction n arbitrary: s)
    (auto simp: ToLower_drop [symmetric] ToLower_take [symmetric] split: option.splits)

lemma nth_lower: "n < length s \<Longrightarrow> caseless e \<Longrightarrow> ToLower s ! n = e \<longleftrightarrow> s ! n = e"
  by (simp add: ToLower_def caseless_eq)

lemma ParseMAC_lower [simp]: "ParseMAC (ToLower s) = ParseMAC s"
proof (cases "length s < 14")
  case False
  then have n: "2 < length s" "4 < length s" by simp_all
  show ?thesis
  proof (cases "s ! 2 = CHR '':'' \<or> s ! 2 = CHR ''-''")
    case True
    then have "caseless (s ! 2)" by auto
    then have t: "ToLower s ! 2 = s ! 2" "\<And>n. mac_octets n (s ! 2) (ToLower s) = mac_octets n (s ! 2) s"
      using n(1) by (simp_all add: nth_lower mac_octets_lower)
    have len: "length (ToLower s) = length s" by (simp add: ToLower_def)
    from True show ?thesis unfolding ParseMAC_def t len by auto
  next
    case False
    then show ?thesis
      using n by (simp add: ParseMAC_def Let_def nth_lower mac_dotted_lower)
  qed
qed (simp add: ParseMAC_def)

lemma ReplaceAll_lower: "caseless e \<Longrightarrow> ReplaceAll (ToLower s) e [] = ToLower (ReplaceAll s e [])"
  by (induction s) (auto simp: caseless_eq)

lemma insert_colons_lower: "insert_colons (ToLower s) = ToLower (insert_colons s)"
  by (simp add: insert_colons_def ToLower_def take_map drop_map lower_char_def less_eq_char_def)

lemma ToLower_Nil_iff [simp]: "ToLower s = [] \<longleftrightarrow> s = []"
  by (simp add: ToLower_def)

lemma CanonicalMAC_ToLower: "CanonicalMAC (ToLower s) = CanonicalMAC s"
  by (simp add: CanonicalMAC_def Let_def ReplaceAll_lower insert_colons_lower split: option.split)

text \<open>The spellings of six octets that operators and firmware use.\<close>

definition mac_spellings :: "string \<Rightarrow> string list" where
  "mac_spellings hw =
     [Join (map hex_byte hw) '':'', Join (map hex_byte hw) ''-'', EncodeToString hw,
      Join [EncodeToString (take 2 hw), EncodeToString (take 2 (drop 2 hw)),
            EncodeToString (drop 4 hw)] ''.'']"

lemma hex_byte_pieces [simp]:
  "take 2 (hex_byte a @ r) = hex_byte a" "drop 2 (hex_byte a @ r) = r"
  "drop 5 (hex_byte a @ hex_byte b @ e # r) = r"
  "drop 5 (hex_byte a @ hex_byte b) = []"
  by (simp_all add: hex_byte_def)

lemma mac_dotted_step:
  "mac_dotted (Suc n) (hex_byte a @ hex_byte b @ CHR ''.'' # r)
     = map_option (\<lambda>bs. a # b # bs) (mac_dotted n r)"
  "mac_dotted (Suc 0) (hex_byte a @ hex_byte b) = Some [a, b]"
  by (simp_all add: xtoi2_hex_byte)

lemma hex_byte_nth_not_sep:
  "(hex_byte a @ r) ! 0 \<noteq> CHR '':''" "(hex_byte a @ r) ! 0 \<noteq> CHR ''-''"
  using hex_digits_plain [of "of_char a div 16"]
  by (auto simp: hex_byte_def hex_digits_def)

lemma CanonicalMAC_dotted:
  assumes "length hw = 6"
  shows "CanonicalMAC (Join [EncodeToString (take 2 hw), EncodeToString (take 2 (drop 2 hw)),
            EncodeToString (drop 4 hw)] ''.'') = Inr (mac_string hw)"
proof -
  obtain a b c d e f where hw: "hw = [a, b, c, d, e, f]" using assms by (rule list6)
  let ?s = "hex_byte a @ hex_byte b @ CHR ''.'' # hex_byte c @ hex_byte d @ CHR ''.''
    # hex_byte e @ hex_byte f"
  have s: "Join [EncodeToString (take 2 hw), EncodeToString (take 2 (drop 2 hw)),
            EncodeToString (drop 4 hw)] ''.'' = ?s"
    by (simp add: hw EncodeToString_def)
  have "?s ! 2 = (hex_byte b @ CHR ''.'' # hex_byte c @ hex_byte d @ CHR ''.''
    # hex_byte e @ hex_byte f) ! 0" by (simp add: nth_append)
  then have "?s ! 2 \<noteq> CHR '':''" "?s ! 2 \<noteq> CHR ''-''" "?s ! 4 = CHR ''.''"
    using hex_byte_nth_not_sep by (simp_all add: nth_append)
  moreover have "mac_dotted 3 ?s = Some hw"
    by (simp add: numeral_3_eq_3 mac_dotted_step hw del: mac_dotted.simps)
  ultimately have "ParseMAC ?s = Some hw" by (simp add: ParseMAC_def Let_def)
  then show ?thesis
    using assms unfolding s by (simp add: CanonicalMAC_def finish_mac_def)
qed

lemma CanonicalMAC_spellings:
  assumes "length hw = 6" "s \<in> set (mac_spellings hw)"
  shows "CanonicalMAC s = Inr (mac_string hw)"
proof -
  have "CanonicalMAC (Join (map hex_byte hw) ''-'') = Inr (mac_string hw)"
    using CanonicalMAC_mac_hyp [of "mac_string hw"] assms(1)
    by (auto simp: is_canonical_iff mac_hyp_mac_string)
  then show ?thesis
    using assms CanonicalMAC_mac_string CanonicalMAC_bare_hex CanonicalMAC_dotted
    by (auto simp: mac_spellings_def mac_string_def [symmetric])
qed

section \<open>Interfaces\<close>

text \<open>What the stores use of \<^const>\<open>CanonicalMAC\<close>: a partial projection.\<close>

locale canonicaliser =
  fixes cn :: "string \<Rightarrow> string option"
  assumes cn_idem: "cn m = Some c \<Longrightarrow> cn c = Some c"
begin

definition canonical_keys :: "string set \<Rightarrow> bool" where
  "canonical_keys K \<longleftrightarrow> (\<forall>c \<in> K. cn c = Some c)"

lemma canonical_keys_insert: "canonical_keys K \<Longrightarrow> cn m = Some c \<Longrightarrow> canonical_keys (insert c K)"
  by (auto simp: canonical_keys_def dest: cn_idem)

lemma canonical_keys_mono: "canonical_keys K \<Longrightarrow> L \<subseteq> K \<Longrightarrow> canonical_keys L"
  by (auto simp: canonical_keys_def)

end

interpretation mac: canonicaliser canon_of
  by unfold_locales (auto simp: canon_Some_iff dest: CanonicalMAC_idem)

text \<open>
  A store keyed by canonical MACs: \<open>put\<close> writes under the canonical form of the MAC it is given
  and ignores a string that is not a MAC, and \<open>retain\<close> keeps exactly the keys a predicate accepts.
  Its clients are the reload paths, which prune every store against the new fleet.
\<close>

locale mac_store = canonicaliser cn for cn :: "string \<Rightarrow> string option" +
  fixes ok :: "'s \<Rightarrow> bool"
    and skeys :: "'s \<Rightarrow> string set"
    and put :: "string \<Rightarrow> 'a \<Rightarrow> 's \<Rightarrow> 's"
    and retain :: "(string \<Rightarrow> bool) \<Rightarrow> 's \<Rightarrow> 's"
  assumes ok_put: "ok s \<Longrightarrow> ok (put m a s)"
    and ok_retain: "ok s \<Longrightarrow> ok (retain keep s)"
    and put_bad: "cn m = None \<Longrightarrow> put m a s = s"
    and put_keys: "ok s \<Longrightarrow> cn m = Some c \<Longrightarrow> skeys (put m a s) \<subseteq> insert c (skeys s)"
    and put_stored: "ok s \<Longrightarrow> cn m = Some c \<Longrightarrow> c \<in> skeys (put m a s)"
    and retain_keys: "ok s \<Longrightarrow> skeys (retain keep s) = {c \<in> skeys s. keep c}"
begin

definition well_keyed :: "'s \<Rightarrow> bool" where
  "well_keyed s \<longleftrightarrow> ok s \<and> canonical_keys (skeys s)"

lemma well_keyed_put: "well_keyed s \<Longrightarrow> well_keyed (put m a s)"
  by (cases "cn m")
    (auto simp: well_keyed_def put_bad ok_put intro: canonical_keys_mono [OF _ put_keys]
      canonical_keys_insert)

lemma well_keyed_retain: "well_keyed s \<Longrightarrow> well_keyed (retain keep s)"
  by (auto simp: well_keyed_def ok_retain retain_keys intro: canonical_keys_mono)

lemma retain_within: "well_keyed s \<Longrightarrow> skeys (retain (\<lambda>c. c \<in> K) s) \<subseteq> K"
  by (auto simp: well_keyed_def retain_keys)

lemma retain_idle: "well_keyed s \<Longrightarrow> skeys s \<subseteq> K \<Longrightarrow> skeys (retain (\<lambda>c. c \<in> K) s) = skeys s"
  by (auto simp: well_keyed_def retain_keys)

lemma put_retain_within:
  "well_keyed s \<Longrightarrow> skeys s \<subseteq> K \<Longrightarrow> cn m = Some c \<Longrightarrow> c \<in> K \<Longrightarrow> skeys (put m a s) \<subseteq> K"
  using put_keys [of s m c a] by (auto simp: well_keyed_def)

end

section \<open>Properties\<close>

text \<open>C25: Six octets written with colons, with hyphens, in Cisco's dotted form or as bare
  hexadecimal, in any mix of upper and lower case, are accepted and all canonicalise to the one
  lower-case colon-separated string, so the stores keyed by it cannot hold two entries for one
  machine.\<close>

theorem CanonicalMAC_unifies_spellings:
  assumes "length hw = 6" "s \<in> set (mac_spellings hw)" "ToLower t = ToLower s"
  shows "CanonicalMAC t = Inr (mac_string hw)"
  using CanonicalMAC_spellings [OF assms(1,2)] CanonicalMAC_ToLower [of t] CanonicalMAC_ToLower [of s]
    assms(3) by simp

theorem CanonicalMAC_unifies_spellings_witness:
  "CanonicalMAC ''52-54-00-AB-cd-0F'' = Inr ''52:54:00:ab:cd:0f''"
proof -
  let ?hw = "[CHR 0x52, CHR 0x54, CHR 0x00, CHR 0xAB, CHR 0xCD, CHR 0x0F]"
  have "''52-54-00-ab-cd-0f'' \<in> set (mac_spellings ?hw)"
    by (simp add: mac_spellings_def hex_byte_def hex_digits_def)
  moreover have "ToLower ''52-54-00-AB-cd-0F'' = ToLower ''52-54-00-ab-cd-0f''" by code_simp
  ultimately have "CanonicalMAC ''52-54-00-AB-cd-0F'' = Inr (mac_string ?hw)"
    by (intro CanonicalMAC_unifies_spellings [of ?hw "''52-54-00-ab-cd-0f''"]) simp_all
  then show ?thesis by (simp add: mac_string_def hex_byte_def hex_digits_def)
qed

text \<open>Whatever spelling is accepted, the result is a fixed point of the canonicaliser, 17 bytes
  of lower-case hexadecimal digits and colons, and the hyphenated form the URLs carry parses back
  to it.\<close>

theorem CanonicalMAC_normal_form:
  assumes "CanonicalMAC s = Inr c"
  shows "CanonicalMAC c = Inr c \<and> CanonicalMAC (mac_hyp c) = Inr c \<and> length c = 17
    \<and> set c \<subseteq> set hex_digits \<union> {CHR '':''}"
  using canonical_result [OF assms] canonical_fixed CanonicalMAC_mac_hyp length_canonical set_canonical
  by blast

theorem CanonicalMAC_normal_form_witness:
  "CanonicalMAC ''52:54:00:12:34:56'' = Inr ''52:54:00:12:34:56''"
  using CanonicalMAC_normal_form [of "''525400_123456''" "''52:54:00:12:34:56''"] by code_simp

end
