(* ===== verification/Go_Path.thy ===== *)
theory Go_Path
  imports Go_Strings
begin

text \<open>
  Go's \<^verbatim>\<open>path\<close> and \<^verbatim>\<open>path/filepath\<close> packages on Unix: \<^verbatim>\<open>Clean\<close>, \<^verbatim>\<open>Join\<close>,
  \<^verbatim>\<open>IsAbs\<close>, \<^verbatim>\<open>Abs\<close>, \<^verbatim>\<open>Rel\<close>, \<^verbatim>\<open>Dir\<close> and \<^verbatim>\<open>Base\<close>, over the list of a path's
  elements, and the normal form of an absolute path the containment and round-trip proofs use.
\<close>

section \<open>The functions\<close>

text \<open>One element of the path, with the elements kept so far as a stack.\<close>

definition clean_step :: "bool \<Rightarrow> string list \<Rightarrow> string \<Rightarrow> string list" where
  "clean_step rooted st f =
     (if f = [] \<or> f = ''.'' then st
      else if f = ''..'' then
        (if st \<noteq> [] \<and> hd st \<noteq> ''..'' then tl st
         else if rooted then st else ''..'' # st)
      else f # st)"

definition IsAbs :: "string \<Rightarrow> bool" where
  "IsAbs p \<longleftrightarrow> HasPrefix p ''/''"

definition abs_of :: "string list \<Rightarrow> string" where
  "abs_of cs = ''/'' @ Join cs ''/''"

definition Clean :: "string \<Rightarrow> string" where
  "Clean p =
     (if p = [] then ''.''
      else let cs = rev (foldl (clean_step (IsAbs p)) [] (Split p (CHR ''/'')))
           in if IsAbs p then abs_of cs else if cs = [] then ''.'' else Join cs ''/'')"

definition PathJoin :: "string list \<Rightarrow> string" where
  "PathJoin es =
     (let fs = dropWhile (\<lambda>e. e = []) es in if fs = [] then [] else Clean (Join fs ''/''))"

definition Abs :: "string \<Rightarrow> string \<Rightarrow> string" where
  "Abs cwd p = (if IsAbs p then Clean p else PathJoin [cwd, p])"

definition Dir :: "string \<Rightarrow> string" where
  "Dir p = Clean (rev (dropWhile (\<lambda>c. c \<noteq> CHR ''/'') (rev p)))"

definition PathBase :: "string \<Rightarrow> string" where
  "PathBase p =
     (if p = [] then ''.''
      else let q = rev (dropWhile (\<lambda>c. c = CHR ''/'') (rev p));
               leaf = rev (takeWhile (\<lambda>c. c \<noteq> CHR ''/'') (rev q))
           in if leaf = [] then ''/'' else leaf)"

text \<open>The elements of a cleaned path.\<close>

definition path_elems :: "string \<Rightarrow> string list" where
  "path_elems p =
     (let q = (if IsAbs p then tl p else p) in if q = [] then [] else Split q (CHR ''/''))"

fun strip_common :: "string list \<Rightarrow> string list \<Rightarrow> string list \<times> string list" where
  "strip_common (b # bs) (t # ts) = (if b = t then strip_common bs ts else (b # bs, t # ts))"
| "strip_common bs ts = (bs, ts)"

definition Rel :: "string \<Rightarrow> string \<Rightarrow> string option" where
  "Rel base targ =
     (let b = Clean base; t = Clean targ
      in if t = b then Some ''.''
         else let b' = (if b = ''.'' then [] else b)
              in if IsAbs b' \<noteq> IsAbs t then None
                 else case strip_common (path_elems b') (path_elems t) of
                   (rb, rt) \<Rightarrow>
                     if rb \<noteq> [] \<and> hd rb = ''..'' then None
                     else Some (Join (replicate (length rb) ''..'' @ rt) ''/''))"

section \<open>Normal absolute paths\<close>

definition plain_elem :: "string \<Rightarrow> bool" where
  "plain_elem f \<longleftrightarrow> f \<noteq> [] \<and> f \<noteq> ''.'' \<and> f \<noteq> ''..'' \<and> CHR ''/'' \<notin> set f"

definition abs_clean :: "string \<Rightarrow> bool" where
  "abs_clean p \<longleftrightarrow> IsAbs p \<and> Clean p = p"

lemma not_plain_elem [simp]: "\<not> plain_elem []" "\<not> plain_elem ''.''" "\<not> plain_elem ''..''"
  by (simp_all add: plain_elem_def)

lemma IsAbs_abs_of [simp]: "IsAbs (abs_of cs)"
  by (simp add: IsAbs_def abs_of_def)

lemma IsAbs_Nil [simp]: "\<not> IsAbs []"
  by (simp add: IsAbs_def)

lemma IsAbs_Cons [simp]: "IsAbs (c # p) \<longleftrightarrow> c = CHR ''/''"
  by (auto simp: IsAbs_def)

lemma abs_of_not_Nil [simp]: "abs_of cs \<noteq> []"
  by (simp add: abs_of_def)

lemma clean_step_plain [simp]: "plain_elem f \<Longrightarrow> clean_step r st f = f # st"
  by (simp add: clean_step_def plain_elem_def)

lemma foldl_clean_plain:
  "list_all plain_elem cs \<Longrightarrow> foldl (clean_step r) st cs = rev cs @ st"
  by (induction cs arbitrary: st) auto

lemma foldl_clean_rooted_plain:
  assumes "list_all plain_elem st" "\<forall>f \<in> set fs. CHR ''/'' \<notin> set f"
  shows "list_all plain_elem (foldl (clean_step True) st fs)"
  using assms
proof (induction fs arbitrary: st)
  case (Cons f fs)
  have "list_all plain_elem (clean_step True st f)"
    using Cons.prems
    by (cases st) (auto simp: clean_step_def, auto simp: plain_elem_def)
  then show ?case using Cons by simp
qed simp

lemma Clean_IsAbs:
  assumes "IsAbs p"
  obtains cs where "list_all plain_elem cs" "Clean p = abs_of cs"
proof
  let ?cs = "rev (foldl (clean_step True) [] (Split p (CHR ''/'')))"
  have "\<forall>f \<in> set (Split p (CHR ''/'')). CHR ''/'' \<notin> set f"
    using Split_no_sep by blast
  then show "list_all plain_elem ?cs"
    by (simp add: foldl_clean_rooted_plain)
  show "Clean p = abs_of ?cs"
    using assms by (auto simp: Clean_def)
qed

lemma Split_abs_of:
  assumes "list_all plain_elem cs"
  shows "Split (abs_of cs) (CHR ''/'') = [] # (if cs = [] then [[]] else cs)"
proof (cases "cs = []")
  case False
  have "\<forall>f \<in> set cs. CHR ''/'' \<notin> set f"
    using assms by (auto simp: list_all_iff plain_elem_def)
  with False show ?thesis by (simp add: abs_of_def Split_Join)
qed (simp add: abs_of_def)

lemma clean_step_Nil [simp]: "clean_step r st [] = st"
  by (simp add: clean_step_def)

lemma clean_step_dot [simp]: "clean_step r st ''.'' = st"
  by (simp add: clean_step_def)

lemma Clean_abs_of [simp]: "list_all plain_elem cs \<Longrightarrow> Clean (abs_of cs) = abs_of cs"
  by (cases "cs = []") (simp_all add: Clean_def Split_abs_of foldl_clean_plain)

lemma abs_clean_abs_of: "list_all plain_elem cs \<Longrightarrow> abs_clean (abs_of cs)"
  by (simp add: abs_clean_def)

lemma abs_cleanE:
  assumes "abs_clean p"
  obtains cs where "list_all plain_elem cs" "p = abs_of cs"
  using assms by (metis Clean_IsAbs abs_clean_def)

lemma Clean_idem_abs: "IsAbs p \<Longrightarrow> Clean (Clean p) = Clean p"
  by (metis Clean_IsAbs Clean_abs_of)

lemma IsAbs_Clean: "IsAbs p \<Longrightarrow> IsAbs (Clean p)"
  by (metis Clean_IsAbs IsAbs_abs_of)

lemma path_elems_abs_of [simp]: "list_all plain_elem cs \<Longrightarrow> path_elems (abs_of cs) = cs"
  using Split_abs_of [of cs]
  by (cases cs; cases "Join cs ''/'' = []")
    (auto simp: path_elems_def abs_of_def Let_def split: if_splits)

lemma abs_of_inject:
  "list_all plain_elem cs \<Longrightarrow> list_all plain_elem ds \<Longrightarrow> abs_of cs = abs_of ds \<longleftrightarrow> cs = ds"
  by (metis path_elems_abs_of)

section \<open>Joining below an absolute directory\<close>

lemma Split_append_path:
  "list_all plain_elem bs \<Longrightarrow>
     foldl (clean_step True) [] (Split (abs_of bs @ CHR ''/'' # q) (CHR ''/''))
       = foldl (clean_step True) (rev bs) (Split q (CHR ''/''))"
proof -
  assume plain: "list_all plain_elem bs"
  have "foldl (clean_step True) st (Split (Join bs ''/'' @ CHR ''/'' # q) (CHR ''/''))
      = foldl (clean_step True) (rev bs @ st) (Split q (CHR ''/''))" for st
    using plain
  proof (induction bs arbitrary: st rule: induct_list012)
    case (2 f)
    then have "CHR ''/'' \<notin> set f" by (simp add: plain_elem_def)
    with 2 show ?case by (simp add: Split_append_sep)
  next
    case (3 f g bs)
    then have "CHR ''/'' \<notin> set f" by (simp add: plain_elem_def)
    with 3 show ?case by (simp add: Split_append_sep)
  qed simp
  from this [of "[]"] show ?thesis by (simp add: abs_of_def)
qed

lemma PathJoin_abs2:
  assumes "list_all plain_elem bs"
  shows "PathJoin [abs_of bs, q] = abs_of (rev (foldl (clean_step True) (rev bs) (Split q (CHR ''/''))))"
  using Split_append_path [OF assms, of q]
  by (simp add: PathJoin_def Clean_def) (simp add: abs_of_def IsAbs_def)

lemma abs_clean_PathJoin: "abs_clean base \<Longrightarrow> abs_clean (PathJoin [base, q])"
proof -
  assume "abs_clean base"
  then obtain bs where bs: "list_all plain_elem bs" "base = abs_of bs" by (rule abs_cleanE)
  have "\<forall>f \<in> set (Split q (CHR ''/'')). CHR ''/'' \<notin> set f" using Split_no_sep by blast
  with bs(1) have "list_all plain_elem (foldl (clean_step True) (rev bs) (Split q (CHR ''/'')))"
    by (intro foldl_clean_rooted_plain) simp_all
  with bs show ?thesis by (simp add: PathJoin_abs2 abs_clean_abs_of)
qed

lemma abs_clean_Abs: "IsAbs cwd \<Longrightarrow> Clean cwd = cwd \<Longrightarrow> abs_clean (Abs cwd p)"
  using abs_clean_PathJoin [of cwd p] by (auto simp: Abs_def abs_clean_def IsAbs_Clean Clean_idem_abs)

lemma PathJoin_abs_rel:
  assumes "list_all plain_elem bs" "list_all plain_elem rs" "rs \<noteq> []"
  shows "PathJoin [abs_of bs, Join rs ''/''] = abs_of (bs @ rs)"
proof -
  have "\<forall>f \<in> set rs. CHR ''/'' \<notin> set f"
    using assms(2) by (auto simp: list_all_iff plain_elem_def)
  then have "Split (Join rs ''/'') (CHR ''/'') = rs"
    using assms(3) by (simp add: Split_Join)
  then show ?thesis
    using assms by (simp add: PathJoin_abs2 foldl_clean_plain)
qed

lemma PathJoin_abs_dot_rel:
  assumes "list_all plain_elem bs" "list_all plain_elem rs"
  shows "PathJoin [abs_of bs, ''./'' @ Join rs ''/''] = abs_of (bs @ rs)"
proof -
  have "Split (''./'' @ Join rs ''/'') (CHR ''/'') = ''.'' # Split (Join rs ''/'') (CHR ''/'')"
    by simp
  moreover have "foldl (clean_step True) st (Split (Join rs ''/'') (CHR ''/'')) = rev rs @ st" for st
  proof (cases "rs = []")
    case False
    have "\<forall>f \<in> set rs. CHR ''/'' \<notin> set f"
      using assms(2) by (auto simp: list_all_iff plain_elem_def)
    with False assms(2) show ?thesis by (simp add: Split_Join foldl_clean_plain)
  qed simp
  ultimately show ?thesis using assms(1) by (simp add: PathJoin_abs2)
qed

lemma PathJoin_abs_dotdot: "list_all plain_elem bs \<Longrightarrow> PathJoin [abs_of bs, ''./.''] = abs_of bs"
  by (simp add: PathJoin_abs2)

section \<open>Rel\<close>

lemma strip_common_spec:
  "strip_common bs ts = (rb, rt) \<Longrightarrow> \<exists>cs. bs = cs @ rb \<and> ts = cs @ rt"
proof (induction bs ts rule: strip_common.induct)
  case (1 b bs t ts)
  then show ?case by (cases "b = t") (auto intro: exI [of _ "[]"] dest!: "1.IH" intro: exI [of _ "b # _"])
qed (auto intro: exI [of _ "[]"])

lemma Rel_abs:
  assumes "list_all plain_elem bs" "IsAbs p" "Rel (abs_of bs) p = Some r"
  obtains (same) "Clean p = abs_of bs" "r = ''.''"
    | (below) rs where "list_all plain_elem rs" "rs \<noteq> []" "Clean p = abs_of (bs @ rs)" "r = Join rs ''/''"
    | (outside) "HasPrefix r ''..''"
proof -
  from assms(2) obtain ps where ps: "list_all plain_elem ps" "Clean p = abs_of ps"
    by (rule Clean_IsAbs)
  obtain rb rt where st: "strip_common bs ps = (rb, rt)" by fastforce
  then obtain cs where cs: "bs = cs @ rb" "ps = cs @ rt" using strip_common_spec by blast
  have abs_dot: "abs_of bs \<noteq> ''.''" by (simp add: abs_of_def)
  show thesis
  proof (cases "ps = bs")
    case True
    then show thesis using assms ps same by (simp add: Rel_def)
  next
    case False
    then have ne: "abs_of ps \<noteq> abs_of bs" using assms(1) ps(1) by (simp add: abs_of_inject)
    have r: "r = Join (replicate (length rb) ''..'' @ rt) ''/''"
      using assms ps ne abs_dot st by (auto simp: Rel_def split: if_splits)
    show thesis
    proof (cases rb)
      case Nil
      then have "rt \<noteq> []" "ps = bs @ rt" using cs False by auto
      then show thesis using below [of rt] r Nil ps by simp
    next
      case (Cons b rb')
      then have "HasPrefix r ''..''"
        using r by (cases "replicate (length rb') ''..'' @ rt") (simp_all add: HasPrefix_iff)
      then show thesis by (rule outside)
    qed
  qed
qed

end
