(* ===== verification/Fleet.thy ===== *)
theory Fleet
  imports Mac Go_Path
begin

text \<open>
  The fleet configuration (\<^verbatim>\<open>internal/fleet/fleet.go\<close>): profiles, the on-disk YAML shape,
  loading with its validation, and lookup by MAC.  The YAML library, SHA-256 and the working
  directory are fields of \<open>fleet_env\<close>, an argument of the operations that use them; the file
  system is a map from paths to files.  The mutexes are the subject of \<open>Fleet_Threads\<close>: here an
  operation is what it does to the state it owns.
\<close>

section \<open>Data\<close>

record Profile =
  p_Boot :: string
  p_Name :: string
  p_CloudInit :: string
  p_Preseed :: string
  p_Kickstart :: string
  p_Rescue :: string
  p_IPXEScript :: string
  p_Params :: "string gomap"
  p_IsDefault :: bool

record Machine =
  m_MAC :: string
  m_Profile :: Profile

record defaultsEntry =
  d_Boot :: string
  d_CloudInit :: string
  d_Preseed :: string
  d_Kickstart :: string
  d_Rescue :: string
  d_IPXEScript :: string
  d_Params :: "string gomap"

record machineYAML =
  y_MAC :: string
  y_Name :: string
  y_Boot :: string
  y_CloudInit :: string
  y_Preseed :: string
  y_Kickstart :: string
  y_Rescue :: string
  y_IPXEScript :: string
  y_Params :: "string gomap"

record configFile =
  c_Defaults :: defaultsEntry
  c_Machines :: "machineYAML list"

record Fleet =
  f_path :: string
  f_baseDir :: string
  f_machines :: "Profile gomap"
  f_defaults :: Profile

text \<open>
  The libraries and the process state the fleet uses: the working directory, YAML decoding in
  strict mode and encoding, and SHA-256.
\<close>

record fleet_env =
  cwd :: string
  yaml_decode :: "string \<Rightarrow> configFile option"
  yaml_encode :: "configFile \<Rightarrow> string option"
  sha256 :: "string \<Rightarrow> string"

text \<open>A path holds a regular file that can be read, or something \<^verbatim>\<open>ReadFile\<close> fails on.\<close>

datatype fnode = File string | Unreadable

type_synonym filesys = "string \<Rightarrow> fnode option"

definition Stat :: "filesys \<Rightarrow> string \<Rightarrow> bool" where
  "Stat fs p \<longleftrightarrow> fs p \<noteq> None"

definition ReadFile :: "filesys \<Rightarrow> string \<Rightarrow> string option" where
  "ReadFile fs p = (case fs p of Some (File b) \<Rightarrow> Some b | _ \<Rightarrow> None)"

text \<open>Error values; the four sentinels of \<^verbatim>\<open>txn.go\<close> come first, as callers tell them apart.\<close>

datatype fleet_error =
    ErrMACExists | ErrMACAbsent | ErrPreconditionFailed | ErrPreconditionRequired
  | NoConfigPath | ReadFailed | ParseFailed
  | BadDefaultsBoot string | BadBoot string
  | InvalidMAC mac_error | DuplicateMAC string
  | ScriptRequired | MissingFile string string | OwnsPhoneHome string
  | SaveFailed string

definition ValidBootTargets :: "string list" where
  "ValidBootTargets =
     [''menu'', ''ubuntu-22.04'', ''ubuntu-24.04'', ''debian-12'', ''debian-13'',
      ''rocky-9'', ''alma-9'', ''custom'']"

definition empty_profile :: Profile where
  "empty_profile = \<lparr>p_Boot = [], p_Name = [], p_CloudInit = [], p_Preseed = [], p_Kickstart = [],
     p_Rescue = [], p_IPXEScript = [], p_Params = [], p_IsDefault = False\<rparr>"

definition Empty_Fleet :: Fleet where
  "Empty_Fleet = \<lparr>f_path = [], f_baseDir = [], f_machines = [],
     f_defaults = empty_profile\<lparr>p_Boot := ''menu'', p_IsDefault := True\<rparr>\<rparr>"

section \<open>Helpers of the loader\<close>

definition resolvePath :: "string \<Rightarrow> string \<Rightarrow> string" where
  "resolvePath base p = (if p = [] then [] else if IsAbs p then p else PathJoin [base, p])"

definition copy_params :: "'v gomap \<Rightarrow> 'v gomap \<Rightarrow> 'v gomap" where
  "copy_params out m = foldl (\<lambda>acc (k, v). mput k v acc) out m"

definition mergeParams :: "string gomap \<Rightarrow> string gomap \<Rightarrow> string gomap" where
  "mergeParams base over =
     (if base = [] \<and> over = [] then [] else copy_params (copy_params [] base) over)"

text \<open>A column-0 scan for \<^verbatim>\<open>phone_home\<close>, then white space, then a colon.\<close>

definition DefinesPhoneHome :: "string \<Rightarrow> bool" where
  "DefinesPhoneHome content =
     list_ex (\<lambda>line. HasPrefix line ''phone_home''
        \<and> HasPrefix (TrimSpace (TrimPrefix line ''phone_home'')) '':'')
       (Split content (CHR 0x0A))"

definition cloudInitDefinesPhoneHome :: "filesys \<Rightarrow> string \<Rightarrow> bool" where
  "cloudInitDefinesPhoneHome fs path =
     (case ReadFile fs path of None \<Rightarrow> False | Some b \<Rightarrow> DefinesPhoneHome b)"

definition check_file :: "filesys \<Rightarrow> string \<Rightarrow> string \<Rightarrow> fleet_error + unit" where
  "check_file fs field p =
     (if p \<noteq> [] \<and> \<not> Stat fs p then Inl (MissingFile field p) else Inr ())"

text \<open>The side files a boot target looks at, in the order the switch checks them.\<close>

definition validate_target :: "filesys \<Rightarrow> Profile \<Rightarrow> fleet_error + unit" where
  "validate_target fs p =
     (if p_Boot p = ''custom'' then
        (if p_IPXEScript p = [] then Inl ScriptRequired
         else check_file fs ''ipxe_script'' (p_IPXEScript p))
      else if p_Boot p = ''ubuntu-22.04'' \<or> p_Boot p = ''ubuntu-24.04'' then
        check_file fs ''cloud_init'' (p_CloudInit p)
      else if p_Boot p = ''debian-12'' \<or> p_Boot p = ''debian-13'' then
        bind_sum (check_file fs ''preseed'' (p_Preseed p))
          (\<lambda>_. check_file fs ''cloud_init'' (p_CloudInit p))
      else if p_Boot p = ''rocky-9'' \<or> p_Boot p = ''alma-9'' then
        bind_sum (check_file fs ''kickstart'' (p_Kickstart p))
          (\<lambda>_. check_file fs ''cloud_init'' (p_CloudInit p))
      else Inr ())"

definition validateProfile :: "filesys \<Rightarrow> Profile \<Rightarrow> fleet_error + unit" where
  "validateProfile fs p =
     bind_sum (validate_target fs p) (\<lambda>_.
     bind_sum (check_file fs ''rescue'' (p_Rescue p)) (\<lambda>_.
       if p_CloudInit p \<noteq> [] \<and> cloudInitDefinesPhoneHome fs (p_CloudInit p)
       then Inl (OwnsPhoneHome (p_CloudInit p)) else Inr ()))"

section \<open>Loading\<close>

definition default_boot :: "string \<Rightarrow> string" where
  "default_boot b = (if b = [] then ''menu'' else b)"

definition defaults_profile :: "string \<Rightarrow> defaultsEntry \<Rightarrow> Profile" where
  "defaults_profile baseDir d =
     \<lparr>p_Boot = default_boot (d_Boot d), p_Name = [],
      p_CloudInit = resolvePath baseDir (d_CloudInit d),
      p_Preseed = resolvePath baseDir (d_Preseed d),
      p_Kickstart = resolvePath baseDir (d_Kickstart d),
      p_Rescue = resolvePath baseDir (d_Rescue d),
      p_IPXEScript = resolvePath baseDir (d_IPXEScript d),
      p_Params = mergeParams [] (d_Params d),
      p_IsDefault = True\<rparr>"

definition machine_profile :: "string \<Rightarrow> machineYAML \<Rightarrow> Profile" where
  "machine_profile baseDir m =
     \<lparr>p_Boot = default_boot (y_Boot m), p_Name = y_Name m,
      p_CloudInit = resolvePath baseDir (y_CloudInit m),
      p_Preseed = resolvePath baseDir (y_Preseed m),
      p_Kickstart = resolvePath baseDir (y_Kickstart m),
      p_Rescue = resolvePath baseDir (y_Rescue m),
      p_IPXEScript = resolvePath baseDir (y_IPXEScript m),
      p_Params = mergeParams [] (y_Params m),
      p_IsDefault = False\<rparr>"

text \<open>The loop over \<^verbatim>\<open>cfg.Machines\<close>, with the map built so far.\<close>

fun load_machines :: "filesys \<Rightarrow> string \<Rightarrow> machineYAML list \<Rightarrow> Profile gomap
    \<Rightarrow> fleet_error + Profile gomap" where
  "load_machines fs baseDir [] machines = Inr machines"
| "load_machines fs baseDir (m # ms) machines =
     (case CanonicalMAC (y_MAC m) of Inl e \<Rightarrow> Inl (InvalidMAC e)
      | Inr canon \<Rightarrow>
          if canon \<in> mkeys machines then Inl (DuplicateMAC canon)
          else if default_boot (y_Boot m) \<notin> set ValidBootTargets then Inl (BadBoot (y_Boot m))
          else case validateProfile fs (machine_profile baseDir m) of Inl e \<Rightarrow> Inl e
            | Inr _ \<Rightarrow> load_machines fs baseDir ms (mput canon (machine_profile baseDir m) machines))"

definition load_config :: "filesys \<Rightarrow> string \<Rightarrow> configFile \<Rightarrow> fleet_error + (Profile \<times> Profile gomap)" where
  "load_config fs baseDir cfg =
     (let d = c_Defaults cfg
      in if default_boot (d_Boot d) \<notin> set ValidBootTargets then Inl (BadDefaultsBoot (d_Boot d))
         else bind_sum (validateProfile fs (defaults_profile baseDir d)) (\<lambda>_.
              bind_sum (load_machines fs baseDir (c_Machines cfg) []) (\<lambda>ms.
                Inr (defaults_profile baseDir d, ms))))"

text \<open>\<^verbatim>\<open>reload\<close>: the new error value (\<open>None\<close> for nil) and the fleet afterwards.\<close>

definition reload_fleet :: "fleet_env \<Rightarrow> filesys \<Rightarrow> Fleet \<Rightarrow> fleet_error option \<times> Fleet" where
  "reload_fleet env fs f =
     (case ReadFile fs (f_path f) of None \<Rightarrow> (Some ReadFailed, f)
      | Some raw \<Rightarrow>
          case yaml_decode env raw of None \<Rightarrow> (Some ParseFailed, f)
          | Some cfg \<Rightarrow>
              let baseDir = Abs (cwd env) (Dir (f_path f))
              in case load_config fs baseDir cfg of Inl e \<Rightarrow> (Some e, f)
                 | Inr (defs, ms) \<Rightarrow>
                     (None, f\<lparr>f_baseDir := baseDir, f_machines := ms, f_defaults := defs\<rparr>))"

definition Reload :: "fleet_env \<Rightarrow> filesys \<Rightarrow> Fleet \<Rightarrow> fleet_error option \<times> Fleet" where
  "Reload env fs f = (if f_path f = [] then (Some NoConfigPath, f) else reload_fleet env fs f)"

definition Load :: "fleet_env \<Rightarrow> filesys \<Rightarrow> string \<Rightarrow> fleet_error + Fleet" where
  "Load env fs path =
     (case reload_fleet env fs \<lparr>f_path = path, f_baseDir = [], f_machines = [], f_defaults = empty_profile\<rparr>
      of (Some e, _) \<Rightarrow> Inl e | (None, f) \<Rightarrow> Inr f)"

section \<open>Reading\<close>

definition Lookup :: "Fleet \<Rightarrow> string \<Rightarrow> Profile" where
  "Lookup f mac =
     (case CanonicalMAC mac of Inl e \<Rightarrow> f_defaults f
      | Inr canon \<Rightarrow>
          case mget (f_machines f) canon of None \<Rightarrow> f_defaults f
          | Some p \<Rightarrow> p\<lparr>p_Params := mergeParams (p_Params (f_defaults f)) (p_Params p)\<rparr>)"

definition Machines :: "Fleet \<Rightarrow> Profile gomap" where
  "Machines f = foldl (\<lambda>out (k, v). mput k v out) [] (f_machines f)"

definition BaseDir :: "Fleet \<Rightarrow> string" where
  "BaseDir f = f_baseDir f"

definition Defaults :: "Fleet \<Rightarrow> Profile" where
  "Defaults f = f_defaults f"

section \<open>Facts about the parameter maps\<close>

lemma copy_params_append:
  "keys_ok (out @ m) \<Longrightarrow> copy_params out m = out @ m"
proof (induction m arbitrary: out)
  case (Cons p m)
  obtain k v where p: "p = (k, v)" by fastforce
  from Cons.prems p have "k \<notin> mkeys out" by (auto simp: keys_ok_def)
  then have "mput k v out = out @ [(k, v)]" by (simp add: AList.update_nonempty AList_update_fresh)
  with Cons p show ?case by (simp add: copy_params_def)
qed (simp add: copy_params_def)

lemma mget_copy_params: "keys_ok m \<Longrightarrow> mget (copy_params out m) = mget out ++ mget m"
proof (induction m arbitrary: out)
  case (Cons p m)
  obtain k v where p: "p = (k, v)" by fastforce
  with Cons.prems have m: "keys_ok m" "k \<notin> mkeys m" by (auto simp: keys_ok_Cons)
  have "mget (copy_params out (p # m)) = (mget out)(k \<mapsto> v) ++ mget m"
    using Cons.IH [OF m(1), of "mput k v out"]
    by (simp add: copy_params_def p mget_mput fun_upd_def)
  also have "\<dots> = mget out ++ mget (p # m)"
    using m(2) by (auto simp: p map_add_def fun_eq_iff map_of_eq_None_iff [symmetric]
        simp del: map_of_eq_None_iff split: option.splits)
  finally show ?case .
qed (simp add: copy_params_def)

lemma keys_ok_copy_params [simp]: "keys_ok out \<Longrightarrow> keys_ok (copy_params out m)"
  by (induction m arbitrary: out) (auto simp: copy_params_def)

lemma mergeParams_own [simp]: "keys_ok m \<Longrightarrow> mergeParams [] m = m"
  using copy_params_append [of "[]" m] by (auto simp: mergeParams_def copy_params_def)

lemma keys_ok_mergeParams [simp]: "keys_ok (mergeParams base over)"
  by (auto simp: mergeParams_def)

lemma mget_mergeParams:
  assumes "keys_ok base" "keys_ok over"
  shows "mget (mergeParams base over) = mget base ++ mget over"
  using assms by (auto simp: mergeParams_def mget_copy_params)

lemma Machines_eq: "keys_ok (f_machines f) \<Longrightarrow> Machines f = f_machines f"
  using copy_params_append [of "[]" "f_machines f"] by (simp add: Machines_def copy_params_def)

section \<open>The invariant of a fleet\<close>

definition cfg_ok :: "configFile \<Rightarrow> bool" where
  "cfg_ok cfg \<longleftrightarrow> keys_ok (d_Params (c_Defaults cfg)) \<and> (\<forall>m \<in> set (c_Machines cfg). keys_ok (y_Params m))"

text \<open>A decoded map has one entry for each of its keys.\<close>

definition env_ok :: "fleet_env \<Rightarrow> bool" where
  "env_ok env \<longleftrightarrow> (\<forall>raw cfg. yaml_decode env raw = Some cfg \<longrightarrow> cfg_ok cfg)"

definition machines_ok :: "Profile gomap \<Rightarrow> bool" where
  "machines_ok ms \<longleftrightarrow> keys_ok ms \<and> (\<forall>c \<in> mkeys ms. is_canonical c)
     \<and> (\<forall>(c, p) \<in> set ms. keys_ok (p_Params p))"

definition fleet_ok :: "Fleet \<Rightarrow> bool" where
  "fleet_ok f \<longleftrightarrow> machines_ok (f_machines f) \<and> keys_ok (p_Params (f_defaults f))"

lemma machines_ok_keys [dest]: "machines_ok ms \<Longrightarrow> keys_ok ms"
  by (simp add: machines_ok_def)

lemma machines_ok_canonical: "machines_ok ms \<Longrightarrow> c \<in> mkeys ms \<Longrightarrow> is_canonical c"
  by (auto simp: machines_ok_def)

lemma machines_ok_params: "machines_ok ms \<Longrightarrow> mget ms c = Some p \<Longrightarrow> keys_ok (p_Params p)"
  by (auto simp: machines_ok_def dest!: mget_Some_mem)

lemma set_mput: "keys_ok m \<Longrightarrow> set (mput k v m) = insert (k, v) (set m - {(k, w) |w. True})"
proof (induction m)
  case (Cons p m)
  then show ?case by (cases p) (auto simp: keys_ok_Cons, (force simp: image_iff)+)
qed simp

lemma machines_ok_mput:
  "machines_ok ms \<Longrightarrow> is_canonical c \<Longrightarrow> keys_ok (p_Params p) \<Longrightarrow> machines_ok (mput c p ms)"
  by (auto simp: machines_ok_def set_mput mkeys_mput)

lemma machines_ok_mdel: "machines_ok ms \<Longrightarrow> machines_ok (mdel c ms)"
  by (auto simp: machines_ok_def AList.delete_eq case_prod_unfold keys_ok_filter)

lemma fleet_ok_Empty [simp]: "fleet_ok Empty_Fleet"
  by (simp add: fleet_ok_def Empty_Fleet_def machines_ok_def empty_profile_def)

section \<open>What loading accepts\<close>

definition entry_ok :: "filesys \<Rightarrow> string \<Rightarrow> machineYAML \<Rightarrow> string \<Rightarrow> bool" where
  "entry_ok fs b m c \<longleftrightarrow> CanonicalMAC (y_MAC m) = Inr c
     \<and> default_boot (y_Boot m) \<in> set ValidBootTargets
     \<and> validateProfile fs (machine_profile b m) = Inr ()"

lemma load_machines_sound:
  "load_machines fs b ms m0 = Inr m1 \<Longrightarrow>
     \<exists>cs. list_all2 (entry_ok fs b) ms cs \<and> distinct cs \<and> set cs \<inter> mkeys m0 = {}
        \<and> m1 = m0 @ zip cs (map (machine_profile b) ms)"
proof (induction ms arbitrary: m0)
  case (Cons m ms)
  then obtain c where c: "entry_ok fs b m c" "c \<notin> mkeys m0"
    and rest: "load_machines fs b ms (mput c (machine_profile b m) m0) = Inr m1"
    by (auto simp: entry_ok_def split: sum.splits if_splits)
  from Cons.IH [OF rest] obtain cs where cs: "list_all2 (entry_ok fs b) ms cs" "distinct cs"
    "set cs \<inter> insert c (mkeys m0) = {}"
    "m1 = mput c (machine_profile b m) m0 @ zip cs (map (machine_profile b) ms)"
    unfolding mkeys_mput by blast
  then have "list_all2 (entry_ok fs b) (m # ms) (c # cs) \<and> distinct (c # cs)
      \<and> set (c # cs) \<inter> mkeys m0 = {}
      \<and> m1 = m0 @ zip (c # cs) (map (machine_profile b) (m # ms))"
    using c AList_update_fresh [OF c(2), of "machine_profile b m"] by auto
  then show ?case by blast
qed simp

lemma load_machines_complete:
  "list_all2 (entry_ok fs b) ms cs \<Longrightarrow> distinct cs \<Longrightarrow> set cs \<inter> mkeys m0 = {} \<Longrightarrow>
     load_machines fs b ms m0 = Inr (m0 @ zip cs (map (machine_profile b) ms))"
proof (induction ms cs arbitrary: m0 rule: list_all2_induct)
  case (Cons m ms c cs)
  have "load_machines fs b ms (mput c (machine_profile b m) m0)
      = Inr (mput c (machine_profile b m) m0 @ zip cs (map (machine_profile b) ms))"
    using Cons.prems by (intro Cons.IH) (auto simp: mkeys_mput)
  with Cons.prems Cons.hyps(1) show ?case
    by (auto simp: entry_ok_def AList_update_fresh)
qed simp

lemma load_machines_iff:
  "load_machines fs b ms [] = Inr m1 \<longleftrightarrow>
     (\<exists>cs. list_all2 (entry_ok fs b) ms cs \<and> distinct cs \<and> m1 = zip cs (map (machine_profile b) ms))"
  using load_machines_sound [of fs b ms "[]" m1] load_machines_complete [of fs b ms _ "[]"] by auto

lemma load_config_iff:
  "load_config fs b cfg = Inr (defs, ms) \<longleftrightarrow>
     default_boot (d_Boot (c_Defaults cfg)) \<in> set ValidBootTargets
     \<and> validateProfile fs (defaults_profile b (c_Defaults cfg)) = Inr ()
     \<and> defs = defaults_profile b (c_Defaults cfg)
     \<and> load_machines fs b (c_Machines cfg) [] = Inr ms"
  by (auto simp: load_config_def Let_def bind_sum_Inr)

lemma map_fst_zip_profiles:
  "list_all2 (entry_ok fs b) ms cs \<Longrightarrow> map fst (zip cs (map f ms)) = cs"
  by (simp add: list_all2_lengthD)

lemma load_machines_ok:
  assumes "load_machines fs b ms [] = Inr m1"
  shows "machines_ok m1"
proof -
  obtain cs where cs: "list_all2 (entry_ok fs b) ms cs" "distinct cs"
    "m1 = zip cs (map (machine_profile b) ms)"
    using assms by (auto simp: load_machines_iff)
  have "map fst m1 = cs" using cs map_fst_zip_profiles by simp
  moreover have "\<forall>c \<in> set cs. is_canonical c"
    using cs(1) by (metis canonical_result entry_ok_def in_set_conv_nth list_all2_conv_all_nth)
  moreover have "\<forall>(c, p) \<in> set m1. keys_ok (p_Params p)"
    by (auto simp: cs(3) in_set_zip machine_profile_def)
  moreover have "mkeys m1 = set cs" using calculation(1) by (metis set_map)
  ultimately show ?thesis using cs(2) by (simp add: machines_ok_def keys_ok_def)
qed

lemma load_machines_entry:
  assumes "load_machines fs b ms [] = Inr m1" "m \<in> set ms"
  shows "\<exists>c. entry_ok fs b m c \<and> mget m1 c = Some (machine_profile b m)"
proof -
  obtain cs where cs: "list_all2 (entry_ok fs b) ms cs" "m1 = zip cs (map (machine_profile b) ms)"
    using assms(1) by (auto simp: load_machines_iff)
  from assms(2) obtain i where i: "i < length ms" "m = ms ! i" by (auto simp: in_set_conv_nth)
  have len: "length cs = length ms" using cs(1) by (simp add: list_all2_lengthD)
  have ok: "entry_ok fs b m (cs ! i)" using cs(1) i by (simp add: list_all2_conv_all_nth)
  have "zip cs (map (machine_profile b) ms) ! i \<in> set (zip cs (map (machine_profile b) ms))"
    using i(1) len by (intro nth_mem) simp
  then have mem: "(cs ! i, machine_profile b m) \<in> set (zip cs (map (machine_profile b) ms))"
    using i len by simp
  have "keys_ok (zip cs (map (machine_profile b) ms))"
    using load_machines_ok [OF assms(1)] unfolding cs(2) machines_ok_def by blast
  from mem_mget [OF this mem] ok show ?thesis unfolding cs(2) by blast
qed

section \<open>Reloading\<close>

lemma reload_fleet_ok: "fleet_ok f \<Longrightarrow> fleet_ok (snd (reload_fleet env fs f))"
  by (auto simp: reload_fleet_def fleet_ok_def Let_def load_config_iff defaults_profile_def
      intro: load_machines_ok split: option.splits sum.splits)

lemma Reload_ok: "fleet_ok f \<Longrightarrow> fleet_ok (snd (Reload env fs f))"
  by (simp add: Reload_def reload_fleet_ok)

lemma Reload_path [simp]: "f_path (snd (Reload env fs f)) = f_path f"
  by (auto simp: Reload_def reload_fleet_def Let_def split: option.splits sum.splits)

lemma Reload_error: "fst (Reload env fs f) = Some e \<Longrightarrow> snd (Reload env fs f) = f"
  by (auto simp: Reload_def reload_fleet_def Let_def split: option.splits sum.splits if_splits)

lemma Reload_success:
  "fst (Reload env fs f) = None \<longleftrightarrow>
     f_path f \<noteq> [] \<and>
     (\<exists>raw cfg defs ms. ReadFile fs (f_path f) = Some raw \<and> yaml_decode env raw = Some cfg
        \<and> load_config fs (Abs (cwd env) (Dir (f_path f))) cfg = Inr (defs, ms)
        \<and> snd (Reload env fs f) = f\<lparr>f_baseDir := Abs (cwd env) (Dir (f_path f)),
              f_machines := ms, f_defaults := defs\<rparr>)"
  by (auto simp: Reload_def reload_fleet_def Let_def split: option.splits sum.splits)

lemma Load_reload: "Load env fs path = Inr f \<Longrightarrow>
   reload_fleet env fs \<lparr>f_path = path, f_baseDir = [], f_machines = [], f_defaults = empty_profile\<rparr> = (None, f)"
  by (auto simp: Load_def split: option.splits prod.splits)

lemma Load_ok: "Load env fs path = Inr f \<Longrightarrow> fleet_ok f \<and> f_path f = path"
  by (drule Load_reload)
    (auto simp: reload_fleet_def fleet_ok_def Let_def load_config_iff defaults_profile_def
      dest: load_machines_ok split: option.splits sum.splits)

section \<open>Looking up\<close>

lemma Lookup_known:
  "CanonicalMAC s = Inr c \<Longrightarrow> mget (f_machines f) c = Some p \<Longrightarrow>
     Lookup f s = p\<lparr>p_Params := mergeParams (p_Params (f_defaults f)) (p_Params p)\<rparr>"
  by (simp add: Lookup_def)

lemma Lookup_unknown:
  "CanonicalMAC s = Inr c \<Longrightarrow> c \<notin> mkeys (f_machines f) \<Longrightarrow> Lookup f s = f_defaults f"
  by (auto simp: Lookup_def split: option.splits dest: mget_Some_key)

lemma Lookup_invalid: "CanonicalMAC s = Inl e \<Longrightarrow> Lookup f s = f_defaults f"
  by (simp add: Lookup_def)

lemma load_machines_keys:
  "load_machines fs b ms [] = Inr m1 \<Longrightarrow> c \<in> mkeys m1 \<Longrightarrow> \<exists>m \<in> set ms. CanonicalMAC (y_MAC m) = Inr c"
proof -
  assume a: "load_machines fs b ms [] = Inr m1" "c \<in> mkeys m1"
  then obtain cs where cs: "list_all2 (entry_ok fs b) ms cs"
    "m1 = zip cs (map (machine_profile b) ms)" by (auto simp: load_machines_iff)
  with a(2) have "c \<in> set cs" by (auto dest: set_zip_leftD)
  then obtain i where "i < length cs" "c = cs ! i" by (auto simp: in_set_conv_nth)
  with cs(1) have "entry_ok fs b (ms ! i) c" "ms ! i \<in> set ms"
    by (auto simp: list_all2_conv_all_nth)
  then show ?thesis by (auto simp: entry_ok_def)
qed

lemma Load_success:
  "Load env fs path = Inr f \<longleftrightarrow>
     (\<exists>raw cfg defs ms. ReadFile fs path = Some raw \<and> yaml_decode env raw = Some cfg
        \<and> load_config fs (Abs (cwd env) (Dir path)) cfg = Inr (defs, ms)
        \<and> f = \<lparr>f_path = path, f_baseDir = Abs (cwd env) (Dir path), f_machines = ms, f_defaults = defs\<rparr>)"
  by (auto simp: Load_def reload_fleet_def Let_def split: option.splits sum.splits)

section \<open>Properties\<close>

text \<open>C26: After a successful load every machine of the file is found under any spelling of its MAC,
  with the fields of its entry, its side-file paths resolved against the directory of the file, and
  its parameters laid over the defaults'; and a MAC no entry of the file carries gets the
  defaults.\<close>

theorem Load_Lookup:
  assumes "Load env fs path = Inr f" "ReadFile fs path = Some raw" "yaml_decode env raw = Some cfg"
  shows "let b = Abs (cwd env) (Dir path); d = defaults_profile b (c_Defaults cfg) in
     (\<forall>m \<in> set (c_Machines cfg). CanonicalMAC s = CanonicalMAC (y_MAC m) \<longrightarrow>
        Lookup f s = (machine_profile b m)
          \<lparr>p_Params := mergeParams (p_Params d) (p_Params (machine_profile b m))\<rparr>)
     \<and> ((\<forall>m \<in> set (c_Machines cfg). CanonicalMAC (y_MAC m) \<noteq> CanonicalMAC s) \<longrightarrow> Lookup f s = d)"
proof -
  let ?b = "Abs (cwd env) (Dir path)"
  obtain ms where l: "load_machines fs ?b (c_Machines cfg) [] = Inr ms"
    and f: "f = \<lparr>f_path = path, f_baseDir = ?b, f_machines = ms,
              f_defaults = defaults_profile ?b (c_Defaults cfg)\<rparr>"
    using assms by (auto simp: Load_success load_config_iff)
  have known: "Lookup f s = (machine_profile ?b m)
      \<lparr>p_Params := mergeParams (p_Params (defaults_profile ?b (c_Defaults cfg))) (p_Params (machine_profile ?b m))\<rparr>"
    if "m \<in> set (c_Machines cfg)" "CanonicalMAC s = CanonicalMAC (y_MAC m)" for m
    using load_machines_entry [OF l that(1)] that(2)
    by (auto simp: entry_ok_def f intro: trans [OF Lookup_known])
  have "Lookup f s = defaults_profile ?b (c_Defaults cfg)"
    if "\<forall>m \<in> set (c_Machines cfg). CanonicalMAC (y_MAC m) \<noteq> CanonicalMAC s"
  proof (cases "CanonicalMAC s")
    case (Inr c)
    then have "c \<notin> mkeys ms" using that load_machines_keys [OF l, of c] by auto
    with Inr show ?thesis by (simp add: Lookup_unknown f)
  qed (simp add: Lookup_invalid f)
  with known show ?thesis by (auto simp: Let_def)
qed

text \<open>A fleet file with one machine, and the libraries decoding it, for the instances below.\<close>

definition example_cfg :: configFile where
  "example_cfg = \<lparr>c_Defaults = \<lparr>d_Boot = [], d_CloudInit = [], d_Preseed = [], d_Kickstart = [],
       d_Rescue = [], d_IPXEScript = [], d_Params = [(''site'', ''lab''), (''disk'', ''sda'')]\<rparr>,
     c_Machines = [\<lparr>y_MAC = ''52-54-00-AA-BB-CC'', y_Name = ''web-1'', y_Boot = ''debian-12'',
       y_CloudInit = [], y_Preseed = ''pre/web.cfg'', y_Kickstart = [], y_Rescue = [],
       y_IPXEScript = [], y_Params = [(''disk'', ''nvme0n1'')]\<rparr>]\<rparr>"

definition example_env :: fleet_env where
  "example_env = \<lparr>cwd = ''/srv'', yaml_decode = (\<lambda>_. Some example_cfg),
     yaml_encode = (\<lambda>_. Some ''machines''), sha256 = (\<lambda>b. take 32 (rev b @ replicate 32 (CHR 0x00)))\<rparr>"

definition example_fs :: filesys where
  "example_fs p =
     (if p = ''/srv/fleet.yaml'' then Some (File ''machines'')
      else if p = ''/srv/pre/web.cfg'' then Some (File ''d-i'') else None)"

definition example_fleet :: Fleet where
  "example_fleet = \<lparr>f_path = ''/srv/fleet.yaml'', f_baseDir = ''/srv'',
     f_machines = [(''52:54:00:aa:bb:cc'', empty_profile\<lparr>p_Boot := ''debian-12'', p_Name := ''web-1'',
       p_Preseed := ''/srv/pre/web.cfg'', p_Params := [(''disk'', ''nvme0n1'')]\<rparr>)],
     f_defaults = empty_profile\<lparr>p_Boot := ''menu'', p_Params := [(''site'', ''lab''), (''disk'', ''sda'')],
       p_IsDefault := True\<rparr>\<rparr>"

lemma example_loaded: "Load example_env example_fs ''/srv/fleet.yaml'' = Inr example_fleet"
  by code_simp

lemma example_fleet_ok: "fleet_ok example_fleet"
  using example_loaded by (blast dest: Load_ok)

theorem Load_Lookup_witness:
  "p_Preseed (Lookup (projr (Load example_env example_fs ''/srv/fleet.yaml'')) ''525400aabbcc'')
     = ''/srv/pre/web.cfg''"
proof -
  have raw: "ReadFile example_fs ''/srv/fleet.yaml'' = Some ''machines''" by code_simp
  have cfg: "yaml_decode example_env ''machines'' = Some example_cfg" by (simp add: example_env_def)
  have "CanonicalMAC ''525400aabbcc'' = CanonicalMAC ''52-54-00-AA-BB-CC''"
    "p_Preseed (machine_profile (Abs ''/srv'' (Dir ''/srv/fleet.yaml'')) (hd (c_Machines example_cfg))) = ''/srv/pre/web.cfg''"
    by code_simp+
  moreover have "cwd example_env = ''/srv''" "hd (c_Machines example_cfg) \<in> set (c_Machines example_cfg)"
    "y_MAC (hd (c_Machines example_cfg)) = ''52-54-00-AA-BB-CC''" by (simp_all add: example_env_def example_cfg_def)
  ultimately show ?thesis
    using Load_Lookup [OF example_loaded raw cfg, of "''525400aabbcc''"] unfolding example_loaded Let_def by simp
qed

text \<open>A file loads exactly when it can be read and decoded, the defaults and every machine name
  a known boot target with their side files present and no \<^verbatim>\<open>phone_home\<close> of their own, every
  MAC parses, and no two entries carry one MAC under different spellings.\<close>

theorem Load_accepts_iff:
  "is_ok (Load env fs path) \<longleftrightarrow>
     (\<exists>raw cfg. ReadFile fs path = Some raw \<and> yaml_decode env raw = Some cfg \<and>
        (let b = Abs (cwd env) (Dir path) in
           default_boot (d_Boot (c_Defaults cfg)) \<in> set ValidBootTargets
         \<and> validateProfile fs (defaults_profile b (c_Defaults cfg)) = Inr ()
         \<and> (\<exists>cs. list_all2 (entry_ok fs b) (c_Machines cfg) cs \<and> distinct cs)))"
  by (auto simp: is_ok_iff Load_success load_config_iff load_machines_iff Let_def)

text \<open>A reload changes nothing at all when any step of it fails, and otherwise leaves exactly
  the fleet a fresh start on the same file would build: stale machines of the previous file never
  survive, and a broken file never takes a running fleet down.\<close>

theorem Reload_all_or_nothing:
  "case Reload env fs f of
     (Some e, f') \<Rightarrow> f' = f \<and> (f_path f = [] \<or> Load env fs (f_path f) = Inl e)
   | (None, f') \<Rightarrow> f_path f \<noteq> [] \<and> Load env fs (f_path f) = Inr f'"
  by (auto simp: Reload_def reload_fleet_def Load_def Let_def split: prod.splits option.splits sum.splits)

text \<open>A machine's own parameter wins over the defaults' value of the same name, a parameter only
  the defaults set is inherited, and nothing else appears.\<close>

theorem Lookup_params:
  assumes "fleet_ok f" "CanonicalMAC s = Inr c" "mget (f_machines f) c = Some p"
  shows "mget (p_Params (Lookup f s)) k =
     (case mget (p_Params p) k of Some v \<Rightarrow> Some v | None \<Rightarrow> mget (p_Params (f_defaults f)) k)"
proof -
  have "keys_ok (p_Params p)" "keys_ok (p_Params (f_defaults f))"
    using assms by (auto simp: fleet_ok_def intro: machines_ok_params)
  then show ?thesis using assms by (simp add: Lookup_known mget_mergeParams map_add_def)
qed

theorem Lookup_params_witness:
  "map (mget (p_Params (Lookup (projr (Load example_env example_fs ''/srv/fleet.yaml'')) ''525400aabbcc'')))
     [''site'', ''disk'', ''user''] = [Some ''lab'', Some ''nvme0n1'', None]"
proof -
  have c: "CanonicalMAC ''525400aabbcc'' = Inr ''52:54:00:aa:bb:cc''" by code_simp
  have p: "mget (f_machines example_fleet) ''52:54:00:aa:bb:cc'' = Some (snd (hd (f_machines example_fleet)))" by code_simp
  show ?thesis unfolding example_loaded sum.sel list.map Lookup_params [OF example_fleet_ok c p] by code_simp
qed

end
