(* ===== verification/Cache.thy ===== *)
theory Cache
  imports Fleet
begin

text \<open>
  The data directory of distribution assets (\<^verbatim>\<open>internal/cache/cache.go\<close> and
  \<^verbatim>\<open>fetch.go\<close>): the paths served under \<^verbatim>\<open>/assets/\<close>, and the download and extraction
  of an installer image.  Files live in the path map of \<open>Fleet\<close>; directories are not recorded.
  Any system call may fail: \<open>ok\<close> says which succeed.  JSON, the ISO 9660 reader, SHA-256 and the
  HTTP response are fields of \<open>fetch_env\<close>.
\<close>

record TargetSpec =
  ts_Name :: string
  ts_ISOURL :: string
  ts_ISOPath :: "string gomap"

definition Dests :: "TargetSpec \<Rightarrow> string list" where
  "Dests s = sort (map fst (ts_ISOPath s))"

definition Targets :: "TargetSpec gomap" where
  "Targets =
     [(''ubuntu-22.04'', \<lparr>ts_Name = ''ubuntu-22.04'',
        ts_ISOURL = ''https://releases.ubuntu.com/22.04/ubuntu-22.04.5-live-server-amd64.iso'',
        ts_ISOPath = [(''vmlinuz'', ''/casper/vmlinuz''), (''initrd'', ''/casper/initrd''),
          (''filesystem.squashfs'', ''/casper/ubuntu-server-minimal.squashfs'')]\<rparr>),
      (''ubuntu-24.04'', \<lparr>ts_Name = ''ubuntu-24.04'',
        ts_ISOURL = ''https://releases.ubuntu.com/24.04/ubuntu-24.04.4-live-server-amd64.iso'',
        ts_ISOPath = [(''vmlinuz'', ''/casper/vmlinuz''), (''initrd'', ''/casper/initrd''),
          (''filesystem.squashfs'', ''/casper/ubuntu-server-minimal.squashfs'')]\<rparr>),
      (''systemrescue'', \<lparr>ts_Name = ''systemrescue'',
        ts_ISOURL = ''https://fastly-cdn.system-rescue.org/releases/13.00/systemrescue-13.00-amd64.iso'',
        ts_ISOPath = [(''sysresccd/boot/x86_64/vmlinuz'', ''/sysresccd/boot/x86_64/vmlinuz''),
          (''sysresccd/boot/x86_64/sysresccd.img'', ''/sysresccd/boot/x86_64/sysresccd.img''),
          (''sysresccd/x86_64/airootfs.sfs'', ''/sysresccd/x86_64/airootfs.sfs'')]\<rparr>)]"

record Asset =
  as_Size :: int
  as_SHA256 :: string

record Manifest =
  mf_Target :: string
  mf_Source :: string
  mf_FetchedAt :: time
  mf_Files :: "Asset gomap"

section \<open>Names and paths\<close>

definition safe_char :: "char \<Rightarrow> bool" where
  "safe_char r \<longleftrightarrow> r = CHR ''-'' \<or> r = CHR ''_'' \<or> r = CHR ''.'' \<or> (r \<ge> CHR ''0'' \<and> r \<le> CHR ''9'')
     \<or> (r \<ge> CHR ''a'' \<and> r \<le> CHR ''z'') \<or> (r \<ge> CHR ''A'' \<and> r \<le> CHR ''Z'')"

text \<open>A byte above 127 starts or continues a rune no clause allows, so the loop over runes is one over bytes.\<close>

definition safeTargetName :: "string \<Rightarrow> bool" where
  "safeTargetName s = (if s = [] \<or> HasPrefix s ''.'' then False else list_all safe_char s)"

definition safeAssetPath :: "string \<Rightarrow> bool" where
  "safeAssetPath s =
     (if s = [] \<or> HasPrefix s ''/'' then False else list_all safeTargetName (Split s (CHR ''/'')))"

datatype cache_error = EmptyDataDir | InvalidTarget string | InvalidAsset string | UnknownTarget string
  | SyscallFailed string | HTTPStatus int | BodyFailed | BadISO | ListFailed | NotInISO string
  | EncodeFailed

datatype syscall = Mkdir string | Create string | WriteTo string | CloseFile string
  | RenameTo string | OpenFile string | ReadBack string | RemoveFile string

definition Cache_New :: "(syscall \<Rightarrow> bool) \<Rightarrow> string \<Rightarrow> string \<Rightarrow> cache_error + string" where
  "Cache_New ok wd dir =
     (if dir = [] then Inl EmptyDataDir
      else let p = Abs wd dir in if \<not> ok (Mkdir p) then Inl (SyscallFailed p) else Inr p)"

definition TargetDir :: "(syscall \<Rightarrow> bool) \<Rightarrow> string \<Rightarrow> string \<Rightarrow> cache_error + string" where
  "TargetDir ok root target =
     (if \<not> safeTargetName target then Inl (InvalidTarget target)
      else let p = PathJoin [root, target]
           in if \<not> ok (Mkdir p) then Inl (SyscallFailed p) else Inr p)"

definition AssetPath :: "string \<Rightarrow> string \<Rightarrow> string \<Rightarrow> cache_error + string" where
  "AssetPath root target file =
     (if \<not> safeTargetName target then Inl (InvalidTarget target)
      else if \<not> safeAssetPath file then Inl (InvalidAsset file)
      else Inr (PathJoin [root, target, file]))"

section \<open>Fetching\<close>

text \<open>
  A node of an ISO image as the reader library shows it: its name, its children (\<open>None\<close> when
  listing fails) and its bytes.
\<close>

datatype iso_node = IsoNode (iso_name: string) (iso_children: "iso_node list option") (iso_data: string)

record http_response =
  hr_Status :: int
  hr_Chunks :: "string list"
  hr_Failed :: bool

record fetch_env =
  json_manifest :: "Manifest \<Rightarrow> string option"
  parse_manifest :: "string \<Rightarrow> Manifest option"
  open_image :: "string \<Rightarrow> iso_node option"
  file_sha256 :: "string \<Rightarrow> string"
  http_get :: "string \<Rightarrow> http_response option"
  fetch_now :: time

definition readManifest :: "fetch_env \<Rightarrow> filesys \<Rightarrow> string \<Rightarrow> Manifest option" where
  "readManifest env fs dir =
     (case ReadFile fs (PathJoin [dir, ''.pxe-beacon-fetched'']) of None \<Rightarrow> None
      | Some b \<Rightarrow> parse_manifest env b)"

definition nonempty_file :: "filesys \<Rightarrow> string \<Rightarrow> bool" where
  "nonempty_file fs p = (case fs p of None \<Rightarrow> False | Some Unreadable \<Rightarrow> True | Some (File b) \<Rightarrow> b \<noteq> [])"

definition IsPopulated :: "fetch_env \<Rightarrow> filesys \<Rightarrow> string \<Rightarrow> string \<Rightarrow> Manifest option" where
  "IsPopulated env fs root target =
     (case mget Targets target of None \<Rightarrow> None
      | Some spec \<Rightarrow>
          let tdir = PathJoin [root, target]
          in case readManifest env fs tdir of None \<Rightarrow> None
             | Some m \<Rightarrow>
                 if list_all (\<lambda>dest. nonempty_file fs (PathJoin [tdir, dest])) (Dests spec)
                 then Some m else None)"

definition WriteManifest :: "fetch_env \<Rightarrow> (syscall \<Rightarrow> bool) \<Rightarrow> string \<Rightarrow> string \<Rightarrow> Manifest \<Rightarrow> filesys
    \<Rightarrow> cache_error option \<times> filesys" where
  "WriteManifest env ok root target m fs =
     (case TargetDir ok root target of Inl e \<Rightarrow> (Some e, fs)
      | Inr tdir \<Rightarrow>
          case json_manifest env m of None \<Rightarrow> (Some EncodeFailed, fs)
          | Some data \<Rightarrow>
              let tmp = PathJoin [tdir, ''.pxe-beacon-fetched.tmp''];
                  dest = PathJoin [tdir, ''.pxe-beacon-fetched'']
              in if \<not> ok (WriteTo tmp) then (Some (SyscallFailed tmp), fs(tmp \<mapsto> File []))
                 else if \<not> ok (RenameTo dest) then (Some (SyscallFailed dest), fs(tmp \<mapsto> File data))
                 else (None, (fs(tmp := None))(dest \<mapsto> File data)))"

definition normalizeISOName :: "string \<Rightarrow> string" where
  "normalizeISOName s =
     ToLower (case IndexByte s (CHR '';'') of None \<Rightarrow> s | Some i \<Rightarrow> take i s)"

fun find_parts :: "string \<Rightarrow> string list \<Rightarrow> iso_node \<Rightarrow> cache_error + iso_node" where
  "find_parts p [] cur = Inr cur"
| "find_parts p (part # parts) cur =
     (if part = [] then find_parts p parts cur
      else case iso_children cur of None \<Rightarrow> Inl ListFailed
        | Some kids \<Rightarrow>
            case find (\<lambda>k. normalizeISOName (iso_name k) = ToLower part) kids of
              None \<Rightarrow> Inl (NotInISO p)
            | Some found \<Rightarrow> find_parts p parts found)"

definition findISO :: "iso_node \<Rightarrow> string \<Rightarrow> cache_error + iso_node" where
  "findISO img p = find_parts p (Split (TrimPrefix p ''/'') (CHR ''/'')) img"

text \<open>
  Writing \<open>data\<close> to \<open>dest\<close> through \<open>dest.part\<close>.  A failed write or copy removes the partial file,
  a failed rename leaves it.  What a failed write leaves in a temporary file that is not removed is
  shown as an empty file: no operation reads one.
\<close>

definition part_of :: "string \<Rightarrow> string" where
  "part_of dest = dest @ ''.part''"

definition drop_part :: "(syscall \<Rightarrow> bool) \<Rightarrow> string \<Rightarrow> filesys \<Rightarrow> filesys" where
  "drop_part ok tmp fs = (if ok (RemoveFile tmp) then fs(tmp := None) else fs(tmp \<mapsto> File []))"

definition extractFile :: "fetch_env \<Rightarrow> (syscall \<Rightarrow> bool) \<Rightarrow> iso_node \<Rightarrow> string \<Rightarrow> string \<Rightarrow> filesys
    \<Rightarrow> (cache_error + int \<times> string) \<times> filesys" where
  "extractFile env ok img isoPath dest fs =
     (case findISO img isoPath of Inl e \<Rightarrow> (Inl e, fs)
      | Inr f \<Rightarrow>
          let tmp = part_of dest; data = iso_data f
          in if \<not> ok (Create tmp) then (Inl (SyscallFailed tmp), fs)
             else if \<not> ok (WriteTo tmp) then (Inl (SyscallFailed tmp), drop_part ok tmp fs)
             else if \<not> ok (CloseFile tmp) then (Inl (SyscallFailed tmp), drop_part ok tmp fs)
             else if \<not> ok (RenameTo dest) then (Inl (SyscallFailed dest), fs(tmp \<mapsto> File data))
             else let fs' = (fs(tmp := None))(dest \<mapsto> File data)
                  in if \<not> ok (ReadBack dest) then (Inl (SyscallFailed dest), fs')
                     else (Inr (int (length data), EncodeToString (file_sha256 env data)), fs'))"

definition downloadFile :: "fetch_env \<Rightarrow> (syscall \<Rightarrow> bool) \<Rightarrow> string \<Rightarrow> string \<Rightarrow> filesys
    \<Rightarrow> cache_error option \<times> filesys" where
  "downloadFile env ok url dest fs =
     (case http_get env url of None \<Rightarrow> (Some BodyFailed, fs)
      | Some resp \<Rightarrow>
          if hr_Status resp \<noteq> 200 then (Some (HTTPStatus (hr_Status resp)), fs)
          else let tmp = part_of dest; data = concat (hr_Chunks resp)
          in if \<not> ok (Create tmp) then (Some (SyscallFailed tmp), fs)
             else if \<not> ok (WriteTo tmp) then (Some (SyscallFailed tmp), drop_part ok tmp fs)
             else if hr_Failed resp then (Some BodyFailed, drop_part ok tmp fs)
             else if \<not> ok (CloseFile tmp) then (Some (SyscallFailed tmp), fs(tmp \<mapsto> File data))
             else if \<not> ok (RenameTo dest) then (Some (SyscallFailed dest), fs(tmp \<mapsto> File data))
             else (None, (fs(tmp := None))(dest \<mapsto> File data)))"

text \<open>The extraction loop over the sorted destinations, with the manifest entries so far.\<close>

fun extract_all :: "fetch_env \<Rightarrow> (syscall \<Rightarrow> bool) \<Rightarrow> TargetSpec \<Rightarrow> iso_node \<Rightarrow> string \<Rightarrow> string list
    \<Rightarrow> Asset gomap \<Rightarrow> filesys \<Rightarrow> (cache_error + Asset gomap) \<times> filesys" where
  "extract_all env ok spec img tdir [] files fs = (Inr files, fs)"
| "extract_all env ok spec img tdir (name # names) files fs =
     (let dest = PathJoin [tdir, name];
          isoInternalPath = (case mget (ts_ISOPath spec) name of None \<Rightarrow> [] | Some p \<Rightarrow> p)
      in if \<not> ok (Mkdir (Dir dest)) then (Inl (SyscallFailed (Dir dest)), fs)
         else case extractFile env ok img isoInternalPath dest fs of
           (Inl e, fs') \<Rightarrow> (Inl e, fs')
         | (Inr (n, digest), fs') \<Rightarrow>
             extract_all env ok spec img tdir names (mput name \<lparr>as_Size = n, as_SHA256 = digest\<rparr> files) fs')"

definition fetch_spec :: "fetch_env \<Rightarrow> (syscall \<Rightarrow> bool) \<Rightarrow> TargetSpec \<Rightarrow> string \<Rightarrow> string \<Rightarrow> filesys
    \<Rightarrow> (cache_error + Manifest) \<times> filesys" where
  "fetch_spec env ok spec root targetName fs =
     (case TargetDir ok root targetName of Inl e \<Rightarrow> (Inl e, fs)
      | Inr tdir \<Rightarrow>
          let isop = PathJoin [tdir, ''_download.iso'']
          in case downloadFile env ok (ts_ISOURL spec) isop fs of
               (Some e, fs1) \<Rightarrow> (Inl e, if ok (RemoveFile isop) then fs1(isop := None) else fs1)
             | (None, fs1) \<Rightarrow>
          if \<not> ok (OpenFile isop) then (Inl (SyscallFailed isop), fs1)
          else case open_image env (case ReadFile fs1 isop of None \<Rightarrow> [] | Some b \<Rightarrow> b) of
            None \<Rightarrow> (Inl BadISO, fs1)
          | Some img \<Rightarrow>
          case extract_all env ok spec img tdir (Dests spec) [] fs1 of
            (Inl e, fs2) \<Rightarrow> (Inl e, fs2)
          | (Inr files, fs2) \<Rightarrow>
              let fs3 = (if ok (RemoveFile isop) then fs2(isop := None) else fs2);
                  m = \<lparr>mf_Target = targetName, mf_Source = ts_ISOURL spec, mf_FetchedAt = fetch_now env,
                       mf_Files = files\<rparr>
              in case WriteManifest env ok root targetName m fs3 of
                   (Some e, fs4) \<Rightarrow> (Inl e, fs4)
                 | (None, fs4) \<Rightarrow> (Inr m, fs4))"

definition Fetch :: "fetch_env \<Rightarrow> (syscall \<Rightarrow> bool) \<Rightarrow> bool \<Rightarrow> string \<Rightarrow> string \<Rightarrow> filesys
    \<Rightarrow> (cache_error + Manifest) \<times> filesys" where
  "Fetch env ok force root targetName fs =
     (case mget Targets targetName of None \<Rightarrow> (Inl (UnknownTarget targetName), fs)
      | Some spec \<Rightarrow>
          if force then fetch_spec env ok spec root targetName fs
          else case IsPopulated env fs root targetName of
                 Some m \<Rightarrow> (Inr m, fs)
               | None \<Rightarrow> fetch_spec env ok spec root targetName fs)"

section \<open>Where the files are\<close>

lemma safe_char_plain: "safe_char c \<Longrightarrow> c \<noteq> CHR ''/''"
  by (rule notI) (simp add: safe_char_def less_eq_char_def)

lemma safeTargetName_plain: "safeTargetName s \<Longrightarrow> plain_elem s"
proof -
  assume "safeTargetName s"
  then have s: "s \<noteq> []" "\<not> HasPrefix s ''.''" "\<forall>c \<in> set s. safe_char c"
    by (simp_all add: safeTargetName_def list_all_iff split: if_splits)
  have "CHR ''/'' \<notin> set s" using s(3) safe_char_plain by blast
  moreover have "s \<noteq> ''.''" "s \<noteq> ''..''" using s(2) by auto
  ultimately show ?thesis using s(1) unfolding plain_elem_def by blast
qed

lemma safeAssetPath_plain: "safeAssetPath s \<Longrightarrow> list_all plain_elem (Split s (CHR ''/''))"
  by (auto simp: safeAssetPath_def list_all_iff dest: safeTargetName_plain split: if_splits)

lemma PathJoin_under:
  assumes "list_all plain_elem bs" "list_all plain_elem (Split q (CHR ''/''))"
  shows "PathJoin [abs_of bs, q] = abs_of (bs @ Split q (CHR ''/''))"
  using PathJoin_abs_rel [OF assms(1,2)] by simp

lemma PathJoin3: "PathJoin [abs_of bs, a, b] = PathJoin [abs_of bs, a @ ''/'' @ b]"
  by (simp add: PathJoin_def)

lemma Join_append: "xs \<noteq> [] \<Longrightarrow> ys \<noteq> [] \<Longrightarrow> Join (xs @ ys) sep = Join xs sep @ sep @ Join ys sep"
proof (induction xs rule: induct_list012)
  case (2 f)
  then obtain y ys' where "ys = y # ys'" by (cases ys) auto
  then show ?case by simp
next
  case (3 f g xs)
  then show ?case by simp
qed simp

lemma abs_of_append: "bs \<noteq> [] \<Longrightarrow> cs \<noteq> [] \<Longrightarrow> abs_of (bs @ cs) = abs_of bs @ ''/'' @ Join cs ''/''"
  by (simp add: abs_of_def Join_append)

text \<open>A target directory below a clean absolute root, and what joining a relative name to it gives.\<close>

lemma target_dir:
  assumes "abs_clean root" "safeTargetName target"
  obtains bs where "list_all plain_elem bs" "bs \<noteq> []" "PathJoin [root, target] = abs_of bs"
    "bs = path_elems root @ [target]"
proof -
  from assms(1) obtain rs where rs: "list_all plain_elem rs" "root = abs_of rs" by (rule abs_cleanE)
  have t: "plain_elem target" "CHR ''/'' \<notin> set target"
    using safeTargetName_plain [OF assms(2)] by (auto simp: plain_elem_def)
  have one: "Split target (CHR ''/'') = [target]" using t(2) by (rule Split_plain)
  have "PathJoin [root, target] = abs_of (rs @ [target])"
    using PathJoin_under [OF rs(1), of target] t(1) unfolding rs(2) one by simp
  moreover have "path_elems root = rs" unfolding rs(2) using rs(1) by (rule path_elems_abs_of)
  moreover have "list_all plain_elem (rs @ [target])" using rs(1) t(1) by simp
  ultimately show thesis by (intro that [of "rs @ [target]"]) blast+
qed

lemma join_name:
  assumes "list_all plain_elem bs" "bs \<noteq> []" "list_all plain_elem (Split name (CHR ''/''))"
  shows "PathJoin [abs_of bs, name] = abs_of bs @ ''/'' @ name"
  using PathJoin_under [OF assms(1,3)] assms(2) by (simp add: abs_of_append)

lemma AssetPath_Inr:
  assumes "abs_clean root" "AssetPath root target file = Inr p"
  shows "p = abs_of (path_elems root @ target # Split file (CHR ''/''))
     \<and> list_all plain_elem (target # Split file (CHR ''/''))"
proof -
  from assms(2) have safe: "safeTargetName target" "safeAssetPath file" "p = PathJoin [root, target, file]"
    by (auto simp: AssetPath_def split: if_splits)
  from assms(1) obtain rs where rs: "list_all plain_elem rs" "root = abs_of rs" by (rule abs_cleanE)
  have t: "plain_elem target" "CHR ''/'' \<notin> set target"
    using safeTargetName_plain [OF safe(1)] by (auto simp: plain_elem_def)
  then have "Split (target @ ''/'' @ file) (CHR ''/'') = target # Split file (CHR ''/'')"
    by (simp add: Split_append_sep)
  with t(1) safeAssetPath_plain [OF safe(2)] rs safe(3) PathJoin_under [OF rs(1), of "target @ ''/'' @ file"]
  show ?thesis by (simp add: PathJoin3 del: append_Cons append.simps)
qed

section \<open>What fetching writes\<close>

text \<open>The bytes an image has for a destination of a target.\<close>

definition iso_bytes :: "TargetSpec \<Rightarrow> iso_node \<Rightarrow> string \<Rightarrow> string \<Rightarrow> bool" where
  "iso_bytes spec img name b \<longleftrightarrow>
     (\<exists>f. findISO img (case mget (ts_ISOPath spec) name of None \<Rightarrow> [] | Some p \<Rightarrow> p) = Inr f \<and> b = iso_data f)"

lemma extractFile_writes:
  assumes "extractFile env ok img isoPath dest fs = (r, fs')" "q \<noteq> part_of dest"
  shows "fs' q = fs q \<or> q = dest \<and> (\<exists>f. findISO img isoPath = Inr f \<and> fs' q = Some (File (iso_data f)))"
  using assms by (auto simp: extractFile_def drop_part_def Let_def split: sum.splits if_splits)

lemma extractFile_success:
  assumes "extractFile env ok img isoPath dest fs = (Inr (n, digest), fs')"
  shows "\<exists>f. findISO img isoPath = Inr f \<and> fs' dest = Some (File (iso_data f))
     \<and> n = int (length (iso_data f)) \<and> digest = EncodeToString (file_sha256 env (iso_data f))"
  using assms by (auto simp: extractFile_def drop_part_def Let_def split: sum.splits if_splits)

lemma extract_all_writes:
  assumes "extract_all env ok spec img tdir names files fs = (r, fs')"
    "\<forall>name \<in> set names. q \<noteq> part_of (PathJoin [tdir, name])"
  shows "fs' q = fs q \<or> (\<exists>name \<in> set names. q = PathJoin [tdir, name]
     \<and> (\<exists>b. iso_bytes spec img name b \<and> fs' q = Some (File b)))"
  using assms
proof (induction names arbitrary: files fs)
  case (Cons name names)
  let ?dest = "PathJoin [tdir, name]"
  let ?path = "case mget (ts_ISOPath spec) name of None \<Rightarrow> [] | Some p \<Rightarrow> p"
  obtain r1 fs1 where x: "extractFile env ok img ?path ?dest fs = (r1, fs1)" by fastforce
  have one: "fs1 q = fs q \<or> q = ?dest \<and> (\<exists>b. iso_bytes spec img name b \<and> fs1 q = Some (File b))"
    using extractFile_writes [OF x, of q] Cons.prems(2) unfolding iso_bytes_def by auto
  show ?case
  proof (cases "ok (Mkdir (Dir ?dest)) \<and> is_ok r1")
    case False
    with Cons.prems(1) x one show ?thesis
      by (cases r1) (auto simp: Let_def is_ok_iff split: if_splits)
  next
    case True
    then obtain n digest where r1: "r1 = Inr (n, digest)" by (cases r1) auto
    with Cons.prems(1) x True have "extract_all env ok spec img tdir names
        (mput name \<lparr>as_Size = n, as_SHA256 = digest\<rparr> files) fs1 = (r, fs')"
      by (simp add: Let_def)
    from Cons.IH [OF this] Cons.prems(2) one show ?thesis by auto
  qed
qed simp

lemma extract_all_success:
  assumes "extract_all env ok spec img tdir names files fs = (Inr files', fs')" "distinct names"
    "inj_on (\<lambda>name. PathJoin [tdir, name]) (set names)"
    "\<forall>a \<in> set names. \<forall>b \<in> set names. PathJoin [tdir, a] \<noteq> part_of (PathJoin [tdir, b])"
  shows "(\<forall>name \<in> set names. \<exists>b. iso_bytes spec img name b \<and> fs' (PathJoin [tdir, name]) = Some (File b)
       \<and> mget files' name = Some \<lparr>as_Size = int (length b), as_SHA256 = EncodeToString (file_sha256 env b)\<rparr>)
     \<and> (\<forall>k. k \<notin> set names \<longrightarrow> mget files' k = mget files k)"
  using assms
proof (induction names arbitrary: files fs)
  case (Cons name names)
  let ?dest = "PathJoin [tdir, name]"
  let ?path = "case mget (ts_ISOPath spec) name of None \<Rightarrow> [] | Some p \<Rightarrow> p"
  from Cons.prems(1) obtain n digest fs1 where x: "extractFile env ok img ?path ?dest fs = (Inr (n, digest), fs1)"
    and rest: "extract_all env ok spec img tdir names (mput name \<lparr>as_Size = n, as_SHA256 = digest\<rparr> files) fs1
        = (Inr files', fs')"
    by (auto simp: Let_def split: if_splits sum.splits prod.splits)
  from extractFile_success [OF x] obtain b where b: "iso_bytes spec img name b" "fs1 ?dest = Some (File b)"
    "n = int (length b)" "digest = EncodeToString (file_sha256 env b)"
    by (auto simp: iso_bytes_def)
  have IH: "(\<forall>name \<in> set names. \<exists>b. iso_bytes spec img name b \<and> fs' (PathJoin [tdir, name]) = Some (File b)
       \<and> mget files' name = Some \<lparr>as_Size = int (length b), as_SHA256 = EncodeToString (file_sha256 env b)\<rparr>)
     \<and> (\<forall>k. k \<notin> set names \<longrightarrow> mget files' k = mget (mput name \<lparr>as_Size = n, as_SHA256 = digest\<rparr> files) k)"
    using Cons.prems by (intro Cons.IH [OF rest]) (auto simp: inj_on_def)
  have "fs' ?dest = fs1 ?dest"
    using extract_all_writes [OF rest, of ?dest] Cons.prems(2-4) by (force simp: inj_on_def)
  moreover have "mget files' name = Some \<lparr>as_Size = n, as_SHA256 = digest\<rparr>"
    using IH Cons.prems(2) by (simp add: mget_mput)
  ultimately have "\<exists>b. iso_bytes spec img name b \<and> fs' ?dest = Some (File b)
       \<and> mget files' name = Some \<lparr>as_Size = int (length b), as_SHA256 = EncodeToString (file_sha256 env b)\<rparr>"
    using b by auto
  with IH show ?case by (auto simp: mget_mput)
qed simp

text \<open>What the registry of targets promises about its destination names.\<close>

definition dest_name :: "string \<Rightarrow> bool" where
  "dest_name name \<longleftrightarrow> safeAssetPath name \<and> \<not> HasSuffix name ''.part'' \<and> name \<noteq> ''_download.iso''
     \<and> name \<noteq> ''.pxe-beacon-fetched'' \<and> name \<noteq> ''.pxe-beacon-fetched.tmp''"

lemma Targets_names: "mget Targets target = Some spec
    \<Longrightarrow> safeTargetName target \<and> distinct (Dests spec) \<and> list_all dest_name (Dests spec)"
proof -
  have "list_all (\<lambda>(k, s). safeTargetName k \<and> distinct (Dests s) \<and> list_all dest_name (Dests s)) Targets"
    by code_simp
  then show "mget Targets target = Some spec \<Longrightarrow> ?thesis"
    by (fastforce simp: list_all_iff dest: map_of_SomeD)
qed

lemma same_dest:
  assumes "dest_name n" "x = d @ ''/'' @ n"
  shows "x \<noteq> d @ ''/_download.iso''" "x \<noteq> d @ ''/_download.iso.part''"
    "x \<noteq> d @ ''/.pxe-beacon-fetched''" "x \<noteq> d @ ''/.pxe-beacon-fetched.tmp''" "x \<noteq> part_of (d @ ''/'' @ n')"
proof -
  have no: "\<not> HasSuffix n ''.part''" using assms(1) by (simp add: dest_name_def)
  then have "n \<noteq> n' @ ''.part''" "n \<noteq> ''_download.iso'' @ ''.part''"
    by (auto simp: HasSuffix_def HasPrefix_def)
  then show "x \<noteq> d @ ''/_download.iso''" "x \<noteq> d @ ''/_download.iso.part''"
    "x \<noteq> d @ ''/.pxe-beacon-fetched''" "x \<noteq> d @ ''/.pxe-beacon-fetched.tmp''" "x \<noteq> part_of (d @ ''/'' @ n')"
    using assms by (simp_all add: dest_name_def part_of_def)
qed

lemma downloadFile_writes:
  assumes "downloadFile env ok url dest fs = (r, fs')" "q \<noteq> dest" "q \<noteq> part_of dest"
  shows "fs' q = fs q"
  using assms by (auto simp: downloadFile_def drop_part_def Let_def split: option.splits if_splits)

lemma downloadFile_success:
  assumes "downloadFile env ok url dest fs = (None, fs')"
  shows "\<exists>resp. http_get env url = Some resp \<and> hr_Status resp = 200 \<and> \<not> hr_Failed resp
    \<and> fs' dest = Some (File (concat (hr_Chunks resp)))"
  using assms by (auto simp: downloadFile_def Let_def split: option.splits if_splits)

lemma WriteManifest_writes:
  assumes "WriteManifest env ok root target m fs = (r, fs')"
    "q \<noteq> PathJoin [PathJoin [root, target], ''.pxe-beacon-fetched.tmp'']"
    "q \<noteq> PathJoin [PathJoin [root, target], ''.pxe-beacon-fetched'']"
  shows "fs' q = fs q"
  using assms
  by (auto simp: WriteManifest_def TargetDir_def Let_def split: option.splits sum.splits if_splits)

lemma WriteManifest_success:
  assumes "WriteManifest env ok root target m fs = (None, fs')"
  shows "\<exists>data. json_manifest env m = Some data
    \<and> fs' (PathJoin [PathJoin [root, target], ''.pxe-beacon-fetched'']) = Some (File data)"
  using assms
  by (auto simp: WriteManifest_def TargetDir_def Let_def split: option.splits sum.splits if_splits)

text \<open>The paths of one target's files.\<close>

lemma target_files:
  assumes "abs_clean root" "mget Targets target = Some spec"
  obtains d where "\<forall>n. safeAssetPath n \<longrightarrow> PathJoin [PathJoin [root, target], n] = d @ ''/'' @ n"
    "PathJoin [PathJoin [root, target], ''_download.iso''] = d @ ''/_download.iso''"
    "PathJoin [PathJoin [root, target], ''.pxe-beacon-fetched''] = d @ ''/.pxe-beacon-fetched''"
    "PathJoin [PathJoin [root, target], ''.pxe-beacon-fetched.tmp''] = d @ ''/.pxe-beacon-fetched.tmp''"
proof -
  have "safeTargetName target" using Targets_names [OF assms(2)] by blast
  with assms(1) obtain bs where bs: "list_all plain_elem bs" "bs \<noteq> []" "PathJoin [root, target] = abs_of bs"
    by (rule target_dir)
  have j: "PathJoin [PathJoin [root, target], n] = abs_of bs @ ''/'' @ n"
    if "list_all plain_elem (Split n (CHR ''/''))" for n
    unfolding bs(3) using bs(1,2) that by (rule join_name)
  have "list_all plain_elem (Split ''_download.iso'' (CHR ''/''))"
    "list_all plain_elem (Split ''.pxe-beacon-fetched'' (CHR ''/''))"
    "list_all plain_elem (Split ''.pxe-beacon-fetched.tmp'' (CHR ''/''))"
    by (simp_all add: plain_elem_def)
  note j [OF this(1)] j [OF this(2)] j [OF this(3)]
  then show thesis by (intro that [of "abs_of bs"]) (simp_all add: j safeAssetPath_plain)
qed

text \<open>
  The body the upstream answers with is whole, and the image that body is.
\<close>

definition fetched_image :: "fetch_env \<Rightarrow> TargetSpec \<Rightarrow> iso_node option" where
  "fetched_image env spec =
     (case http_get env (ts_ISOURL spec) of None \<Rightarrow> None
      | Some resp \<Rightarrow>
          if hr_Status resp = 200 \<and> \<not> hr_Failed resp then open_image env (concat (hr_Chunks resp)) else None)"

lemma fetch_spec_extracts:
  assumes "fetch_spec env ok spec root target fs = (r, fs')" "tdir = PathJoin [root, target]"
    "isop = PathJoin [tdir, ''_download.iso'']"
    "q \<noteq> isop" "q \<noteq> part_of isop" "q \<noteq> PathJoin [tdir, ''.pxe-beacon-fetched.tmp'']"
    "q \<noteq> PathJoin [tdir, ''.pxe-beacon-fetched'']"
  shows "fs' q = fs q \<and> \<not> is_ok r \<or> (\<exists>img fs1 r2 fs2. fetched_image env spec = Some img \<and> fs1 q = fs q
    \<and> extract_all env ok spec img tdir (Dests spec) [] fs1 = (r2, fs2) \<and> fs' q = fs2 q
    \<and> (\<forall>m. r = Inr m \<longrightarrow> r2 = Inr (mf_Files m)))"
proof (cases "TargetDir ok root target")
  case (Inl e)
  with assms(1) show ?thesis by (auto simp: fetch_spec_def)
next
  case (Inr td)
  then have td: "TargetDir ok root target = Inr tdir"
    using assms(2) by (simp add: TargetDir_def Let_def split: if_splits)
  obtain e fs1 where dl: "downloadFile env ok (ts_ISOURL spec) isop fs = (e, fs1)" by fastforce
  have same: "fs1 q = fs q" using dl assms(4,5) by (rule downloadFile_writes)
  note run = assms(1) [unfolded fetch_spec_def td sum.case Let_def assms(3) [symmetric] dl prod.case]
  show ?thesis
  proof (cases "e = None \<and> ok (OpenFile isop)")
    case False
    with run same assms(4) show ?thesis by (auto split: option.splits if_splits)
  next
    case True
    then obtain resp where resp: "http_get env (ts_ISOURL spec) = Some resp" "hr_Status resp = 200"
      "\<not> hr_Failed resp" "fs1 isop = Some (File (concat (hr_Chunks resp)))"
      using downloadFile_success dl by blast
    then have img: "fetched_image env spec = open_image env (case ReadFile fs1 isop of None \<Rightarrow> [] | Some b \<Rightarrow> b)"
      by (simp add: fetched_image_def ReadFile_def)
    note run = run [unfolded img [symmetric]]
    show ?thesis
    proof (cases "fetched_image env spec")
      case None
      with run True same show ?thesis by auto
    next
      case (Some img)
      obtain r2 fs2 where ex: "extract_all env ok spec img tdir (Dests spec) [] fs1 = (r2, fs2)" by fastforce
      have "fs' q = fs2 q \<and> (\<forall>m. r = Inr m \<longrightarrow> r2 = Inr (mf_Files m))"
      proof (cases r2)
        case (Inl err)
        with run True Some ex show ?thesis by auto
      next
        case (Inr files)
        define fs3 where "fs3 = (if ok (RemoveFile isop) then fs2(isop := None) else fs2)"
        let ?m = "\<lparr>mf_Target = target, mf_Source = ts_ISOURL spec, mf_FetchedAt = fetch_now env, mf_Files = files\<rparr>"
        obtain w fs4 where w: "WriteManifest env ok root target ?m fs3 = (w, fs4)" by fastforce
        have "fs4 q = fs3 q" using WriteManifest_writes [OF w] assms(2,6,7) by blast
        then have "fs4 q = fs2 q" using assms(4) by (simp add: fs3_def)
        with run True Some ex Inr w show ?thesis by (cases w) (auto simp: fs3_def)
      qed
      with Some same ex show ?thesis by blast
    qed
  qed
qed

lemma fetch_spec_manifest:
  assumes "fetch_spec env ok spec root target fs = (Inr m, fs')"
  shows "\<exists>data. json_manifest env m = Some data
    \<and> fs' (PathJoin [PathJoin [root, target], ''.pxe-beacon-fetched'']) = Some (File data)"
proof -
  from assms obtain fs3 where "WriteManifest env ok root target m fs3 = (None, fs')"
    by (auto simp: fetch_spec_def Let_def split: sum.splits option.splits prod.splits if_splits)
  then show ?thesis by (rule WriteManifest_success)
qed

lemma fetch_spec_dest:
  assumes "abs_clean root" "mget Targets target = Some spec" "name \<in> set (Dests spec)"
    "fetch_spec env ok spec root target fs = (r, fs')" "p = PathJoin [PathJoin [root, target], name]"
  shows "(fs' p = fs p \<and> \<not> is_ok r \<or> (\<exists>img fs1 r2 fs2. fetched_image env spec = Some img \<and> fs1 p = fs p
    \<and> extract_all env ok spec img (PathJoin [root, target]) (Dests spec) [] fs1 = (r2, fs2) \<and> fs' p = fs2 p
    \<and> (\<forall>m. r = Inr m \<longrightarrow> r2 = Inr (mf_Files m))))
    \<and> (\<forall>n \<in> set (Dests spec). p \<noteq> part_of (PathJoin [PathJoin [root, target], n]))
    \<and> inj_on (\<lambda>n. PathJoin [PathJoin [root, target], n]) (set (Dests spec))"
proof -
  obtain d where d: "\<forall>n. safeAssetPath n \<longrightarrow> PathJoin [PathJoin [root, target], n] = d @ ''/'' @ n"
    "PathJoin [PathJoin [root, target], ''_download.iso''] = d @ ''/_download.iso''"
    "PathJoin [PathJoin [root, target], ''.pxe-beacon-fetched''] = d @ ''/.pxe-beacon-fetched''"
    "PathJoin [PathJoin [root, target], ''.pxe-beacon-fetched.tmp''] = d @ ''/.pxe-beacon-fetched.tmp''"
    using assms(1,2) by (rule target_files)
  have names: "dest_name n" "safeAssetPath n" if "n \<in> set (Dests spec)" for n
    using Targets_names [OF assms(2)] that by (auto simp: list_all_iff dest_name_def)
  have p: "p = d @ ''/'' @ name" using d(1) names assms(3,5) by blast
  have other: "p \<noteq> d @ ''/_download.iso''" "p \<noteq> d @ ''/_download.iso.part''" "p \<noteq> d @ ''/.pxe-beacon-fetched''"
    "p \<noteq> d @ ''/.pxe-beacon-fetched.tmp''" "\<And>n. p \<noteq> part_of (d @ ''/'' @ n)"
    by (rule same_dest [OF names(1) [OF assms(3)] p])+
  have "fs' p = fs p \<and> \<not> is_ok r \<or> (\<exists>img fs1 r2 fs2. fetched_image env spec = Some img \<and> fs1 p = fs p
    \<and> extract_all env ok spec img (PathJoin [root, target]) (Dests spec) [] fs1 = (r2, fs2) \<and> fs' p = fs2 p
    \<and> (\<forall>m. r = Inr m \<longrightarrow> r2 = Inr (mf_Files m)))"
    by (rule fetch_spec_extracts [OF assms(4) refl refl]) (use other in \<open>simp_all add: d(2-4) part_of_def\<close>)
  moreover have "inj_on (\<lambda>n. PathJoin [PathJoin [root, target], n]) (set (Dests spec))"
    by (rule inj_onI) (simp add: d(1) names(2))
  moreover have "\<forall>n \<in> set (Dests spec). p \<noteq> part_of (PathJoin [PathJoin [root, target], n])"
    using other(5) by (simp add: d(1) names(2))
  ultimately show ?thesis by (intro conjI)
qed

section \<open>The properties\<close>

text \<open>C38: a path handed out under \<^verbatim>\<open>/assets/\<close> lies in the directory of its target: its
  elements are those of the data directory, the target and the segments of the request, none of
  which is empty, \<^verbatim>\<open>.\<close> or \<^verbatim>\<open>..\<close>.\<close>

theorem AssetPath_stays_inside:
  assumes "abs_clean root" "AssetPath root target file = Inr p"
  shows "path_elems p = path_elems root @ target # Split file (CHR ''/'')
    \<and> list_all plain_elem (path_elems p)"
proof -
  from assms(1) obtain rs where rs: "list_all plain_elem rs" "root = abs_of rs" by (rule abs_cleanE)
  then have "list_all plain_elem (path_elems root)" by simp
  with AssetPath_Inr [OF assms] show ?thesis by simp
qed

theorem AssetPath_stays_inside_witness:
  "path_elems ''/srv/data/systemrescue/a/b.img'' = path_elems ''/srv/data'' @ [''systemrescue'', ''a'', ''b.img'']"
  using AssetPath_stays_inside [of "''/srv/data''" "''systemrescue''" "''a/b.img''"] by code_simp

text \<open>C39: fetching never leaves a half-written asset: whatever system call fails, and however the
  download breaks off, the file of each destination is what it was or holds all the bytes of that
  destination in the image that was downloaded whole.\<close>

theorem Fetch_never_tears:
  assumes "abs_clean root" "mget Targets target = Some spec" "name \<in> set (Dests spec)"
    "Fetch env ok force root target fs = (r, fs')" "p = PathJoin [PathJoin [root, target], name]"
  shows "fs' p = fs p \<or> (\<exists>img b. fetched_image env spec = Some img \<and> iso_bytes spec img name b
    \<and> fs' p = Some (File b))"
proof (cases "fetch_spec env ok spec root target fs = (r, fs')")
  case False
  with assms(2,4) show ?thesis by (auto simp: Fetch_def split: option.splits if_splits)
next
  case True
  from fetch_spec_dest [OF assms(1-3) True assms(5)] show ?thesis
  proof (elim disjE exE conjE)
    fix img fs1 r2 fs2
    assume a: "fetched_image env spec = Some img" "fs1 p = fs p" "fs' p = fs2 p"
      "extract_all env ok spec img (PathJoin [root, target]) (Dests spec) [] fs1 = (r2, fs2)"
      "\<forall>n \<in> set (Dests spec). p \<noteq> part_of (PathJoin [PathJoin [root, target], n])"
      "inj_on (\<lambda>n. PathJoin [PathJoin [root, target], n]) (set (Dests spec))"
    from extract_all_writes [OF a(4,5)] show ?thesis
      using a(1-3,6) assms(3,5) by (auto simp: inj_on_def)
  qed simp
qed

text \<open>An upstream, an image and a manifest encoding to try the operations on.\<close>

definition example_image :: iso_node where
  "example_image = IsoNode [] (Some [IsoNode ''CASPER'' (Some
     [IsoNode ''VMLINUZ.;1'' None ''other'', IsoNode ''VMLINUZ;1'' None ''kernel'',
      IsoNode ''INITRD;1'' None ''ramdisk'', IsoNode ''ubuntu-server-minimal.squashfs'' None ''root'']) []]) []"

definition example_manifest :: Manifest where
  "example_manifest = \<lparr>mf_Target = ''ubuntu-24.04'',
     mf_Source = ''https://releases.ubuntu.com/24.04/ubuntu-24.04.4-live-server-amd64.iso'', mf_FetchedAt = 7,
     mf_Files = [(''filesystem.squashfs'', \<lparr>as_Size = 4, as_SHA256 = ''00''\<rparr>),
       (''initrd'', \<lparr>as_Size = 7, as_SHA256 = ''00''\<rparr>), (''vmlinuz'', \<lparr>as_Size = 6, as_SHA256 = ''00''\<rparr>)]\<rparr>"

definition example_fetch :: fetch_env where
  "example_fetch = \<lparr>json_manifest = (\<lambda>_. Some ''manifest''), parse_manifest = (\<lambda>_. Some example_manifest),
     open_image = (\<lambda>b. if b = ''iso bytes'' then Some example_image else None),
     file_sha256 = (\<lambda>_. [CHR 0x00]),
     http_get = (\<lambda>_. Some \<lparr>hr_Status = 200, hr_Chunks = [''iso '', ''bytes''], hr_Failed = False\<rparr>),
     fetch_now = 7\<rparr>"

theorem Fetch_never_tears_witness:
  "let p = ''/srv/ubuntu-24.04/initrd'';
       fs' = snd (Fetch example_fetch (\<lambda>c. c \<noteq> CloseFile ''/srv/ubuntu-24.04/initrd.part'') True ''/srv''
         ''ubuntu-24.04'' (Map.empty(p \<mapsto> File ''old'')))
   in (fs' p = Some (File ''old'') \<or> (\<exists>img b. fetched_image example_fetch (the (mget Targets ''ubuntu-24.04'')) = Some img
        \<and> iso_bytes (the (mget Targets ''ubuntu-24.04'')) img ''initrd'' b \<and> fs' p = Some (File b)))
     \<and> fs' ''/srv/ubuntu-24.04/filesystem.squashfs'' = Some (File ''root'')"
proof -
  let ?p = "''/srv/ubuntu-24.04/initrd''"
  let ?fs = "Map.empty(?p \<mapsto> File ''old'')"
  let ?ok = "\<lambda>c. c \<noteq> CloseFile ''/srv/ubuntu-24.04/initrd.part''"
  let ?run = "Fetch example_fetch ?ok True ''/srv'' ''ubuntu-24.04'' ?fs"
  have a: "abs_clean ''/srv''" "mget Targets ''ubuntu-24.04'' = Some (the (mget Targets ''ubuntu-24.04''))"
    "''initrd'' \<in> set (Dests (the (mget Targets ''ubuntu-24.04'')))"
    "?p = PathJoin [PathJoin [''/srv'', ''ubuntu-24.04''], ''initrd'']"
    by code_simp+
  have "snd ?run ''/srv/ubuntu-24.04/filesystem.squashfs'' = Some (File ''root'')" by code_simp
  moreover note Fetch_never_tears [OF a(1-3) surjective_pairing a(4), of example_fetch ?ok True ?fs,
      unfolded fun_upd_same]
  ultimately show ?thesis unfolding Let_def by (intro conjI)
qed

text \<open>a successful forced fetch leaves the target populated: the manifest it returns is the one
  on disk, every destination holds the bytes of the image with the size and the digest the manifest
  records, and a later fetch is a no-op that returns this manifest.\<close>

theorem Fetch_then_populated:
  assumes "abs_clean root" "mget Targets target = Some spec"
    "Fetch env ok True root target fs = (Inr m, fs')"
    "\<And>data. json_manifest env m = Some data \<Longrightarrow> parse_manifest env data = Some m"
    "\<And>img name b. fetched_image env spec = Some img \<Longrightarrow> name \<in> set (Dests spec)
       \<Longrightarrow> iso_bytes spec img name b \<Longrightarrow> b \<noteq> []"
  shows "IsPopulated env fs' root target = Some m \<and> Fetch env ok' False root target fs' = (Inr m, fs')
    \<and> (\<forall>name \<in> set (Dests spec). \<exists>b. fs' (PathJoin [PathJoin [root, target], name]) = Some (File b)
        \<and> mget (mf_Files m) name
          = Some \<lparr>as_Size = int (length b), as_SHA256 = EncodeToString (file_sha256 env b)\<rparr>)"
proof -
  let ?td = "PathJoin [root, target]"
  have run: "fetch_spec env ok spec root target fs = (Inr m, fs')" using assms(2,3) by (simp add: Fetch_def)
  have each: "\<exists>b. b \<noteq> [] \<and> fs' (PathJoin [?td, name]) = Some (File b) \<and> mget (mf_Files m) name
      = Some \<lparr>as_Size = int (length b), as_SHA256 = EncodeToString (file_sha256 env b)\<rparr>"
    if n: "name \<in> set (Dests spec)" for name
  proof -
    let ?p = "PathJoin [?td, name]"
    from fetch_spec_dest [OF assms(1,2) n run refl] obtain img fs1 fs2
      where ex: "fetched_image env spec = Some img" "fs' ?p = fs2 ?p"
        "extract_all env ok spec img ?td (Dests spec) [] fs1 = (Inr (mf_Files m), fs2)"
        "inj_on (\<lambda>n. PathJoin [?td, n]) (set (Dests spec))" by auto
    have "\<forall>a \<in> set (Dests spec). \<forall>b \<in> set (Dests spec). PathJoin [?td, a] \<noteq> part_of (PathJoin [?td, b])"
      by (intro ballI) (use fetch_spec_dest [OF assms(1,2) _ run refl, THEN conjunct2, THEN conjunct1] in blast)
    from extract_all_success [OF ex(3) _ ex(4) this] Targets_names [OF assms(2)] n
    obtain b where "iso_bytes spec img name b" "fs2 ?p = Some (File b)" "mget (mf_Files m) name
      = Some \<lparr>as_Size = int (length b), as_SHA256 = EncodeToString (file_sha256 env b)\<rparr>" by blast
    with ex(1,2) assms(5) n show ?thesis by auto
  qed
  obtain data where "json_manifest env m = Some data"
    "fs' (PathJoin [?td, ''.pxe-beacon-fetched'']) = Some (File data)"
    using fetch_spec_manifest [OF run] by blast
  then have "readManifest env fs' ?td = Some m" using assms(4) by (simp add: readManifest_def ReadFile_def)
  moreover have "list_all (\<lambda>dest. nonempty_file fs' (PathJoin [?td, dest])) (Dests spec)"
    using each by (force simp: list_all_iff nonempty_file_def)
  ultimately have pop: "IsPopulated env fs' root target = Some m"
    using assms(2) by (simp add: IsPopulated_def Let_def)
  then have "Fetch env ok' False root target fs' = (Inr m, fs')" using assms(2) by (simp add: Fetch_def)
  with pop each show ?thesis by blast
qed

end
