(* ===== verification/Fleet_Txn.thy ===== *)
theory Fleet_Txn
  imports Fleet
begin

text \<open>
  Writing the fleet (\<^verbatim>\<open>internal/fleet/writer.go\<close> and \<^verbatim>\<open>txn.go\<close>): serialising to YAML
  through a temporary file, the in-memory edits, the entity tags, and the compare-and-swap
  operations of the REST API.  A write operation works on the pair of the file system and the
  fleet; \<open>save_io\<close> says which system call of the save fails, if one does.
\<close>

section \<open>Serialising\<close>

definition relativize :: "string \<Rightarrow> string \<Rightarrow> string" where
  "relativize base p =
     (if p = [] \<or> base = [] then p
      else case Rel base p of None \<Rightarrow> p
        | Some rel \<Rightarrow> if HasPrefix rel ''..'' then p else ''./'' @ rel)"

definition defaults_entry :: "string \<Rightarrow> Profile \<Rightarrow> defaultsEntry" where
  "defaults_entry base d =
     \<lparr>d_Boot = p_Boot d, d_CloudInit = relativize base (p_CloudInit d),
      d_Preseed = relativize base (p_Preseed d), d_Kickstart = relativize base (p_Kickstart d),
      d_Rescue = relativize base (p_Rescue d), d_IPXEScript = relativize base (p_IPXEScript d),
      d_Params = p_Params d\<rparr>"

definition machine_yaml :: "string \<Rightarrow> string \<times> Profile \<Rightarrow> machineYAML" where
  "machine_yaml base cp =
     (case cp of (c, p) \<Rightarrow>
       \<lparr>y_MAC = c, y_Name = p_Name p, y_Boot = p_Boot p,
        y_CloudInit = relativize base (p_CloudInit p), y_Preseed = relativize base (p_Preseed p),
        y_Kickstart = relativize base (p_Kickstart p), y_Rescue = relativize base (p_Rescue p),
        y_IPXEScript = relativize base (p_IPXEScript p), y_Params = p_Params p\<rparr>)"

definition yaml_less :: "machineYAML \<Rightarrow> machineYAML \<Rightarrow> bool" where
  "yaml_less a b =
     (if y_Name a \<noteq> y_Name b then y_Name a < y_Name b else y_MAC a < y_MAC b)"

definition fleet_config :: "Fleet \<Rightarrow> configFile" where
  "fleet_config f =
     \<lparr>c_Defaults = defaults_entry (f_baseDir f) (f_defaults f),
      c_Machines = slice_stable yaml_less (map (machine_yaml (f_baseDir f)) (f_machines f))\<rparr>"

text \<open>The comment lines in front of the YAML document; the dash of the first is three bytes of UTF-8.\<close>

definition save_header :: string where
  "save_header =
     ''# fleet.yaml '' @ [CHR 0xE2, CHR 0x80, CHR 0x94] @ '' written by pxe-beacon (admin UI).'' @ [CHR 0x0A]
     @ ''# Hand-edits are fine; SIGHUP $(pgrep -x pxe-beacon) to reload.'' @ [CHR 0x0A]
     @ ''# Note: UI saves overwrite comments. Edit by hand to preserve them.'' @ [CHR 0x0A, CHR 0x0A]"

datatype save_fault = CreateTempFails | WriteFails string | CloseFails | RenameFails

text \<open>The temporary file's name, the call that fails, and whether removing the file works.\<close>

record save_io =
  io_tmp :: string
  io_fault :: "save_fault option"
  io_removes :: bool

definition remove_tmp :: "save_io \<Rightarrow> filesys \<Rightarrow> filesys" where
  "remove_tmp io fs = (if io_removes io then fs(io_tmp io := None) else fs)"

definition Save :: "fleet_env \<Rightarrow> save_io \<Rightarrow> filesys \<Rightarrow> Fleet \<Rightarrow> fleet_error option \<times> filesys" where
  "Save env io fs f =
     (if f_path f = [] then (Some NoConfigPath, fs)
      else case yaml_encode env (fleet_config f) of
        None \<Rightarrow> (Some (SaveFailed ''encode fleet''), fs)
      | Some y \<Rightarrow>
          let buf = save_header @ y; tmp = io_tmp io
          in case io_fault io of
               Some CreateTempFails \<Rightarrow> (Some (SaveFailed ''create tmp''), fs)
             | Some (WriteFails part) \<Rightarrow>
                 (Some (SaveFailed ''write tmp''), remove_tmp io (fs(tmp \<mapsto> File part)))
             | Some CloseFails \<Rightarrow>
                 (Some (SaveFailed ''close tmp''), remove_tmp io (fs(tmp \<mapsto> File buf)))
             | Some RenameFails \<Rightarrow>
                 (Some (SaveFailed ''rename tmp''), remove_tmp io (fs(tmp \<mapsto> File buf)))
             | None \<Rightarrow> (None, (fs(tmp := None))(f_path f \<mapsto> File buf)))"

section \<open>Edits in memory\<close>

definition AddOrUpdate :: "filesys \<Rightarrow> Machine \<Rightarrow> Fleet \<Rightarrow> fleet_error option \<times> Fleet" where
  "AddOrUpdate fs m f =
     (case CanonicalMAC (m_MAC m) of Inl e \<Rightarrow> (Some (InvalidMAC e), f)
      | Inr canon \<Rightarrow>
          case validateProfile fs (m_Profile m) of Inl e \<Rightarrow> (Some e, f)
          | Inr _ \<Rightarrow> (None, f\<lparr>f_machines := mput canon (m_Profile m) (f_machines f)\<rparr>))"

definition Remove :: "string \<Rightarrow> Fleet \<Rightarrow> (fleet_error + bool) \<times> Fleet" where
  "Remove mac f =
     (case CanonicalMAC mac of Inl e \<Rightarrow> (Inl (InvalidMAC e), f)
      | Inr canon \<Rightarrow>
          if canon \<notin> mkeys (f_machines f) then (Inr False, f)
          else (Inr True, f\<lparr>f_machines := mdel canon (f_machines f)\<rparr>))"

definition machine_less :: "Machine \<Rightarrow> Machine \<Rightarrow> bool" where
  "machine_less a b =
     (if p_Name (m_Profile a) \<noteq> p_Name (m_Profile b) then p_Name (m_Profile a) < p_Name (m_Profile b)
      else m_MAC a < m_MAC b)"

definition ListMachines :: "Fleet \<Rightarrow> Machine list" where
  "ListMachines f =
     slice_stable machine_less (map (\<lambda>(mac, p). \<lparr>m_MAC = mac, m_Profile = p\<rparr>) (f_machines f))"

section \<open>Entity tags\<close>

definition nul_terminated :: "string \<Rightarrow> string" where
  "nul_terminated s = s @ [CHR 0x00]"

text \<open>The bytes hashed: the listed fields, then the parameters by ascending key.\<close>

definition etag_input :: "string \<Rightarrow> Profile \<Rightarrow> string" where
  "etag_input canon p =
     concat (map nul_terminated
       [canon, p_Boot p, p_Name p, p_CloudInit p, p_Preseed p, p_Kickstart p, p_IPXEScript p])
     @ concat (map (\<lambda>k. nul_terminated k
           @ nul_terminated (case mget (p_Params p) k of None \<Rightarrow> [] | Some v \<Rightarrow> v))
         (sort (map fst (p_Params p))))"

definition profileETag :: "fleet_env \<Rightarrow> string \<Rightarrow> Profile \<Rightarrow> string" where
  "profileETag env canon p =
     ''W/'' @ [CHR 0x22] @ EncodeToString (take 16 (sha256 env (etag_input canon p))) @ [CHR 0x22]"

definition ETag :: "fleet_env \<Rightarrow> Fleet \<Rightarrow> string \<Rightarrow> string \<times> bool" where
  "ETag env f mac =
     (case CanonicalMAC mac of Inl e \<Rightarrow> ([], False)
      | Inr canon \<Rightarrow>
          case mget (f_machines f) canon of None \<Rightarrow> ([], False)
          | Some p \<Rightarrow> (profileETag env canon p, True))"

section \<open>Compare, mutate, persist\<close>

definition CreateAndSave :: "fleet_env \<Rightarrow> save_io \<Rightarrow> Machine \<Rightarrow> filesys \<times> Fleet
    \<Rightarrow> (fleet_error + string) \<times> filesys \<times> Fleet" where
  "CreateAndSave env io m st =
     (case st of (fs, f) \<Rightarrow>
      case CanonicalMAC (m_MAC m) of Inl e \<Rightarrow> (Inl (InvalidMAC e), st)
      | Inr canon \<Rightarrow>
      case validateProfile fs (m_Profile m) of Inl e \<Rightarrow> (Inl e, st)
      | Inr _ \<Rightarrow>
          if canon \<in> mkeys (f_machines f) then (Inl ErrMACExists, st)
          else
            let f1 = f\<lparr>f_machines := mput canon (m_Profile m) (f_machines f)\<rparr>
            in case Save env io fs f1 of
                 (Some e, fs') \<Rightarrow> (Inl e, fs', f1\<lparr>f_machines := mdel canon (f_machines f1)\<rparr>)
               | (None, fs') \<Rightarrow> (Inr (profileETag env canon (m_Profile m)), fs', f1))"

definition UpdateAndSave :: "fleet_env \<Rightarrow> save_io \<Rightarrow> Machine \<Rightarrow> string \<Rightarrow> filesys \<times> Fleet
    \<Rightarrow> (fleet_error + string) \<times> filesys \<times> Fleet" where
  "UpdateAndSave env io m ifMatch st =
     (case st of (fs, f) \<Rightarrow>
      case CanonicalMAC (m_MAC m) of Inl e \<Rightarrow> (Inl (InvalidMAC e), st)
      | Inr canon \<Rightarrow>
      case validateProfile fs (m_Profile m) of Inl e \<Rightarrow> (Inl e, st)
      | Inr _ \<Rightarrow>
          if ifMatch = [] then (Inl ErrPreconditionRequired, st)
          else case mget (f_machines f) canon of
            None \<Rightarrow> (Inl ErrMACAbsent, st)
          | Some prior \<Rightarrow>
              if profileETag env canon prior \<noteq> ifMatch then (Inl ErrPreconditionFailed, st)
              else
                let f1 = f\<lparr>f_machines := mput canon (m_Profile m) (f_machines f)\<rparr>
                in case Save env io fs f1 of
                     (Some e, fs') \<Rightarrow> (Inl e, fs', f1\<lparr>f_machines := mput canon prior (f_machines f1)\<rparr>)
                   | (None, fs') \<Rightarrow> (Inr (profileETag env canon (m_Profile m)), fs', f1))"

text \<open>\<^verbatim>\<open>DeleteAndSave\<close> returns the \<open>existed\<close> flag together with the error.\<close>

definition DeleteAndSave :: "fleet_env \<Rightarrow> save_io \<Rightarrow> string \<Rightarrow> string \<Rightarrow> filesys \<times> Fleet
    \<Rightarrow> (bool \<times> fleet_error option) \<times> filesys \<times> Fleet" where
  "DeleteAndSave env io mac ifMatch st =
     (case st of (fs, f) \<Rightarrow>
      case CanonicalMAC mac of Inl e \<Rightarrow> ((False, Some (InvalidMAC e)), st)
      | Inr canon \<Rightarrow>
          case mget (f_machines f) canon of
            None \<Rightarrow> ((False, None), st)
          | Some prior \<Rightarrow>
              if ifMatch \<noteq> [] \<and> profileETag env canon prior \<noteq> ifMatch
              then ((True, Some ErrPreconditionFailed), st)
              else
                let f1 = f\<lparr>f_machines := mdel canon (f_machines f)\<rparr>
                in case Save env io fs f1 of
                     (Some e, fs') \<Rightarrow>
                       ((True, Some e), fs', f1\<lparr>f_machines := mput canon prior (f_machines f1)\<rparr>)
                   | (None, fs') \<Rightarrow> ((True, None), fs', f1))"

section \<open>Paths survive the round trip\<close>

definition saved_path :: "string \<Rightarrow> bool" where
  "saved_path p \<longleftrightarrow> p = [] \<or> abs_clean p"

lemma resolvePath_saved: "abs_clean base \<Longrightarrow> \<not> IsAbs p \<Longrightarrow> saved_path (resolvePath base p)"
  by (simp add: resolvePath_def saved_path_def abs_clean_PathJoin)

lemma resolve_relativize:
  assumes "abs_clean base" "saved_path p"
  shows "resolvePath base (relativize base p) = p"
proof (cases "p = []")
  case True
  then show ?thesis by (simp add: relativize_def resolvePath_def)
next
  case False
  then have abs: "IsAbs p" "Clean p = p" using assms(2) by (auto simp: saved_path_def abs_clean_def)
  from assms(1) obtain bs where bs: "list_all plain_elem bs" "base = abs_of bs" by (rule abs_cleanE)
  show ?thesis
  proof (cases "Rel base p")
    case None
    with False abs show ?thesis by (simp add: relativize_def resolvePath_def)
  next
    case (Some r)
    show ?thesis
    proof (cases "HasPrefix r ''..''")
      case True
      with Some abs show ?thesis by (simp add: relativize_def resolvePath_def)
    next
      case out: False
      have rel: "relativize base p = ''./'' @ r" using Some out False bs by (simp add: relativize_def)
      from bs(1) abs(1) Some [unfolded bs(2)] show ?thesis
      proof (cases rule: Rel_abs)
        case same
        then show ?thesis using abs(2) rel bs
          by (simp add: resolvePath_def PathJoin_abs_dotdot)
      next
        case (below rs)
        then show ?thesis using abs(2) rel bs PathJoin_abs_dot_rel [OF bs(1) below(1)]
          by (simp add: resolvePath_def)
      next
        case outside
        with out show ?thesis by simp
      qed
    qed
  qed
qed

text \<open>A profile as the loader builds it, with the boot target filled in and clean absolute paths.\<close>

definition saved_profile :: "Profile \<Rightarrow> bool" where
  "saved_profile p \<longleftrightarrow> p_Boot p \<in> set ValidBootTargets \<and> keys_ok (p_Params p)
     \<and> list_all saved_path [p_CloudInit p, p_Preseed p, p_Kickstart p, p_Rescue p, p_IPXEScript p]"

lemma valid_boot_default [simp]: "b \<in> set ValidBootTargets \<Longrightarrow> default_boot b = b"
  by (auto simp: ValidBootTargets_def default_boot_def)

lemma machine_profile_yaml:
  "abs_clean base \<Longrightarrow> saved_profile p \<Longrightarrow> \<not> p_IsDefault p \<Longrightarrow>
     machine_profile base (machine_yaml base (c, p)) = p"
  by (cases p) (simp add: machine_profile_def machine_yaml_def saved_profile_def resolve_relativize)

lemma defaults_profile_entry:
  "abs_clean base \<Longrightarrow> saved_profile d \<Longrightarrow> p_IsDefault d \<Longrightarrow> p_Name d = [] \<Longrightarrow>
     defaults_profile base (defaults_entry base d) = d"
  by (cases d) (simp add: defaults_profile_def defaults_entry_def saved_profile_def resolve_relativize)

lemma machine_yaml_fields [simp]:
  "y_MAC (machine_yaml b (c, p)) = c" "y_Name (machine_yaml b (c, p)) = p_Name p"
  "y_Boot (machine_yaml b (c, p)) = p_Boot p"
  by (simp_all add: machine_yaml_def)

section \<open>The order of the map does not matter\<close>

lemma yaml_less_key: "yaml_less a b \<longleftrightarrow> (y_Name a, y_MAC a) < (y_Name b, y_MAC b)"
  by (auto simp: yaml_less_def less_prod_def')

lemma machine_less_key:
  "machine_less a b \<longleftrightarrow> (p_Name (m_Profile a), m_MAC a) < (p_Name (m_Profile b), m_MAC b)"
  by (auto simp: machine_less_def less_prod_def')

lemma keys_ok_inj: "keys_ok m \<Longrightarrow> (c, p) \<in> set m \<Longrightarrow> (c, q) \<in> set m \<Longrightarrow> p = q"
  by (metis mem_mget option.inject)

lemma fleet_config_order:
  assumes "mset m = mset n" "keys_ok m"
  shows "fleet_config (f\<lparr>f_machines := m\<rparr>) = fleet_config (f\<lparr>f_machines := n\<rparr>)"
proof -
  let ?y = "machine_yaml (f_baseDir f)"
  have "inj_on (\<lambda>a. (y_Name a, y_MAC a)) (set (map ?y m))"
    by (auto simp: inj_on_def) (metis keys_ok_inj [OF assms(2)])
  moreover have "mset (map ?y m) = mset (map ?y n)" using assms(1) by simp
  ultimately have "slice_stable yaml_less (map ?y m) = slice_stable yaml_less (map ?y n)"
    by (simp add: slice_stable_key [OF yaml_less_key] sort_key_order_irrelevant)
  then show ?thesis by (simp add: fleet_config_def)
qed

lemma ListMachines_order:
  assumes "mset m = mset n" "keys_ok m"
  shows "ListMachines (f\<lparr>f_machines := m\<rparr>) = ListMachines (f\<lparr>f_machines := n\<rparr>)"
proof -
  let ?y = "\<lambda>(mac, p). \<lparr>m_MAC = mac, m_Profile = p\<rparr>"
  have "inj_on (\<lambda>a. (p_Name (m_Profile a), m_MAC a)) (set (map ?y m))"
    by (auto simp: inj_on_def) (metis keys_ok_inj [OF assms(2)])
  moreover have "mset (map ?y m) = mset (map ?y n)" using assms(1) by simp
  ultimately have "slice_stable machine_less (map ?y m) = slice_stable machine_less (map ?y n)"
    by (simp add: slice_stable_key [OF machine_less_key] sort_key_order_irrelevant)
  then show ?thesis by (simp add: ListMachines_def)
qed

lemma set_ListMachines: "set (ListMachines f) = (\<lambda>(mac, p). \<lparr>m_MAC = mac, m_Profile = p\<rparr>) ` set (f_machines f)"
  by (simp add: ListMachines_def)

section \<open>What a save does to the file system\<close>

lemma Save_None:
  "Save env io fs f = (None, fs') \<longleftrightarrow>
     f_path f \<noteq> [] \<and> io_fault io = None \<and>
     (\<exists>y. yaml_encode env (fleet_config f) = Some y
        \<and> fs' = (fs(io_tmp io := None))(f_path f \<mapsto> File (save_header @ y)))"
  by (auto simp: Save_def Let_def split: option.splits save_fault.splits)

lemma Save_Some:
  "Save env io fs f = (Some e, fs') \<Longrightarrow> q \<noteq> io_tmp io \<Longrightarrow> fs' q = fs q"
  by (auto simp: Save_def Let_def remove_tmp_def split: option.splits save_fault.splits if_splits)

lemma Save_cases:
  assumes "io_tmp io \<noteq> f_path f"
  obtains (saved) fs' y where "Save env io fs f = (None, fs')" "yaml_encode env (fleet_config f) = Some y"
      "fs' (f_path f) = Some (File (save_header @ y))"
    | (failed) e fs' where "Save env io fs f = (Some e, fs')" "fs' (f_path f) = fs (f_path f)"
proof (cases "fst (Save env io fs f)")
  case None
  then have r: "Save env io fs f = (None, snd (Save env io fs f))" by (metis prod.collapse)
  from r [unfolded Save_None] obtain y where "yaml_encode env (fleet_config f) = Some y"
    and s: "snd (Save env io fs f) = (fs(io_tmp io := None))(f_path f \<mapsto> File (save_header @ y))"
    by blast
  moreover have "snd (Save env io fs f) (f_path f) = Some (File (save_header @ y))"
    unfolding s by simp
  ultimately show ?thesis using saved [OF r] by blast
next
  case (Some e)
  then have r: "Save env io fs f = (Some e, snd (Save env io fs f))" by (metis prod.collapse)
  from Save_Some [OF r] assms have "snd (Save env io fs f) (f_path f) = fs (f_path f)" by metis
  with r failed show ?thesis by blast
qed

section \<open>Entity tags\<close>

definition nul_free :: "string \<Rightarrow> bool" where
  "nul_free s \<longleftrightarrow> CHR 0x00 \<notin> set s"

lemma nul_terminated_inj:
  "nul_free s \<Longrightarrow> nul_free t \<Longrightarrow> nul_terminated s @ a = nul_terminated t @ b \<longleftrightarrow> s = t \<and> a = b"
proof (induction s arbitrary: t)
  case Nil
  then show ?case by (cases t) (auto simp: nul_terminated_def nul_free_def)
next
  case (Cons x s)
  then show ?case by (cases t) (auto simp: nul_terminated_def nul_free_def)
qed

lemma concat_nul_terminated_inj:
  "list_all nul_free xs \<Longrightarrow> list_all nul_free ys \<Longrightarrow>
     concat (map nul_terminated xs) = concat (map nul_terminated ys) \<Longrightarrow> xs = ys"
proof (induction xs arbitrary: ys)
  case Nil
  then show ?case by (cases ys) (auto simp: nul_terminated_def)
next
  case (Cons x xs)
  from Cons.prems obtain y zs where ys: "ys = y # zs"
    by (cases ys) (auto simp: nul_terminated_def)
  from Cons.prems have "nul_free x" "nul_free y" by (simp_all add: ys)
  from nul_terminated_inj [OF this] Cons.prems(3)
  have "x = y" "concat (map nul_terminated xs) = concat (map nul_terminated zs)"
    by (simp_all add: ys)
  with Cons.IH [of zs] Cons.prems show ?case by (simp add: ys)
qed

definition param_value :: "Profile \<Rightarrow> string \<Rightarrow> string" where
  "param_value p k = (case mget (p_Params p) k of None \<Rightarrow> [] | Some v \<Rightarrow> v)"

definition etag_fields :: "string \<Rightarrow> Profile \<Rightarrow> string list" where
  "etag_fields canon p =
     [canon, p_Boot p, p_Name p, p_CloudInit p, p_Preseed p, p_Kickstart p, p_IPXEScript p]
     @ concat (map (\<lambda>k. [k, param_value p k]) (sort (map fst (p_Params p))))"

lemma etag_input_fields: "etag_input canon p = concat (map nul_terminated (etag_fields canon p))"
proof -
  have "concat (map (\<lambda>k. nul_terminated k @ nul_terminated (param_value p k)) ks)
      = concat (map nul_terminated (concat (map (\<lambda>k. [k, param_value p k]) ks)))" for ks
    by (induction ks) simp_all
  from this [of "sort (map fst (p_Params p))"]
  show ?thesis by (simp add: etag_input_def etag_fields_def param_value_def)
qed

lemma pairs_inj:
  "concat (map (\<lambda>k. [k, f k]) xs) = concat (map (\<lambda>k. [k, g k]) ys) \<longleftrightarrow>
     xs = ys \<and> (\<forall>k \<in> set xs. f k = g k)"
proof (induction xs arbitrary: ys)
  case Nil
  show ?case by (cases ys) auto
next
  case (Cons x xs)
  show ?case using Cons.IH by (cases ys) auto
qed

lemma params_eq:
  assumes "sort (map fst (p_Params p)) = sort (map fst (p_Params q))"
    "\<forall>k \<in> mkeys (p_Params p). param_value p k = param_value q k"
  shows "mget (p_Params p) = mget (p_Params q)"
proof
  fix k
  have keys: "mkeys (p_Params p) = mkeys (p_Params q)"
    using arg_cong [OF assms(1), of set] by simp
  show "mget (p_Params p) k = mget (p_Params q) k"
  proof (cases "k \<in> mkeys (p_Params p)")
    case True
    with keys obtain v w where "mget (p_Params p) k = Some v" "mget (p_Params q) k = Some w"
      by (metis mkeys_obtain)
    with True assms(2) show ?thesis by (auto simp: param_value_def)
  next
    case False
    with keys show ?thesis by (metis mget_None_iff)
  qed
qed

definition profile_nul_free :: "Profile \<Rightarrow> bool" where
  "profile_nul_free p \<longleftrightarrow> list_all nul_free
       [p_Boot p, p_Name p, p_CloudInit p, p_Preseed p, p_Kickstart p, p_IPXEScript p]
     \<and> (\<forall>(k, v) \<in> set (p_Params p). nul_free k \<and> nul_free v)"

lemma param_value_nul_free: "profile_nul_free p \<Longrightarrow> nul_free (param_value p k)"
  by (cases "mget (p_Params p) k")
    (auto simp: param_value_def profile_nul_free_def nul_free_def dest!: mget_Some_mem)

lemma etag_fields_nul_free:
  "nul_free c \<Longrightarrow> profile_nul_free p \<Longrightarrow> list_all nul_free (etag_fields c p)"
  using param_value_nul_free [of p]
  by (auto simp: etag_fields_def list_all_iff profile_nul_free_def)

lemma canonical_nul_free: "is_canonical c \<Longrightarrow> nul_free c"
  using set_canonical [of c] by (auto simp: nul_free_def hex_digits_def)

lemma etag_input_iff:
  assumes "nul_free c" "nul_free c'" "profile_nul_free p" "profile_nul_free p'"
    "keys_ok (p_Params p)" "keys_ok (p_Params p')"
  shows "etag_input c p = etag_input c' p' \<longleftrightarrow>
     c = c' \<and> p_Boot p = p_Boot p' \<and> p_Name p = p_Name p' \<and> p_CloudInit p = p_CloudInit p'
     \<and> p_Preseed p = p_Preseed p' \<and> p_Kickstart p = p_Kickstart p'
     \<and> p_IPXEScript p = p_IPXEScript p' \<and> mget (p_Params p) = mget (p_Params p')"
proof
  assume "etag_input c p = etag_input c' p'"
  then have "etag_fields c p = etag_fields c' p'"
    using concat_nul_terminated_inj [OF etag_fields_nul_free etag_fields_nul_free] assms
    by (simp add: etag_input_fields)
  then show "c = c' \<and> p_Boot p = p_Boot p' \<and> p_Name p = p_Name p' \<and> p_CloudInit p = p_CloudInit p'
     \<and> p_Preseed p = p_Preseed p' \<and> p_Kickstart p = p_Kickstart p'
     \<and> p_IPXEScript p = p_IPXEScript p' \<and> mget (p_Params p) = mget (p_Params p')"
    using params_eq [of p p'] by (simp add: etag_fields_def pairs_inj)
next
  assume eq: "c = c' \<and> p_Boot p = p_Boot p' \<and> p_Name p = p_Name p' \<and> p_CloudInit p = p_CloudInit p'
     \<and> p_Preseed p = p_Preseed p' \<and> p_Kickstart p = p_Kickstart p'
     \<and> p_IPXEScript p = p_IPXEScript p' \<and> mget (p_Params p) = mget (p_Params p')"
  then have "mset (p_Params p) = mset (p_Params p')" using gomap_mset_eq [OF assms(5,6)] by blast
  then have "mset (map fst (p_Params p)) = mset (map fst (p_Params p'))" by (simp only: mset_map)
  then have "sort (map fst (p_Params p)) = sort (map fst (p_Params p'))"
    by (intro properties_for_sort) simp_all
  with eq show "etag_input c p = etag_input c' p'" by (simp add: etag_input_def)
qed

section \<open>The specification of the transactional operations\<close>

text \<open>
  A register file of profiles with conditional writes: the condition is checked against the
  current entry, the write happens unless it cannot be persisted, and then nothing happens.
\<close>

datatype crud_op = CreateOp Profile | UpdateOp Profile string | DeleteOp string

fun cas_check :: "(Profile \<Rightarrow> string) \<Rightarrow> crud_op \<Rightarrow> Profile option \<Rightarrow> fleet_error option" where
  "cas_check tag (CreateOp p) cur = (if cur = None then None else Some ErrMACExists)"
| "cas_check tag (UpdateOp p t) cur =
     (if t = [] then Some ErrPreconditionRequired
      else case cur of None \<Rightarrow> Some ErrMACAbsent
        | Some q \<Rightarrow> if tag q = t then None else Some ErrPreconditionFailed)"
| "cas_check tag (DeleteOp t) cur =
     (case cur of None \<Rightarrow> None
      | Some q \<Rightarrow> if t = [] \<or> tag q = t then None else Some ErrPreconditionFailed)"

fun cas_value :: "crud_op \<Rightarrow> Profile option" where
  "cas_value (CreateOp p) = Some p"
| "cas_value (UpdateOp p t) = Some p"
| "cas_value (DeleteOp t) = None"

definition cas_spec :: "(Profile \<Rightarrow> string) \<Rightarrow> fleet_error option \<Rightarrow> crud_op \<Rightarrow> string
    \<Rightarrow> (string \<rightharpoonup> Profile) \<Rightarrow> fleet_error option \<times> (string \<rightharpoonup> Profile)" where
  "cas_spec tag fault op c M =
     (case cas_check tag op (M c) of Some e \<Rightarrow> (Some e, M)
      | None \<Rightarrow>
          if M c = None \<and> cas_value op = None then (None, M)
          else case fault of Some e \<Rightarrow> (Some e, M) | None \<Rightarrow> (None, M(c := cas_value op)))"

text \<open>The operation of the code an abstract one stands for, with its error alone as the result.\<close>

fun run_crud :: "fleet_env \<Rightarrow> save_io \<Rightarrow> crud_op \<Rightarrow> string \<Rightarrow> filesys \<times> Fleet
    \<Rightarrow> fleet_error option \<times> filesys \<times> Fleet" where
  "run_crud env io (CreateOp p) mac st =
     (case CreateAndSave env io \<lparr>m_MAC = mac, m_Profile = p\<rparr> st of
        (Inl e, st') \<Rightarrow> (Some e, st') | (Inr t, st') \<Rightarrow> (None, st'))"
| "run_crud env io (UpdateOp p t) mac st =
     (case UpdateAndSave env io \<lparr>m_MAC = mac, m_Profile = p\<rparr> t st of
        (Inl e, st') \<Rightarrow> (Some e, st') | (Inr t', st') \<Rightarrow> (None, st'))"
| "run_crud env io (DeleteOp t) mac st =
     (case DeleteAndSave env io mac t st of ((b, e), st') \<Rightarrow> (e, st'))"

fun crud_edit :: "crud_op \<Rightarrow> string \<Rightarrow> Fleet \<Rightarrow> Fleet" where
  "crud_edit (CreateOp p) c f = f\<lparr>f_machines := mput c p (f_machines f)\<rparr>"
| "crud_edit (UpdateOp p t) c f = f\<lparr>f_machines := mput c p (f_machines f)\<rparr>"
| "crud_edit (DeleteOp t) c f = f\<lparr>f_machines := mdel c (f_machines f)\<rparr>"

fun crud_valid :: "filesys \<Rightarrow> crud_op \<Rightarrow> bool" where
  "crud_valid fs (CreateOp p) = (validateProfile fs p = Inr ())"
| "crud_valid fs (UpdateOp p t) = (validateProfile fs p = Inr ())"
| "crud_valid fs (DeleteOp t) = True"

text \<open>The two fleets are one, up to the order a map iteration happens to give.\<close>

definition same_fleet :: "Fleet \<Rightarrow> Fleet \<Rightarrow> bool" where
  "same_fleet f g \<longleftrightarrow> f_path f = f_path g \<and> f_baseDir f = f_baseDir g \<and> f_defaults f = f_defaults g
     \<and> mget (f_machines f) = mget (f_machines g)"

lemma same_fleet_refl [simp]: "same_fleet f f"
  by (simp add: same_fleet_def)

lemma same_fleet_Lookup: "same_fleet f g \<Longrightarrow> Lookup f s = Lookup g s"
  by (auto simp: same_fleet_def Lookup_def split: sum.split option.split)

lemma mdel_back: "c \<notin> mkeys (f_machines f) \<Longrightarrow> (mget (f_machines f))(c := None) = mget (f_machines f)"
  by (simp add: fun_upd_idem mget_None_iff)

lemma mput_back: "mget (f_machines f) c = Some q \<Longrightarrow> (mget (f_machines f))(c \<mapsto> q) = mget (f_machines f)"
  by auto

text \<open>Either the checks stop the operation, or it is an edit followed by a save that decides.\<close>

lemma run_crud_outcome:
  assumes "CanonicalMAC mac = Inr c" "crud_valid fs op"
  shows "case cas_check (profileETag env c) op (mget (f_machines f) c) of
      Some e \<Rightarrow> run_crud env io op mac (fs, f) = (Some e, fs, f)
    | None \<Rightarrow>
        if mget (f_machines f) c = None \<and> cas_value op = None
        then run_crud env io op mac (fs, f) = (None, fs, f)
        else case Save env io fs (crud_edit op c f) of
            (None, fs') \<Rightarrow> run_crud env io op mac (fs, f) = (None, fs', crud_edit op c f)
          | (Some e, fs') \<Rightarrow> (\<exists>f'. run_crud env io op mac (fs, f) = (Some e, fs', f') \<and> same_fleet f' f)"
proof (cases op)
  case (CreateOp p)
  then show ?thesis
    using assms
    by (auto simp: CreateAndSave_def Let_def mget_None_iff same_fleet_def gomap_simps mdel_back
        split: option.splits prod.splits)
next
  case (UpdateOp p t)
  then show ?thesis
    using assms
    by (auto simp: UpdateAndSave_def Let_def same_fleet_def gomap_simps mput_back
        dest: mget_Some_key split: option.splits prod.splits)
next
  case (DeleteOp t)
  then show ?thesis
    using assms
    by (auto simp: DeleteAndSave_def Let_def same_fleet_def gomap_simps mput_back
        dest: mget_Some_key split: option.splits prod.splits)
qed

lemma mget_crud_edit: "mget (f_machines (crud_edit op c f)) = (mget (f_machines f))(c := cas_value op)"
  by (cases op) (auto simp: gomap_simps)

lemma run_crud_rejects:
  assumes "canon_of mac = None \<or> \<not> crud_valid fs op"
  shows "\<exists>e. run_crud env io op mac (fs, f) = (Some e, fs, f)"
  using assms
  by (cases op; cases "CanonicalMAC mac")
    (auto simp: canon_of_def CreateAndSave_def UpdateAndSave_def DeleteAndSave_def split: sum.splits)

lemma run_crud_cases:
  obtains (rejected) e where "run_crud env io op mac (fs, f) = (Some e, fs, f)"
    | (idle) "run_crud env io op mac (fs, f) = (None, fs, f)"
    | (saved) c fs' where "run_crud env io op mac (fs, f) = (None, fs', crud_edit op c f)"
        "Save env io fs (crud_edit op c f) = (None, fs')"
    | (undone) c e fs' f' where "run_crud env io op mac (fs, f) = (Some e, fs', f')" "same_fleet f' f"
        "Save env io fs (crud_edit op c f) = (Some e, fs')"
proof (cases "canon_of mac = None \<or> \<not> crud_valid fs op")
  case True
  then show ?thesis using rejected run_crud_rejects by metis
next
  case False
  then obtain c where "canon_of mac = Some c" and c2: "crud_valid fs op" by (cases "canon_of mac") auto
  then have c: "CanonicalMAC mac = Inr c" "crud_valid fs op" by (simp_all add: canon_simps)
  note out = run_crud_outcome [OF c, where env = env and f = f and io = io]
  show ?thesis
  proof (cases "cas_check (profileETag env c) op (mget (f_machines f) c)")
    case (Some e)
    with out rejected show ?thesis by simp
  next
    case None
    show ?thesis
    proof (cases "mget (f_machines f) c = None \<and> cas_value op = None")
      case True
      with None out idle show ?thesis by simp
    next
      case edit: False
      obtain r fs' where "Save env io fs (crud_edit op c f) = (r, fs')" by fastforce
      with None edit out saved [of fs' c] undone [of _ fs' _ c] show ?thesis
        by (cases r) auto
    qed
  qed
qed

lemma f_path_crud_edit [simp]: "f_path (crud_edit op c f) = f_path f"
  by (cases op) auto

section \<open>What a save wrote loads again\<close>

definition fleet_saved :: "fleet_env \<Rightarrow> Fleet \<Rightarrow> bool" where
  "fleet_saved env f \<longleftrightarrow> fleet_ok f \<and> f_baseDir f = Abs (cwd env) (Dir (f_path f)) \<and> abs_clean (f_baseDir f)
     \<and> saved_profile (f_defaults f) \<and> p_IsDefault (f_defaults f) \<and> p_Name (f_defaults f) = []
     \<and> (\<forall>(c, p) \<in> set (f_machines f). saved_profile p \<and> \<not> p_IsDefault p)"

definition fleet_files_ok :: "filesys \<Rightarrow> Fleet \<Rightarrow> bool" where
  "fleet_files_ok fs f \<longleftrightarrow> validateProfile fs (f_defaults f) = Inr ()
     \<and> (\<forall>(c, p) \<in> set (f_machines f). validateProfile fs p = Inr ())"

lemma load_saved_machines:
  assumes "abs_clean b" "list_all (\<lambda>(c, p). is_canonical c \<and> saved_profile p \<and> \<not> p_IsDefault p
      \<and> validateProfile fs p = Inr ()) ms" "keys_ok ms"
  shows "load_machines fs b (map (machine_yaml b) ms) [] = Inr ms"
proof -
  have "list_all2 (entry_ok fs b) (map (machine_yaml b) ms) (map fst ms)"
    using assms(1,2)
    by (induction ms)
      (auto simp: entry_ok_def machine_profile_yaml canonical_fixed, auto simp: saved_profile_def)
  moreover have "map (machine_profile b) (map (machine_yaml b) ms) = map snd ms"
    using assms(1,2) by (induction ms) (auto simp: machine_profile_yaml)
  ultimately show ?thesis
    unfolding load_machines_iff using assms(3)
    by (intro exI [of _ "map fst ms"]) (simp add: keys_ok_def zip_map_fst_snd del: map_map)
qed

lemma map_insert_by:
  "(\<And>a b. lt (f a) (f b) = lt' a b) \<Longrightarrow> map f (insert_by lt' x ys) = insert_by lt (f x) (map f ys)"
  by (induction ys) auto

lemma slice_stable_map:
  assumes "\<And>a b. lt (f a) (f b) = lt' a b"
  shows "slice_stable lt (map f xs) = map f (slice_stable lt' xs)"
  by (induction xs) (simp_all add: slice_stable_def map_insert_by [of lt f lt', OF assms])

lemma load_saved:
  assumes "fleet_saved env f" "fleet_files_ok fs f"
  shows "\<exists>ms. mset ms = mset (f_machines f)
     \<and> load_config fs (f_baseDir f) (fleet_config f) = Inr (f_defaults f, ms)"
proof -
  let ?y = "machine_yaml (f_baseDir f)"
  define ms where "ms = slice_stable (\<lambda>a b. yaml_less (?y a) (?y b)) (f_machines f)"
  have sorted: "slice_stable yaml_less (map ?y (f_machines f)) = map ?y ms"
    unfolding ms_def by (rule slice_stable_map) simp
  have mset: "mset ms = mset (f_machines f)" by (simp add: ms_def)
  have set: "set ms = set (f_machines f)" by (simp add: ms_def)
  from assms(1) have f: "fleet_ok f" "abs_clean (f_baseDir f)" "saved_profile (f_defaults f)"
    "p_IsDefault (f_defaults f)" "p_Name (f_defaults f) = []"
    unfolding fleet_saved_def by blast+
  have "keys_ok ms"
    using f(1) mset by (metis fleet_ok_def keys_ok_def machines_ok_def mset_eq_imp_distinct_iff mset_map)
  moreover have "list_all (\<lambda>(c, p). is_canonical c \<and> saved_profile p \<and> \<not> p_IsDefault p
      \<and> validateProfile fs p = Inr ()) ms"
    using assms f(1) unfolding fleet_saved_def fleet_files_ok_def fleet_ok_def machines_ok_def
    by (force simp: list_all_iff set)
  ultimately have "load_machines fs (f_baseDir f) (map ?y ms) [] = Inr ms"
    using f(2) by (intro load_saved_machines)
  moreover have "validateProfile fs (f_defaults f) = Inr ()"
    using assms(2) by (simp add: fleet_files_ok_def)
  ultimately have "load_config fs (f_baseDir f) (fleet_config f) = Inr (f_defaults f, ms)"
    using f by (auto simp: load_config_iff fleet_config_def sorted defaults_profile_entry)
      (auto simp: defaults_entry_def saved_profile_def)
  with mset show ?thesis by blast
qed

lemma mset_mget: "mset m = mset n \<Longrightarrow> keys_ok m \<Longrightarrow> mget m = mget n"
  by (metis keys_ok_def map_of_eq_Some_iff mset_eq_imp_distinct_iff mset_eq_setD mset_map ext not_Some_eq)

lemma run_crud_register:
  assumes "CanonicalMAC mac = Inr c" "crud_valid fs op"
  shows "case run_crud env io op mac (fs, f) of (e, fs', f') \<Rightarrow>
     (e, mget (f_machines f')) =
       cas_spec (profileETag env c) (fst (Save env io fs (crud_edit op c f))) op c (mget (f_machines f))"
proof -
  note out = run_crud_outcome [OF assms, where env = env and f = f and io = io]
  obtain r fs' where s: "Save env io fs (crud_edit op c f) = (r, fs')" by fastforce
  show ?thesis
    using out unfolding cas_spec_def s
    by (cases r)
      (auto simp: mget_crud_edit same_fleet_def split: option.splits if_splits)
qed

section \<open>Properties\<close>

text \<open>A side-file path written to the file relative to the fleet directory resolves back to the
  path it came from, for every clean absolute path, below the directory or outside it.\<close>

theorem relativize_roundtrip:
  assumes "abs_clean base" "abs_clean p"
  shows "resolvePath base (relativize base p) = p"
  using assms by (simp add: resolve_relativize saved_path_def)

theorem relativize_roundtrip_witness:
  "map (relativize ''/srv/pxe'') [''/srv/pxe/ci/web.yaml'', ''/srv/other/x'', ''/srv/pxe'']
     = [''./ci/web.yaml'', ''/srv/other/x'', ''./.''] \<and>
   map (\<lambda>p. resolvePath ''/srv/pxe'' (relativize ''/srv/pxe'' p))
     [''/srv/pxe/ci/web.yaml'', ''/srv/other/x'', ''/srv/pxe'']
     = [''/srv/pxe/ci/web.yaml'', ''/srv/other/x'', ''/srv/pxe'']"
proof -
  have c: "abs_clean ''/srv/pxe''" "abs_clean ''/srv/pxe/ci/web.yaml''" "abs_clean ''/srv/other/x''"
    by code_simp+
  show ?thesis
    unfolding list.map relativize_roundtrip [OF c(1) c(2)] relativize_roundtrip [OF c(1) c(3)]
      relativize_roundtrip [OF c(1) c(1)]
    by code_simp
qed


definition example_io :: save_io where
  "example_io = \<lparr>io_tmp = ''/srv/.fleet.yaml.1.tmp'', io_fault = None, io_removes = True\<rparr>"

definition example_env2 :: fleet_env where
  "example_env2 = example_env\<lparr>yaml_decode := (\<lambda>_. Some (fleet_config example_fleet))\<rparr>"


text \<open>C12: Create, update and delete are one conditional write of a register file: they fail with
  the sentinel their precondition calls for (exists, absent, precondition required, precondition
  failed), and otherwise change exactly one register if the save succeeds and none if it fails.\<close>

theorem crud_refines_register:
  assumes "CanonicalMAC mac = Inr c" "crud_valid fs op"
  shows "case run_crud env io op mac (fs, f) of (e, fs', f') \<Rightarrow>
     (e, mget (f_machines f')) =
       cas_spec (profileETag env c) (fst (Save env io fs (crud_edit op c f))) op c (mget (f_machines f))"
  using run_crud_register [OF assms] .

theorem crud_refines_register_witness:
  "case run_crud example_env example_io (UpdateOp empty_profile ''stale'') ''525400aabbcc'' (example_fs, example_fleet)
   of (e, fs', f') \<Rightarrow> e = Some ErrPreconditionFailed"
proof -
  have c: "CanonicalMAC ''525400aabbcc'' = Inr ''52:54:00:aa:bb:cc''" by code_simp
  have v: "crud_valid example_fs (UpdateOp empty_profile ''stale'')" by code_simp
  have "cas_check (profileETag example_env ''52:54:00:aa:bb:cc'') (UpdateOp empty_profile ''stale'')
      (mget (f_machines example_fleet) ''52:54:00:aa:bb:cc'') = Some ErrPreconditionFailed" by code_simp
  then have spec: "cas_spec (profileETag example_env ''52:54:00:aa:bb:cc'') fault (UpdateOp empty_profile ''stale'')
      ''52:54:00:aa:bb:cc'' (mget (f_machines example_fleet))
      = (Some ErrPreconditionFailed, mget (f_machines example_fleet))" for fault
    by (simp add: cas_spec_def del: cas_check.simps)
  show ?thesis
    using crud_refines_register [OF c v, where env = example_env and io = example_io and f = example_fleet]
    unfolding spec by (auto simp del: run_crud.simps split: prod.splits)
qed

text \<open>C28: Whatever goes wrong, memory and disk stay together: an operation that reports an error
  leaves the fleet as it was and the file untouched, and one that succeeds either had nothing to do
  or leaves the file holding the serialisation of the fleet it leaves in memory.\<close>

theorem crud_memory_matches_disk:
  assumes "io_tmp io \<noteq> f_path f" "run_crud env io op mac (fs, f) = (e, fs', f')"
  shows "if e = None
     then fs' = fs \<and> f' = f \<or>
       (\<exists>y. yaml_encode env (fleet_config f') = Some y \<and> fs' (f_path f) = Some (File (save_header @ y)))
     else same_fleet f' f \<and> fs' (f_path f) = fs (f_path f)"
proof (cases rule: run_crud_cases [of env io op mac fs f])
  case (saved c fs1)
  then show ?thesis using assms by (auto simp: Save_None)
next
  case (undone c e1 fs1 f1)
  from Save_Some [OF undone(3)] assms(1) have "fs1 (f_path f) = fs (f_path f)" by metis
  with undone assms(2) show ?thesis by simp
qed (use assms(2) in simp_all)

theorem crud_memory_matches_disk_witness:
  "snd (snd (run_crud example_env (example_io\<lparr>io_fault := Some RenameFails\<rparr>) (DeleteOp []) ''525400aabbcc''
      (example_fs, example_fleet))) = example_fleet
   \<and> same_fleet (snd (snd (run_crud example_env (example_io\<lparr>io_fault := Some RenameFails\<rparr>) (DeleteOp [])
      ''525400aabbcc'' (example_fs, example_fleet)))) example_fleet"
proof -
  let ?r = "run_crud example_env (example_io\<lparr>io_fault := Some RenameFails\<rparr>) (DeleteOp []) ''525400aabbcc''
      (example_fs, example_fleet)"
  have tmp: "io_tmp (example_io\<lparr>io_fault := Some RenameFails\<rparr>) \<noteq> f_path example_fleet" by code_simp
  have r: "?r = (fst ?r, fst (snd ?r), snd (snd ?r))" by simp
  have "fst ?r = Some (SaveFailed ''rename tmp'')" by code_simp
  with crud_memory_matches_disk [OF tmp r] have "same_fleet (snd (snd ?r)) example_fleet" by simp
  moreover have "snd (snd ?r) = example_fleet" by code_simp
  ultimately show ?thesis by blast
qed

text \<open>C17: No update is lost: once an update under an entity tag has changed the tag, every later
  update that still carries the old one is refused and changes nothing.\<close>

theorem no_lost_update:
  assumes "UpdateAndSave env io m t (fs, f) = (Inr t', fs', f')" "t' \<noteq> t"
    "CanonicalMAC (m_MAC m2) = CanonicalMAC (m_MAC m)"
  shows "\<exists>e. UpdateAndSave env io2 m2 t (fs', f') = (Inl e, fs', f')
     \<and> (validateProfile fs' (m_Profile m2) = Inr () \<longrightarrow> e = ErrPreconditionFailed)"
proof -
  obtain c where c: "CanonicalMAC (m_MAC m) = Inr c" "t \<noteq> []"
    "t' = profileETag env c (m_Profile m)" "mget (f_machines f') c = Some (m_Profile m)"
    using assms(1)
    by (auto simp: UpdateAndSave_def Let_def gomap_simps split: sum.splits if_splits option.splits prod.splits)
  with assms(2,3) show ?thesis
    by (cases "validateProfile fs' (m_Profile m2)") (simp_all add: UpdateAndSave_def)
qed


theorem no_lost_update_witness:
  "let m = \<lparr>m_MAC = ''525400aabbcc'', m_Profile = empty_profile\<rparr>;
       t = fst (ETag example_env example_fleet ''525400aabbcc'');
       st = snd (UpdateAndSave example_env example_io m t (example_fs, example_fleet))
   in fst (UpdateAndSave example_env example_io m t st) = Inl ErrPreconditionFailed"
proof -
  let ?m = "\<lparr>m_MAC = ''525400aabbcc'', m_Profile = empty_profile\<rparr>"
  let ?t = "fst (ETag example_env example_fleet ''525400aabbcc'')"
  let ?r = "UpdateAndSave example_env example_io ?m ?t (example_fs, example_fleet)"
  have "is_ok (fst ?r)" "projr (fst ?r) \<noteq> ?t"
    "validateProfile (fst (snd ?r)) (m_Profile ?m) = Inr ()" by code_simp+
  then obtain t' where r: "?r = (Inr t', fst (snd ?r), snd (snd ?r))" "t' \<noteq> ?t"
      "validateProfile (fst (snd ?r)) (m_Profile ?m) = Inr ()"
    unfolding is_ok_iff by (metis prod.collapse sum.sel(2))
  from no_lost_update [OF r(1,2) refl, of example_io] r(3)
  have "fst (UpdateAndSave example_env example_io ?m ?t (snd ?r)) = Inl ErrPreconditionFailed"
    by fastforce
  then show ?thesis by (simp only: Let_def)
qed



text \<open>An edit of the rescue configuration alone does not change the entity tag, so a client
  holding the tag from before the edit is not refused and overwrites it.\<close>

theorem ETag_ignores_rescue:
  "profileETag env c (p\<lparr>p_Rescue := r\<rparr>) = profileETag env c p"
  by (simp add: profileETag_def etag_input_def)

text \<open>The order in which Go iterates over the machine map shows nowhere: the saved
  configuration and the machine list are the same for every order, and the list has each machine
  once, by ascending name and then MAC.\<close>

theorem iteration_order_irrelevant:
  assumes "keys_ok m" "keys_ok n" "mget m = mget n"
  shows "fleet_config (f\<lparr>f_machines := m\<rparr>) = fleet_config (f\<lparr>f_machines := n\<rparr>)
     \<and> ListMachines (f\<lparr>f_machines := m\<rparr>) = ListMachines (f\<lparr>f_machines := n\<rparr>)
     \<and> sorted (map (\<lambda>a. (p_Name (m_Profile a), m_MAC a)) (ListMachines (f\<lparr>f_machines := m\<rparr>)))
     \<and> length (ListMachines (f\<lparr>f_machines := m\<rparr>)) = length m"
proof -
  have eq: "mset m = mset n" using assms by (rule gomap_mset_eq)
  then have "length m = length n" by (rule mset_eq_length)
  with eq fleet_config_order [of m n f] ListMachines_order [of m n f] assms(1) show ?thesis
    by (intro conjI) (simp_all add: ListMachines_def slice_stable_key [OF machine_less_key])
qed

theorem iteration_order_irrelevant_witness:
  "ListMachines (example_fleet\<lparr>f_machines :=
       [(''52:54:00:00:00:02'', empty_profile\<lparr>p_Name := ''b''\<rparr>), (''52:54:00:00:00:01'', empty_profile\<lparr>p_Name := ''a''\<rparr>)]\<rparr>)
   = ListMachines (example_fleet\<lparr>f_machines :=
       [(''52:54:00:00:00:01'', empty_profile\<lparr>p_Name := ''a''\<rparr>), (''52:54:00:00:00:02'', empty_profile\<lparr>p_Name := ''b''\<rparr>)]\<rparr>)"
  by (intro conjunct1 [OF conjunct2 [OF iteration_order_irrelevant]])
    (simp_all add: keys_ok_def fun_eq_iff)

end
