(* ===== verification/Assets.thy ===== *)
theory Assets
  imports Fleet
begin

text \<open>
  The embedded files and their on-disk overrides (\<^verbatim>\<open>internal/assets/assets.go\<close>).  The
  embedded file system is the argument \<open>emb\<close>, a map from the paths below the package
  directory to their bytes; \<open>dir\<close> is the override directory, empty when none is set.
\<close>

type_synonym embedded = "string \<Rightarrow> string option"

definition resolveOverride :: "filesys \<Rightarrow> string \<Rightarrow> string \<Rightarrow> string option" where
  "resolveOverride fs dir rel =
     (if dir = [] then None else ReadFile fs (PathJoin [dir, ''templates'', rel]))"

datatype IPXEKind = IPXEEFIx64 | IPXESNPOnly | IPXEARM64 | IPXELegacyBIOS

fun IPXEKind_String :: "IPXEKind \<Rightarrow> string" where
  "IPXEKind_String IPXEEFIx64 = ''ipxe.efi''"
| "IPXEKind_String IPXESNPOnly = ''snponly.efi''"
| "IPXEKind_String IPXEARM64 = ''ipxe-arm64.efi''"
| "IPXEKind_String IPXELegacyBIOS = ''undionly.kpxe''"

definition FilePath :: "IPXEKind \<Rightarrow> string" where
  "FilePath k = ''ipxe/'' @ IPXEKind_String k"

datatype asset_error = EmptyAssetName | NotEmbedded string

definition read_embedded :: "embedded \<Rightarrow> string \<Rightarrow> asset_error + string" where
  "read_embedded emb p = (case emb p of None \<Rightarrow> Inl (NotEmbedded p) | Some b \<Rightarrow> Inr b)"

definition ReadIPXE :: "embedded \<Rightarrow> IPXEKind \<Rightarrow> asset_error + string" where
  "ReadIPXE emb k = read_embedded emb (FilePath k)"

definition ReadScript :: "embedded \<Rightarrow> asset_error + string" where
  "ReadScript emb = read_embedded emb ''scripts/boot.ipxe''"

definition ReadAutoexec :: "embedded \<Rightarrow> filesys \<Rightarrow> string \<Rightarrow> string \<Rightarrow> asset_error + string" where
  "ReadAutoexec emb fs dir target =
     (if target = [] then Inl EmptyAssetName
      else let rel = ''autoexec/'' @ target @ ''.ipxe''
           in case resolveOverride fs dir rel of Some b \<Rightarrow> Inr b
              | None \<Rightarrow> read_embedded emb (''scripts/'' @ rel))"

definition ReadDefault :: "embedded \<Rightarrow> filesys \<Rightarrow> string \<Rightarrow> string \<Rightarrow> asset_error + string" where
  "ReadDefault emb fs dir name =
     (if name = [] then Inl EmptyAssetName
      else let rel = ''defaults/'' @ name
           in case resolveOverride fs dir rel of Some b \<Rightarrow> Inr b
              | None \<Rightarrow> read_embedded emb (''scripts/'' @ rel))"

definition ListEditableTemplates :: "string list" where
  "ListEditableTemplates =
     [''defaults/debian-preseed.cfg'', ''defaults/cloud-init.yaml'', ''defaults/sysrescue.yaml'',
      ''defaults/sysrescue-setup.sh'', ''autoexec/menu.ipxe'', ''autoexec/ubuntu-22.04.ipxe'',
      ''autoexec/ubuntu-24.04.ipxe'', ''autoexec/debian-12.ipxe'', ''autoexec/debian-13.ipxe'']"

definition ReadEmbedded :: "embedded \<Rightarrow> string \<Rightarrow> asset_error + string" where
  "ReadEmbedded emb rel = read_embedded emb (''scripts/'' @ rel)"

lemma ReadDefault_fallback:
  "dir = [] \<Longrightarrow> name \<noteq> [] \<Longrightarrow> ReadDefault emb fs dir name = ReadEmbedded emb (''defaults/'' @ name)"
  by (simp add: ReadDefault_def resolveOverride_def ReadEmbedded_def)

end
