(* ===== verification/Dispatch.thy ===== *)
theory Dispatch
  imports Fleet_Txn Assets
begin

text \<open>
  The iPXE scripts the server renders (\<^verbatim>\<open>internal/boot/dispatch.go\<close> and \<^verbatim>\<open>targets.go\<close>).
  A script is a list of lines; \<open>render_line\<close> gives the exact bytes the code writes for each, so the
  constructors only name the lines that can move control: labels, jumps, jumps taken on a match or
  on a failure, menu items (which name a label) and reboots.  The second half runs a script by the
  documented rules of iPXE the comments of the source rely on.
\<close>

section \<open>Lines\<close>

datatype script_line =
    Text string
  | Label string
  | Goto string
  | GotoVar string
  | IseqGoto string string string
  | OrGoto string string
  | MenuItem string string string
  | Reboot

definition newline :: string where
  "newline = [CHR 0x0A]"

definition em_dash :: string where
  "em_dash = [CHR 0xE2, CHR 0x80, CHR 0x94]"

fun line_text :: "script_line \<Rightarrow> string" where
  "line_text (Text s) = s"
| "line_text (Label l) = '':'' @ l"
| "line_text (Goto l) = ''goto '' @ l"
| "line_text (GotoVar v) = ''goto ${'' @ v @ ''}''"
| "line_text (IseqGoto v w l) = ''iseq ${'' @ v @ ''} '' @ w @ '' && goto '' @ l"
| "line_text (OrGoto c l) = c @ '' || goto '' @ l"
| "line_text (MenuItem a l b) = ''item '' @ a @ '' '' @ l @ b"
| "line_text Reboot = ''reboot''"

definition render_line :: "script_line \<Rightarrow> string" where
  "render_line l = line_text l @ newline"

text \<open>
  \<^verbatim>\<open>strconv.Quote\<close>, the \<^verbatim>\<open>%q\<close> verb.  Runes above 127 are written as escaped bytes: which of
  them count as printable is not modelled.
\<close>

definition quote_char :: "char \<Rightarrow> string" where
  "quote_char c =
     (let n = of_char c :: nat; bs = CHR 0x5C in
      if c = CHR 0x22 \<or> c = bs then [bs, c]
      else if n = 7 then [bs, CHR ''a''] else if n = 8 then [bs, CHR ''b'']
      else if n = 9 then [bs, CHR ''t''] else if n = 10 then [bs, CHR ''n'']
      else if n = 11 then [bs, CHR ''v''] else if n = 12 then [bs, CHR ''f'']
      else if n = 13 then [bs, CHR ''r'']
      else if n < 32 \<or> n \<ge> 127 then [bs, CHR ''x''] @ hex_byte c
      else [c])"

definition Quote :: "string \<Rightarrow> string" where
  "Quote s = [CHR 0x22] @ concat (map quote_char s) @ [CHR 0x22]"

section \<open>The dispatch script\<close>

record DispatchContext =
  AdvertisedIP :: string
  HTTPPort :: int
  ClientNetmask :: string
  RescueArmed :: "(string \<Rightarrow> bool) option"

definition label_char :: "char \<Rightarrow> bool" where
  "label_char c \<longleftrightarrow> (c \<ge> CHR ''a'' \<and> c \<le> CHR ''z'') \<or> (c \<ge> CHR ''A'' \<and> c \<le> CHR ''Z'')
     \<or> (c \<ge> CHR ''0'' \<and> c \<le> CHR ''9'') \<or> c = CHR ''_''"

definition labelOf :: "string \<Rightarrow> string \<Rightarrow> string" where
  "labelOf mac name =
     (let ident = (if name = [] then ReplaceAll mac (CHR '':'') ''_'' else name)
      in ''m_'' @ map (\<lambda>c. if label_char c then c else CHR ''_'') ident)"

definition machine_label :: "Machine \<Rightarrow> string" where
  "machine_label m = labelOf (m_MAC m) (p_Name (m_Profile m))"

definition machyp :: "Machine \<Rightarrow> string" where
  "machyp m = ReplaceAll (m_MAC m) (CHR '':'') ''-''"

definition host_port :: "DispatchContext \<Rightarrow> string" where
  "host_port ctx = AdvertisedIP ctx @ '':'' @ Itoa (HTTPPort ctx)"

text \<open>Every URL of the script: \<^verbatim>\<open>http://IP:port\<close> and a path.\<close>

definition server_url :: "DispatchContext \<Rightarrow> string \<Rightarrow> string" where
  "server_url ctx p = ''http://'' @ host_port ctx @ p"

definition writeMachineErrorBlocks :: "string \<Rightarrow> string \<Rightarrow> string \<Rightarrow> script_line list" where
  "writeMachineErrorBlocks label target srcURL =
     [Text [],
      Label (label @ ''_fail_dhcp''),
      Text ''echo'',
      Text ''echo ===== DHCP FAILED ====='',
      Text (''echo   target: '' @ target),
      Text ''echo   iPXE could not get an IP from the DHCP server in the matched arm'',
      Text ''echo   nothing further is possible; rebooting in 30s'',
      Text ''sleep 30'',
      Reboot,
      Text [],
      Label (label @ ''_fail_kernel''),
      Text ''echo'',
      Text ''echo ===== KERNEL FETCH FAILED ====='',
      Text (''echo   target:    '' @ target),
      Text (''echo   tried URL: '' @ srcURL @ ''/linux''),
      Text ''echo   verify DNS + outbound HTTP from this NIC reach the URL above'',
      Text ''echo   rebooting in 30s'',
      Text ''sleep 30'',
      Reboot,
      Text [],
      Label (label @ ''_fail_initrd''),
      Text ''echo'',
      Text ''echo ===== INITRD FETCH FAILED ====='',
      Text (''echo   target:    '' @ target),
      Text (''echo   tried URL: '' @ srcURL @ ''/initrd.gz''),
      Text ''echo   kernel loaded fine; initrd download failed'',
      Text ''echo   rebooting in 30s'',
      Text ''sleep 30'',
      Reboot,
      Text [],
      Label (label @ ''_fail_boot''),
      Text ''echo'',
      Text ''echo ===== BOOT FAILED ====='',
      Text (''echo   target: '' @ target),
      Text ''echo   kernel + initrd loaded but `boot` returned error'',
      Text ''echo   likely a kernel cmdline / arch mismatch'',
      Text ''echo   rebooting in 30s'',
      Text ''sleep 30'',
      Reboot]"

definition writeRescueArm :: "Machine \<Rightarrow> DispatchContext \<Rightarrow> string \<Rightarrow> script_line list" where
  "writeRescueArm m ctx label =
     (let assetsBase = server_url ctx ''/assets/systemrescue'';
          httpSrv = assetsBase @ ''/'';
          kernelURL = assetsBase @ ''/sysresccd/boot/x86_64/vmlinuz'';
          initrdURL = assetsBase @ ''/sysresccd/boot/x86_64/sysresccd.img'';
          cfgURL = server_url ctx (''/autoinstall/'' @ machyp m @ ''/sysrescue.yaml'')
      in
     [Text (''echo pxe-beacon: fetching SystemRescue kernel: '' @ kernelURL),
      Text ''echo pxe-beacon: (requires `pxe-beacon fetch systemrescue` to have populated data-dir)'',
      OrGoto (''kernel --name vmlinuz '' @ kernelURL @ '' archisobasedir=sysresccd ip=dhcp archiso_http_srv='' @ httpSrv @ '' sysrescuecfg='' @ cfgURL @ '' ---'') (label @ ''_fail_kernel''),
      Text (''echo pxe-beacon: fetching SystemRescue initramfs: '' @ initrdURL),
      OrGoto (''initrd --name sysresccd.img '' @ initrdURL) (label @ ''_fail_initrd''),
      Text ''echo pxe-beacon: handing control to SystemRescue (boot)...'',
      OrGoto ''boot'' (label @ ''_fail_boot'')]
     @ writeMachineErrorBlocks label ''systemrescue'' assetsBase)"

text \<open>The arms of the switch over the boot target.  The four extra kernel arguments are empty.\<close>

definition debian_arm :: "string \<Rightarrow> string \<Rightarrow> string \<Rightarrow> Machine \<Rightarrow> DispatchContext \<Rightarrow> string \<Rightarrow> script_line list" where
  "debian_arm version suite mirror m ctx label =
     (let preseedURL = server_url ctx (''/autoinstall/'' @ machyp m @ ''/preseed.cfg'');
          ipArg = []; bootifArg = []; debugArg = []; consoleArgs = []
      in
     [Text (''echo pxe-beacon: fetching Debian '' @ version @ '' d-i kernel: '' @ mirror @ ''/linux''),
      OrGoto (''kernel --name linux '' @ mirror @ ''/linux auto=true priority=critical preseed/url='' @ preseedURL @ '' mirror/suite='' @ suite @ '' '' @ ipArg @ '' '' @ bootifArg @ '' '' @ debugArg @ '' '' @ consoleArgs @ '' ---'') (label @ ''_fail_kernel''),
      Text (''echo pxe-beacon: fetching initrd: '' @ mirror @ ''/initrd.gz''),
      OrGoto (''initrd --name initrd.gz '' @ mirror @ ''/initrd.gz'') (label @ ''_fail_initrd''),
      Text ''echo pxe-beacon: handing control to d-i (boot)...'',
      OrGoto ''boot'' (label @ ''_fail_boot'')]
     @ writeMachineErrorBlocks label (p_Boot (m_Profile m)) mirror)"

definition rhel_arm :: "Machine \<Rightarrow> DispatchContext \<Rightarrow> string \<Rightarrow> script_line list" where
  "rhel_arm m ctx label =
     (let rocky = (p_Boot (m_Profile m) = ''rocky-9'');
          mirror = (if rocky then ''https://download.rockylinux.org/pub/rocky/9/BaseOS/x86_64/os/images/pxeboot''
                    else ''https://repo.almalinux.org/almalinux/9/BaseOS/x86_64/os/images/pxeboot'');
          repoBase = (if rocky then ''https://download.rockylinux.org/pub/rocky/9/BaseOS/x86_64/os''
                      else ''https://repo.almalinux.org/almalinux/9/BaseOS/x86_64/os'');
          osname = (if rocky then ''Rocky Linux 9'' else ''AlmaLinux 9'');
          kickstartURL = server_url ctx (''/autoinstall/'' @ machyp m @ ''/kickstart.cfg'');
          ipArg = []; bootifArg = []; consoleArgs = []
      in
     [Text ''echo pxe-beacon: ip=${ip} gw=${gateway} dns=${dns}'',
      Text (''echo pxe-beacon: fetching '' @ osname @ '' kernel: '' @ mirror @ ''/vmlinuz''),
      OrGoto (''kernel --name vmlinuz '' @ mirror @ ''/vmlinuz initrd=initrd.img inst.repo='' @ repoBase @ '' inst.ks='' @ kickstartURL @ '' '' @ ipArg @ '' '' @ bootifArg @ '' '' @ consoleArgs @ '' ---'') (label @ ''_fail_kernel''),
      Text (''echo pxe-beacon: fetching '' @ osname @ '' initrd: '' @ mirror @ ''/initrd.img''),
      OrGoto (''initrd --name initrd.img '' @ mirror @ ''/initrd.img'') (label @ ''_fail_initrd''),
      Text ''echo pxe-beacon: handing control to Anaconda (boot)...'',
      OrGoto ''boot'' (label @ ''_fail_boot'')]
     @ writeMachineErrorBlocks label (p_Boot (m_Profile m)) mirror)"

definition ubuntu_arm :: "Machine \<Rightarrow> DispatchContext \<Rightarrow> string \<Rightarrow> script_line list" where
  "ubuntu_arm m ctx label =
     (let assets = server_url ctx (''/assets/'' @ p_Boot (m_Profile m));
          autoinstallBase = server_url ctx (''/autoinstall/'' @ machyp m @ ''/'');
          ipArg = []; bootifArg = []; consoleArgs = []
      in
     [Text (''echo pxe-beacon: fetching Ubuntu '' @ TrimPrefix (p_Boot (m_Profile m)) ''ubuntu-'' @ '' kernel from '' @ assets @ ''/vmlinuz''),
      Text (''echo pxe-beacon: (requires `pxe-beacon fetch '' @ p_Boot (m_Profile m) @ ''` to have populated data-dir)''),
      OrGoto (''kernel --name vmlinuz '' @ assets @ ''/vmlinuz initrd=initrd '' @ ipArg @ '' '' @ bootifArg @ '' ipv6.disable=1 boot=casper url='' @ assets @ ''/filesystem.squashfs '' @ consoleArgs @ '' autoinstall ds=nocloud-net'' @ [CHR 0x5C] @ '';s='' @ autoinstallBase @ '' ---'') (label @ ''_fail_kernel''),
      OrGoto (''initrd --name initrd '' @ assets @ ''/initrd'') (label @ ''_fail_initrd''),
      Text ''echo pxe-beacon: handing control to Subiquity (boot)...'',
      OrGoto ''boot'' (label @ ''_fail_boot'')]
     @ writeMachineErrorBlocks label (p_Boot (m_Profile m)) assets)"

definition custom_arm :: "Machine \<Rightarrow> DispatchContext \<Rightarrow> string \<Rightarrow> script_line list" where
  "custom_arm m ctx label =
     (let customURL = server_url ctx (''/autoinstall/'' @ machyp m @ ''/autoexec.ipxe'')
      in
     [Text (''echo pxe-beacon: chaining operator-supplied script '' @ customURL),
      OrGoto (''chain --replace --autofree '' @ customURL) (label @ ''_fail_chain''),
      Text [],
      Label (label @ ''_fail_dhcp''),
      Text (''echo pxe-beacon: DHCP FAILED in custom arm '' @ em_dash @ '' no IP, rebooting in 30s''),
      Text ''sleep 30'',
      Reboot,
      Text [],
      Label (label @ ''_fail_chain''),
      Text (''echo pxe-beacon: custom script CHAIN FAILED '' @ em_dash @ '' check HTTP reachability to operator URL''),
      Text ''sleep 30'',
      Reboot])"

definition menu_arm :: "string \<Rightarrow> script_line list" where
  "menu_arm label =
     [Text ''echo pxe-beacon: chaining netboot.xyz menu'',
      OrGoto ''chain --replace --autofree https://boot.netboot.xyz/menu.ipxe'' (label @ ''_fail_chain''),
      Text [],
      Label (label @ ''_fail_dhcp''),
      Text (''echo pxe-beacon: DHCP FAILED in menu arm '' @ em_dash @ '' no IP, rebooting in 30s''),
      Text ''sleep 30'',
      Reboot,
      Text [],
      Label (label @ ''_fail_chain''),
      Text (''echo pxe-beacon: netboot.xyz menu CHAIN FAILED '' @ em_dash @ '' check HTTPS reachability''),
      Text ''sleep 30'',
      Reboot]"

definition machine_name :: "Machine \<Rightarrow> string" where
  "machine_name m = (if p_Name (m_Profile m) = [] then m_MAC m else p_Name (m_Profile m))"

definition unknown_arm :: "Machine \<Rightarrow> script_line list" where
  "unknown_arm m =
     (let mname = machine_name m
      in
     [Text (''echo pxe-beacon: unknown boot target '' @ Quote (p_Boot (m_Profile m)) @ '' for '' @ mname @ ''; falling through''),
      Goto ''target_default''])"

definition boot_arm :: "Machine \<Rightarrow> DispatchContext \<Rightarrow> string \<Rightarrow> script_line list" where
  "boot_arm m ctx label =
     (let b = p_Boot (m_Profile m) in
      if b = ''debian-12'' then debian_arm ''12'' ''bookworm''
        ''http://deb.debian.org/debian/dists/bookworm/main/installer-amd64/current/images/netboot/debian-installer/amd64''
        m ctx label
      else if b = ''debian-13'' then debian_arm ''13'' ''trixie''
        ''http://deb.debian.org/debian/dists/trixie/main/installer-amd64/current/images/netboot/debian-installer/amd64''
        m ctx label
      else if b = ''rocky-9'' \<or> b = ''alma-9'' then rhel_arm m ctx label
      else if b = ''ubuntu-22.04'' \<or> b = ''ubuntu-24.04'' then ubuntu_arm m ctx label
      else if b = ''custom'' then custom_arm m ctx label
      else if b = ''menu'' then menu_arm label
      else unknown_arm m)"

definition machine_head :: "Machine \<Rightarrow> DispatchContext \<Rightarrow> bool \<Rightarrow> script_line list" where
  "machine_head m ctx rescue =
     (let label = machine_label m;
          mname = machine_name m;
          targetDesc = (if rescue then ''systemrescue (RESCUE)'' else p_Boot (m_Profile m));
          addr = host_port ctx
      in
     [Text [],
      Label label,
      Text ''echo'',
      Text (''echo ===== [stage 4/5] MATCHED ARM: '' @ mname @ '' =====''),
      Text (''echo   fleet target: '' @ targetDesc),
      Text (''echo   mac: '' @ m_MAC m),
      Text (''chain --autofree http://'' @ addr @ ''/debug/probe/matched/'' @ mname @ '' || echo   (phone-home failed)''),
      Text ''sleep 2'',
      Text [],
      Text (''menu pxe-beacon '' @ em_dash @ '' '' @ mname @ '' ('' @ m_MAC m @ '')''),
      Text (''item --gap fleet config: boot='' @ targetDesc),
      MenuItem ''--default --key b'' (label @ ''_boot'') (''         Boot fleet target (default '' @ em_dash @ '' auto in 30s): '' @ targetDesc),
      MenuItem ''           --key m'' ''menu_netbootxyz'' ''   netboot.xyz menu (manual OS picker)'',
      MenuItem ''           --key s'' (label @ ''_shell'') ''       iPXE shell (debug)'',
      Text (''echo pxe-beacon: press 'b' to boot '' @ targetDesc @ '' now, 'm' for netboot.xyz menu, 's' for shell '' @ em_dash @ '' or wait 30s''),
      Text (''choose --timeout 30000 --default '' @ label @ ''_boot '' @ label @ ''_menu_choice ||''),
      Text ''echo pxe-beacon: choose returned error (Ctrl+C?), defaulting to boot fleet target'',
      Text (''echo pxe-beacon: ===== menu choice: ${'' @ label @ ''_menu_choice} =====''),
      Text (''chain --autofree http://'' @ addr @ ''/debug/probe/menu-choice/${'' @ label @ ''_menu_choice} || echo   (phone-home failed)''),
      Text ''sleep 2'',
      GotoVar (label @ ''_menu_choice''),
      Text [],
      Label (label @ ''_shell''),
      Text (''echo pxe-beacon: dropping to iPXE shell. Type 'exit' to return to the menu.''),
      Text ''shell'',
      Goto label,
      Text [],
      Label (label @ ''_boot''),
      Text ''echo'',
      Text (''echo ===== [stage 5/5] BOOTING '' @ targetDesc @ '' =====''),
      Text ''echo   ip      = ${ip}'',
      Text ''echo   netmask = ${netmask}'',
      Text ''echo   gateway = ${gateway}'',
      Text ''echo   dns     = ${dns}'',
      Text (''chain --autofree http://'' @ addr @ ''/debug/probe/booting/'' @ targetDesc @ '' || echo   (phone-home failed)''),
      Text ''sleep 2'',
      Text ''imgfree''])"

definition writeMachineBlock :: "Machine \<Rightarrow> DispatchContext \<Rightarrow> bool \<Rightarrow> script_line list" where
  "writeMachineBlock m ctx rescue =
     machine_head m ctx rescue
     @ (if rescue then writeRescueArm m ctx (machine_label m) else boot_arm m ctx (machine_label m))"

definition nics :: "string list" where
  "nics = [''net0/mac:hexhyp'', ''net1/mac:hexhyp'', ''net2/mac:hexhyp'', ''net3/mac:hexhyp'']"

definition dispatch_entry :: "Machine \<Rightarrow> script_line list" where
  "dispatch_entry m =
     Text (''echo   trying '' @ p_Name (m_Profile m) @ '' ('' @ machyp m @ '')...'')
     # map (\<lambda>nic. IseqGoto nic (machyp m) (machine_label m)) nics"

definition dispatch_machines :: "Fleet option \<Rightarrow> Machine list" where
  "dispatch_machines f =
     (case f of None \<Rightarrow> []
      | Some f' \<Rightarrow> slice_stable (\<lambda>a b. m_MAC a < m_MAC b)
          (map (\<lambda>(mac, p). \<lparr>m_MAC = mac, m_Profile = p\<rparr>) (Machines f')))"

definition arch_check :: "script_line list" where
  "arch_check =
     [Text ''#!ipxe'',
      Text (''# pxe-beacon dispatch '' @ em_dash @ '' generated per request from fleet.yaml.''),
      Text [],
      Text (''# v0.14.2: arch denylist '' @ em_dash @ '' refuse arm only, fail open for x86.''),
      IseqGoto ''buildarch'' ''arm64'' ''arch_refuse'',
      IseqGoto ''buildarch'' ''arm32'' ''arch_refuse'',
      Goto ''arch_ok'',
      Label ''arch_refuse'',
      Text ''echo'',
      Text ''echo ===== UNSUPPORTED ARCH ====='',
      Text ''echo pxe-beacon supports amd64/x86_64 only; got buildarch=${buildarch}'',
      Text ''echo multi-arch tracked for a future release; rebooting in 30s'',
      Text ''sleep 30'',
      Reboot,
      Label ''arch_ok'',
      Text []]"

definition stage0 :: "script_line list" where
  "stage0 =
     [Text ''echo ============================================================'',
      Text (''echo  pxe-beacon dispatch (v0.8.1) '' @ em_dash @ '' already-installed guard, ARM64 refuse, listener races fixed''),
      Text ''echo ============================================================'',
      Text ''echo'',
      Text ''echo [stage 0/5] iPXE settings BEFORE dhcp'',
      Text ''echo   net0/mac        = ${net0/mac}'',
      Text ''echo   net0/mac:hexhyp = ${net0/mac:hexhyp}'',
      Text ''echo   ip              = ${ip}'',
      Text ''echo   netmask         = ${netmask}'',
      Text ''echo   gateway         = ${gateway}'',
      Text ''echo   dns             = ${dns}'',
      Text ''echo   platform        = ${platform}'',
      Text ''echo   buildarch       = ${buildarch}'',
      Text ''sleep 2'',
      Text [],
      Text ''echo [stage 1/5] running dhcp...'',
      OrGoto ''dhcp'' ''top_fail_dhcp'',
      Text ''echo   dhcp ok. assigned:'',
      Text ''echo     ip      = ${ip}'',
      Text ''echo     netmask = ${netmask}'',
      Text ''echo     gateway = ${gateway}'',
      Text ''echo     dns     = ${dns}'',
      Text ''sleep 2'',
      Text []]"

definition netmask_stage :: "DispatchContext \<Rightarrow> script_line list" where
  "netmask_stage ctx =
     (if ClientNetmask ctx \<noteq> [] then
     [Text ''echo [stage 2/5] widening netmask for cross-subnet routing'',
      Text (''echo   from '' @ ''${netmask}'' @ '' -> '' @ ClientNetmask ctx),
      Text (''set net0/netmask '' @ ClientNetmask ctx),
      Text ''echo   net0/netmask now: ${netmask}'',
      Text ''sleep 2'',
      Text []]
      else
     [Text ''echo [stage 2/5] no -client-netmask flag set; using DHCP-supplied netmask'',
      Text ''sleep 1'',
      Text []])"

definition phone_home :: "DispatchContext \<Rightarrow> script_line list" where
  "phone_home ctx =
     (let addr = host_port ctx
      in
     [Text (''echo [phone-home] chaining http://'' @ addr @ ''/debug/probe/stage/post-netmask''),
      Text (''chain --autofree http://'' @ addr @ ''/debug/probe/stage/post-netmask || echo   (phone-home failed; pxe-beacon may be unreachable)''),
      Text [],
      Text ''echo [stage 3/5] per-MAC iseq dispatch'',
      Text ''echo   comparing ${net0/mac:hexhyp} against fleet.yaml entries...'',
      Text ''sleep 1'',
      Text [],
      Text ''# ----- per-MAC dispatch (one iseq per line; covers net0..net3) -----''])"

definition table_end :: "script_line list" where
  "table_end =
     [Text (''echo   no iseq matched '' @ em_dash @ '' falling through to target_default''),
      Text ''sleep 1'',
      Goto ''target_default'',
      Text []]"

definition script_tail :: "DispatchContext \<Rightarrow> script_line list" where
  "script_tail ctx =
     (let addr = host_port ctx
      in
     [Text ''# ----- default arm: machine not in fleet.yaml -----'',
      Label ''target_default'',
      Text ''echo'',
      Text ''echo ===== NO FLEET MATCH ====='',
      Text ''echo   ${net0/mac:hexhyp} is not in fleet.yaml'',
      Text ''echo   check fleet.yaml for a matching `mac:` entry'',
      Text (''echo   (compare against the value above '' @ em_dash @ '' case + hyphens matter)''),
      Text ''echo   falling back to netboot.xyz menu in 8s'',
      Text ''sleep 8'',
      Goto ''menu_netbootxyz'',
      Text [],
      Text (''# ----- :menu_netbootxyz '' @ em_dash @ '' clean chain to netboot.xyz hosted menu -----''),
      Label ''menu_netbootxyz'',
      Text ''echo'',
      Text ''echo ===== CHAIN TO NETBOOT.XYZ ====='',
      Text ''echo   target: https://boot.netboot.xyz/menu.ipxe'',
      Text (''echo   (this REPLACES iPXE; you should see netboot.xyz's menu next)''),
      Text (''chain --autofree http://'' @ addr @ ''/debug/probe/netbootxyz/chaining || echo   (phone-home failed)''),
      Text ''sleep 2'',
      OrGoto ''chain --replace --autofree https://boot.netboot.xyz/menu.ipxe'' ''menu_netbootxyz_fail'',
      Text [],
      Text ''# ----- top-level fail blocks -----'',
      Label ''top_fail_dhcp'',
      Text ''echo'',
      Text ''echo ===== TOP-LEVEL DHCP FAILED ====='',
      Text ''echo   iPXE could not get an IP from the DHCP server'',
      Text ''echo   nothing further is possible; rebooting in 30s'',
      Text ''sleep 30'',
      Reboot,
      Text [],
      Label ''menu_netbootxyz_fail'',
      Text ''echo'',
      Text ''echo ===== NETBOOT.XYZ CHAIN FAILED ====='',
      Text ''echo   HTTPS chain to boot.netboot.xyz failed'',
      Text ''echo   check outbound HTTPS reachability from this NIC'',
      Text ''echo   rebooting in 30s'',
      Text ''sleep 30'',
      Reboot])"

definition rescue_armed :: "DispatchContext \<Rightarrow> string \<Rightarrow> bool" where
  "rescue_armed ctx mac = (case RescueArmed ctx of None \<Rightarrow> False | Some armed \<Rightarrow> armed mac)"

definition dispatch_script :: "Fleet option \<Rightarrow> DispatchContext \<Rightarrow> script_line list" where
  "dispatch_script f ctx =
     (let machines = dispatch_machines f in
      arch_check @ stage0 @ netmask_stage ctx @ phone_home ctx
      @ concat (map dispatch_entry machines) @ table_end
      @ concat (map (\<lambda>m. writeMachineBlock m ctx (rescue_armed ctx (m_MAC m))) machines)
      @ script_tail ctx)"

definition RenderDispatch :: "Fleet option \<Rightarrow> DispatchContext \<Rightarrow> string" where
  "RenderDispatch f ctx = concat (map render_line (dispatch_script f ctx))"

section \<open>Per-target scripts\<close>

text \<open>
  The scripts served over HTTP (\<^verbatim>\<open>targets.go\<close>).  The template engine is a parameter: what
  parsing and executing a template text over a context gives.
\<close>

record RenderContext =
  rc_Name :: string
  rc_MAC :: string
  rc_MACHyp :: string
  rc_AdvertisedIP :: string
  rc_HTTPPort :: int

datatype template_result = ParseError | ExecError | Rendered string

datatype render_error = NotBuiltIn string | ReadFailed asset_error | NoCustomScript string
  | TemplateParse string | TemplateExec string

definition IsBuiltIn :: "string \<Rightarrow> bool" where
  "IsBuiltIn target \<longleftrightarrow>
     target \<in> set [''menu'', ''ubuntu-22.04'', ''ubuntu-24.04'', ''debian-12'', ''debian-13'']"

definition fill_context :: "RenderContext \<Rightarrow> RenderContext" where
  "fill_context ctx =
     (let ctx1 = (if rc_Name ctx = [] then ctx\<lparr>rc_Name := rc_MAC ctx\<rparr> else ctx)
      in if rc_MACHyp ctx1 = [] then ctx1\<lparr>rc_MACHyp := ReplaceAll (rc_MAC ctx1) (CHR '':'') ''-''\<rparr> else ctx1)"

definition run_template :: "(string \<Rightarrow> 'c \<Rightarrow> template_result) \<Rightarrow> string \<Rightarrow> string \<Rightarrow> 'c \<Rightarrow> render_error + string" where
  "run_template engine what raw ctx =
     (case engine raw ctx of ParseError \<Rightarrow> Inl (TemplateParse what) | ExecError \<Rightarrow> Inl (TemplateExec what)
      | Rendered b \<Rightarrow> Inr b)"

definition RenderAutoexec :: "(string \<Rightarrow> RenderContext \<Rightarrow> template_result) \<Rightarrow> embedded \<Rightarrow> filesys \<Rightarrow> string
    \<Rightarrow> string \<Rightarrow> RenderContext \<Rightarrow> render_error + string" where
  "RenderAutoexec engine emb fs dir target ctx =
     (if \<not> IsBuiltIn target then Inl (NotBuiltIn target)
      else case ReadAutoexec emb fs dir target of Inl e \<Rightarrow> Inl (ReadFailed e)
           | Inr raw \<Rightarrow> run_template engine target raw (fill_context ctx))"

definition RenderCustom :: "(string \<Rightarrow> RenderContext \<Rightarrow> template_result) \<Rightarrow> filesys \<Rightarrow> string \<Rightarrow> RenderContext
    \<Rightarrow> render_error + string" where
  "RenderCustom engine fs path ctx =
     (case ReadFile fs path of None \<Rightarrow> Inl (NoCustomScript path)
      | Some raw \<Rightarrow> run_template engine path raw (fill_context ctx))"

definition RedirectorScript :: "string \<Rightarrow> int \<Rightarrow> string" where
  "RedirectorScript advertisedIP httpPort = concat (map (\<lambda>l. l @ newline)
     [''#!ipxe'',
      ''# pxe-beacon: per-machine override redirector. iPXE substitutes the'',
      ''# client's MAC into the URL below and fetches the per-machine'',
      ''# autoexec.ipxe from our HTTP server, which does the real dispatch.'',
      ''#'',
      ''# DHCP first '' @ em_dash @ '' autoexec.ipxe runs before iPXE's embed.ipxe runs'',
      ''# its own dhcp, so we need to acquire networking ourselves before'',
      ''# chaining HTTP. Without this the chain silently fails and iPXE'',
      ''# falls back to its embedded netboot.xyz chain (this was the v0.4.0'',
      ''# bug).'',
      ''dhcp || echo pxe-beacon: dhcp failed in autoexec; falling back to embed'',
      ''chain --replace --autofree http://'' @ advertisedIP @ '':'' @ Itoa httpPort
        @ ''/autoinstall/${net0/mac:hexhyp}/autoexec.ipxe || '' @ [CHR 0x5C],
      ''echo pxe-beacon: HTTP override unreachable; falling back to embed'',
      ''exit''])"

end
