(* ===== verification/Tracker.thy ===== *)
theory Tracker
  imports Fleet_Txn
begin

text \<open>
  The live status of each machine (\<^verbatim>\<open>internal/fleet/status.go\<close>): which boot stage it was last
  seen at, its event history, and the snapshot the status page shows.  The tracker's pointer to the
  fleet is the argument \<open>Fleet option\<close> (\<open>None\<close> for nil) and its clock the argument \<open>now\<close>.
\<close>

section \<open>Events and the status record\<close>

type_synonym Event = string

definition EventFirmwareDHCP :: Event where "EventFirmwareDHCP = ''firmware-dhcp''"
definition EventFirmwareFetched :: Event where "EventFirmwareFetched = ''firmware-fetched''"
definition EventIPXEDHCP :: Event where "EventIPXEDHCP = ''ipxe-dhcp''"
definition EventUserDataFetched :: Event where "EventUserDataFetched = ''user-data-fetched''"
definition EventInstallerDone :: Event where "EventInstallerDone = ''installer-done''"
definition EventInstallerFailed :: Event where "EventInstallerFailed = ''installer-failed''"

lemmas event_names = EventFirmwareDHCP_def EventFirmwareFetched_def EventIPXEDHCP_def
  EventUserDataFetched_def EventInstallerDone_def EventInstallerFailed_def

definition eventOrder :: "(Event \<times> nat) list" where
  "eventOrder = [(EventFirmwareDHCP, 1), (EventFirmwareFetched, 2), (EventIPXEDHCP, 3),
     (EventUserDataFetched, 4), (EventInstallerDone, 5)]"

definition rank :: "Event \<Rightarrow> nat" where
  "rank ev = (if ev = [] then 0 else case mget eventOrder ev of None \<Rightarrow> 0 | Some n \<Rightarrow> n)"

record Status =
  st_MAC :: string
  st_Name :: string
  st_Profile :: string
  st_State :: Event
  st_LastSeen :: time
  st_Stalled :: bool
  st_Events :: "Event list"

record Tracker =
  t_machines :: "Status gomap"
  t_stalledAfter :: duration

definition NewTracker :: "duration \<Rightarrow> Tracker" where
  "NewTracker stalledAfter =
     \<lparr>t_machines = [], t_stalledAfter = (if stalledAfter \<le> 0 then 300 * second else stalledAfter)\<rparr>"

definition new_status :: "string \<Rightarrow> Status" where
  "new_status canon = \<lparr>st_MAC = canon, st_Name = [], st_Profile = [], st_State = [],
     st_LastSeen = zero_time, st_Stalled = False, st_Events = []\<rparr>"

section \<open>Operations\<close>

definition note_status :: "Fleet option \<Rightarrow> time \<Rightarrow> Event \<Rightarrow> Status \<Rightarrow> Status" where
  "note_status fl now ev s =
     (let s1 = (case fl of None \<Rightarrow> s
                | Some f \<Rightarrow> let p = Lookup f (st_MAC s)
                           in s\<lparr>st_Name := p_Name p, st_Profile := p_Boot p\<rparr>);
          s2 = (if ev = EventInstallerFailed \<or> rank ev \<ge> rank (st_State s1)
                then s1\<lparr>st_State := ev\<rparr> else s1);
          s3 = (if st_Events s2 = [] \<or> last (st_Events s2) \<noteq> ev
                then s2\<lparr>st_Events := st_Events s2 @ [ev]\<rparr> else s2)
      in s3\<lparr>st_LastSeen := now\<rparr>)"

definition Tracker_Note :: "Fleet option \<Rightarrow> time \<Rightarrow> string \<Rightarrow> Event \<Rightarrow> Tracker \<Rightarrow> Tracker" where
  "Tracker_Note fl now mac ev t =
     (case CanonicalMAC mac of Inl e \<Rightarrow> t
      | Inr canon \<Rightarrow>
          let s = (case mget (t_machines t) canon of None \<Rightarrow> new_status canon | Some s \<Rightarrow> s)
          in t\<lparr>t_machines := mput canon (note_status fl now ev s) (t_machines t)\<rparr>)"

definition LastEvent :: "Tracker \<Rightarrow> string \<Rightarrow> Event" where
  "LastEvent t mac =
     (case CanonicalMAC mac of Inl e \<Rightarrow> []
      | Inr canon \<Rightarrow>
          case mget (t_machines t) canon of None \<Rightarrow> [] | Some s \<Rightarrow> st_State s)"

definition isStalled :: "Status \<Rightarrow> time \<Rightarrow> bool" where
  "isStalled s cutoff =
     (if st_State s = [] \<or> st_State s = EventInstallerDone \<or> st_State s = EventInstallerFailed then False
      else if st_LastSeen s = zero_time then False
      else st_LastSeen s < cutoff)"

definition status_less :: "Status \<Rightarrow> Status \<Rightarrow> bool" where
  "status_less a b =
     (if (st_Name a \<noteq> []) \<noteq> (st_Name b \<noteq> []) then st_Name a \<noteq> []
      else if st_Name a \<noteq> st_Name b then st_Name a < st_Name b
      else st_MAC a < st_MAC b)"

definition fleet_row :: "Tracker \<Rightarrow> time \<Rightarrow> string \<times> Profile \<Rightarrow> Status" where
  "fleet_row t cutoff cp =
     (case cp of (canon, p) \<Rightarrow>
        case mget (t_machines t) canon of
          Some live \<Rightarrow>
            let cp = live\<lparr>st_Profile := p_Boot p, st_Name := p_Name p\<rparr>
            in cp\<lparr>st_Stalled := isStalled cp cutoff\<rparr>
        | None \<Rightarrow> (new_status canon)\<lparr>st_Name := p_Name p, st_Profile := p_Boot p\<rparr>)"

definition stranger_row :: "time \<Rightarrow> string \<times> Status \<Rightarrow> Status" where
  "stranger_row cutoff cl = (case cl of (canon, live) \<Rightarrow> live\<lparr>st_Stalled := isStalled live cutoff\<rparr>)"

definition snapshot_rows :: "Profile gomap \<Rightarrow> time \<Rightarrow> Tracker \<Rightarrow> Status list" where
  "snapshot_rows ms cutoff t =
     map (fleet_row t cutoff) ms
     @ map (stranger_row cutoff) (filter (\<lambda>(canon, live). canon \<notin> mkeys ms) (t_machines t))"

definition Snapshot :: "Fleet option \<Rightarrow> time \<Rightarrow> Tracker \<Rightarrow> Status list" where
  "Snapshot fl now t =
     slice_stable status_less
       (snapshot_rows (case fl of None \<Rightarrow> [] | Some f \<Rightarrow> Machines f) (now - t_stalledAfter t) t)"

section \<open>The invariant\<close>

definition tracker_ok :: "Tracker \<Rightarrow> bool" where
  "tracker_ok t \<longleftrightarrow> keys_ok (t_machines t)
     \<and> (\<forall>(c, s) \<in> set (t_machines t). is_canonical c \<and> st_MAC s = c \<and> st_Events s \<noteq> []
           \<and> st_State s \<in> set (st_Events s) \<and> distinct_adj (st_Events s))"

lemma tracker_ok_New [simp]: "tracker_ok (NewTracker d)"
  by (simp add: tracker_ok_def NewTracker_def)

lemma note_status_simps [simp]:
  "st_MAC (note_status fl now ev s) = st_MAC s"
  "st_LastSeen (note_status fl now ev s) = now"
  "st_Stalled (note_status fl now ev s) = st_Stalled s"
  "st_State (note_status fl now ev s) =
     (if ev = EventInstallerFailed \<or> rank ev \<ge> rank (st_State s) then ev else st_State s)"
  "st_Events (note_status fl now ev s) =
     (if st_Events s = [] \<or> last (st_Events s) \<noteq> ev then st_Events s @ [ev] else st_Events s)"
  by (simp_all add: note_status_def Let_def split: option.split)

lemma note_status_Some [simp]:
  "st_Name (note_status (Some f) now ev s) = p_Name (Lookup f (st_MAC s))"
  "st_Profile (note_status (Some f) now ev s) = p_Boot (Lookup f (st_MAC s))"
  by (simp_all add: note_status_def Let_def)

lemma rank_Nil [simp]: "rank [] = 0"
  by (simp add: rank_def)

lemma tracker_ok_get: "tracker_ok t \<Longrightarrow> mget (t_machines t) c = Some s \<Longrightarrow>
    is_canonical c \<and> st_MAC s = c \<and> st_Events s \<noteq> [] \<and> st_State s \<in> set (st_Events s)
    \<and> distinct_adj (st_Events s)"
  by (auto simp: tracker_ok_def dest!: mget_Some_mem)

lemma tracker_ok_Note: "tracker_ok t \<Longrightarrow> tracker_ok (Tracker_Note fl now mac ev t)"
proof (cases "CanonicalMAC mac")
  case (Inr c)
  assume ok: "tracker_ok t"
  let ?s = "case mget (t_machines t) c of None \<Rightarrow> new_status c | Some s \<Rightarrow> s"
  let ?n = "note_status fl now ev ?s"
  have "st_MAC ?n = c \<and> st_Events ?n \<noteq> [] \<and> st_State ?n \<in> set (st_Events ?n) \<and> distinct_adj (st_Events ?n)"
    using tracker_ok_get [OF ok]
    by (cases "mget (t_machines t) c")
      (auto simp: new_status_def distinct_adj_append_iff, metis last_in_set)
  moreover have "is_canonical c" using Inr by (rule canonical_result)
  ultimately show ?thesis
    using ok Inr by (auto simp: tracker_ok_def Tracker_Note_def Let_def set_mput)
qed (simp add: Tracker_Note_def)

lemma LastEvent_Note:
  assumes "CanonicalMAC mac = Inr c"
  shows "LastEvent (Tracker_Note fl now mac ev t) m =
     (if CanonicalMAC m = Inr c
      then if ev = EventInstallerFailed \<or> rank ev \<ge> rank (LastEvent t m) then ev else LastEvent t m
      else LastEvent t m)"
  using assms
  by (auto simp: Tracker_Note_def LastEvent_def Let_def mget_mput new_status_def
      split: sum.splits option.splits)

section \<open>The log a tracker summarises\<close>

type_synonym report = "time \<times> string \<times> Event"

definition note_all :: "Fleet option \<Rightarrow> report list \<Rightarrow> Tracker \<Rightarrow> Tracker" where
  "note_all fl log t = foldl (\<lambda>t (now, mac, ev). Tracker_Note fl now mac ev t) t log"

definition notes_for :: "string \<Rightarrow> report list \<Rightarrow> report list" where
  "notes_for c log = filter (\<lambda>(now, mac, ev). CanonicalMAC mac = Inr c) log"

definition events_for :: "string \<Rightarrow> report list \<Rightarrow> Event list" where
  "events_for c log = map (\<lambda>(now, mac, ev). ev) (notes_for c log)"

definition advance :: "Event \<Rightarrow> Event \<Rightarrow> Event" where
  "advance s ev = (if ev = EventInstallerFailed \<or> rank ev \<ge> rank s then ev else s)"

lemma note_all_snoc: "note_all fl (log @ [(now, mac, ev)]) t = Tracker_Note fl now mac ev (note_all fl log t)"
  by (simp add: note_all_def)

lemma remdups_adj_snoc:
  "remdups_adj (xs @ [x]) = (if xs = [] \<or> last xs \<noteq> x then remdups_adj xs @ [x] else remdups_adj xs)"
  by (induction xs rule: remdups_adj.induct) auto

lemma last_remdups_adj: "xs \<noteq> [] \<Longrightarrow> last (remdups_adj xs) = last xs"
  by (induction xs rule: remdups_adj.induct) auto

definition summarises :: "Status option \<Rightarrow> string \<Rightarrow> report list \<Rightarrow> bool" where
  "summarises s c log \<longleftrightarrow>
     (case s of None \<Rightarrow> notes_for c log = []
      | Some s \<Rightarrow> notes_for c log \<noteq> [] \<and> st_MAC s = c
          \<and> st_State s = foldl advance [] (events_for c log)
          \<and> st_Events s = remdups_adj (events_for c log)
          \<and> st_LastSeen s = fst (last (notes_for c log)))"

lemma summarises_note_all:
  "summarises (mget (t_machines (note_all fl log (NewTracker d))) c) c log"
proof (induction log rule: rev_induct)
  case Nil
  show ?case by (simp add: summarises_def note_all_def NewTracker_def notes_for_def)
next
  case (snoc n log)
  obtain now mac ev where n: "n = (now, mac, ev)" by (rule prod_cases3)
  let ?t = "note_all fl log (NewTracker d)"
  show ?case
  proof (cases "CanonicalMAC mac = Inr c")
    case False
    then have get: "mget (t_machines (Tracker_Note fl now mac ev ?t)) c = mget (t_machines ?t) c"
      by (auto simp: Tracker_Note_def Let_def mget_mput split: sum.splits)
    have logs: "notes_for c (log @ [n]) = notes_for c log" "events_for c (log @ [n]) = events_for c log"
      using False by (simp_all add: n notes_for_def events_for_def)
    show ?thesis using snoc unfolding n note_all_snoc get summarises_def logs [unfolded n] .
  next
    case True
    let ?s = "case mget (t_machines ?t) c of None \<Rightarrow> new_status c | Some s \<Rightarrow> s"
    have get: "mget (t_machines (Tracker_Note fl now mac ev ?t)) c = Some (note_status fl now ev ?s)"
      using True by (simp add: Tracker_Note_def Let_def mget_mput)
    have logs: "notes_for c (log @ [n]) = notes_for c log @ [n]"
      "events_for c (log @ [n]) = events_for c log @ [ev]"
      using True by (simp_all add: n notes_for_def events_for_def)
    have "st_MAC ?s = c \<and> st_State ?s = foldl advance [] (events_for c log)
        \<and> st_Events ?s = remdups_adj (events_for c log)"
      using snoc
      by (cases "mget (t_machines ?t) c") (simp_all add: summarises_def new_status_def events_for_def)
    then show ?thesis
      unfolding n note_all_snoc get
      by (simp add: summarises_def logs [unfolded n] advance_def remdups_adj_snoc last_remdups_adj)
  qed
qed

section \<open>Snapshots\<close>

definition status_key :: "Status \<Rightarrow> bool \<times> string \<times> string" where
  "status_key s = (st_Name s = [], st_Name s, st_MAC s)"

lemma status_less_key: "status_less a b \<longleftrightarrow> status_key a < status_key b"
  by (auto simp: status_less_def status_key_def less_prod_def')

lemma fleet_row_simps [simp]:
  "tracker_ok t \<Longrightarrow> st_MAC (fleet_row t cutoff (c, p)) = c"
  "st_Name (fleet_row t cutoff (c, p)) = p_Name p"
  "st_Profile (fleet_row t cutoff (c, p)) = p_Boot p"
  by (auto simp: fleet_row_def new_status_def Let_def dest: tracker_ok_get split: option.split)

lemma stranger_row_MAC [simp]: "st_MAC (stranger_row cutoff (c, s)) = st_MAC s"
  by (simp add: stranger_row_def)

lemma snapshot_rows_MACs:
  assumes "tracker_ok t"
  shows "map st_MAC (snapshot_rows ms cutoff t)
    = map fst ms @ filter (\<lambda>c. c \<notin> mkeys ms) (map fst (t_machines t))"
proof -
  have str: "map st_MAC (map (stranger_row cutoff) (filter (\<lambda>(c, live). P c) xs))
      = filter P (map fst xs)" if "\<forall>(c, s) \<in> set xs. st_MAC s = c" for xs P
    using that by (induction xs) auto
  have "\<forall>(c, s) \<in> set (t_machines t). st_MAC s = c"
    using assms by (auto simp: tracker_ok_def)
  moreover have "map st_MAC (map (fleet_row t cutoff) ms) = map fst ms" using assms by auto
  ultimately show ?thesis
    unfolding snapshot_rows_def map_append using str [where P = "\<lambda>c. c \<notin> mkeys ms"] by simp
qed

lemma snapshot_rows_distinct:
  "tracker_ok t \<Longrightarrow> keys_ok ms \<Longrightarrow> distinct (map st_MAC (snapshot_rows ms cutoff t))"
  unfolding snapshot_rows_MACs by (auto simp: keys_ok_def tracker_ok_def)

lemma snapshot_rows_set:
  "tracker_ok t \<Longrightarrow> st_MAC ` set (snapshot_rows ms cutoff t) = mkeys ms \<union> mkeys (t_machines t)"
  unfolding set_map [symmetric] snapshot_rows_MACs by auto

lemma tracker_ok_MAC: "tracker_ok t \<Longrightarrow> (c, s) \<in> set (t_machines t) \<Longrightarrow> st_MAC s = c"
  by (auto simp: tracker_ok_def)

lemma snapshot_row_origin:
  assumes "tracker_ok t" "s \<in> set (snapshot_rows ms cutoff t)"
  obtains (configured) p where "(st_MAC s, p) \<in> set ms" "s = fleet_row t cutoff (st_MAC s, p)"
    | (stranger) "st_MAC s \<notin> mkeys ms"
proof -
  from assms(2) consider (a) c p where "(c, p) \<in> set ms" "s = fleet_row t cutoff (c, p)"
    | (b) c l where "(c, l) \<in> set (t_machines t)" "c \<notin> mkeys ms" "s = stranger_row cutoff (c, l)"
    by (auto simp: snapshot_rows_def)
  then show thesis
  proof cases
    case a
    then have "st_MAC s = c" using assms(1) by simp
    with a configured show thesis by simp
  next
    case b
    then have "st_MAC s = c" using tracker_ok_MAC [OF assms(1) b(1)] by simp
    with b stranger show thesis by simp
  qed
qed

section \<open>Properties\<close>


text \<open>Out-of-order reports never move a machine backwards: unless the report is a failure, the
  rank of no machine's state drops, and a finished installation stays finished.\<close>

theorem LastEvent_never_regresses:
  assumes "ev \<noteq> EventInstallerFailed"
  shows "rank (LastEvent t m) \<le> rank (LastEvent (Tracker_Note fl now mac ev t) m)
     \<and> (LastEvent t m = EventInstallerDone \<longrightarrow>
          LastEvent (Tracker_Note fl now mac ev t) m = EventInstallerDone)"
proof (cases "CanonicalMAC mac")
  case (Inr c)
  have "rank ev \<ge> rank EventInstallerDone \<Longrightarrow> ev = EventInstallerDone"
    by (auto simp: rank_def eventOrder_def event_names split: if_splits)
  with Inr assms show ?thesis by (auto simp: LastEvent_Note)
qed (simp add: Tracker_Note_def)

theorem LastEvent_never_regresses_witness:
  "LastEvent (Tracker_Note None 7 ''525400aabbcc'' EventFirmwareDHCP
     (Tracker_Note None 5 ''525400aabbcc'' EventInstallerDone (NewTracker 0))) ''525400aabbcc''
   = EventInstallerDone"
proof -
  have ne: "EventFirmwareDHCP \<noteq> EventInstallerFailed" by (simp add: event_names)
  have "LastEvent (Tracker_Note None 5 ''525400aabbcc'' EventInstallerDone (NewTracker 0)) ''525400aabbcc''
    = EventInstallerDone" by code_simp
  with LastEvent_never_regresses [OF ne] show ?thesis by blast
qed

text \<open>A failure report takes the state from any rung, but it does not stay: it ranks below
  every rung, so the next report of the machine, whatever it is, replaces it.\<close>

theorem installer_failed_is_overwritten:
  assumes "CanonicalMAC mac = Inr c"
  shows "LastEvent (Tracker_Note fl now mac EventInstallerFailed t) mac = EventInstallerFailed
     \<and> LastEvent (Tracker_Note fl now2 mac ev (Tracker_Note fl now mac EventInstallerFailed t)) mac = ev"
proof -
  have "rank EventInstallerFailed = 0"
    by (simp add: rank_def eventOrder_def event_names)
  with assms show ?thesis by (simp add: LastEvent_Note)
qed

theorem installer_failed_is_overwritten_witness:
  "LastEvent (Tracker_Note None 8 ''525400aabbcc'' EventFirmwareDHCP
     (Tracker_Note None 7 ''525400aabbcc'' EventInstallerFailed (NewTracker 0))) ''525400aabbcc''
   = EventFirmwareDHCP"
proof -
  have "CanonicalMAC ''525400aabbcc'' = Inr ''52:54:00:aa:bb:cc''" by code_simp
  from installer_failed_is_overwritten [OF this] show ?thesis by blast
qed

text \<open>A snapshot has one row for each MAC that is configured or was ever seen and no other,
  sorted with the named machines first, then by name and MAC, whatever order the two maps are
  iterated in; a configured machine's row shows the fleet's current name and boot target.\<close>

theorem Snapshot_rows:
  assumes "tracker_ok t" "fleet_ok f"
  shows "distinct (map st_MAC (Snapshot (Some f) now t))
     \<and> st_MAC ` set (Snapshot (Some f) now t) = mkeys (f_machines f) \<union> mkeys (t_machines t)
     \<and> sorted (map status_key (Snapshot (Some f) now t))
     \<and> (\<forall>s \<in> set (Snapshot (Some f) now t). \<forall>p. mget (f_machines f) (st_MAC s) = Some p \<longrightarrow>
          st_Name s = p_Name p \<and> st_Profile s = p_Boot p)"
proof -
  have k: "keys_ok (f_machines f)" using assms(2) by (auto simp: fleet_ok_def)
  let ?rows = "snapshot_rows (f_machines f) (now - t_stalledAfter t) t"
  have snap: "Snapshot (Some f) now t = sort_key status_key ?rows"
    by (simp add: Snapshot_def Machines_eq [OF k] slice_stable_key [OF status_less_key])
  have "st_Name s = p_Name p \<and> st_Profile s = p_Boot p"
    if "s \<in> set ?rows" "mget (f_machines f) (st_MAC s) = Some p" for s p
    using assms(1) that(1)
  proof (cases rule: snapshot_row_origin)
    case (configured q)
    with that(2) mem_mget [OF k configured(1)] show ?thesis by (metis fleet_row_simps(2,3) option.inject)
  next
    case stranger
    with mget_Some_key [OF that(2)] show ?thesis by simp
  qed
  moreover have "distinct (map st_MAC (sort_key status_key ?rows))"
    using snapshot_rows_distinct [OF assms(1) k] by (metis distinct_map distinct_sort set_sort)
  ultimately show ?thesis
    using snapshot_rows_set [OF assms(1)] by (simp add: snap)
qed

theorem Snapshot_rows_witness:
  "st_MAC ` set (Snapshot (Some example_fleet) 9
     (Tracker_Note None 5 ''525400000001'' EventFirmwareDHCP (NewTracker 0)))
   = {''52:54:00:aa:bb:cc'', ''52:54:00:00:00:01''}"
proof -
  let ?t = "Tracker_Note None 5 ''525400000001'' EventFirmwareDHCP (NewTracker 0)"
  have ok: "tracker_ok ?t" by (intro tracker_ok_Note) simp
  have m: "mkeys (f_machines example_fleet) = {''52:54:00:aa:bb:cc''}"
    "mkeys (t_machines ?t) = {''52:54:00:00:00:01''}" by code_simp+
  show ?thesis using Snapshot_rows [OF ok example_fleet_ok, of 9] unfolding m by auto
qed

end
