(* ===== verification/Proxy_DHCP.thy ===== *)
theory Proxy_DHCP
  imports Assets Tracker Go_IP "HOL-Library.Word"
begin

text \<open>
  The proxy-DHCP decision (\<^verbatim>\<open>internal/proxydhcp/arch.go\<close> and \<^verbatim>\<open>proxydhcp.go\<close>): from a parsed
  request and the configuration to a reply, or the reason there is none.  The DHCP library is a
  parameter: a request is the record of what its accessors return, and \<open>base_reply\<close> is
  \<^verbatim>\<open>NewReplyFromRequest\<close> before the modifiers the code passes, which it applies last.
\<close>

section \<open>Architectures (arch.go)\<close>

datatype Transport = TransportUnknown | TransportTFTP | TransportHTTP

fun Transport_String :: "Transport \<Rightarrow> string" where
  "Transport_String TransportTFTP = ''TFTP''"
| "Transport_String TransportHTTP = ''HTTP''"
| "Transport_String TransportUnknown = ''unknown''"

text \<open>The option-93 codes the code names, and any other 16-bit code.\<close>

datatype Arch = INTEL_X86PC | EFI_IA32 | EFI_X86_64 | EFI_ARM64 | EFI_X86_64_HTTP | EFI_ARM64_HTTP
  | OtherArch "16 word"

record ArchProfile =
  ap_Arch :: Arch
  ap_Transport :: Transport
  ap_IPXEKind :: IPXEKind
  ap_BootFile :: string

fun archTable :: "Arch \<Rightarrow> ArchProfile option" where
  "archTable INTEL_X86PC = Some \<lparr>ap_Arch = INTEL_X86PC, ap_Transport = TransportTFTP,
     ap_IPXEKind = IPXELegacyBIOS, ap_BootFile = ''undionly.kpxe''\<rparr>"
| "archTable EFI_X86_64 = Some \<lparr>ap_Arch = EFI_X86_64, ap_Transport = TransportTFTP,
     ap_IPXEKind = IPXESNPOnly, ap_BootFile = ''snponly.efi''\<rparr>"
| "archTable EFI_ARM64 = Some \<lparr>ap_Arch = EFI_ARM64, ap_Transport = TransportTFTP,
     ap_IPXEKind = IPXEARM64, ap_BootFile = ''ipxe-arm64.efi''\<rparr>"
| "archTable EFI_X86_64_HTTP = Some \<lparr>ap_Arch = EFI_X86_64_HTTP, ap_Transport = TransportHTTP,
     ap_IPXEKind = IPXESNPOnly, ap_BootFile = ''snponly.efi''\<rparr>"
| "archTable EFI_ARM64_HTTP = Some \<lparr>ap_Arch = EFI_ARM64_HTTP, ap_Transport = TransportHTTP,
     ap_IPXEKind = IPXEARM64, ap_BootFile = ''ipxe-arm64.efi''\<rparr>"
| "archTable EFI_IA32 = Some \<lparr>ap_Arch = EFI_IA32, ap_Transport = TransportTFTP,
     ap_IPXEKind = IPXESNPOnly, ap_BootFile = ''snponly.efi''\<rparr>"
| "archTable (OtherArch w) = None"

definition LookupArch :: "Arch \<Rightarrow> ArchProfile \<times> bool" where
  "LookupArch arch =
     (case archTable arch of Some p \<Rightarrow> (p, True) | None \<Rightarrow> (the (archTable EFI_X86_64), False))"

text \<open>\<open>arch_string\<close> is the library's own name for a code.\<close>

definition ArchLabel :: "(Arch \<Rightarrow> string) \<Rightarrow> Arch \<Rightarrow> string" where
  "ArchLabel arch_string a =
     (case a of INTEL_X86PC \<Rightarrow> ''x86 BIOS''
      | EFI_X86_64 \<Rightarrow> ''x86_64 UEFI'' | EFI_X86_64_HTTP \<Rightarrow> ''x86_64 UEFI''
      | EFI_ARM64 \<Rightarrow> ''arm64 UEFI'' | EFI_ARM64_HTTP \<Rightarrow> ''arm64 UEFI''
      | EFI_IA32 \<Rightarrow> ''x86 UEFI (IA32)''
      | OtherArch w \<Rightarrow> arch_string a)"

section \<open>Requests, replies, configuration\<close>

text \<open>The DHCP message types; any other carries the library's rendering of it.\<close>

datatype MessageType = MessageTypeDiscover | MessageTypeOffer | MessageTypeRequest | MessageTypeAck
  | MessageTypeOther string

record Request =
  rq_ClientHWAddr :: string
  rq_MessageType :: MessageType
  rq_MessageTypeString :: string
  rq_ClassIdentifier :: string
  rq_UserClass :: "string list"
  rq_ClientArch :: "Arch list"

record Reply =
  rp_MessageType :: MessageType
  rp_ServerIdentifier :: "net_ip option"
  rp_ClassIdentifier :: "string option"
  rp_YourIPAddr :: net_ip
  rp_ServerIPAddr :: net_ip
  rp_BootFileName :: string
  rp_OptBootFileName :: "string option"
  rp_OptTFTPServerName :: "string option"

record Config =
  cf_AdvertisedIP :: net_ip
  cf_HTTPPort :: int
  cf_IPXEScriptPath :: string
  cf_IPXEUserClass :: string
  cf_Fleet :: "Fleet option"
  cf_Pending :: "(string \<Rightarrow> bool) option"
  cf_LastEvent :: "(string \<Rightarrow> Event) option"
  cf_NoteSighting :: bool

record dhcp_lib =
  base_reply :: "Request \<Rightarrow> Reply option"
  arch_string :: "Arch \<Rightarrow> string"

definition defaultUserClass :: "Config \<Rightarrow> string" where
  "defaultUserClass c = (if cf_IPXEUserClass c = [] then ''iPXE'' else cf_IPXEUserClass c)"

definition StageFirmwareTFTP :: string where "StageFirmwareTFTP = ''firmware-TFTP''"
definition StageFirmwareHTTP :: string where "StageFirmwareHTTP = ''firmware-HTTP''"
definition StageIPXEScript :: string where "StageIPXEScript = ''iPXE-script''"
definition StageSkip :: string where "StageSkip = ''skip''"

lemmas stage_names = StageFirmwareTFTP_def StageFirmwareHTTP_def StageIPXEScript_def StageSkip_def

datatype SkipKind = NotSkipped | SkipNotPXE | SkipUnsupportedMessageType | SkipMissingArch
  | SkipNoPendingAction | SkipAlreadyDeployed

record Decision =
  dc_ClientMAC :: string
  dc_VendorClass :: string
  dc_UserClass :: string
  dc_Archs :: "Arch list"
  dc_SelectedArch :: Arch
  dc_Stage :: string
  dc_Transport :: Transport
  dc_BootFile :: string
  dc_NextServer :: string
  dc_Skip :: SkipKind
  dc_SkipReason :: string
  dc_UnknownArch :: bool
  dc_IsIPXEStage :: bool
  dc_MachineName :: string
  dc_BootTarget :: string

definition empty_decision :: Decision where
  "empty_decision = \<lparr>dc_ClientMAC = [], dc_VendorClass = [], dc_UserClass = [], dc_Archs = [],
     dc_SelectedArch = INTEL_X86PC, dc_Stage = [], dc_Transport = TransportUnknown, dc_BootFile = [],
     dc_NextServer = [], dc_Skip = NotSkipped, dc_SkipReason = [], dc_UnknownArch = False,
     dc_IsIPXEStage = False, dc_MachineName = [], dc_BootTarget = []\<rparr>"

definition IsBenignSkip :: "Decision \<Rightarrow> bool" where
  "IsBenignSkip d \<longleftrightarrow> dc_Skip d = SkipNotPXE"

datatype offer_error = NilRequest | BadAdvertisedIP | BadHTTPPort int | ErrSkip | BuildReplyFailed
  | UnknownProfileTransport

section \<open>BuildOffer\<close>

definition isPXEVendorClass :: "string \<Rightarrow> bool" where
  "isPXEVendorClass s =
     (if s = [] then False else HasPrefix s ''PXEClient'' \<or> HasPrefix s ''HTTPClient'')"

definition userClassContains :: "string list \<Rightarrow> string \<Rightarrow> bool" where
  "userClassContains uc want = list_ex (\<lambda>v. v = want) uc"

definition selectArch :: "Arch list \<Rightarrow> Arch" where
  "selectArch archs = (if archs = [] then INTEL_X86PC else archs ! 0)"

text \<open>The long dash in the messages is three bytes of UTF-8.\<close>

definition em_dash :: string where
  "em_dash = [CHR 0x20, CHR 0xE2, CHR 0x80, CHR 0x94, CHR 0x20]"

definition rearm_hint :: "string \<Rightarrow> string \<Rightarrow> string" where
  "rearm_hint mac verb =
     em_dash @ ''PUT /api/v1/machines/'' @ mac @ ''/intent {'' @ [CHR 0x22] @ ''action'' @ [CHR 0x22]
     @ '':'' @ [CHR 0x22] @ ''install'' @ [CHR 0x22] @ ''} to '' @ verb"

definition skip_with :: "SkipKind \<Rightarrow> string \<Rightarrow> Decision \<Rightarrow> Decision" where
  "skip_with k reason d = d\<lparr>dc_Stage := StageSkip, dc_Skip := k, dc_SkipReason := reason\<rparr>"

text \<open>The decision so far when the request has been read and the machine looked up.\<close>

definition read_request :: "Request \<Rightarrow> Config \<Rightarrow> Decision" where
  "read_request req cfg =
     (let mac = mac_string (rq_ClientHWAddr req);
          d = empty_decision\<lparr>dc_ClientMAC := mac, dc_VendorClass := rq_ClassIdentifier req,
                dc_UserClass := (if rq_UserClass req \<noteq> [] then Join (rq_UserClass req) '','' else []),
                dc_Archs := rq_ClientArch req, dc_BootTarget := ''menu''\<rparr>
      in case cf_Fleet cfg of None \<Rightarrow> d
         | Some f \<Rightarrow> let p = Lookup f mac in d\<lparr>dc_MachineName := p_Name p, dc_BootTarget := p_Boot p\<rparr>)"

definition machine_known :: "Request \<Rightarrow> Config \<Rightarrow> bool" where
  "machine_known req cfg =
     (case cf_Fleet cfg of None \<Rightarrow> False
      | Some f \<Rightarrow> p_Name (Lookup f (mac_string (rq_ClientHWAddr req))) \<noteq> [])"

definition has_pending :: "Config \<Rightarrow> string \<Rightarrow> bool" where
  "has_pending cfg mac = (case cf_Pending cfg of None \<Rightarrow> False | Some p \<Rightarrow> p mac)"

text \<open>The two gates of the firmware stage: the decision that stops a known machine, if one does.\<close>

definition firmware_gate :: "bool \<Rightarrow> Config \<Rightarrow> Decision \<Rightarrow> Decision option" where
  "firmware_gate machineKnown cfg d =
     (if machineKnown \<and> \<not> has_pending cfg (dc_ClientMAC d) then
        (if (case cf_LastEvent cfg of None \<Rightarrow> False | Some l \<Rightarrow> l (dc_ClientMAC d) = EventInstallerDone)
         then Some (skip_with SkipAlreadyDeployed
                (dc_MachineName d @ '' ('' @ dc_ClientMAC d @ '') already reached installer-done''
                 @ rearm_hint (dc_ClientMAC d) ''re-arm'') d)
         else if cf_Pending cfg \<noteq> None
         then Some (skip_with SkipNoPendingAction
                (dc_MachineName d @ '' ('' @ dc_ClientMAC d @ '') has no pending action''
                 @ rearm_hint (dc_ClientMAC d) ''queue one'') d)
         else None)
      else None)"

definition http_url :: "string \<Rightarrow> int \<Rightarrow> string \<Rightarrow> string" where
  "http_url host port path = ''http://'' @ host @ '':'' @ Itoa port @ path"

definition iPXE_reply :: "Config \<Rightarrow> string \<Rightarrow> Reply \<Rightarrow> Decision \<Rightarrow> Reply \<times> Decision" where
  "iPXE_reply cfg host reply d =
     (let scriptURL = http_url host (cf_HTTPPort cfg) (cf_IPXEScriptPath cfg)
      in (reply\<lparr>rp_BootFileName := scriptURL, rp_OptBootFileName := Some scriptURL\<rparr>,
          d\<lparr>dc_Stage := StageIPXEScript, dc_Transport := TransportHTTP, dc_BootFile := scriptURL,
            dc_NextServer := host, dc_SelectedArch := selectArch (dc_Archs d)\<rparr>))"

definition firmware_reply :: "Config \<Rightarrow> net_ip \<Rightarrow> Reply \<Rightarrow> Decision \<Rightarrow> (offer_error + Reply) \<times> Decision" where
  "firmware_reply cfg ip4 reply d =
     (let d1 = (if dc_Archs d = [] then d\<lparr>dc_Archs := [INTEL_X86PC], dc_SkipReason := []\<rparr> else d);
          sel = selectArch (dc_Archs d1);
          host = ip4_string ip4
      in case LookupArch sel of (profile, ok) \<Rightarrow>
         let d2 = d1\<lparr>dc_SelectedArch := sel, dc_UnknownArch := \<not> ok, dc_Transport := ap_Transport profile,
                     dc_BootFile := ap_BootFile profile\<rparr>
         in case ap_Transport profile of
              TransportTFTP \<Rightarrow>
                (Inr (reply\<lparr>rp_ServerIPAddr := ip4, rp_BootFileName := ap_BootFile profile,
                        rp_OptTFTPServerName := Some host, rp_OptBootFileName := Some (ap_BootFile profile)\<rparr>),
                 d2\<lparr>dc_NextServer := host, dc_Stage := StageFirmwareTFTP\<rparr>)
            | TransportHTTP \<Rightarrow>
                let url = http_url host (cf_HTTPPort cfg) (''/'' @ ap_BootFile profile)
                in (Inr (reply\<lparr>rp_BootFileName := url, rp_OptBootFileName := Some url,
                          rp_ClassIdentifier := Some ''HTTPClient''\<rparr>),
                    d2\<lparr>dc_NextServer := host, dc_BootFile := url, dc_Stage := StageFirmwareHTTP\<rparr>)
            | TransportUnknown \<Rightarrow> (Inl UnknownProfileTransport, d2))"

type_synonym sighting_note = "string \<times> string \<times> string"

text \<open>The reply or error, the decision, and the call of \<^verbatim>\<open>NoteSighting\<close> if one was made.\<close>

definition BuildOffer :: "dhcp_lib \<Rightarrow> Request option \<Rightarrow> Config
    \<Rightarrow> (offer_error + Reply) \<times> Decision \<times> sighting_note option" where
  "BuildOffer lib rq cfg =
     (case rq of None \<Rightarrow> (Inl NilRequest, empty_decision, None)
      | Some req \<Rightarrow>
      case To4 (cf_AdvertisedIP cfg) of None \<Rightarrow> (Inl BadAdvertisedIP, empty_decision, None)
      | Some ip4 \<Rightarrow>
      if cf_HTTPPort cfg \<le> 0 \<or> cf_HTTPPort cfg > 65535
      then (Inl (BadHTTPPort (cf_HTTPPort cfg)), empty_decision, None)
      else
        let d = read_request req cfg; machineKnown = machine_known req cfg; mt = rq_MessageType req
        in if mt \<noteq> MessageTypeDiscover \<and> mt \<noteq> MessageTypeRequest then
             (Inl ErrSkip, skip_with SkipUnsupportedMessageType
                (''not DISCOVER/REQUEST (got '' @ rq_MessageTypeString req @ '')'') d, None)
           else if \<not> isPXEVendorClass (dc_VendorClass d) then
             (Inl ErrSkip, skip_with SkipNotPXE
                (''missing or non-PXE vendor class (option 60)'' @ em_dash
                 @ ''client likely already handed off to iPXE'') d, None)
           else
             let d1 = d\<lparr>dc_IsIPXEStage := userClassContains (rq_UserClass req) (defaultUserClass cfg)\<rparr>;
                 replyMT = (if mt = MessageTypeRequest then MessageTypeAck else MessageTypeOffer)
             in case base_reply lib req of None \<Rightarrow> (Inl BuildReplyFailed, d1, None)
                | Some r0 \<Rightarrow>
                    let reply = r0\<lparr>rp_MessageType := replyMT, rp_ServerIdentifier := Some ip4,
                          rp_ClassIdentifier := Some ''PXEClient'', rp_YourIPAddr := IPv4zero\<rparr>
                    in if dc_IsIPXEStage d1 then
                         (case iPXE_reply cfg (ip4_string ip4) reply d1 of (r, d2) \<Rightarrow> (Inr r, d2, None))
                       else case firmware_gate machineKnown cfg d1 of
                         Some d2 \<Rightarrow> (Inl ErrSkip, d2, None)
                       | None \<Rightarrow>
                           (case firmware_reply cfg ip4 reply d1 of (r, d2) \<Rightarrow>
                              (r, d2, if \<not> machineKnown \<and> cf_NoteSighting cfg
                                      then Some (dc_ClientMAC d2, ArchLabel (arch_string lib) (dc_SelectedArch d2),
                                                 dc_VendorClass d2)
                                      else None)))"

section \<open>Facts\<close>

lemma skip_with_simps [simp]:
  "dc_Stage (skip_with k r d) = StageSkip" "dc_Skip (skip_with k r d) = k"
  "dc_ClientMAC (skip_with k r d) = dc_ClientMAC d"
  by (simp_all add: skip_with_def)

lemma read_request_simps [simp]:
  "dc_ClientMAC (read_request req cfg) = mac_string (rq_ClientHWAddr req)"
  "dc_VendorClass (read_request req cfg) = rq_ClassIdentifier req"
  "dc_Archs (read_request req cfg) = rq_ClientArch req"
  by (simp_all add: read_request_def Let_def split: option.split)

text \<open>A request and configuration that get as far as the two stages.\<close>

definition pxe_request :: "Request \<Rightarrow> bool" where
  "pxe_request req \<longleftrightarrow> rq_MessageType req \<in> {MessageTypeDiscover, MessageTypeRequest}
     \<and> isPXEVendorClass (rq_ClassIdentifier req)"

definition config_ok :: "Config \<Rightarrow> bool" where
  "config_ok cfg \<longleftrightarrow> To4 (cf_AdvertisedIP cfg) \<noteq> None \<and> 0 < cf_HTTPPort cfg \<and> cf_HTTPPort cfg \<le> 65535"

definition ipxe_request :: "Request \<Rightarrow> Config \<Rightarrow> bool" where
  "ipxe_request req cfg \<longleftrightarrow> defaultUserClass cfg \<in> set (rq_UserClass req)"

definition client_mac :: "Request \<Rightarrow> string" where
  "client_mac req = mac_string (rq_ClientHWAddr req)"

definition installed :: "Config \<Rightarrow> string \<Rightarrow> bool" where
  "installed cfg mac \<longleftrightarrow>
     (case cf_LastEvent cfg of None \<Rightarrow> False | Some l \<Rightarrow> l mac = EventInstallerDone)"

definition gated :: "Request \<Rightarrow> Config \<Rightarrow> bool" where
  "gated req cfg \<longleftrightarrow> machine_known req cfg \<and> \<not> has_pending cfg (client_mac req)
     \<and> (cf_Pending cfg \<noteq> None \<or> installed cfg (client_mac req))"

definition stamped :: "Request \<Rightarrow> net_ip \<Rightarrow> Reply \<Rightarrow> Reply" where
  "stamped req ip4 r0 = r0\<lparr>rp_MessageType := (if rq_MessageType req = MessageTypeRequest then MessageTypeAck else MessageTypeOffer),
     rp_ServerIdentifier := Some ip4, rp_ClassIdentifier := Some ''PXEClient'', rp_YourIPAddr := IPv4zero\<rparr>"

lemma ipxe_request_code: "userClassContains (rq_UserClass req) (defaultUserClass cfg) = ipxe_request req cfg"
  by (auto simp: userClassContains_def ipxe_request_def list_ex_iff)

lemma firmware_gate_iff:
  "dc_ClientMAC d = client_mac req \<Longrightarrow>
     firmware_gate (machine_known req cfg) cfg d = None \<longleftrightarrow> \<not> gated req cfg"
  by (auto simp: firmware_gate_def gated_def installed_def split: option.splits)

lemma firmware_reply_Inr:
  "\<exists>r. fst (firmware_reply cfg ip4 reply d) = Inr r"
  by (cases "selectArch (dc_Archs (if dc_Archs d = [] then d\<lparr>dc_Archs := [INTEL_X86PC], dc_SkipReason := []\<rparr> else d))")
    (simp_all add: firmware_reply_def LookupArch_def Let_def)

text \<open>Every outcome of a request, by the first condition that decides it.\<close>

lemma BuildOffer_cases:
  obtains (refused) e where "fst (BuildOffer lib (Some req) cfg) = Inl e" "snd (snd (BuildOffer lib (Some req) cfg)) = None"
      "\<not> config_ok cfg \<or> \<not> pxe_request req \<or> base_reply lib req = None"
    | (ipxe) ip4 r0 d1 where "config_ok cfg" "pxe_request req" "base_reply lib req = Some r0"
        "To4 (cf_AdvertisedIP cfg) = Some ip4" "ipxe_request req cfg"
        "d1 = read_request req cfg\<lparr>dc_IsIPXEStage := True\<rparr>"
        "BuildOffer lib (Some req) cfg = (Inr (fst (iPXE_reply cfg (ip4_string ip4) (stamped req ip4 r0) d1)),
           snd (iPXE_reply cfg (ip4_string ip4) (stamped req ip4 r0) d1), None)"
    | (gate) d2 where "config_ok cfg" "pxe_request req" "base_reply lib req \<noteq> None" "\<not> ipxe_request req cfg"
        "gated req cfg" "BuildOffer lib (Some req) cfg = (Inl ErrSkip, d2, None)"
    | (firmware) ip4 r0 d1 r d2 where "config_ok cfg" "pxe_request req" "base_reply lib req = Some r0"
        "To4 (cf_AdvertisedIP cfg) = Some ip4" "\<not> ipxe_request req cfg" "\<not> gated req cfg"
        "d1 = read_request req cfg\<lparr>dc_IsIPXEStage := False\<rparr>"
        "firmware_reply cfg ip4 (stamped req ip4 r0) d1 = (Inr r, d2)"
        "BuildOffer lib (Some req) cfg = (Inr r, d2, if \<not> machine_known req cfg \<and> cf_NoteSighting cfg
           then Some (dc_ClientMAC d2, ArchLabel (arch_string lib) (dc_SelectedArch d2), dc_VendorClass d2) else None)"
proof (cases "config_ok cfg \<and> pxe_request req \<and> base_reply lib req \<noteq> None")
  case False
  then show thesis
    by (intro refused [of "projl (fst (BuildOffer lib (Some req) cfg))"])
      (auto simp: BuildOffer_def config_ok_def pxe_request_def Let_def split: option.splits)
next
  case True
  then obtain ip4 r0 where ip: "To4 (cf_AdvertisedIP cfg) = Some ip4" and r0: "base_reply lib req = Some r0"
    by (auto simp: config_ok_def)
  let ?d1 = "read_request req cfg\<lparr>dc_IsIPXEStage := ipxe_request req cfg\<rparr>"
  have step: "BuildOffer lib (Some req) cfg =
     (if ipxe_request req cfg
      then (case iPXE_reply cfg (ip4_string ip4) (stamped req ip4 r0) ?d1 of (r, d2) \<Rightarrow> (Inr r, d2, None))
      else case firmware_gate (machine_known req cfg) cfg ?d1 of Some d2 \<Rightarrow> (Inl ErrSkip, d2, None)
        | None \<Rightarrow> (case firmware_reply cfg ip4 (stamped req ip4 r0) ?d1 of (r, d2) \<Rightarrow>
            (r, d2, if \<not> machine_known req cfg \<and> cf_NoteSighting cfg
              then Some (dc_ClientMAC d2, ArchLabel (arch_string lib) (dc_SelectedArch d2), dc_VendorClass d2)
              else None)))"
    using True ip r0
    by (auto simp: BuildOffer_def config_ok_def pxe_request_def Let_def ipxe_request_code stamped_def
        split: option.split)
  show thesis
  proof (cases "ipxe_request req cfg")
    case True
    then show thesis using ipxe [OF _ _ r0 ip] step \<open>config_ok cfg \<and> _\<close> by (simp add: case_prod_unfold)
  next
    case fw: False
    have g: "firmware_gate (machine_known req cfg) cfg ?d1 = None \<longleftrightarrow> \<not> gated req cfg"
      by (rule firmware_gate_iff) (simp add: client_mac_def)
    show thesis
    proof (cases "firmware_gate (machine_known req cfg) cfg ?d1")
      case (Some d2)
      then show thesis using gate [of d2] step fw g True by simp
    next
      case None
      obtain r d2 where fr: "firmware_reply cfg ip4 (stamped req ip4 r0) ?d1 = (Inr r, d2)"
        using firmware_reply_Inr [of cfg ip4 "stamped req ip4 r0" ?d1] by (metis prod.collapse)
      show thesis
        by (rule firmware [of r0 ip4 "read_request req cfg\<lparr>dc_IsIPXEStage := False\<rparr>" r d2])
          (use True None fw g fr ip r0 step in simp_all)
    qed
  qed
qed

lemma iPXE_reply_fields:
  "rp_MessageType (fst (iPXE_reply cfg h r d)) = rp_MessageType r"
  "rp_YourIPAddr (fst (iPXE_reply cfg h r d)) = rp_YourIPAddr r"
  "rp_ServerIdentifier (fst (iPXE_reply cfg h r d)) = rp_ServerIdentifier r"
  "rp_BootFileName (fst (iPXE_reply cfg h r d)) = http_url h (cf_HTTPPort cfg) (cf_IPXEScriptPath cfg)"
  "rp_OptBootFileName (fst (iPXE_reply cfg h r d)) = Some (http_url h (cf_HTTPPort cfg) (cf_IPXEScriptPath cfg))"
  "dc_Stage (snd (iPXE_reply cfg h r d)) = StageIPXEScript"
  "dc_ClientMAC (snd (iPXE_reply cfg h r d)) = dc_ClientMAC d"
  by (simp_all add: iPXE_reply_def Let_def)

text \<open>What the firmware stage says, by the architecture it selected.\<close>

definition firmware_arch :: "Decision \<Rightarrow> Arch" where
  "firmware_arch d = selectArch (if dc_Archs d = [] then [INTEL_X86PC] else dc_Archs d)"

lemma firmware_reply_fields:
  assumes "firmware_reply cfg ip4 reply d = (Inr r, d2)"
  shows "rp_MessageType r = rp_MessageType reply" "rp_YourIPAddr r = rp_YourIPAddr reply"
    "rp_ServerIdentifier r = rp_ServerIdentifier reply" "rp_OptBootFileName r = Some (rp_BootFileName r)"
    "dc_ClientMAC d2 = dc_ClientMAC d" "dc_SelectedArch d2 = firmware_arch d"
    "dc_UnknownArch d2 \<longleftrightarrow> archTable (firmware_arch d) = None"
    "let p = fst (LookupArch (firmware_arch d)) in
       if ap_Transport p = TransportTFTP
       then dc_Stage d2 = StageFirmwareTFTP \<and> rp_BootFileName r = ap_BootFile p
         \<and> rp_ServerIPAddr r = ip4 \<and> rp_OptTFTPServerName r = Some (ip4_string ip4)
       else dc_Stage d2 = StageFirmwareHTTP \<and> rp_ClassIdentifier r = Some ''HTTPClient''
         \<and> rp_BootFileName r = http_url (ip4_string ip4) (cf_HTTPPort cfg) (''/'' @ ap_BootFile p)"
  using assms
  by (cases "firmware_arch d"; cases "dc_Archs d";
      force simp: firmware_reply_def LookupArch_def Let_def firmware_arch_def selectArch_def)+

section \<open>Properties\<close>

text \<open>C11: When a request is answered.  A PXE discover or request gets a reply exactly when it comes
  from iPXE, or the machine is not a named member of the fleet, or it has a pending action, or there
  is no intent queue and it has not finished an installation.  So a named machine's firmware is never
  sent to the installer without an operator's intent, and iPXE is never left stranded.\<close>

theorem BuildOffer_answers_iff:
  assumes "config_ok cfg" "base_reply lib req \<noteq> None"
  shows "is_ok (fst (BuildOffer lib (Some req) cfg)) \<longleftrightarrow>
     pxe_request req \<and>
     (ipxe_request req cfg \<or> \<not> machine_known req cfg \<or> has_pending cfg (client_mac req)
      \<or> cf_Pending cfg = None \<and> \<not> installed cfg (client_mac req))"
  using assms
  by (cases rule: BuildOffer_cases [of lib req cfg]) (auto simp: gated_def)

definition example_lib :: dhcp_lib where
  "example_lib = \<lparr>base_reply = (\<lambda>r. Some \<lparr>rp_MessageType = MessageTypeOffer, rp_ServerIdentifier = None,
      rp_ClassIdentifier = None, rp_YourIPAddr = [], rp_ServerIPAddr = [], rp_BootFileName = [],
      rp_OptBootFileName = None, rp_OptTFTPServerName = None\<rparr>), arch_string = (\<lambda>a. ''other'')\<rparr>"

definition example_config :: Config where
  "example_config = \<lparr>cf_AdvertisedIP = [CHR 0x0A, CHR 0x00, CHR 0x00, CHR 0x05], cf_HTTPPort = 8080,
     cf_IPXEScriptPath = ''/boot.ipxe'', cf_IPXEUserClass = [], cf_Fleet = Some example_fleet,
     cf_Pending = Some (\<lambda>m. False), cf_LastEvent = None, cf_NoteSighting = True\<rparr>"

definition example_request :: Request where
  "example_request = \<lparr>rq_ClientHWAddr = [CHR 0x52, CHR 0x54, CHR 0x00, CHR 0xAA, CHR 0xBB, CHR 0xCC],
     rq_MessageType = MessageTypeDiscover, rq_MessageTypeString = ''DISCOVER'',
     rq_ClassIdentifier = ''PXEClient:Arch:00007'', rq_UserClass = [], rq_ClientArch = [EFI_X86_64]\<rparr>"

lemma example_base_reply: "base_reply example_lib req \<noteq> None"
  by (simp add: example_lib_def)

theorem BuildOffer_answers_iff_witness:
  "\<not> is_ok (fst (BuildOffer example_lib (Some example_request) example_config))
   \<and> is_ok (fst (BuildOffer example_lib (Some (example_request\<lparr>rq_UserClass := [''iPXE'']\<rparr>)) example_config))"
proof -
  have ok: "config_ok example_config" by code_simp
  show ?thesis
    unfolding BuildOffer_answers_iff [OF ok example_base_reply]
    by code_simp
qed

text \<open>C36: What a reply says.  It assigns no address, answers a discover with an offer and a request
  with an acknowledgement, names the advertised server, and carries the boot file in both places:
  the chain script's URL for iPXE, and otherwise the file the architecture table gives for the first
  architecture listed (BIOS when none is, the x86-64 build for a code it does not know), by TFTP
  with the server's address or by HTTP as a URL.\<close>

theorem BuildOffer_reply:
  assumes "BuildOffer lib (Some req) cfg = (Inr r, d, s)"
  shows "rp_YourIPAddr r = IPv4zero
    \<and> rp_MessageType r = (if rq_MessageType req = MessageTypeRequest then MessageTypeAck else MessageTypeOffer)
    \<and> rp_ServerIdentifier r = To4 (cf_AdvertisedIP cfg) \<and> rp_OptBootFileName r = Some (rp_BootFileName r)
    \<and> dc_ClientMAC d = client_mac req
    \<and> (let ip4 = the (To4 (cf_AdvertisedIP cfg)); a = selectArch (rq_ClientArch req); p = fst (LookupArch a)
       in if ipxe_request req cfg
          then dc_Stage d = StageIPXEScript
            \<and> rp_BootFileName r = http_url (ip4_string ip4) (cf_HTTPPort cfg) (cf_IPXEScriptPath cfg)
          else if ap_Transport p = TransportTFTP
          then dc_Stage d = StageFirmwareTFTP \<and> rp_BootFileName r = ap_BootFile p
            \<and> rp_ServerIPAddr r = ip4 \<and> rp_OptTFTPServerName r = Some (ip4_string ip4)
          else dc_Stage d = StageFirmwareHTTP \<and> rp_ClassIdentifier r = Some ''HTTPClient''
            \<and> rp_BootFileName r = http_url (ip4_string ip4) (cf_HTTPPort cfg) (''/'' @ ap_BootFile p))"
proof (cases rule: BuildOffer_cases [of lib req cfg])
  case (ipxe ip4 r0 d1)
  with assms show ?thesis by (auto simp: iPXE_reply_fields stamped_def client_mac_def)
next
  case (firmware ip4 r0 d1 r' d2)
  then have "firmware_arch d1 = selectArch (rq_ClientArch req)"
    by (simp add: firmware_arch_def selectArch_def)
  with firmware firmware_reply_fields [OF firmware(8)] assms show ?thesis
    by (simp add: stamped_def client_mac_def Let_def)
qed (use assms in simp_all)

theorem BuildOffer_reply_witness:
  "case BuildOffer example_lib (Some example_request) (example_config\<lparr>cf_Pending := Some (\<lambda>m. True)\<rparr>) of
     (Inr r, d, s) \<Rightarrow> rp_BootFileName r = ''snponly.efi'' \<and> rp_YourIPAddr r = IPv4zero
   | _ \<Rightarrow> False"
proof -
  let ?b = "BuildOffer example_lib (Some example_request) (example_config\<lparr>cf_Pending := Some (\<lambda>m. True)\<rparr>)"
  have "is_ok (fst ?b)" by code_simp
  then obtain r d s where b: "?b = (Inr r, d, s)" by (metis is_ok_iff prod.collapse)
  have "rp_BootFileName (projr (fst ?b)) = ''snponly.efi''" by code_simp
  with b BuildOffer_reply [OF b] show ?thesis by simp
qed

text \<open>Only unknown machines' firmware is reported for discovery: never a named member of the fleet,
  never iPXE, and never a request that got no reply.\<close>

theorem sightings_only_of_unknown_firmware:
  "case BuildOffer lib (Some req) cfg of (r, d, s) \<Rightarrow>
     s = (if is_ok r \<and> \<not> ipxe_request req cfg \<and> \<not> machine_known req cfg \<and> cf_NoteSighting cfg
          then Some (client_mac req, ArchLabel (arch_string lib) (selectArch (rq_ClientArch req)),
                     rq_ClassIdentifier req)
          else None)"
proof (cases rule: BuildOffer_cases [of lib req cfg])
  case (refused e)
  then show ?thesis by (auto split: prod.split)
next
  case (firmware ip4 r0 d1 r' d2)
  have "firmware_arch d1 = selectArch (rq_ClientArch req)"
    using firmware(7) by (simp add: firmware_arch_def selectArch_def)
  moreover have "dc_VendorClass d2 = dc_VendorClass d1"
    using firmware(8)
    by (cases "firmware_arch d1"; cases "dc_Archs d1")
      (force simp: firmware_reply_def LookupArch_def Let_def firmware_arch_def selectArch_def)+
  ultimately show ?thesis
    using firmware firmware_reply_fields(5,6) [OF firmware(8)] by (simp add: client_mac_def)
qed simp_all

text \<open>A machine of the fleet whose entry has no name is treated as unknown: its firmware is
  answered without any pending action and after a finished installation, and reported as a new
  sighting.\<close>

theorem unnamed_member_bypasses_gates:
  assumes "config_ok cfg" "base_reply lib req \<noteq> None" "pxe_request req" "\<not> ipxe_request req cfg"
    "cf_Fleet cfg = Some f" "CanonicalMAC (client_mac req) = Inr c" "mget (f_machines f) c = Some p"
    "p_Name p = []" "cf_NoteSighting cfg"
  shows "is_ok (fst (BuildOffer lib (Some req) cfg)) \<and> snd (snd (BuildOffer lib (Some req) cfg)) \<noteq> None"
proof -
  have "\<not> machine_known req cfg"
    using assms(5-8) by (simp add: machine_known_def Lookup_known client_mac_def)
  then show ?thesis
    using assms(1-4,9) by (cases rule: BuildOffer_cases [of lib req cfg]) (auto simp: gated_def)
qed

theorem unnamed_member_bypasses_gates_witness:
  "is_ok (fst (BuildOffer example_lib (Some example_request) (example_config\<lparr>cf_Fleet := Some
     (example_fleet\<lparr>f_machines := [(''52:54:00:aa:bb:cc'', empty_profile)]\<rparr>)\<rparr>)))"
proof -
  let ?f = "example_fleet\<lparr>f_machines := [(''52:54:00:aa:bb:cc'', empty_profile)]\<rparr>"
  let ?cfg = "example_config\<lparr>cf_Fleet := Some ?f\<rparr>"
  have "config_ok ?cfg" "pxe_request example_request" "\<not> ipxe_request example_request ?cfg"
    "CanonicalMAC (client_mac example_request) = Inr ''52:54:00:aa:bb:cc''" "cf_NoteSighting ?cfg" by code_simp+
  moreover have "mget (f_machines ?f) ''52:54:00:aa:bb:cc'' = Some empty_profile" "cf_Fleet ?cfg = Some ?f"
    "p_Name empty_profile = []" by (simp_all add: empty_profile_def)
  ultimately show ?thesis using unnamed_member_bypasses_gates [of ?cfg example_lib example_request ?f]
    example_base_reply by blast
qed

end
