(* ===== verification/Listener.thy ===== *)
theory Listener
  imports Proxy_DHCP
begin

text \<open>
  The proxy-DHCP listener around \<^const>\<open>BuildOffer\<close> (\<^verbatim>\<open>internal/proxydhcp/listener.go\<close>):
  the handling of one packet, where the reply is sent, the status event it reports, and the map of
  offers nobody followed up on, with the timers that turn them into a hint.  The sockets are the
  arguments \<open>peer\<close> (\<open>None\<close> when it is no UDP address) and \<open>write_ok\<close>.
\<close>

record ServerOptions =
  so_Config :: Config
  so_FollowUpTimeout :: duration
  so_BroadcastReply :: "bool option"

type_synonym udp_addr = "net_ip \<times> int"
type_synonym offer_map = "time gomap"

text \<open>A sleeping goroutine of \<^verbatim>\<open>notePending\<close>: its MAC, the time of its offer, and when it wakes.\<close>

record hint_timer =
  ht_mac :: string
  ht_now :: time
  ht_fires :: time

definition broadcastReply :: "ServerOptions \<Rightarrow> bool" where
  "broadcastReply opts = (case so_BroadcastReply opts of None \<Rightarrow> True | Some b \<Rightarrow> b)"

definition NoteServed :: "string \<Rightarrow> offer_map \<Rightarrow> offer_map" where
  "NoteServed mac p =
     (if mac = [] then p
      else if mac \<in> mkeys p then mdel mac p
      else foldl (\<lambda>m k. mdel k m) p (map fst p))"

definition notePending :: "ServerOptions \<Rightarrow> time \<Rightarrow> string \<Rightarrow> offer_map \<Rightarrow> offer_map \<times> hint_timer option" where
  "notePending opts now mac p =
     (if so_FollowUpTimeout opts \<le> 0 \<or> mac = [] then (p, None)
      else (mput mac now p, Some \<lparr>ht_mac = mac, ht_now = now, ht_fires = now + so_FollowUpTimeout opts\<rparr>))"

text \<open>What a timer does when it wakes: whether it logs the hint, and the map it leaves.\<close>

definition fire_hint :: "hint_timer \<Rightarrow> offer_map \<Rightarrow> bool \<times> offer_map" where
  "fire_hint h p =
     (let shouldFire = (case mget p (ht_mac h) of None \<Rightarrow> False | Some t \<Rightarrow> t = ht_now h)
      in (shouldFire, if shouldFire then mdel (ht_mac h) p else p))"

definition stage_event :: "string \<Rightarrow> Event" where
  "stage_event stage =
     (if stage = StageFirmwareTFTP \<or> stage = StageFirmwareHTTP then EventFirmwareDHCP
      else if stage = StageIPXEScript then EventIPXEDHCP
      else [])"

record packet_effect =
  pk_sent :: "(Reply \<times> udp_addr) option"
  pk_sighting :: "sighting_note option"
  pk_offers :: offer_map
  pk_timer :: "hint_timer option"
  pk_tracker :: "Tracker option"

text \<open>
  \<open>handleOne\<close>: what one packet makes the listener do.  The tracker resolves names in the fleet
  \<open>fl\<close> it was built with.
\<close>

definition handleOne :: "dhcp_lib \<Rightarrow> ServerOptions \<Rightarrow> Fleet option \<Rightarrow> time \<Rightarrow> string \<Rightarrow> udp_addr option \<Rightarrow> bool
    \<Rightarrow> Request \<Rightarrow> offer_map \<Rightarrow> Tracker option \<Rightarrow> packet_effect" where
  "handleOne lib opts fl now source peer write_ok req offers tracker =
     (case BuildOffer lib (Some req) (so_Config opts) of (res, dec, sighting) \<Rightarrow>
      let quiet = \<lparr>pk_sent = None, pk_sighting = sighting, pk_offers = offers, pk_timer = None, pk_tracker = tracker\<rparr>
      in case res of Inl e \<Rightarrow> quiet
         | Inr reply \<Rightarrow>
             case peer of None \<Rightarrow> quiet
             | Some addr \<Rightarrow>
                 let dst = (if source = ''udp/67'' \<and> broadcastReply opts then (IPv4bcast, 68) else addr)
                 in if \<not> write_ok then quiet
                    else let np = notePending opts now (dc_ClientMAC dec) offers;
                             ev = stage_event (dc_Stage dec)
                         in \<lparr>pk_sent = Some (reply, dst), pk_sighting = sighting, pk_offers = fst np,
                             pk_timer = snd np,
                             pk_tracker = (case tracker of None \<Rightarrow> None
                               | Some t \<Rightarrow> Some (if ev \<noteq> [] then Tracker_Note fl now (dc_ClientMAC dec) ev t else t))\<rparr>)"

section \<open>Offers and hints\<close>

lemma foldl_mdel_all: "set (map fst p) \<subseteq> set ks \<Longrightarrow> foldl (\<lambda>m k. mdel k m) p ks = []"
proof (induction ks arbitrary: p)
  case (Cons k ks)
  have "set (map fst (mdel k p)) \<subseteq> set ks" using Cons.prems by (auto simp: AList.delete_eq)
  then show ?case using Cons.IH by simp
qed simp

lemma NoteServed_eq:
  "NoteServed mac p = (if mac = [] then p else if mac \<in> mkeys p then mdel mac p else [])"
  by (simp add: NoteServed_def foldl_mdel_all)

datatype offer_op = Offered time string | Served string | Fired hint_timer

fun offer_step :: "ServerOptions \<Rightarrow> offer_map \<Rightarrow> offer_op \<Rightarrow> offer_map" where
  "offer_step opts p (Offered now mac) = fst (notePending opts now mac p)"
| "offer_step opts p (Served tag) = NoteServed tag p"
| "offer_step opts p (Fired h) = snd (fire_hint h p)"

text \<open>
  An operation keeps the entry an offer at \<open>t\<close> left for \<open>mac\<close> when it is no later offer to this
  machine, no fetch by it, no anonymous fetch and no hint of that offer.
\<close>

definition keeps_offer :: "string \<Rightarrow> time \<Rightarrow> offer_map \<Rightarrow> offer_op \<Rightarrow> bool" where
  "keeps_offer mac t p x =
     (case x of Offered now m \<Rightarrow> m \<noteq> mac
      | Served tag \<Rightarrow> tag = [] \<or> tag \<noteq> mac \<and> tag \<in> mkeys p
      | Fired h \<Rightarrow> ht_mac h \<noteq> mac \<or> ht_now h \<noteq> t)"

fun undisturbed :: "ServerOptions \<Rightarrow> string \<Rightarrow> time \<Rightarrow> offer_map \<Rightarrow> offer_op list \<Rightarrow> bool" where
  "undisturbed opts mac t p [] = True"
| "undisturbed opts mac t p (x # xs) =
     (keeps_offer mac t p x \<and> undisturbed opts mac t (offer_step opts p x) xs)"

lemma offer_step_entry:
  assumes "x \<noteq> Offered t mac" "so_FollowUpTimeout opts > 0" "mac \<noteq> []"
  shows "mget (offer_step opts p x) mac = Some t \<longleftrightarrow> mget p mac = Some t \<and> keeps_offer mac t p x"
proof (cases x)
  case (Offered now m)
  with assms show ?thesis by (auto simp: keeps_offer_def notePending_def mget_mput)
next
  case (Served tag)
  with assms show ?thesis
    by (auto simp: keeps_offer_def NoteServed_eq mget_mdel dest: mget_Some_key)
next
  case (Fired h)
  with assms show ?thesis
    by (auto simp: keeps_offer_def fire_hint_def Let_def mget_mdel split: option.splits)
qed

lemma offer_run_entry:
  assumes "\<forall>x \<in> set ops. x \<noteq> Offered t mac" "so_FollowUpTimeout opts > 0" "mac \<noteq> []"
  shows "mget (foldl (offer_step opts) p ops) mac = Some t \<longleftrightarrow> mget p mac = Some t \<and> undisturbed opts mac t p ops"
  using assms(1)
proof (induction ops arbitrary: p)
  case (Cons x ops)
  then have "mget (offer_step opts p x) mac = Some t \<longleftrightarrow> mget p mac = Some t \<and> keeps_offer mac t p x"
    using assms(2,3) by (intro offer_step_entry) auto
  with Cons show ?case by simp
qed simp

section \<open>Properties\<close>

text \<open>The hint that a client never fetched is logged for an offer exactly when nothing happened
  since that would make it wrong: no later offer to the machine, no fetch by it, and no anonymous
  fetch at all.  The clock tells the offers of a machine apart.\<close>

theorem hint_iff_undisturbed:
  assumes "so_FollowUpTimeout opts > 0" "mac \<noteq> []" "\<forall>x \<in> set ops. x \<noteq> Offered t mac"
    "notePending opts t mac p = (p', Some h)"
  shows "fst (fire_hint h (foldl (offer_step opts) p' ops)) \<longleftrightarrow> undisturbed opts mac t p' ops"
proof -
  have h: "ht_mac h = mac" "ht_now h = t" and p': "mget p' mac = Some t"
    using assms(1,2,4) by (auto simp: notePending_def mget_mput)
  have "fst (fire_hint h q) \<longleftrightarrow> mget q mac = Some t" for q
    by (auto simp: fire_hint_def Let_def h split: option.split)
  then show ?thesis using offer_run_entry [OF assms(3,1,2)] p' by simp
qed

theorem hint_iff_undisturbed_witness:
  "let opts = \<lparr>so_Config = example_config, so_FollowUpTimeout = 10, so_BroadcastReply = None\<rparr>;
       m = ''52:54:00:aa:bb:cc''; ph = notePending opts 5 m []
   in fst (fire_hint (the (snd ph)) (foldl (offer_step opts) (fst ph) [Offered 7 ''other'']))
     \<and> \<not> fst (fire_hint (the (snd ph)) (foldl (offer_step opts) (fst ph) [Served ''tftp-anon'']))"
proof -
  let ?o = "\<lparr>so_Config = example_config, so_FollowUpTimeout = 10, so_BroadcastReply = None\<rparr>"
  let ?m = "''52:54:00:aa:bb:cc''"
  let ?ph = "notePending ?o 5 ?m []"
  have ph: "?ph = (fst ?ph, Some (the (snd ?ph)))" by (simp add: notePending_def)
  have t: "so_FollowUpTimeout ?o > 0" "?m \<noteq> []" by simp_all
  have a: "\<forall>x \<in> set [Offered 7 ''other'']. x \<noteq> Offered 5 ?m" "\<forall>x \<in> set [Served ''tftp-anon'']. x \<noteq> Offered 5 ?m"
    by simp_all
  show ?thesis
    unfolding Let_def hint_iff_undisturbed [OF t a(1) ph] hint_iff_undisturbed [OF t a(2) ph]
    by (simp add: keeps_offer_def notePending_def)
qed

end
