(* ===== verification/Pending.thy ===== *)
theory Pending
  imports Mac
begin

text \<open>
  The queue of boot intents (\<^verbatim>\<open>internal/pending/pending.go\<close>): at most one action per MAC,
  which expires when the store has a positive TTL.  The clock is the argument \<open>now\<close>.
\<close>

type_synonym Action = string

definition ActionInstall :: Action where "ActionInstall = ''install''"
definition ActionRescue :: Action where "ActionRescue = ''rescue''"

record pending_entry =
  pe_action :: Action
  pe_requestedAt :: time

record Pending =
  ps_entries :: "pending_entry gomap"
  ps_ttl :: duration

definition Pending_New :: "duration \<Rightarrow> Pending" where
  "Pending_New ttl = \<lparr>ps_entries = [], ps_ttl = ttl\<rparr>"

section \<open>Operations\<close>

definition queue :: "time \<Rightarrow> string \<Rightarrow> Action \<Rightarrow> Pending \<Rightarrow> (mac_error + time) \<times> Pending" where
  "queue now mac action s =
     (case CanonicalMAC mac of Inl e \<Rightarrow> (Inl e, s)
      | Inr canon \<Rightarrow>
          let s' = s\<lparr>ps_entries := mput canon \<lparr>pe_action = action, pe_requestedAt = now\<rparr> (ps_entries s)\<rparr>
          in (Inr (if ps_ttl s > 0 then now + ps_ttl s else zero_time), s'))"

definition Install :: "time \<Rightarrow> string \<Rightarrow> Pending \<Rightarrow> (mac_error + time) \<times> Pending" where
  "Install now mac s = queue now mac ActionInstall s"

definition Rescue :: "time \<Rightarrow> string \<Rightarrow> Pending \<Rightarrow> (mac_error + time) \<times> Pending" where
  "Rescue now mac s = queue now mac ActionRescue s"

definition Cancel :: "string \<Rightarrow> Pending \<Rightarrow> bool \<times> Pending" where
  "Cancel mac s =
     (case CanonicalMAC mac of Inl e \<Rightarrow> (False, s)
      | Inr canon \<Rightarrow> (canon \<in> mkeys (ps_entries s), s\<lparr>ps_entries := mdel canon (ps_entries s)\<rparr>))"

text \<open>\<^verbatim>\<open>Status\<close> returns the action, when it was requested and when it expires; \<open>None\<close> is \<^verbatim>\<open>ok = false\<close>.\<close>

definition Pending_Status :: "time \<Rightarrow> string \<Rightarrow> Pending \<Rightarrow> (Action \<times> time \<times> time) option" where
  "Pending_Status now mac s =
     (case CanonicalMAC mac of Inl e \<Rightarrow> None
      | Inr canon \<Rightarrow>
          case mget (ps_entries s) canon of None \<Rightarrow> None
          | Some e \<Rightarrow>
              if ps_ttl s > 0 then
                let expiresAt = pe_requestedAt e + ps_ttl s
                in if \<not> now < expiresAt then None else Some (pe_action e, pe_requestedAt e, expiresAt)
              else Some (pe_action e, pe_requestedAt e, zero_time))"

definition IsPending :: "time \<Rightarrow> string \<Rightarrow> Pending \<Rightarrow> bool" where
  "IsPending now mac s \<longleftrightarrow> Pending_Status now mac s \<noteq> None"

definition Pending_Len :: "Pending \<Rightarrow> nat" where
  "Pending_Len s = length (ps_entries s)"

definition Pending_RetainOnly :: "(string \<Rightarrow> bool) \<Rightarrow> Pending \<Rightarrow> (nat \<times> string list) \<times> Pending" where
  "Pending_RetainOnly known s =
     (case range_delete known (map fst (ps_entries s)) (0, [], ps_entries s) of
        (removed, dropped, m) \<Rightarrow> ((removed, dropped), s\<lparr>ps_entries := m\<rparr>))"

section \<open>Facts\<close>

definition pending_ok :: "Pending \<Rightarrow> bool" where
  "pending_ok s \<longleftrightarrow> keys_ok (ps_entries s)"

lemma pending_ok_New [simp]: "pending_ok (Pending_New ttl)"
  by (simp add: pending_ok_def Pending_New_def)

lemma Pending_RetainOnly_entries:
  "ps_entries (snd (Pending_RetainOnly known s)) = filter (\<lambda>(k, v). known k) (ps_entries s)"
  "ps_ttl (snd (Pending_RetainOnly known s)) = ps_ttl s"
  by (simp_all add: Pending_RetainOnly_def range_delete_all)

lemma queue_entries:
  "ps_entries (snd (queue now mac a s)) = (case canon_of mac of None \<Rightarrow> ps_entries s
     | Some c \<Rightarrow> mput c \<lparr>pe_action = a, pe_requestedAt = now\<rparr> (ps_entries s))"
  "ps_ttl (snd (queue now mac a s)) = ps_ttl s"
  by (simp_all add: queue_def canon_of_def Let_def split: sum.split)

lemma Cancel_entries:
  "ps_entries (snd (Cancel mac s)) = (case canon_of mac of None \<Rightarrow> ps_entries s
     | Some c \<Rightarrow> mdel c (ps_entries s))"
  "ps_ttl (snd (Cancel mac s)) = ps_ttl s"
  by (simp_all add: Cancel_def canon_of_def split: sum.split)

text \<open>Storing an action and pruning against a fleet keep the contract of a MAC-keyed store.\<close>

interpretation pq: mac_store canon_of pending_ok "\<lambda>s. mkeys (ps_entries s)"
  "\<lambda>m (now, a) s. snd (queue now m a s)" "\<lambda>keep s. snd (Pending_RetainOnly keep s)"
  by unfold_locales
    (auto simp: pending_ok_def queue_entries Pending_RetainOnly_entries mkeys_mput mkeys_filter_key
      queue_def canon_of_def dest: mem_mput_key split: option.split sum.splits)

lemma pending_ok_Cancel: "pending_ok s \<Longrightarrow> pending_ok (snd (Cancel mac s))"
  by (simp add: pending_ok_def Cancel_entries split: option.split)

lemma Cancel_within: "mkeys (ps_entries (snd (Cancel mac s))) \<subseteq> mkeys (ps_entries s)"
  by (auto simp: Cancel_entries mkeys_mdel split: option.split)

lemma IsPending_key: "IsPending now mac s \<Longrightarrow> canon_of mac = Some c \<Longrightarrow> c \<in> mkeys (ps_entries s)"
  by (auto simp: IsPending_def Pending_Status_def canon_simps dest: mget_Some_key split: option.splits)

section \<open>The queue as a function of its history\<close>

datatype pending_op = QueueOp time string Action | CancelOp string | RetainOp "string \<Rightarrow> bool"

fun pending_step :: "Pending \<Rightarrow> pending_op \<Rightarrow> Pending" where
  "pending_step s (QueueOp now mac a) = snd (queue now mac a s)"
| "pending_step s (CancelOp mac) = snd (Cancel mac s)"
| "pending_step s (RetainOp keep) = snd (Pending_RetainOnly keep s)"

text \<open>What one operation does to the intent of the machine \<open>c\<close>.\<close>

fun intent_step :: "string \<Rightarrow> (Action \<times> time) option \<Rightarrow> pending_op \<Rightarrow> (Action \<times> time) option" where
  "intent_step c i (QueueOp now mac a) = (if CanonicalMAC mac = Inr c then Some (a, now) else i)"
| "intent_step c i (CancelOp mac) = (if CanonicalMAC mac = Inr c then None else i)"
| "intent_step c i (RetainOp keep) = (if keep c then i else None)"

definition live_intent :: "duration \<Rightarrow> time \<Rightarrow> (Action \<times> time) option \<Rightarrow> (Action \<times> time \<times> time) option" where
  "live_intent ttl now i =
     (case i of None \<Rightarrow> None
      | Some (a, t) \<Rightarrow>
          if ttl \<le> 0 then Some (a, t, zero_time)
          else if now < t + ttl then Some (a, t, t + ttl) else None)"

lemma pending_step_entry:
  "map_option (\<lambda>e. (pe_action e, pe_requestedAt e)) (mget (ps_entries (pending_step s p)) c)
   = intent_step c (map_option (\<lambda>e. (pe_action e, pe_requestedAt e)) (mget (ps_entries s) c)) p"
  by (cases p)
    (auto simp: queue_entries Cancel_entries Pending_RetainOnly_entries mget_mput mget_mdel
      mget_filter_key canon_simps canon_of_def split: option.splits sum.splits)

lemma pending_step_ttl [simp]: "ps_ttl (pending_step s p) = ps_ttl s"
  by (cases p) (simp_all add: queue_entries Cancel_entries Pending_RetainOnly_entries)

lemma pending_run_entry:
  "map_option (\<lambda>e. (pe_action e, pe_requestedAt e)) (mget (ps_entries (foldl pending_step s ops)) c)
   = foldl (intent_step c) (map_option (\<lambda>e. (pe_action e, pe_requestedAt e)) (mget (ps_entries s) c)) ops"
  by (induction ops arbitrary: s) (simp_all add: pending_step_entry)

lemma pending_run_ttl [simp]: "ps_ttl (foldl pending_step s ops) = ps_ttl s"
  by (induction ops arbitrary: s) simp_all

lemma Pending_Status_live:
  "CanonicalMAC mac = Inr c \<Longrightarrow> Pending_Status now mac s
     = live_intent (ps_ttl s) now (map_option (\<lambda>e. (pe_action e, pe_requestedAt e)) (mget (ps_entries s) c))"
  by (auto simp: Pending_Status_def live_intent_def Let_def split: option.split)

section \<open>Properties\<close>

text \<open>C31: After any history of installs, rescues, cancels and prunes, a machine's pending action is
  the last one queued under any spelling of its MAC since it was last cancelled or pruned, and it
  is reported from that moment until exactly the TTL later, for ever when the TTL is not
  positive.\<close>

theorem pending_last_intent:
  assumes "CanonicalMAC mac = Inr c"
  shows "Pending_Status now mac (foldl pending_step (Pending_New ttl) ops)
    = live_intent ttl now (foldl (intent_step c) None ops)"
  using pending_run_entry [of "Pending_New ttl" ops c]
  by (simp add: Pending_Status_live [OF assms] Pending_New_def)

theorem pending_last_intent_witness:
  "map (\<lambda>now. Pending_Status now ''52-54-00-AA-BB-CC'' (foldl pending_step (Pending_New 900)
      [QueueOp 0 ''525400aabbcc'' ActionInstall, QueueOp 10 ''52:54:00:aa:bb:cc'' ActionRescue])) [10, 909, 910]
   = [Some (ActionRescue, 10, 910), Some (ActionRescue, 10, 910), None]"
proof -
  have c: "CanonicalMAC ''52-54-00-AA-BB-CC'' = Inr ''52:54:00:aa:bb:cc''" by code_simp
  show ?thesis unfolding list.map pending_last_intent [OF c] by code_simp
qed

text \<open>Pruning keeps exactly the entries whose MAC the new fleet knows, unchanged and with their
  clocks running, and reports the number and the MACs of those it dropped.\<close>

theorem Pending_RetainOnly_spec:
  assumes "pending_ok s" "Pending_RetainOnly known s = ((removed, dropped), s')"
  shows "mget (ps_entries s') c = (if known c then mget (ps_entries s) c else None)
     \<and> set dropped = {k \<in> mkeys (ps_entries s). \<not> known k} \<and> removed = length dropped
     \<and> distinct dropped \<and> Pending_Len s' + removed = Pending_Len s"
proof -
  have d: "dropped = filter (\<lambda>k. \<not> known k) (map fst (ps_entries s))" "removed = length dropped"
    "ps_entries s' = filter (\<lambda>(k, v). known k) (ps_entries s)"
    using assms(2) by (auto simp: Pending_RetainOnly_def range_delete_all)
  have "length (filter (\<lambda>(k, v). known k) m) + length (filter (\<lambda>k. \<not> known k) (map fst m)) = length m"
    for m :: "pending_entry gomap"
    by (induction m) auto
  with d assms(1) show ?thesis
    by (auto simp: mget_filter_key Pending_Len_def pending_ok_def keys_ok_def)
qed

theorem Pending_RetainOnly_spec_witness:
  "let s = snd (queue 0 ''525400aabbcc'' ActionInstall (snd (queue 0 ''525400000001'' ActionRescue (Pending_New 0))))
   in snd (fst (Pending_RetainOnly (\<lambda>c. c = ''52:54:00:aa:bb:cc'') s)) = [''52:54:00:00:00:01'']
     \<and> mget (ps_entries (snd (Pending_RetainOnly (\<lambda>c. c = ''52:54:00:aa:bb:cc'') s))) ''52:54:00:00:00:01'' = None"
proof -
  let ?s = "snd (queue 0 ''525400aabbcc'' ActionInstall (snd (queue 0 ''525400000001'' ActionRescue (Pending_New 0))))"
  let ?r = "Pending_RetainOnly (\<lambda>c. c = ''52:54:00:aa:bb:cc'') ?s"
  have ok: "pending_ok ?s" by code_simp
  have r: "?r = ((fst (fst ?r), snd (fst ?r)), snd ?r)" by simp
  have "snd (fst ?r) = [''52:54:00:00:00:01'']" by code_simp
  with Pending_RetainOnly_spec [OF ok r, of "''52:54:00:00:00:01''"] show ?thesis by (simp add: Let_def)
qed

end
