(* ===== verification/Install_Log.thy ===== *)
theory Install_Log
  imports Mac
begin

text \<open>
  The installer logs (\<^verbatim>\<open>internal/installlog/installlog.go\<close>): for each MAC the last
  \<^verbatim>\<open>MaxPerMAC\<close> bytes posted for it.  A nil slice and an empty one are one value: an entry is
  nil exactly when no byte was ever appended to it.
\<close>

definition MaxPerMAC :: nat where
  "MaxPerMAC = 65536"

record Install_Log =
  il_entries :: "string gomap"

definition InstallLog_New :: Install_Log where
  "InstallLog_New = \<lparr>il_entries = []\<rparr>"

definition Append :: "string \<Rightarrow> string \<Rightarrow> Install_Log \<Rightarrow> Install_Log" where
  "Append mac b s =
     (case CanonicalMAC mac of Inl e \<Rightarrow> s
      | Inr canon \<Rightarrow>
          let cur = (case mget (il_entries s) canon of None \<Rightarrow> [] | Some l \<Rightarrow> l) @ b;
              cur' = (if length cur > MaxPerMAC then drop (length cur - MaxPerMAC) cur else cur)
          in s\<lparr>il_entries := mput canon cur' (il_entries s)\<rparr>)"

definition InstallLog_Get :: "string \<Rightarrow> Install_Log \<Rightarrow> string option" where
  "InstallLog_Get mac s =
     (case CanonicalMAC mac of Inl e \<Rightarrow> None
      | Inr canon \<Rightarrow>
          case mget (il_entries s) canon of None \<Rightarrow> None | Some b \<Rightarrow> if b = [] then None else Some b)"

definition InstallLog_Len :: "Install_Log \<Rightarrow> nat" where
  "InstallLog_Len s = length (il_entries s)"

definition InstallLog_RetainOnly :: "(string \<Rightarrow> bool) \<Rightarrow> Install_Log \<Rightarrow> nat \<times> Install_Log" where
  "InstallLog_RetainOnly known s =
     (case range_delete known (map fst (il_entries s)) (0, [], il_entries s) of
        (removed, dropped, m) \<Rightarrow> (removed, s\<lparr>il_entries := m\<rparr>))"

section \<open>Facts\<close>

definition tail_of :: "nat \<Rightarrow> string \<Rightarrow> string" where
  "tail_of n s = drop (length s - n) s"

lemma tail_of_append_tail [simp]: "tail_of n (tail_of n a @ b) = tail_of n (a @ b)"
  by (cases "length a \<le> n") (simp_all add: tail_of_def add.commute)

lemma tail_of_Nil [simp]: "tail_of n [] = []"
  by (simp add: tail_of_def)

lemma length_tail_of: "length (tail_of n s) = min n (length s)"
  by (simp add: tail_of_def)

lemma InstallLog_RetainOnly_entries:
  "il_entries (snd (InstallLog_RetainOnly known s)) = filter (\<lambda>(k, v). known k) (il_entries s)"
  by (simp add: InstallLog_RetainOnly_def range_delete_all)

lemma Append_entries:
  "il_entries (Append mac b s) = (case canon_of mac of None \<Rightarrow> il_entries s
     | Some c \<Rightarrow> mput c (tail_of MaxPerMAC ((case mget (il_entries s) c of None \<Rightarrow> [] | Some l \<Rightarrow> l) @ b))
         (il_entries s))"
  by (auto simp: Append_def canon_of_def Let_def tail_of_def split: sum.split)

lemma Append_bad: "canon_of mac = None \<Longrightarrow> Append mac b s = s"
  by (auto simp: Append_def canon_of_def split: sum.splits)

interpretation ilog: mac_store canon_of "\<lambda>s. keys_ok (il_entries s)" "\<lambda>s. mkeys (il_entries s)"
  Append "\<lambda>keep s. snd (InstallLog_RetainOnly keep s)"
  by unfold_locales
    (auto simp: Append_entries InstallLog_RetainOnly_entries mkeys_mput mkeys_filter_key
      Append_bad dest: mem_mput_key split: option.splits)

datatype log_op = AppendOp string string | RetainLogs "string \<Rightarrow> bool"

fun ilog_step :: "Install_Log \<Rightarrow> log_op \<Rightarrow> Install_Log" where
  "ilog_step s (AppendOp mac b) = Append mac b s"
| "ilog_step s (RetainLogs keep) = snd (InstallLog_RetainOnly keep s)"

text \<open>All the bytes posted for \<open>c\<close> since it was last pruned.\<close>

fun posted_step :: "string \<Rightarrow> string \<Rightarrow> log_op \<Rightarrow> string" where
  "posted_step c acc (AppendOp mac b) = (if CanonicalMAC mac = Inr c then acc @ b else acc)"
| "posted_step c acc (RetainLogs keep) = (if keep c then acc else [])"

definition entry_bytes :: "Install_Log \<Rightarrow> string \<Rightarrow> string" where
  "entry_bytes s c = (case mget (il_entries s) c of None \<Rightarrow> [] | Some l \<Rightarrow> l)"

lemma entry_bytes_step:
  "entry_bytes (Append mac b s) c =
     (if CanonicalMAC mac = Inr c then tail_of MaxPerMAC (entry_bytes s c @ b) else entry_bytes s c)"
  "entry_bytes (snd (InstallLog_RetainOnly keep s)) c = (if keep c then entry_bytes s c else [])"
  by (auto simp: entry_bytes_def Append_entries InstallLog_RetainOnly_entries mget_mput mget_filter_key
      canon_simps split: option.splits)

lemma ilog_step_bytes:
  "entry_bytes s c = tail_of MaxPerMAC acc \<Longrightarrow>
     entry_bytes (ilog_step s p) c = tail_of MaxPerMAC (posted_step c acc p)"
  by (cases p) (simp_all add: entry_bytes_step)

lemma ilog_run_bytes:
  "entry_bytes s c = tail_of MaxPerMAC acc \<Longrightarrow>
     entry_bytes (foldl ilog_step s ops) c = tail_of MaxPerMAC (foldl (posted_step c) acc ops)"
  by (induction ops arbitrary: s acc) (simp_all add: ilog_step_bytes)

lemma InstallLog_Get_bytes:
  "CanonicalMAC mac = Inr c \<Longrightarrow>
     InstallLog_Get mac s = (if entry_bytes s c = [] then None else Some (entry_bytes s c))"
  by (auto simp: InstallLog_Get_def entry_bytes_def split: option.split)

section \<open>Properties\<close>

text \<open>C32: Whatever was appended, in pieces of whatever size, under whatever spelling of the MAC, the
  log read back is the last 64 KiB of all of it since the machine was last pruned, and never
  longer.\<close>

theorem installlog_is_tail:
  assumes "CanonicalMAC mac = Inr c"
  shows "let all = foldl (posted_step c) [] ops; kept = drop (length all - MaxPerMAC) all
     in InstallLog_Get mac (foldl ilog_step InstallLog_New ops) = (if kept = [] then None else Some kept)
       \<and> length kept \<le> MaxPerMAC"
proof -
  have "entry_bytes (foldl ilog_step InstallLog_New ops) c = tail_of MaxPerMAC (foldl (posted_step c) [] ops)"
    by (intro ilog_run_bytes) (simp add: entry_bytes_def InstallLog_New_def tail_of_def)
  with assms show ?thesis
    by (simp add: InstallLog_Get_bytes Let_def tail_of_def [symmetric] length_tail_of)
qed

theorem installlog_is_tail_witness:
  "InstallLog_Get ''52-54-00-AA-BB-CC''
     (foldl ilog_step InstallLog_New [AppendOp ''525400aabbcc'' ''boot '', AppendOp ''52:54:00:aa:bb:cc'' ''failed''])
   = Some ''boot failed''"
proof -
  have "CanonicalMAC ''52-54-00-AA-BB-CC'' = Inr ''52:54:00:aa:bb:cc''" by code_simp
  from installlog_is_tail [OF this, of "[AppendOp ''525400aabbcc'' ''boot '', AppendOp ''52:54:00:aa:bb:cc'' ''failed'']"]
  have "InstallLog_Get ''52-54-00-AA-BB-CC''
     (foldl ilog_step InstallLog_New [AppendOp ''525400aabbcc'' ''boot '', AppendOp ''52:54:00:aa:bb:cc'' ''failed''])
    = (let all = foldl (posted_step ''52:54:00:aa:bb:cc'') []
         [AppendOp ''525400aabbcc'' ''boot '', AppendOp ''52:54:00:aa:bb:cc'' ''failed''];
         kept = drop (length all - MaxPerMAC) all in if kept = [] then None else Some kept)"
    by (simp only: Let_def)
  moreover have "foldl (posted_step ''52:54:00:aa:bb:cc'') []
      [AppendOp ''525400aabbcc'' ''boot '', AppendOp ''52:54:00:aa:bb:cc'' ''failed''] = ''boot failed''" by code_simp
  ultimately show ?thesis by (simp add: MaxPerMAC_def)
qed

end
