(* ===== verification/Sightings.thy ===== *)
theory Sightings
  imports Mac
begin

text \<open>
  The unknown machines seen booting (\<^verbatim>\<open>internal/sightings/sightings.go\<close> and
  \<^verbatim>\<open>oui.go\<close>): a bounded store that evicts the entry seen longest ago.  The clock is the
  argument \<open>now\<close>.
\<close>

definition MaxEntries :: nat where
  "MaxEntries = 256"

record Sighting =
  sg_MAC :: string
  sg_Arch :: string
  sg_Vendor :: string
  sg_VendorClass :: string
  sg_FirstSeen :: time
  sg_LastSeen :: time
  sg_Count :: int

record sighting_entry =
  se_arch :: string
  se_vendorClass :: string
  se_firstSeen :: time
  se_lastSeen :: time
  se_count :: int

type_synonym Sightings = "sighting_entry gomap"

section \<open>The vendor table\<close>

definition ouiVendors :: "string gomap" where
  "ouiVendors =
     [(''dc:a6:32'', ''Raspberry Pi''), (''e4:5f:01'', ''Raspberry Pi''), (''b8:27:eb'', ''Raspberry Pi''),
      (''28:cd:c1'', ''Raspberry Pi''),
      (''00:14:22'', ''Dell''), (''18:66:da'', ''Dell''), (''f8:bc:12'', ''Dell''), (''d0:67:e5'', ''Dell''),
      (''b0:83:fe'', ''Dell''),
      (''00:25:b3'', ''HP''), (''3c:d9:2b'', ''HPE''), (''98:f2:b3'', ''HPE''), (''a0:b3:cc'', ''HPE''),
      (''00:25:90'', ''Supermicro''), (''0c:c4:7a'', ''Supermicro''), (''3c:ec:ef'', ''Supermicro''),
      (''ac:1f:6b'', ''Supermicro''),
      (''00:21:cc'', ''Lenovo''), (''e8:6a:64'', ''Lenovo''), (''70:5a:0f'', ''Lenovo''),
      (''00:1b:21'', ''Intel''), (''94:c6:91'', ''Intel''), (''a4:bf:01'', ''Intel''),
      (''00:25:b5'', ''Cisco UCS''),
      (''00:0c:29'', ''VMware''), (''00:50:56'', ''VMware''), (''00:05:69'', ''VMware''),
      (''52:54:00'', ''QEMU/KVM''), (''08:00:27'', ''VirtualBox'')]"

definition VendorForMAC :: "string \<Rightarrow> string" where
  "VendorForMAC mac =
     (let m = ToLower (ReplaceAll mac (CHR ''-'') '':'')
      in if length m < 8 then []
         else case mget ouiVendors (take 8 m) of None \<Rightarrow> [] | Some v \<Rightarrow> v)"

section \<open>Operations\<close>

text \<open>The loop of \<^verbatim>\<open>evictOldestLocked\<close>, with the oldest entry found so far.\<close>

definition evict_pick :: "string \<times> time \<Rightarrow> string \<times> sighting_entry \<Rightarrow> string \<times> time" where
  "evict_pick acc me =
     (case (acc, me) of ((oldestMAC, oldest), (mac, e)) \<Rightarrow>
        if oldestMAC = [] \<or> se_lastSeen e < oldest then (mac, se_lastSeen e) else (oldestMAC, oldest))"

definition evictOldestLocked :: "Sightings \<Rightarrow> Sightings" where
  "evictOldestLocked s =
     (let oldestMAC = fst (foldl evict_pick ([], zero_time) s)
      in if oldestMAC \<noteq> [] then mdel oldestMAC s else s)"

definition Sightings_Note :: "time \<Rightarrow> string \<Rightarrow> string \<Rightarrow> string \<Rightarrow> Sightings \<Rightarrow> Sightings" where
  "Sightings_Note now mac archLabel vendorClass s =
     (case CanonicalMAC mac of Inl e \<Rightarrow> s
      | Inr canon \<Rightarrow>
          case mget s canon of
            Some e \<Rightarrow>
              mput canon (e\<lparr>se_lastSeen := now, se_count := se_count e + 1,
                  se_arch := (if archLabel \<noteq> [] then archLabel else se_arch e),
                  se_vendorClass := (if vendorClass \<noteq> [] then vendorClass else se_vendorClass e)\<rparr>) s
          | None \<Rightarrow>
              let s1 = (if length s \<ge> MaxEntries then evictOldestLocked s else s)
              in mput canon \<lparr>se_arch = archLabel, se_vendorClass = vendorClass, se_firstSeen = now,
                   se_lastSeen = now, se_count = 1\<rparr> s1)"

definition sighting_of :: "string \<times> sighting_entry \<Rightarrow> Sighting" where
  "sighting_of me =
     (case me of (mac, e) \<Rightarrow>
        \<lparr>sg_MAC = mac, sg_Arch = se_arch e, sg_Vendor = VendorForMAC mac,
         sg_VendorClass = se_vendorClass e, sg_FirstSeen = se_firstSeen e,
         sg_LastSeen = se_lastSeen e, sg_Count = se_count e\<rparr>)"

text \<open>
  \<^verbatim>\<open>sort.Slice\<close> is not stable: the order of entries seen at one instant is any, and so is the
  order of the list they come from here.
\<close>

definition Sightings_List :: "Sightings \<Rightarrow> Sighting list" where
  "Sightings_List s = slice_stable (\<lambda>a b. sg_LastSeen b < sg_LastSeen a) (map sighting_of s)"

definition Forget :: "string \<Rightarrow> Sightings \<Rightarrow> bool \<times> Sightings" where
  "Forget mac s =
     (case CanonicalMAC mac of Inl e \<Rightarrow> (False, s)
      | Inr canon \<Rightarrow> (canon \<in> mkeys s, mdel canon s))"

definition Sightings_RetainOnly :: "(string \<Rightarrow> bool) \<Rightarrow> Sightings \<Rightarrow> nat \<times> Sightings" where
  "Sightings_RetainOnly keep s =
     (case range_delete keep (map fst s) (0, [], s) of (removed, dropped, m) \<Rightarrow> (removed, m))"

definition Sightings_Len :: "Sightings \<Rightarrow> nat" where
  "Sightings_Len s = length s"

section \<open>Facts\<close>

text \<open>The invariant: distinct non-empty keys, and at most \<^const>\<open>MaxEntries\<close> of them.\<close>

definition sightings_ok :: "Sightings \<Rightarrow> bool" where
  "sightings_ok s \<longleftrightarrow> keys_ok s \<and> [] \<notin> mkeys s \<and> length s \<le> MaxEntries"

lemma evict_fold:
  assumes "[] \<notin> mkeys s" "acc \<noteq> []"
  shows "fst (foldl evict_pick (acc, t0) s) \<noteq> []
     \<and> (foldl evict_pick (acc, t0) s = (acc, t0)
        \<or> (\<exists>e. (fst (foldl evict_pick (acc, t0) s), e) \<in> set s \<and> snd (foldl evict_pick (acc, t0) s) = se_lastSeen e))
     \<and> snd (foldl evict_pick (acc, t0) s) \<le> t0
     \<and> (\<forall>(k, e) \<in> set s. snd (foldl evict_pick (acc, t0) s) \<le> se_lastSeen e)"
  using assms
proof (induction s arbitrary: acc t0)
  case (Cons p s)
  obtain k e where p: "p = (k, e)" by fastforce
  with Cons.prems have k: "k \<noteq> []" "[] \<notin> mkeys s" by auto
  show ?case
  proof (cases "se_lastSeen e < t0")
    case True
    with Cons.prems(2) have "foldl evict_pick (acc, t0) (p # s) = foldl evict_pick (k, se_lastSeen e) s"
      by (simp add: p evict_pick_def)
    with Cons.IH [OF k(2) k(1), of "se_lastSeen e"] True show ?thesis by (auto simp: p)
  next
    case False
    with Cons.prems(2) have "foldl evict_pick (acc, t0) (p # s) = foldl evict_pick (acc, t0) s"
      by (simp add: p evict_pick_def)
    with Cons.IH [OF k(2) Cons.prems(2), of t0] False show ?thesis by (auto simp: p)
  qed
qed simp

lemma evict_oldest:
  assumes "[] \<notin> mkeys s" "s \<noteq> []"
  obtains k e where "(k, e) \<in> set s" "\<forall>(k', e') \<in> set s. se_lastSeen e \<le> se_lastSeen e'"
    "evictOldestLocked s = mdel k s"
proof -
  obtain k0 e0 s' where s: "s = (k0, e0) # s'" using assms(2) by (cases s) auto
  with assms(1) have k0: "[] \<notin> mkeys s'" "k0 \<noteq> []" by auto
  obtain k t where r: "foldl evict_pick (k0, se_lastSeen e0) s' = (k, t)" by fastforce
  have f: "k \<noteq> []" "t \<le> se_lastSeen e0" "\<forall>(k', e') \<in> set s'. t \<le> se_lastSeen e'"
    and or: "k = k0 \<and> t = se_lastSeen e0 \<or> (\<exists>e. (k, e) \<in> set s' \<and> t = se_lastSeen e)"
    using evict_fold [OF k0, of "se_lastSeen e0"] unfolding r by simp_all
  have "foldl evict_pick ([], zero_time) s = (k, t)" using r by (simp add: s evict_pick_def)
  then have ev: "evictOldestLocked s = mdel k s" using f(1) by (simp add: evictOldestLocked_def)
  from or obtain e where "(k, e) \<in> set s" "t = se_lastSeen e" by (auto simp: s)
  with f ev that show thesis by (auto simp: s)
qed

lemma sightings_ok_mput: "keys_ok s \<Longrightarrow> [] \<notin> mkeys s \<Longrightarrow> c \<noteq> [] \<Longrightarrow> length (mput c e s) \<le> MaxEntries \<Longrightarrow>
    sightings_ok (mput c e s)"
  by (simp add: sightings_ok_def mkeys_mput)

lemma canon_not_Nil: "CanonicalMAC m = Inr c \<Longrightarrow> c \<noteq> []"
  using canonical_result canonical_not_Nil by blast

lemma sightings_ok_Note: "sightings_ok s \<Longrightarrow> sightings_ok (Sightings_Note now mac arch vc s)"
proof -
  assume ok: "sightings_ok s"
  show ?thesis
  proof (cases "CanonicalMAC mac")
    case (Inl e)
    with ok show ?thesis by (simp add: Sightings_Note_def)
  next
    case (Inr c)
    have c: "c \<noteq> []" using Inr by (rule canon_not_Nil)
    have s: "keys_ok s" "[] \<notin> mkeys s" "length s \<le> MaxEntries" using ok by (simp_all add: sightings_ok_def)
    show ?thesis
    proof (cases "mget s c")
      case (Some e)
      then have "c \<in> mkeys s" by (rule mget_Some_key)
      then have "length (mput c e' s) \<le> MaxEntries" for e' using s(3) by (simp add: length_mput)
      then show ?thesis
        using Inr Some c s(1,2) by (simp add: Sightings_Note_def sightings_ok_mput)
    next
      case None
      then have fresh: "c \<notin> mkeys s" by (simp add: mget_None_iff)
      show ?thesis
      proof (cases "length s \<ge> MaxEntries")
        case True
        then have "s \<noteq> []" by (auto simp: MaxEntries_def)
        with s(2) obtain k e where k: "(k, e) \<in> set s" "evictOldestLocked s = mdel k s"
          by (rule evict_oldest)
        then have "k \<in> mkeys s" by force
        then have "Suc (length (mdel k s)) = length s" using s(1) by (simp add: length_mdel)
        then have len: "length (mput c e' (mdel k s)) \<le> MaxEntries" for e'
          using s(3) by (simp add: length_mput)
        have "keys_ok (mdel k s)" "[] \<notin> mkeys (mdel k s)" using s(1,2) by (simp, metis DiffD1 mkeys_mdel)
        with Inr None True k(2) c len show ?thesis
          by (simp add: Sightings_Note_def sightings_ok_mput)
      next
        case False
        with Inr None s c fresh show ?thesis
          by (auto simp: Sightings_Note_def length_mput intro!: sightings_ok_mput)
      qed
    qed
  qed
qed

lemma Sightings_RetainOnly_entries: "snd (Sightings_RetainOnly keep s) = filter (\<lambda>(k, v). keep k) s"
  by (simp add: Sightings_RetainOnly_def range_delete_all)

lemma Sightings_Note_known:
  "CanonicalMAC mac = Inr c \<Longrightarrow> mget s c = Some e \<Longrightarrow> Sightings_Note now mac arch vc s
     = mput c (e\<lparr>se_lastSeen := now, se_count := se_count e + 1,
         se_arch := (if arch \<noteq> [] then arch else se_arch e),
         se_vendorClass := (if vc \<noteq> [] then vc else se_vendorClass e)\<rparr>) s"
  by (simp add: Sightings_Note_def)

definition first_sighting :: "time \<Rightarrow> string \<Rightarrow> string \<Rightarrow> sighting_entry" where
  "first_sighting now arch vc =
     \<lparr>se_arch = arch, se_vendorClass = vc, se_firstSeen = now, se_lastSeen = now, se_count = 1\<rparr>"

lemma Sightings_Note_new:
  "CanonicalMAC mac = Inr c \<Longrightarrow> c \<notin> mkeys s \<Longrightarrow> length s < MaxEntries \<Longrightarrow>
     Sightings_Note now mac arch vc s = mput c (first_sighting now arch vc) s"
  by (auto simp: Sightings_Note_def first_sighting_def split: option.split dest: mget_Some_key)

lemma Sightings_Note_evict:
  assumes "sightings_ok s" "CanonicalMAC mac = Inr c" "c \<notin> mkeys s" "length s \<ge> MaxEntries"
  obtains k e where "(k, e) \<in> set s" "\<forall>(k', e') \<in> set s. se_lastSeen e \<le> se_lastSeen e'"
    "Sightings_Note now mac arch vc s = mput c (first_sighting now arch vc) (mdel k s)"
proof -
  have "[] \<notin> mkeys s" "s \<noteq> []" using assms(1,4) by (auto simp: sightings_ok_def MaxEntries_def)
  then obtain k e where k: "(k, e) \<in> set s" "\<forall>(k', e') \<in> set s. se_lastSeen e \<le> se_lastSeen e'"
    "evictOldestLocked s = mdel k s" by (rule evict_oldest)
  have "mget s c = None" using assms(3) by (simp add: mget_None_iff)
  with k assms that show thesis by (simp add: Sightings_Note_def first_sighting_def)
qed

lemma Sightings_Note_cases:
  assumes "sightings_ok s" "CanonicalMAC mac = Inr c"
  obtains (known) e e' where "mget s c = Some e" "Sightings_Note now mac arch vc s = mput c e' s"
    | (new) "c \<notin> mkeys s" "Sightings_Note now mac arch vc s = mput c (first_sighting now arch vc) s"
    | (full) k e where "c \<notin> mkeys s" "(k, e) \<in> set s"
        "Sightings_Note now mac arch vc s = mput c (first_sighting now arch vc) (mdel k s)"
proof (cases "mget s c")
  case (Some e)
  with known Sightings_Note_known [OF assms(2)] show thesis by blast
next
  case None
  then have c: "c \<notin> mkeys s" by (simp add: mget_None_iff)
  show thesis
  proof (cases "length s \<ge> MaxEntries")
    case True
    from Sightings_Note_evict [OF assms c True] c full show thesis by metis
  next
    case False
    with new c Sightings_Note_new [OF assms(2) c] show thesis by simp
  qed
qed

lemma Sightings_Note_mkeys:
  assumes "sightings_ok s" "CanonicalMAC mac = Inr c"
  obtains K where "K \<subseteq> mkeys s" "mkeys (Sightings_Note now mac arch vc s) = insert c K"
  using assms
proof (cases rule: Sightings_Note_cases [of s mac c now arch vc])
  case (known e e')
  then show ?thesis using that [of "mkeys s"] by (simp add: mkeys_mput)
next
  case new
  then show ?thesis using that [of "mkeys s"] by (simp add: mkeys_mput)
next
  case (full k e)
  then show ?thesis using that [of "mkeys s - {k}"] by (simp only: mkeys_mput mkeys_mdel Diff_subset)
qed

lemma Sightings_Note_bad: "canon_of mac = None \<Longrightarrow> Sightings_Note now mac arch vc s = s"
  by (auto simp: Sightings_Note_def canon_simps)

definition note_sighting :: "string \<Rightarrow> time \<times> string \<times> string \<Rightarrow> Sightings \<Rightarrow> Sightings" where
  "note_sighting m a s = (case a of (now, arch, vc) \<Rightarrow> Sightings_Note now m arch vc s)"

lemma Sightings_RetainOnly_ok: "sightings_ok s \<Longrightarrow> sightings_ok (snd (Sightings_RetainOnly keep s))"
  unfolding Sightings_RetainOnly_entries sightings_ok_def mkeys_filter_key
  using le_trans [OF length_filter_le [of "\<lambda>(k, v). keep k" s]] by auto

interpretation sight: mac_store canon_of sightings_ok mkeys
  note_sighting "\<lambda>keep s. snd (Sightings_RetainOnly keep s)"
proof
  fix s m c and a :: "time \<times> string \<times> string"
  assume s: "sightings_ok s" and c: "canon_of m = Some c"
  obtain now arch vc where a: "a = (now, arch, vc)" by (rule prod_cases3)
  from s c obtain K where "K \<subseteq> mkeys s" "mkeys (Sightings_Note now m arch vc s) = insert c K"
    unfolding canon_simps by (rule Sightings_Note_mkeys)
  then show "mkeys (note_sighting m a s) \<subseteq> insert c (mkeys s)" "c \<in> mkeys (note_sighting m a s)"
    by (auto simp only: a note_sighting_def prod.case)
qed (simp_all add: note_sighting_def sightings_ok_Note Sightings_RetainOnly_ok Sightings_Note_bad
    Sightings_RetainOnly_entries [THEN arg_cong, of mkeys, unfolded mkeys_filter_key] split: prod.split)

section \<open>Properties\<close>

text \<open>C33: The store never holds more than 256 machines.  A repeated sighting updates its own entry
  and no other; a new one is added without touching the rest while there is room, and otherwise
  replaces an entry that was seen no later than any other.\<close>

theorem Sightings_Note_bounded_LRU:
  assumes "sightings_ok s" "CanonicalMAC mac = Inr c"
  shows "let s' = Sightings_Note now mac arch vc s in
     length s' \<le> MaxEntries
     \<and> map_option se_count (mget s' c) = Some ((case mget s c of None \<Rightarrow> 0 | Some e \<Rightarrow> se_count e) + 1)
     \<and> map_option se_lastSeen (mget s' c) = Some now
     \<and> (if c \<in> mkeys s \<or> length s < MaxEntries then \<forall>k. k \<noteq> c \<longrightarrow> mget s' k = mget s k
        else \<exists>old e. mget s old = Some e \<and> (\<forall>(k', e') \<in> set s. se_lastSeen e \<le> se_lastSeen e')
               \<and> (\<forall>k. k \<noteq> c \<longrightarrow> mget s' k = (if k = old then None else mget s k)))"
proof -
  let ?s' = "Sightings_Note now mac arch vc s"
  have len: "length ?s' \<le> MaxEntries" using sightings_ok_Note [OF assms(1)] by (simp add: sightings_ok_def)
  show ?thesis
  proof (cases "mget s c")
    case (Some e)
    then show ?thesis
      using len mget_Some_key [OF Some] unfolding Let_def Sightings_Note_known [OF assms(2) Some]
      by (simp add: mget_mput)
  next
    case None
    then have c: "c \<notin> mkeys s" by (simp add: mget_None_iff)
    show ?thesis
    proof (cases "length s < MaxEntries")
      case True
      then show ?thesis
        using len None unfolding Let_def Sightings_Note_new [OF assms(2) c True]
        by (simp add: mget_mput first_sighting_def)
    next
      case False
      then have full: "length s \<ge> MaxEntries" by simp
      from Sightings_Note_evict [OF assms c full, of now arch vc] obtain k e where k: "(k, e) \<in> set s"
        "\<forall>(k', e') \<in> set s. se_lastSeen e \<le> se_lastSeen e'"
        "?s' = mput c (first_sighting now arch vc) (mdel k s)" by blast
      have "mget s k = Some e" using assms(1) k(1) by (simp add: sightings_ok_def mem_mget)
      with k len None c False show ?thesis
        unfolding Let_def k(3) by (auto simp: mget_mput mget_mdel first_sighting_def)
    qed
  qed
qed

theorem Sightings_Note_bounded_LRU_witness:
  "map_option se_count (mget (Sightings_Note 9 ''52-54-00-aa-bb-cc'' [] []
      (Sightings_Note 5 ''525400aabbcc'' ''x86_64 UEFI'' ''PXEClient'' [])) ''52:54:00:aa:bb:cc'') = Some 2"
proof -
  let ?s = "Sightings_Note 5 ''525400aabbcc'' ''x86_64 UEFI'' ''PXEClient'' []"
  have ok: "sightings_ok ?s" by (intro sightings_ok_Note) (simp add: sightings_ok_def)
  have c: "CanonicalMAC ''52-54-00-aa-bb-cc'' = Inr ''52:54:00:aa:bb:cc''" by code_simp
  have one: "(case mget ?s ''52:54:00:aa:bb:cc'' of None \<Rightarrow> 0 | Some e \<Rightarrow> se_count e) = 1" by code_simp
  from Sightings_Note_bounded_LRU [OF ok c, of 9 "[]" "[]"] show ?thesis
    unfolding Let_def one by simp
qed

end
