(* ===== verification/Callback_Token.thy ===== *)
theory Callback_Token
  imports Mac
begin

text \<open>
  The bearer tokens of the phone-home callbacks (\<^verbatim>\<open>internal/callbacktoken/callbacktoken.go\<close>).
  HMAC-SHA256 is the argument \<open>hmac\<close> (key, then message), the clock the argument \<open>now\<close>;
  \<open>Verify\<close> returns the error, or \<open>None\<close> for nil.  Times are compared as integers: Go's comparison would wrap for
  an expiry within the last 62135596800 seconds that 64 bits hold, some 292 billion years from now.
\<close>

datatype token_error = ErrTokenMalformed | ErrTokenExpired | ErrTokenMismatch

record Signer =
  sn_secret :: string
  sn_ttl :: duration

text \<open>\<^verbatim>\<open>Time.Unix()\<close>: whole seconds since the epoch, rounded down.\<close>

definition Unix :: "time \<Rightarrow> int" where
  "Unix t = t div second"

definition sign_message :: "string \<Rightarrow> int \<Rightarrow> string" where
  "sign_message canonMAC exp = canonMAC @ ''.'' @ Itoa exp"

definition sign :: "(string \<Rightarrow> string \<Rightarrow> string) \<Rightarrow> Signer \<Rightarrow> string \<Rightarrow> int \<Rightarrow> string" where
  "sign hmac s canonMAC exp = EncodeToString (hmac (sn_secret s) (sign_message canonMAC exp))"

definition Mint :: "(string \<Rightarrow> string \<Rightarrow> string) \<Rightarrow> Signer \<Rightarrow> time \<Rightarrow> string \<Rightarrow> string" where
  "Mint hmac s now canonMAC =
     (let exp = Unix (now + sn_ttl s) in Itoa exp @ ''.'' @ sign hmac s canonMAC exp)"

definition Verify :: "(string \<Rightarrow> string \<Rightarrow> string) \<Rightarrow> Signer \<Rightarrow> time \<Rightarrow> string \<Rightarrow> string
    \<Rightarrow> token_error option" where
  "Verify hmac s now canonMAC token =
     (case IndexByte token (CHR ''.'') of None \<Rightarrow> Some ErrTokenMalformed
      | Some dot \<Rightarrow>
          if dot = 0 \<or> dot = length token - 1 then Some ErrTokenMalformed
          else case ParseInt (take dot token) of None \<Rightarrow> Some ErrTokenMalformed
            | Some exp \<Rightarrow>
                if drop (Suc dot) token \<noteq> sign hmac s canonMAC exp then Some ErrTokenMismatch
                else if \<not> now < exp * second then Some ErrTokenExpired
                else None)"

section \<open>Facts\<close>

lemma hex_byte_inj: "hex_byte a = hex_byte b \<longleftrightarrow> a = b"
proof
  assume "hex_byte a = hex_byte b"
  then have "xtoi2 (hex_byte a) (CHR 0x00) = xtoi2 (hex_byte b) (CHR 0x00)" by simp
  then show "a = b" by simp
qed simp

lemma EncodeToString_Cons: "EncodeToString (a # s) = hex_byte a @ EncodeToString s"
  by (simp add: EncodeToString_def)

lemma EncodeToString_inj: "EncodeToString s = EncodeToString t \<longleftrightarrow> s = t"
proof
  assume "EncodeToString s = EncodeToString t"
  then show "s = t"
  proof (induction s arbitrary: t)
    case Nil
    then have "length (EncodeToString t) = 0" by (metis length_EncodeToString list.size(3) mult_0_right)
    then show ?case by simp
  next
    case (Cons a s)
    then have "length (EncodeToString t) \<noteq> 0" by (metis length_EncodeToString length_Suc_conv mult_eq_0_iff nat.distinct(1) zero_neq_numeral)
    then obtain b t' where t: "t = b # t'" by (cases t) auto
    with Cons.prems have "hex_byte a = hex_byte b \<and> EncodeToString s = EncodeToString t'"
      by (simp add: EncodeToString_Cons append_eq_append_conv)
    with Cons.IH t show ?case by (simp add: hex_byte_inj)
  qed
qed simp

lemma EncodeToString_Nil_iff: "EncodeToString s = [] \<longleftrightarrow> s = []"
  by (cases s) (simp_all add: EncodeToString_def hex_byte_def)

lemma Verify_None:
  "Verify hmac s now c token = None \<longleftrightarrow>
     (\<exists>ds exp. token = ds @ ''.'' @ sign hmac s c exp \<and> ds \<noteq> [] \<and> CHR ''.'' \<notin> set ds
        \<and> sign hmac s c exp \<noteq> [] \<and> ParseInt ds = Some exp \<and> now < exp * second)"
proof
  assume v: "Verify hmac s now c token = None"
  then obtain dot exp where dot: "IndexByte token (CHR ''.'') = Some dot" "dot \<noteq> 0" "dot \<noteq> length token - 1"
    and exp: "ParseInt (take dot token) = Some exp" "drop (Suc dot) token = sign hmac s c exp"
      "now < exp * second"
    by (auto simp: Verify_def split: option.splits if_splits)
  from IndexByte_Some [OF dot(1)] have t: "token = take dot token @ CHR ''.'' # drop (Suc dot) token"
    "CHR ''.'' \<notin> set (take dot token)" "dot < length token" .
  have "take dot token \<noteq> []" using dot(2) t(3) by auto
  moreover have "sign hmac s c exp \<noteq> []" using dot(3) t(3) exp(2) [symmetric] by auto
  ultimately show "\<exists>ds exp. token = ds @ ''.'' @ sign hmac s c exp \<and> ds \<noteq> [] \<and> CHR ''.'' \<notin> set ds
        \<and> sign hmac s c exp \<noteq> [] \<and> ParseInt ds = Some exp \<and> now < exp * second"
    using t(1,2) exp by (intro exI [of _ "take dot token"] exI [of _ exp]) simp
next
  assume "\<exists>ds exp. token = ds @ ''.'' @ sign hmac s c exp \<and> ds \<noteq> [] \<and> CHR ''.'' \<notin> set ds
        \<and> sign hmac s c exp \<noteq> [] \<and> ParseInt ds = Some exp \<and> now < exp * second"
  then show "Verify hmac s now c token = None"
    by (auto simp: Verify_def)
qed

lemma Verify_Mint:
  assumes "- (2 ^ 63) \<le> Unix (now + sn_ttl s)" "Unix (now + sn_ttl s) < 2 ^ 63"
    "hmac (sn_secret s) (sign_message c (Unix (now + sn_ttl s))) \<noteq> []"
  shows "Verify hmac s later c' (Mint hmac s now c) =
     (if sign hmac s c (Unix (now + sn_ttl s)) \<noteq> sign hmac s c' (Unix (now + sn_ttl s)) then Some ErrTokenMismatch
      else if later < Unix (now + sn_ttl s) * second then None else Some ErrTokenExpired)"
proof -
  have "sign hmac s c (Unix (now + sn_ttl s)) \<noteq> []"
    using assms(3) by (simp add: sign_def EncodeToString_Nil_iff)
  with assms(1,2) show ?thesis by (simp add: Verify_def Mint_def Let_def)
qed

section \<open>Properties\<close>

text \<open>C34: A token is accepted for the machine it was minted for until the second it expires and is
  reported expired from then on.\<close>

theorem token_valid_until_expiry:
  assumes "- (2 ^ 63) \<le> Unix (now + sn_ttl s)" "Unix (now + sn_ttl s) < 2 ^ 63"
    "hmac (sn_secret s) (sign_message c (Unix (now + sn_ttl s))) \<noteq> []"
  shows "Verify hmac s later c (Mint hmac s now c) =
     (if later < Unix (now + sn_ttl s) * second then None else Some ErrTokenExpired)"
  using Verify_Mint [where hmac = hmac, OF assms, of later c] by simp

theorem token_valid_until_expiry_witness:
  "let s = \<lparr>sn_secret = ''k'', sn_ttl = 60 * second\<rparr>; h = (\<lambda>k m. k @ m)
   in map (\<lambda>t. Verify h s t ''52:54:00:aa:bb:cc'' (Mint h s 1500000000 ''52:54:00:aa:bb:cc''))
        [60999999999, 61000000000] = [None, Some ErrTokenExpired]"
proof -
  let ?s = "\<lparr>sn_secret = ''k'', sn_ttl = 60 * second\<rparr>"
  have a: "- (2 ^ 63) \<le> Unix (1500000000 + sn_ttl ?s)" "Unix (1500000000 + sn_ttl ?s) < 2 ^ 63"
    by (simp_all add: Unix_def)
  have b: "(\<lambda>k m. k @ m) (sn_secret ?s) (sign_message ''52:54:00:aa:bb:cc'' (Unix (1500000000 + sn_ttl ?s))) \<noteq> []"
    by simp
  show ?thesis unfolding Let_def list.map token_valid_until_expiry [where hmac = "\<lambda>k m. k @ m", OF a b] by (simp add: Unix_def)
qed

text \<open>C35: A token that is accepted for a machine is unexpired and carries the HMAC of that machine's
  MAC and of its own expiry, so accepting a token minted for another machine takes a
  collision of the HMAC between the two different messages of those machines.\<close>

theorem token_bound_to_machine:
  assumes "Verify hmac s later c' token = None"
  shows "(\<exists>ds exp. token = ds @ ''.'' @ EncodeToString (hmac (sn_secret s) (sign_message c' exp))
        \<and> ParseInt ds = Some exp \<and> later < exp * second)
     \<and> (\<forall>now c. token = Mint hmac s now c \<and> - (2 ^ 63) \<le> Unix (now + sn_ttl s)
          \<and> Unix (now + sn_ttl s) < 2 ^ 63 \<and> c \<noteq> c' \<longrightarrow>
            (\<exists>m m'. m = sign_message c (Unix (now + sn_ttl s)) \<and> m' = sign_message c' (Unix (now + sn_ttl s))
              \<and> m \<noteq> m' \<and> hmac (sn_secret s) m = hmac (sn_secret s) m'))"
proof (intro conjI allI impI)
  obtain ds exp where ds: "token = ds @ ''.'' @ sign hmac s c' exp" "CHR ''.'' \<notin> set ds"
      "ParseInt ds = Some exp" "later < exp * second"
    using assms unfolding Verify_None by blast
  then show "\<exists>ds exp. token = ds @ ''.'' @ EncodeToString (hmac (sn_secret s) (sign_message c' exp))
        \<and> ParseInt ds = Some exp \<and> later < exp * second"
    by (auto simp: sign_def)
  fix now c
  assume m: "token = Mint hmac s now c \<and> - (2 ^ 63) \<le> Unix (now + sn_ttl s)
          \<and> Unix (now + sn_ttl s) < 2 ^ 63 \<and> c \<noteq> c'"
  let ?e = "Unix (now + sn_ttl s)"
  from m ds(1) have "Split (Itoa ?e @ CHR ''.'' # sign hmac s c ?e) (CHR ''.'')
      = Split (ds @ CHR ''.'' # sign hmac s c' exp) (CHR ''.'')"
    by (simp add: Mint_def Let_def)
  then have e: "Itoa ?e = ds" by (simp add: Split_append_sep ds(2))
  with ds(3) m have "exp = ?e" by (metis ParseInt_Itoa option.inject)
  with e m ds(1) have "sign hmac s c ?e = sign hmac s c' ?e" by (simp add: Mint_def Let_def)
  then have "hmac (sn_secret s) (sign_message c ?e) = hmac (sn_secret s) (sign_message c' ?e)"
    by (simp add: sign_def EncodeToString_inj)
  moreover have "sign_message c ?e \<noteq> sign_message c' ?e" using m by (simp add: sign_message_def)
  ultimately show "\<exists>m m'. m = sign_message c ?e \<and> m' = sign_message c' ?e
      \<and> m \<noteq> m' \<and> hmac (sn_secret s) m = hmac (sn_secret s) m'" by blast
qed

theorem token_bound_to_machine_witness:
  "\<exists>ds exp. Mint (\<lambda>k m. k @ m) \<lparr>sn_secret = ''k'', sn_ttl = 60 * second\<rparr> 0 ''52:54:00:aa:bb:cc''
      = ds @ ''.'' @ EncodeToString (''k'' @ sign_message ''52:54:00:aa:bb:cc'' exp)
      \<and> ParseInt ds = Some exp \<and> 5 < exp * second"
proof -
  let ?s = "\<lparr>sn_secret = ''k'', sn_ttl = 60 * second\<rparr>"
  have "Verify (\<lambda>k m. k @ m) ?s 5 ''52:54:00:aa:bb:cc'' (Mint (\<lambda>k m. k @ m) ?s 0 ''52:54:00:aa:bb:cc'') = None"
    by code_simp
  from token_bound_to_machine [OF this] show ?thesis by simp
qed

end
