(* ===== verification/Http_Core.thy ===== *)
theory Http_Core
  imports Wire Go_Net Cache Dispatch Tracker Listener Pending Install_Log Sightings Callback_Token
begin

text \<open>
  The HTTP layer's state, requests and responses, and the checks its handlers share
  (\<^verbatim>\<open>internal/httpd/httpd.go\<close>, \<^verbatim>\<open>api.go\<close>, \<^verbatim>\<open>admin.go\<close>).
  A handler maps the stores and the response writer to the new ones.  JSON decoding, template
  execution, YAML and HMAC are fields of \<open>http_env\<close>; log lines are left out.
\<close>

section \<open>Responses\<close>

record admin_index =
  ai_AdvertisedIP :: string
  ai_HTTPPort :: int
  ai_DataDir :: string
  ai_Machines :: "Machine list"
  ai_Templates :: "string list"
  ai_CSRF :: string
  ai_Flash :: string
  ai_FlashKind :: string
  ai_PendingTTL :: "duration option"

record template_editor =
  te_Name :: string
  te_HasOverride :: bool
  te_OverridePath :: string
  te_Content :: string
  te_EmbeddedContent :: string
  te_CSRF :: string
  te_Flash :: string
  te_FlashKind :: string

record cloudinit_editor =
  ce_Name :: string
  ce_MAC :: string
  ce_MACHyp :: string
  ce_HasOverride :: bool
  ce_OverridePath :: string
  ce_Content :: string
  ce_Source :: string
  ce_CSRF :: string
  ce_Flash :: string
  ce_FlashKind :: string

record status_page =
  sp_AdvertisedIP :: string
  sp_HTTPPort :: int
  sp_UptimeSec :: int
  sp_StartedAt :: time
  sp_Machines :: "Status list"
  sp_Now :: time

datatype body =
    Bytes string
  | JIntent Intent
  | JMachine MachineView
  | JList ListResponse
  | JDiscovered DiscoveredResponse
  | JStatus StatusResponse
  | JHealthz HealthzResponse
  | JReadyz ReadyzResponse
  | JError APIError
  | AdminIndexPage admin_index
  | TemplatePage template_editor
  | CloudInitPage cloudinit_editor
  | StatusPage status_page

text \<open>
  A response writer: the header map that handlers edit, the status and headers once they are sent,
  and what was written.  Headers set after the first write have no effect, and neither has a second
  status.
\<close>

record ResponseWriter =
  rw_header :: "string gomap"
  rw_sent :: "(nat \<times> string gomap) option"
  rw_body :: "body list"

definition new_writer :: ResponseWriter where
  "new_writer = \<lparr>rw_header = [], rw_sent = None, rw_body = []\<rparr>"

definition set_header :: "string \<Rightarrow> string \<Rightarrow> ResponseWriter \<Rightarrow> ResponseWriter" where
  "set_header k v w = w\<lparr>rw_header := mput k v (rw_header w)\<rparr>"

definition WriteHeader :: "nat \<Rightarrow> ResponseWriter \<Rightarrow> ResponseWriter" where
  "WriteHeader status w =
     (case rw_sent w of None \<Rightarrow> w\<lparr>rw_sent := Some (status, rw_header w)\<rparr> | Some _ \<Rightarrow> w)"

definition Write :: "body \<Rightarrow> ResponseWriter \<Rightarrow> ResponseWriter" where
  "Write b w = (let w' = WriteHeader 200 w in w'\<lparr>rw_body := rw_body w' @ [b]\<rparr>)"

definition reply_status :: "ResponseWriter \<Rightarrow> nat" where
  "reply_status w = (case rw_sent w of None \<Rightarrow> 200 | Some (status, _) \<Rightarrow> status)"

definition reply_header :: "ResponseWriter \<Rightarrow> string \<Rightarrow> string option" where
  "reply_header w k = mget (case rw_sent w of None \<Rightarrow> rw_header w | Some (_, h) \<Rightarrow> h) k"

text \<open>\<^verbatim>\<open>http.Error\<close> and \<^verbatim>\<open>http.Redirect\<close> (the location as it is passed).\<close>

definition http_Error :: "string \<Rightarrow> nat \<Rightarrow> ResponseWriter \<Rightarrow> ResponseWriter" where
  "http_Error msg status w =
     Write (Bytes (msg @ newline)) (WriteHeader status
       (set_header ''X-Content-Type-Options'' ''nosniff'' (set_header ''Content-Type'' ''text/plain; charset=utf-8''
         (w\<lparr>rw_header := mdel ''Content-Length'' (rw_header w)\<rparr>))))"

definition http_Redirect :: "string \<Rightarrow> nat \<Rightarrow> ResponseWriter \<Rightarrow> ResponseWriter" where
  "http_Redirect url status w = WriteHeader status (set_header ''Location'' url w)"

section \<open>Requests, stores and options\<close>

record request =
  rq_Method :: string
  rq_Path :: string
  rq_PathValue :: "string \<Rightarrow> string"
  rq_Query :: "string gomap"
  rq_Header :: "string \<Rightarrow> string"
  rq_Body :: string
  rq_BodyError :: bool
  rq_Form :: "string gomap"
  rq_FormError :: bool
  rq_RemoteAddr :: string

definition get_value :: "string gomap \<Rightarrow> string \<Rightarrow> string" where
  "get_value m k = (case mget m k of None \<Rightarrow> [] | Some v \<Rightarrow> v)"

text \<open>\<^verbatim>\<open>io.ReadAll(io.LimitReader(r.Body, n))\<close>: the bytes and whether reading failed.\<close>

definition read_limited :: "nat \<Rightarrow> request \<Rightarrow> string \<times> bool" where
  "read_limited n rq = (take n (rq_Body rq), rq_BodyError rq \<and> length (rq_Body rq) < n)"

record server_state =
  sv_fleet :: "Fleet option"
  sv_tracker :: "Tracker option"
  sv_pending :: "Pending option"
  sv_log :: "Install_Log option"
  sv_sightings :: "Sightings option"
  sv_offers :: "offer_map option"
  sv_fs :: filesys

text \<open>
  \<open>o_DataDir\<close> is the data directory and, as \<^verbatim>\<open>main\<close> sets it, the override directory of
  the assets; \<open>o_script\<close> is the text of the boot script template, \<open>o_csrf\<close> the random token of
  \<^verbatim>\<open>newAdminState\<close>; \<open>sv_offers\<close> are the pending hints of the proxy-DHCP listener, the
  \<^verbatim>\<open>Tracker\<close> of the options.
\<close>

record http_options =
  o_AdvertisedIP :: string
  o_HTTPPort :: int
  o_ChainURL :: string
  o_IPXEScriptPath :: string
  o_SetCrossCert :: bool
  o_DataDir :: string
  o_ClientNetmask :: string
  o_TFTPAutoexec :: "(time \<Rightarrow> server_state \<Rightarrow> string) option"
  o_IPXEDispatch :: "(time \<Rightarrow> server_state \<Rightarrow> string) option"
  o_CallbackTokens :: "Signer option"
  o_RequireCallbackToken :: bool
  o_script :: string
  o_csrf :: string
  o_startedAt :: time

text \<open>Values of the template variables.\<close>

datatype template_value = TString string | TInt int | TMap "string gomap"

datatype go_error = EMac mac_error | EFleet fleet_error | ERender render_error | EAsset asset_error
  | ECache cache_error | ERead string | EDecode string | EBodyRead | ESystem syscall | EForm | ETemplate string

text \<open>
  The environment: \<open>he_intent\<close> decodes the body of \<^verbatim>\<open>PUT .../intent\<close> to the raw bytes of
  its action, empty when the key is missing; \<open>he_phase\<close> decodes an event body, with the fields read
  before any error; \<open>he_text\<close> is the text of an error.
\<close>

record scriptVars =
  sc_AdvertisedIP :: string
  sc_ChainURL :: string
  sc_SetCrossCert :: bool

record http_env =
  he_fleet :: fleet_env
  he_save :: save_io
  he_ok :: "syscall \<Rightarrow> bool"
  he_now :: time
  he_hmac :: "string \<Rightarrow> string \<Rightarrow> string"
  he_embedded :: embedded
  he_script :: "string \<Rightarrow> RenderContext \<Rightarrow> template_result"
  he_template :: "string \<Rightarrow> template_value gomap \<Rightarrow> template_result"
  he_boot_script :: "string \<Rightarrow> scriptVars \<Rightarrow> template_result"
  he_yaml_map :: "string \<Rightarrow> bool"
  he_intent :: "string \<Rightarrow> string option"
  he_json_string :: "string \<Rightarrow> string option"
  he_machine :: "string \<Rightarrow> MachineConfig option"
  he_phase :: "string \<Rightarrow> string \<times> string"
  he_text :: "go_error \<Rightarrow> string"

type_synonym reply_state = "server_state \<times> ResponseWriter"
type_synonym handler = "http_env \<Rightarrow> http_options \<Rightarrow> request \<Rightarrow> reply_state \<Rightarrow> reply_state"

section \<open>Errors and JSON\<close>

definition json_type :: string where
  "json_type = ''application/json; charset=utf-8''"

definition writeJSON :: "body \<Rightarrow> ResponseWriter \<Rightarrow> ResponseWriter" where
  "writeJSON v w = Write v (set_header ''Content-Type'' json_type w)"

definition writeAPIError :: "nat \<Rightarrow> ErrCode \<Rightarrow> string \<Rightarrow> detail gomap \<Rightarrow> ResponseWriter \<Rightarrow> ResponseWriter" where
  "writeAPIError status code msg details w =
     Write (JError \<lparr>ae_Code = code, ae_Message = msg, ae_Details = details\<rparr>)
       (WriteHeader status (set_header ''Content-Type'' json_type w))"

definition wantsJSON :: "request \<Rightarrow> bool" where
  "wantsJSON rq =
     (if HasPrefix (rq_Path rq) ''/api/'' then True else Contains (rq_Header rq ''Accept'') ''application/json'')"

definition writeError :: "request \<Rightarrow> nat \<Rightarrow> ErrCode \<Rightarrow> string \<Rightarrow> detail gomap \<Rightarrow> ResponseWriter \<Rightarrow> ResponseWriter" where
  "writeError rq status code msg details w =
     (if wantsJSON rq then writeAPIError status code msg details w else http_Error msg status w)"

section \<open>Checks shared by the handlers\<close>

text \<open>Each returns the writer it answered the request with, or the value the handler goes on with.\<close>

definition fleet_off :: string where
  "fleet_off = ''fleet mode not enabled (start pxe-beacon with -config <fleet.yaml>)''"

definition fleetReady :: "request \<Rightarrow> server_state \<Rightarrow> ResponseWriter \<Rightarrow> ResponseWriter + Fleet \<times> Tracker" where
  "fleetReady rq st w =
     (case (sv_fleet st, sv_tracker st) of (Some f, Some t) \<Rightarrow> Inr (f, t)
      | _ \<Rightarrow> Inl (writeError rq 503 ErrCodeFleetNotLoaded fleet_off [] w))"

definition extractMAC :: "http_env \<Rightarrow> request \<Rightarrow> ResponseWriter \<Rightarrow> ResponseWriter + string" where
  "extractMAC env rq w =
     (let raw = rq_PathValue rq ''mac'' in
      if raw = [] then Inl (writeError rq 400 ErrCodeMACMissing ''missing mac in URL'' [] w)
      else case CanonicalMAC raw of
        Inl e \<Rightarrow> Inl (writeError rq 400 ErrCodeMACInvalid
          (''invalid mac '' @ Quote raw @ '': '' @ he_text env (EMac e)) [(''input'', DetailString raw)] w)
      | Inr canon \<Rightarrow> Inr canon)"

definition apiReady :: "server_state \<Rightarrow> ResponseWriter \<Rightarrow> ResponseWriter + Fleet \<times> Tracker \<times> Pending" where
  "apiReady st w =
     (case (sv_fleet st, sv_tracker st) of
        (Some f, Some t) \<Rightarrow>
          (case sv_pending st of
             None \<Rightarrow> Inl (writeAPIError 503 ErrCodePendingNotConfigured ''pending-action store not configured'' [] w)
           | Some p \<Rightarrow> Inr (f, t, p))
      | _ \<Rightarrow> Inl (writeAPIError 503 ErrCodeFleetNotLoaded fleet_off [] w))"

definition apiExtractFleetMAC :: "http_env \<Rightarrow> request \<Rightarrow> Fleet \<Rightarrow> ResponseWriter
    \<Rightarrow> ResponseWriter + string \<times> Profile" where
  "apiExtractFleetMAC env rq f w =
     (let raw = rq_PathValue rq ''mac'' in
      if raw = [] then Inl (writeAPIError 400 ErrCodeMACMissing ''missing mac in URL'' [] w)
      else case CanonicalMAC raw of
        Inl e \<Rightarrow> Inl (writeAPIError 400 ErrCodeMACInvalid (''invalid mac: '' @ he_text env (EMac e))
          [(''input'', DetailString raw)] w)
      | Inr canon \<Rightarrow>
          let p = Lookup f canon in
          if p_Name p = [] then Inl (writeAPIError 404 ErrCodeMACNotInFleet
            (''mac '' @ canon @ '' is not in fleet.yaml'') [(''mac'', DetailString canon)] w)
          else Inr (canon, p))"

definition media_type :: "request \<Rightarrow> string" where
  "media_type rq =
     (let ct = rq_Header rq ''Content-Type''
      in TrimSpace (case IndexByte ct (CHR '';'') of None \<Rightarrow> ct | Some i \<Rightarrow> take i ct))"

definition requireJSON :: "request \<Rightarrow> ResponseWriter \<Rightarrow> ResponseWriter + unit" where
  "requireJSON rq w =
     (if media_type rq \<noteq> ''application/json'' then
        Inl (writeAPIError 415 ErrCodeContentType ''Content-Type must be application/json''
          [(''got'', DetailString (rq_Header rq ''Content-Type''))] w)
      else Inr ())"

section \<open>Middleware\<close>

definition is_loopback :: "string \<Rightarrow> bool" where
  "is_loopback addr =
     (let host = (case SplitHostPort addr of None \<Rightarrow> addr | Some (h, _) \<Rightarrow> h)
      in case ParseIP host of None \<Rightarrow> False | Some ip \<Rightarrow> IsLoopback ip)"

definition loopbackOnly :: "handler \<Rightarrow> handler" where
  "loopbackOnly h env opt rq s =
     (if \<not> is_loopback (rq_RemoteAddr rq) then
        (fst s, http_Error ''admin is loopback-only; use SSH tunnel for remote access'' 403 (snd s))
      else h env opt rq s)"

definition csrfGuard :: "handler \<Rightarrow> handler" where
  "csrfGuard h env opt rq s =
     (if rq_Method rq = ''POST'' then
        (if rq_FormError rq then (fst s, http_Error (''parse form: '' @ he_text env EForm) 400 (snd s))
         else if get_value (rq_Form rq) ''csrf'' \<noteq> o_csrf opt then
           (fst s, http_Error ''csrf token mismatch'' 403 (snd s))
         else h env opt rq s)
      else h env opt rq s)"

definition mintCallbackToken :: "http_env \<Rightarrow> http_options \<Rightarrow> string \<Rightarrow> string" where
  "mintCallbackToken env opt canonMAC =
     (case o_CallbackTokens opt of None \<Rightarrow> [] | Some sn \<Rightarrow> Mint (he_hmac env) sn (he_now env) canonMAC)"

definition requireCallbackToken :: "handler \<Rightarrow> handler" where
  "requireCallbackToken h env opt rq s =
     (case o_CallbackTokens opt of None \<Rightarrow> h env opt rq s
      | Some sn \<Rightarrow>
          case CanonicalMAC (rq_PathValue rq ''mac'') of
            Inl e \<Rightarrow> (fst s, writeError rq 400 ErrCodeMACInvalid ''invalid MAC in path''
              [(''mac'', DetailString (rq_PathValue rq ''mac''))] (snd s))
          | Inr mac \<Rightarrow>
              let tok = get_value (rq_Query rq) ''t'' in
              if tok = [] then
                (if o_RequireCallbackToken opt then
                   (fst s, writeError rq 403 ErrCodeCallbackToken ''missing callback token''
                     [(''mac'', DetailString mac)] (snd s))
                 else h env opt rq s)
              else case Verify (he_hmac env) sn (he_now env) mac tok of
                Some e \<Rightarrow> (fst s, writeError rq 403 ErrCodeCallbackToken ''invalid callback token''
                  [(''mac'', DetailString mac)] (snd s))
              | None \<Rightarrow> h env opt rq s)"

text \<open>Tells the listener, if there is one, that something was served.\<close>

definition note_served :: "string \<Rightarrow> server_state \<Rightarrow> server_state" where
  "note_served tag st =
     (case sv_offers st of None \<Rightarrow> st | Some m \<Rightarrow> st\<lparr>sv_offers := Some (NoteServed tag m)\<rparr>)"

section \<open>Views of a machine\<close>

definition buildDesired :: "http_env \<Rightarrow> server_state \<Rightarrow> string \<Rightarrow> Desired" where
  "buildDesired env st canon =
     (case sv_pending st of
        None \<Rightarrow> \<lparr>ds_Action = [], ds_RequestedAt = zero_time, ds_ExpiresAt = zero_time\<rparr>
      | Some p \<Rightarrow>
          case Pending_Status (he_now env) canon p of
            None \<Rightarrow> \<lparr>ds_Action = [], ds_RequestedAt = zero_time, ds_ExpiresAt = zero_time\<rparr>
          | Some (action, at, exp) \<Rightarrow> \<lparr>ds_Action = action, ds_RequestedAt = at, ds_ExpiresAt = exp\<rparr>)"

definition buildObserved :: "http_env \<Rightarrow> server_state \<Rightarrow> string \<Rightarrow> Observed" where
  "buildObserved env st canon =
     (case sv_tracker st of None \<Rightarrow> \<lparr>ob_Phase = [], ob_LastSeen = zero_time\<rparr>
      | Some t \<Rightarrow>
          case find (\<lambda>s. st_MAC s = canon) (Snapshot (sv_fleet st) (he_now env) t) of
            None \<Rightarrow> \<lparr>ob_Phase = [], ob_LastSeen = zero_time\<rparr>
          | Some s \<Rightarrow> \<lparr>ob_Phase = st_State s, ob_LastSeen = st_LastSeen s\<rparr>)"

definition buildIntentView :: "http_env \<Rightarrow> server_state \<Rightarrow> string \<Rightarrow> Intent" where
  "buildIntentView env st canon =
     \<lparr>in_MAC = canon, in_Desired = buildDesired env st canon, in_Observed = buildObserved env st canon\<rparr>"

definition buildMachineView :: "http_env \<Rightarrow> server_state \<Rightarrow> string \<Rightarrow> Profile \<Rightarrow> MachineView" where
  "buildMachineView env st canon p =
     \<lparr>mv_MAC = canon, mv_Name = p_Name p, mv_Boot = p_Boot p,
      mv_Desired = buildDesired env st canon, mv_Observed = buildObserved env st canon\<rparr>"

definition pendingTTLSeconds :: "server_state \<Rightarrow> int" where
  "pendingTTLSeconds st = (case sv_pending st of None \<Rightarrow> 0 | Some p \<Rightarrow> (if ps_ttl p < 0 then - (- ps_ttl p div second) else ps_ttl p div second))"

end
