(* ===== verification/Http_Api.thy ===== *)
theory Http_Api
  imports Http_Core
begin

text \<open>
  The JSON API (\<^verbatim>\<open>internal/httpd/api.go\<close>): boot intents, fleet edits with their
  preconditions, paged lists, the discovery feed and the health probes.
\<close>

section \<open>Boot intent\<close>

definition accepted_actions :: detail where
  "accepted_actions = DetailStrings [''install'', ''rescue'', ''null'']"

text \<open>What the body asks for: the action (empty for null) or the answer to a bad body.\<close>

definition intent_action :: "http_env \<Rightarrow> request \<Rightarrow> ResponseWriter \<Rightarrow> ResponseWriter + string" where
  "intent_action env rq w =
     (case read_limited 8192 rq of (raw, failed) \<Rightarrow>
      if failed then Inl (writeAPIError 400 ErrCodeBodyInvalid (''read body: '' @ he_text env EBodyRead) [] w)
      else case he_intent env raw of
        None \<Rightarrow> Inl (writeAPIError 400 ErrCodeBodyInvalid (''decode body: '' @ he_text env (EDecode raw)) [] w)
      | Some act \<Rightarrow>
          if act = [] then Inl (writeAPIError 400 ErrCodeActionMissing
            (''body must include '' @ [CHR 0x22] @ ''action'' @ [CHR 0x22] @ '' key with value '' @ [CHR 0x22] @ ''install''
              @ [CHR 0x22] @ '', '' @ [CHR 0x22] @ ''rescue'' @ [CHR 0x22] @ '', or null'')
            [(''accepted'', accepted_actions)] w)
          else if act = ''null'' then Inr []
          else case he_json_string env act of
            None \<Rightarrow> Inl (writeAPIError 400 ErrCodeActionInvalid
              ([CHR 0x22] @ ''action'' @ [CHR 0x22] @ '' must be a string or null; got '' @ act)
              [(''got'', DetailString act), (''accepted'', accepted_actions)] w)
          | Some action \<Rightarrow> Inr action)"

definition handleAPISetIntent :: handler where
  "handleAPISetIntent env opt rq s =
     (case s of (st, w) \<Rightarrow>
      case apiReady st w of Inl w' \<Rightarrow> (st, w') | Inr (f, t, pend) \<Rightarrow>
      case apiExtractFleetMAC env rq f w of Inl w' \<Rightarrow> (st, w') | Inr (mac, p) \<Rightarrow>
      case intent_action env rq w of Inl w' \<Rightarrow> (st, w') | Inr action \<Rightarrow>
      if action = ''install'' then
        (case Install (he_now env) mac pend of
           (Inl e, pend') \<Rightarrow> (st\<lparr>sv_pending := Some pend'\<rparr>,
             writeAPIError 500 ErrCodePendingFailed (''install: '' @ he_text env (EMac e)) [] w)
         | (Inr _, pend') \<Rightarrow>
             let st' = st\<lparr>sv_pending := Some pend'\<rparr> in (st', writeJSON (JIntent (buildIntentView env st' mac)) w))
      else if action = ''rescue'' then
        (case Rescue (he_now env) mac pend of
           (Inl e, pend') \<Rightarrow> (st\<lparr>sv_pending := Some pend'\<rparr>,
             writeAPIError 500 ErrCodePendingFailed (''rescue: '' @ he_text env (EMac e)) [] w)
         | (Inr _, pend') \<Rightarrow>
             let st' = st\<lparr>sv_pending := Some pend'\<rparr> in (st', writeJSON (JIntent (buildIntentView env st' mac)) w))
      else if action = [] then
        (let st' = st\<lparr>sv_pending := Some (snd (Cancel mac pend))\<rparr>
         in (st', writeJSON (JIntent (buildIntentView env st' mac)) w))
      else (st, writeAPIError 400 ErrCodeActionInvalid
        (''action must be '' @ [CHR 0x22] @ ''install'' @ [CHR 0x22] @ '', '' @ [CHR 0x22] @ ''rescue'' @ [CHR 0x22]
          @ '', or null; got '' @ action)
        [(''got'', DetailString action), (''accepted'', accepted_actions)] w))"

definition handleAPIGetIntent :: handler where
  "handleAPIGetIntent env opt rq s =
     (case s of (st, w) \<Rightarrow>
      case apiReady st w of Inl w' \<Rightarrow> (st, w') | Inr (f, t, pend) \<Rightarrow>
      case apiExtractFleetMAC env rq f w of Inl w' \<Rightarrow> (st, w') | Inr (mac, p) \<Rightarrow>
      (st, writeJSON (JIntent (buildIntentView env st mac)) w))"

section \<open>Fleet edits\<close>

definition handleAPIMachine :: handler where
  "handleAPIMachine env opt rq s =
     (case s of (st, w) \<Rightarrow>
      case fleetReady rq st w of Inl w' \<Rightarrow> (st, w') | Inr (f, t) \<Rightarrow>
      case apiExtractFleetMAC env rq f w of Inl w' \<Rightarrow> (st, w') | Inr (mac, p) \<Rightarrow>
      let w1 = (case ETag (he_fleet env) f mac of (tag, found) \<Rightarrow> if found then set_header ''ETag'' tag w else w)
      in (st, writeJSON (JMachine (buildMachineView env st mac p)) w1))"

definition decodeMachineBody :: "http_env \<Rightarrow> request \<Rightarrow> ResponseWriter \<Rightarrow> ResponseWriter + MachineConfig" where
  "decodeMachineBody env rq w =
     (case read_limited 16384 rq of (raw, failed) \<Rightarrow>
      if failed then Inl (writeAPIError 400 ErrCodeBodyInvalid (''read body: '' @ he_text env EBodyRead) [] w)
      else case he_machine env raw of
        None \<Rightarrow> Inl (writeAPIError 400 ErrCodeBodyInvalid (''decode body: '' @ he_text env (EDecode raw)) [] w)
      | Some b \<Rightarrow> Inr b)"

definition resolve_side :: "Fleet \<Rightarrow> string \<Rightarrow> string" where
  "resolve_side f p = (if p = [] \<or> IsAbs p then p else PathJoin [BaseDir f, p])"

definition profileFromBody :: "Fleet \<Rightarrow> MachineConfig \<Rightarrow> ResponseWriter \<Rightarrow> ResponseWriter + Profile" where
  "profileFromBody f b w =
     (if mc_Boot b \<notin> set ValidBootTargets then
        Inl (writeAPIError 400 ErrCodeBootInvalid ''unknown boot target'' [(''boot'', DetailString (mc_Boot b))] w)
      else Inr \<lparr>p_Boot = mc_Boot b, p_Name = mc_Name b, p_CloudInit = resolve_side f (mc_CloudInit b),
        p_Preseed = resolve_side f (mc_Preseed b), p_Kickstart = resolve_side f (mc_Kickstart b),
        p_Rescue = resolve_side f (mc_Rescue b), p_IPXEScript = resolve_side f (mc_IPXEScript b),
        p_Params = mc_Params b, p_IsDefault = False\<rparr>)"

definition writeFleetMutationError :: "http_env \<Rightarrow> string \<Rightarrow> string \<Rightarrow> fleet_error \<Rightarrow> ResponseWriter \<Rightarrow> ResponseWriter" where
  "writeFleetMutationError env mac op e w =
     (let details = [(''mac'', DetailString mac)] in
      case e of
        ErrMACExists \<Rightarrow> writeAPIError 409 ErrCodeMACExists (''machine '' @ mac @ '' already exists (use PUT to update)'') details w
      | ErrMACAbsent \<Rightarrow> writeAPIError 404 ErrCodeMACNotInFleet (''machine '' @ mac @ '' is not in fleet.yaml'') details w
      | ErrPreconditionRequired \<Rightarrow> writeAPIError 428 ErrCodePreconditionRequired
          ''If-Match header required (GET the resource first for its ETag)'' details w
      | ErrPreconditionFailed \<Rightarrow> writeAPIError 412 ErrCodePreconditionFailed
          ''If-Match does not match current ETag (resource changed; re-GET)'' details w
      | _ \<Rightarrow> writeAPIError 500 ErrCodeSaveFailed (op @ '': '' @ he_text env (EFleet e)) [] w)"

text \<open>The stores after a fleet operation returned the file system and the fleet.\<close>

definition put_fleet :: "server_state \<Rightarrow> filesys \<times> Fleet \<Rightarrow> server_state" where
  "put_fleet st r = st\<lparr>sv_fs := fst r, sv_fleet := Some (snd r)\<rparr>"

definition handleAPICreateMachine :: handler where
  "handleAPICreateMachine env opt rq s =
     (case s of (st, w) \<Rightarrow>
      case fleetReady rq st w of Inl w' \<Rightarrow> (st, w') | Inr (f, t) \<Rightarrow>
      case requireJSON rq w of Inl w' \<Rightarrow> (st, w') | Inr _ \<Rightarrow>
      case decodeMachineBody env rq w of Inl w' \<Rightarrow> (st, w') | Inr b \<Rightarrow>
      case CanonicalMAC (mc_MAC b) of
        Inl e \<Rightarrow> (st, writeAPIError 400 ErrCodeMACInvalid (''invalid mac: '' @ he_text env (EMac e))
          [(''input'', DetailString (mc_MAC b))] w)
      | Inr canon \<Rightarrow>
      case profileFromBody f b w of Inl w' \<Rightarrow> (st, w') | Inr p \<Rightarrow>
      case CreateAndSave (he_fleet env) (he_save env) \<lparr>m_MAC = canon, m_Profile = p\<rparr> (sv_fs st, f) of
        (Inl e, r) \<Rightarrow> (put_fleet st r, writeFleetMutationError env canon ''create'' e w)
      | (Inr etag, r) \<Rightarrow>
          let st' = put_fleet st r
          in (st', writeJSON (JMachine (buildMachineView env st' canon p)) (WriteHeader 201 (set_header ''ETag'' etag w))))"

definition handleAPIUpdateMachine :: handler where
  "handleAPIUpdateMachine env opt rq s =
     (case s of (st, w) \<Rightarrow>
      case fleetReady rq st w of Inl w' \<Rightarrow> (st, w') | Inr (f, t) \<Rightarrow>
      case requireJSON rq w of Inl w' \<Rightarrow> (st, w') | Inr _ \<Rightarrow>
      let raw = rq_PathValue rq ''mac'' in
      case CanonicalMAC raw of
        Inl e \<Rightarrow> (st, writeAPIError 400 ErrCodeMACInvalid (''invalid mac: '' @ he_text env (EMac e))
          [(''input'', DetailString raw)] w)
      | Inr canon \<Rightarrow>
      case decodeMachineBody env rq w of Inl w' \<Rightarrow> (st, w') | Inr b \<Rightarrow>
      case profileFromBody f b w of Inl w' \<Rightarrow> (st, w') | Inr p \<Rightarrow>
      case UpdateAndSave (he_fleet env) (he_save env) \<lparr>m_MAC = canon, m_Profile = p\<rparr> (rq_Header rq ''If-Match'')
          (sv_fs st, f) of
        (Inl e, r) \<Rightarrow> (put_fleet st r, writeFleetMutationError env canon ''update'' e w)
      | (Inr etag, r) \<Rightarrow>
          let st' = put_fleet st r
          in (st', writeJSON (JMachine (buildMachineView env st' canon p)) (set_header ''ETag'' etag w)))"

definition handleAPIDeleteMachine :: handler where
  "handleAPIDeleteMachine env opt rq s =
     (case s of (st, w) \<Rightarrow>
      case fleetReady rq st w of Inl w' \<Rightarrow> (st, w') | Inr (f, t) \<Rightarrow>
      let raw = rq_PathValue rq ''mac'' in
      case CanonicalMAC raw of
        Inl e \<Rightarrow> (st, writeAPIError 400 ErrCodeMACInvalid (''invalid mac: '' @ he_text env (EMac e))
          [(''input'', DetailString raw)] w)
      | Inr canon \<Rightarrow>
      case DeleteAndSave (he_fleet env) (he_save env) canon (rq_Header rq ''If-Match'') (sv_fs st, f) of
        ((existed, Some e), r) \<Rightarrow> (put_fleet st r, writeFleetMutationError env canon ''delete'' e w)
      | ((existed, None), r) \<Rightarrow>
          let st' = put_fleet st r;
              st'' = (case sv_pending st' of
                        Some pend \<Rightarrow> if existed then st'\<lparr>sv_pending := Some (snd (Cancel canon pend))\<rparr> else st'
                      | None \<Rightarrow> st')
          in (st'', WriteHeader 204 w))"

section \<open>Lists\<close>

definition defaultPageLimit :: int where
  "defaultPageLimit = 500"

definition paging_error :: "string \<Rightarrow> string \<Rightarrow> ResponseWriter \<Rightarrow> ResponseWriter" where
  "paging_error what v w =
     writeAPIError 400 ErrCodePagingInvalid (what @ '' must be a non-negative integer'') [(''got'', DetailString v)] w"

definition parse_limit :: "request \<Rightarrow> ResponseWriter \<Rightarrow> ResponseWriter + int" where
  "parse_limit rq w =
     (let v = get_value (rq_Query rq) ''limit'' in
      if v = [] then Inr defaultPageLimit
      else case ParseInt v of None \<Rightarrow> Inl (paging_error ''limit'' v w)
        | Some n \<Rightarrow> if n < 0 then Inl (paging_error ''limit'' v w)
                    else Inr (if n = 0 \<or> n > defaultPageLimit then defaultPageLimit else n))"

definition parse_offset :: "request \<Rightarrow> ResponseWriter \<Rightarrow> ResponseWriter + int" where
  "parse_offset rq w =
     (let v = get_value (rq_Query rq) ''offset'' in
      if v = [] then Inr 0
      else case ParseInt v of None \<Rightarrow> Inl (paging_error ''offset'' v w)
        | Some n \<Rightarrow> if n < 0 then Inl (paging_error ''offset'' v w) else Inr n)"

definition parsePaging :: "request \<Rightarrow> ResponseWriter \<Rightarrow> ResponseWriter + int \<times> int" where
  "parsePaging rq w =
     (case parse_limit rq w of Inl w' \<Rightarrow> Inl w'
      | Inr lim \<Rightarrow> case parse_offset rq w of Inl w' \<Rightarrow> Inl w' | Inr off \<Rightarrow> Inr (lim, off))"

text \<open>The window: both ends are clamped to the length before the slice is taken.\<close>

definition page_window :: "int \<Rightarrow> int \<Rightarrow> 'a list \<Rightarrow> 'a list" where
  "page_window lim off xs =
     (let total = int (length xs);
          lo = (if off > total then total else off);
          hi = (if lo + lim > total then total else lo + lim)
      in take (nat (hi - lo)) (drop (nat lo) xs))"

definition handleAPIList :: handler where
  "handleAPIList env opt rq s =
     (case s of (st, w) \<Rightarrow>
      case fleetReady rq st w of Inl w' \<Rightarrow> (st, w') | Inr (f, t) \<Rightarrow>
      case parsePaging rq w of Inl w' \<Rightarrow> (st, w') | Inr (lim, off) \<Rightarrow>
      let machines = ListMachines f in
      (st, writeJSON (JList \<lparr>lr_PendingTTLs = pendingTTLSeconds st, lr_Total = int (length machines),
         lr_Limit = lim, lr_Offset = off,
         lr_Machines = map (\<lambda>m. buildMachineView env st (m_MAC m) (m_Profile m)) (page_window lim off machines)\<rparr>) w))"

definition sighting_view :: "Sighting \<Rightarrow> SightingView" where
  "sighting_view sg = \<lparr>sw_MAC = sg_MAC sg, sw_Arch = sg_Arch sg, sw_Vendor = sg_Vendor sg,
     sw_VendorClass = sg_VendorClass sg, sw_FirstSeen = sg_FirstSeen sg, sw_LastSeen = sg_LastSeen sg,
     sw_Count = sg_Count sg\<rparr>"

definition not_enrolled :: "Fleet option \<Rightarrow> Sighting \<Rightarrow> bool" where
  "not_enrolled fl sg = (case fl of None \<Rightarrow> True | Some f \<Rightarrow> p_Name (Lookup f (sg_MAC sg)) = [])"

definition handleAPIDiscovered :: handler where
  "handleAPIDiscovered env opt rq s =
     (case s of (st, w) \<Rightarrow>
      case sv_sightings st of
        None \<Rightarrow> (st, writeError rq 503 ErrCodeFleetNotLoaded ''discovery not enabled'' [] w)
      | Some sights \<Rightarrow>
      case parsePaging rq w of Inl w' \<Rightarrow> (st, w') | Inr (lim, off) \<Rightarrow>
      let filtered = filter (not_enrolled (sv_fleet st)) (Sightings_List sights) in
      (st, writeJSON (JDiscovered \<lparr>dr_Total = int (length filtered), dr_Limit = lim, dr_Offset = off,
         dr_Discovered = map sighting_view (page_window lim off filtered)\<rparr>) w))"

definition handleAPIDismissDiscovered :: handler where
  "handleAPIDismissDiscovered env opt rq s =
     (case s of (st, w) \<Rightarrow>
      case sv_sightings st of
        None \<Rightarrow> (st, writeError rq 503 ErrCodeFleetNotLoaded ''discovery not enabled'' [] w)
      | Some sights \<Rightarrow>
      case CanonicalMAC (rq_PathValue rq ''mac'') of
        Inl e \<Rightarrow> (st, writeError rq 400 ErrCodeMACInvalid ''invalid MAC''
          [(''mac'', DetailString (rq_PathValue rq ''mac''))] w)
      | Inr mac \<Rightarrow> (st\<lparr>sv_sightings := Some (snd (Forget mac sights))\<rparr>, WriteHeader 204 w))"

section \<open>Probes\<close>

text \<open>Whole seconds since the start.\<close>

definition uptime_s :: "http_env \<Rightarrow> http_options \<Rightarrow> int" where
  "uptime_s env opt =
     (let d = he_now env - o_startedAt opt in if d < 0 then - (- d div second) else d div second)"

definition handleHealthz :: handler where
  "handleHealthz env opt rq s =
     (case s of (st, w) \<Rightarrow> (st, writeJSON (JHealthz \<lparr>hz_Status = ''ok'', hz_UptimeS = uptime_s env opt,
        hz_StartedAt = o_startedAt opt\<rparr>) w))"

definition pendingCount :: "server_state \<Rightarrow> int" where
  "pendingCount st = (case sv_pending st of None \<Rightarrow> 0 | Some p \<Rightarrow> int (Pending_Len p))"

definition trackerCount :: "http_env \<Rightarrow> server_state \<Rightarrow> int" where
  "trackerCount env st =
     (case sv_tracker st of None \<Rightarrow> 0 | Some t \<Rightarrow> int (length (Snapshot (sv_fleet st) (he_now env) t)))"

definition handleReadyz :: handler where
  "handleReadyz env opt rq s =
     (case s of (st, w) \<Rightarrow>
      let ready = (sv_fleet st \<noteq> None \<and> sv_tracker st \<noteq> None \<and> sv_pending st \<noteq> None);
          components = [(''fleet'', if sv_fleet st \<noteq> None then ''ok'' else ''not_loaded''),
            (''tracker'', if sv_tracker st \<noteq> None then ''ok'' else ''not_loaded''),
            (''pending'', if sv_pending st \<noteq> None then ''ok'' else ''not_configured'')];
          reply = \<lparr>rz_Status = (if ready then ''ok'' else ''not_ready''), rz_Components = components,
            rz_PendingCount = (if ready then Some (pendingCount st) else None),
            rz_TrackerCount = (if ready then Some (trackerCount env st) else None)\<rparr>;
          w1 = set_header ''Content-Type'' json_type w;
          w2 = (if ready then w1 else WriteHeader 503 w1)
      in (st, Write (JReadyz reply) w2))"

end
