(* ===== verification/Http_Provision.thy ===== *)
theory Http_Provision
  imports Http_Core
begin

text \<open>
  What an installing machine fetches and posts (\<^verbatim>\<open>internal/httpd/httpd.go\<close>): its boot
  script, cloud-init, preseed, kickstart and rescue files, and the callbacks that report progress.
\<close>

section \<open>Answering\<close>

definition content_length :: "string \<Rightarrow> string" where
  "content_length b = Itoa (int (length b))"

definition serve_bytes :: "string \<Rightarrow> string \<Rightarrow> ResponseWriter \<Rightarrow> ResponseWriter" where
  "serve_bytes ctype b w =
     Write (Bytes b) (set_header ''Content-Length'' (content_length b) (set_header ''Content-Type'' ctype w))"

definition text_plain :: string where "text_plain = ''text/plain; charset=utf-8''"
definition text_yaml :: string where "text_yaml = ''text/yaml; charset=utf-8''"

definition hyphenated :: "string \<Rightarrow> string" where
  "hyphenated mac = ReplaceAll mac (CHR '':'') ''-''"

text \<open>Recording an event of a machine in the status tracker.\<close>

definition note_event :: "http_env \<Rightarrow> string \<Rightarrow> Event \<Rightarrow> server_state \<Rightarrow> server_state" where
  "note_event env mac ev st =
     (case sv_tracker st of None \<Rightarrow> st
      | Some t \<Rightarrow> st\<lparr>sv_tracker := Some (Tracker_Note (sv_fleet st) (he_now env) mac ev t)\<rparr>)"

section \<open>Boot script\<close>

definition handleAutoexec :: handler where
  "handleAutoexec env opt rq s =
     (case s of (st, w) \<Rightarrow>
      case fleetReady rq st w of Inl w' \<Rightarrow> (st, w') | Inr (f, t) \<Rightarrow>
      case extractMAC env rq w of Inl w' \<Rightarrow> (st, w') | Inr mac \<Rightarrow>
      let p = Lookup f mac;
          ctx = \<lparr>rc_Name = p_Name p, rc_MAC = mac, rc_MACHyp = [], rc_AdvertisedIP = o_AdvertisedIP opt,
                 rc_HTTPPort = o_HTTPPort opt\<rparr>;
          rendered = (if p_Boot p = ''custom'' then Some (RenderCustom (he_script env) (sv_fs st) (p_IPXEScript p) ctx)
            else if IsBuiltIn (p_Boot p)
              then Some (RenderAutoexec (he_script env) (he_embedded env) (sv_fs st) (o_DataDir opt) (p_Boot p) ctx)
            else None)
      in case rendered of
           None \<Rightarrow> (st, http_Error (''unsupported boot target '' @ Quote (p_Boot p)) 500 w)
         | Some (Inl e) \<Rightarrow> (st, http_Error (''render: '' @ he_text env (ERender e)) 500 w)
         | Some (Inr b) \<Rightarrow> (st, serve_bytes text_plain b w))"

section \<open>Cloud-init\<close>

definition machineCloudInitOverridePath :: "http_options \<Rightarrow> string \<Rightarrow> string" where
  "machineCloudInitOverridePath opt mac =
     (if o_DataDir opt = [] then []
      else PathJoin [o_DataDir opt, ''machines'', hyphenated mac, ''cloud-init.yaml''])"

definition machineCloudInitOverride :: "http_options \<Rightarrow> filesys \<Rightarrow> string \<Rightarrow> string option" where
  "machineCloudInitOverride opt fs mac =
     (let p = machineCloudInitOverridePath opt mac in if p = [] then None else ReadFile fs p)"

definition cloudInitPhoneHome :: "http_options \<Rightarrow> string \<Rightarrow> string \<Rightarrow> string" where
  "cloudInitPhoneHome opt mac token =
     (let url0 = ''http://'' @ o_AdvertisedIP opt @ '':'' @ Itoa (o_HTTPPort opt) @ ''/autoinstall/''
            @ hyphenated mac @ ''/done'';
          url = (if token \<noteq> [] then url0 @ ''?t='' @ token else url0)
      in newline
       @ ''# phone_home appended by pxe-beacon '' @ em_dash @ '' it owns this callback (carries the'' @ newline
       @ ''# auth token). Do NOT define your own phone_home; fleet load rejects it.'' @ newline
       @ ''phone_home:'' @ newline
       @ ''  url: '' @ url @ newline
       @ ''  post: all'' @ newline
       @ ''  tries: 10'' @ newline)"

definition isYAMLCloudConfig :: "http_env \<Rightarrow> string \<Rightarrow> bool" where
  "isYAMLCloudConfig env b =
     (let t = TrimSpace b in
      if HasPrefix t ''#!'' \<or> HasPrefix t ''## template: jinja'' \<or> HasPrefix t ''Content-Type: multipart''
      then False else he_yaml_map env b)"

text \<open>Appending a block to a document on a line of its own.\<close>

definition append_block :: "string \<Rightarrow> string \<Rightarrow> string" where
  "append_block b block = (if HasSuffix b newline then b else b @ newline) @ block"

definition base_vars :: "http_options \<Rightarrow> Profile \<Rightarrow> string \<Rightarrow> template_value gomap" where
  "base_vars opt p mac = [(''Name'', TString (p_Name p)), (''MAC'', TString mac), (''MACHyp'', TString (hyphenated mac)),
     (''AdvertisedIP'', TString (o_AdvertisedIP opt)), (''HTTPPort'', TInt (o_HTTPPort opt))]"

text \<open>The document a machine's cloud-init is made from: the override, the configured file, the default.\<close>

definition user_data_source :: "http_env \<Rightarrow> http_options \<Rightarrow> filesys \<Rightarrow> string \<Rightarrow> Profile \<Rightarrow> string + string" where
  "user_data_source env opt fs mac p =
     (case machineCloudInitOverride opt fs mac of Some ov \<Rightarrow> Inr ov
      | None \<Rightarrow>
          if p_CloudInit p \<noteq> [] then
            (case ReadFile fs (p_CloudInit p) of
               None \<Rightarrow> Inl (''read cloud_init: '' @ he_text env (ERead (p_CloudInit p))) | Some raw \<Rightarrow> Inr raw)
          else case ReadDefault (he_embedded env) fs (o_DataDir opt) ''cloud-init.yaml'' of
            Inl e \<Rightarrow> Inl (''default cloud-init: '' @ he_text env (EAsset e)) | Inr raw \<Rightarrow> Inr raw)"

definition user_data_body :: "http_env \<Rightarrow> http_options \<Rightarrow> string \<Rightarrow> string \<Rightarrow> string" where
  "user_data_body env opt mac b =
     (if isYAMLCloudConfig env b
      then append_block b (cloudInitPhoneHome opt mac (mintCallbackToken env opt mac)) else b)"

definition handleUserData :: handler where
  "handleUserData env opt rq s =
     (case s of (st, w) \<Rightarrow>
      case fleetReady rq st w of Inl w' \<Rightarrow> (st, w') | Inr (f, t) \<Rightarrow>
      case extractMAC env rq w of Inl w' \<Rightarrow> (st, w') | Inr mac \<Rightarrow>
      let p = Lookup f mac in
      case user_data_source env opt (sv_fs st) mac p of Inl msg \<Rightarrow> (st, http_Error msg 500 w)
      | Inr raw \<Rightarrow>
      case he_template env raw (base_vars opt p mac @ [(''Params'', TMap (p_Params p)),
          (''CallbackToken'', TString (mintCallbackToken env opt mac))]) of
        ParseError \<Rightarrow> (st, http_Error (''parse cloud_init template: '' @ he_text env (ETemplate raw)) 500 w)
      | ExecError \<Rightarrow> (st, http_Error (''render cloud_init: '' @ he_text env (ETemplate raw)) 500 w)
      | Rendered b \<Rightarrow>
          (note_served ''user-data-anon'' (note_event env mac EventUserDataFetched st),
           serve_bytes text_yaml (user_data_body env opt mac b) w))"

definition handleMetaData :: handler where
  "handleMetaData env opt rq s =
     (case s of (st, w) \<Rightarrow>
      case fleetReady rq st w of Inl w' \<Rightarrow> (st, w') | Inr (f, t) \<Rightarrow>
      case extractMAC env rq w of Inl w' \<Rightarrow> (st, w') | Inr mac \<Rightarrow>
      let p = Lookup f mac; name = (if p_Name p = [] then hyphenated mac else p_Name p)
      in (st, serve_bytes text_yaml (''instance-id: '' @ name @ newline @ ''local-hostname: '' @ name @ newline) w))"

section \<open>Preseed and kickstart\<close>

definition widerNetworkCIDR :: "string \<Rightarrow> string \<Rightarrow> string" where
  "widerNetworkCIDR advertisedIP netmask =
     (if netmask = [] then []
      else case ParseIP advertisedIP of None \<Rightarrow> []
        | Some ip \<Rightarrow> case To4 ip of None \<Rightarrow> []
        | Some ip4 \<Rightarrow> case (case ParseIP netmask of None \<Rightarrow> None | Some m \<Rightarrow> To4 m) of None \<Rightarrow> []
        | Some nm \<Rightarrow> ip4_string (mask_bytes ip4 nm) @ ''/'' @ Itoa (int (mask_ones nm)))"

definition renderCloudInitBridge :: "http_options \<Rightarrow> string \<Rightarrow> string" where
  "renderCloudInitBridge opt mac =
     (let base = ''http://'' @ o_AdvertisedIP opt @ '':'' @ Itoa (o_HTTPPort opt) @ ''/autoinstall/'' @ hyphenated mac;
          cont = '' '' @ [CHR 0x5C] @ newline; cmd = (\<lambda>c. ''  in-target '' @ c @ '' ;'' @ cont); q = [CHR 0x22]
      in newline
       @ ''### cloud-init bridge '' @ em_dash @ '' appended automatically by pxe-beacon (v0.5.0+).'' @ newline
       @ ''### Runs on first boot of the installed system. Idempotent.'' @ newline
       @ ''d-i preseed/late_command string'' @ cont
       @ cmd ''apt-get update''
       @ cmd ''apt-get install -y --no-install-recommends cloud-init wget ca-certificates''
       @ cmd ''mkdir -p /var/lib/cloud/seed/nocloud''
       @ cmd (''sh -c '' @ [CHR 0x27] @ ''echo '' @ q @ ''datasource_list: [NoCloud, None]'' @ q
           @ '' > /etc/cloud/cloud.cfg.d/90-pxe-beacon-nocloud.cfg'' @ [CHR 0x27])
       @ cmd (''wget -q -O /var/lib/cloud/seed/nocloud/user-data '' @ base @ ''/user-data'')
       @ cmd (''wget -q -O /var/lib/cloud/seed/nocloud/meta-data '' @ base @ ''/meta-data'')
       @ ''  in-target systemctl enable cloud-init.service cloud-config.service cloud-final.service cloud-init-local.service ;''
       @ newline)"

text \<open>The variables of both install files; the repository URL is the kickstart's.\<close>

definition network_vars :: "http_env \<Rightarrow> http_options \<Rightarrow> string \<Rightarrow> template_value gomap" where
  "network_vars env opt mac = [(''ClientNetmask'', TString (o_ClientNetmask opt)),
     (''WiderNetworkCIDR'', TString (widerNetworkCIDR (o_AdvertisedIP opt) (o_ClientNetmask opt))),
     (''CallbackToken'', TString (mintCallbackToken env opt mac))]"

text \<open>The configured file, the embedded default for the targets that have one, or nothing.\<close>

definition install_file :: "http_env \<Rightarrow> http_options \<Rightarrow> filesys \<Rightarrow> string \<Rightarrow> string \<Rightarrow> string \<Rightarrow> string list
    \<Rightarrow> string \<Rightarrow> string + string option" where
  "install_file env opt fs what path boot targets default_name =
     (if path \<noteq> [] then
        (case ReadFile fs path of None \<Rightarrow> Inl (''read '' @ what @ '': '' @ he_text env (ERead path))
         | Some raw \<Rightarrow> Inr (Some raw))
      else if boot \<in> set targets then
        (case ReadDefault (he_embedded env) fs (o_DataDir opt) default_name of
           Inl e \<Rightarrow> Inl (''default '' @ what @ '': '' @ he_text env (EAsset e)) | Inr raw \<Rightarrow> Inr (Some raw))
      else Inr None)"

definition no_preseed :: "string \<Rightarrow> string \<Rightarrow> string" where
  "no_preseed mac boot =
     ''# pxe-beacon: no preseed configured for '' @ mac @ newline
     @ ''# (boot='' @ boot @ ''). For unattended d-i, set `boot: debian-12` or'' @ newline
     @ ''# `boot: debian-13` in fleet.yaml '' @ em_dash @ '' pxe-beacon then serves the'' @ newline
     @ ''# embedded default preseed, with user pxe / password pxe.'' @ newline"

definition no_kickstart :: "string \<Rightarrow> string \<Rightarrow> string" where
  "no_kickstart mac boot =
     ''# pxe-beacon: no kickstart configured for '' @ mac @ newline
     @ ''# (boot='' @ boot @ ''). For unattended Rocky/Alma install, set'' @ newline
     @ ''# `boot: rocky-9` or `boot: alma-9` in fleet.yaml.'' @ newline"

definition handlePreseed :: handler where
  "handlePreseed env opt rq s =
     (case s of (st, w) \<Rightarrow>
      case fleetReady rq st w of Inl w' \<Rightarrow> (st, w') | Inr (f, t) \<Rightarrow>
      case extractMAC env rq w of Inl w' \<Rightarrow> (st, w') | Inr mac \<Rightarrow>
      let p = Lookup f mac;
          vars = base_vars opt p mac @ network_vars env opt mac @ [(''Params'', TMap (p_Params p))];
          done = note_event env mac EventUserDataFetched st in
      case install_file env opt (sv_fs st) ''preseed'' (p_Preseed p) (p_Boot p) [''debian-12'', ''debian-13'']
          ''debian-preseed.cfg'' of
        Inl msg \<Rightarrow> (st, http_Error msg 500 w)
      | Inr None \<Rightarrow> (done, serve_bytes text_plain (no_preseed mac (p_Boot p)) w)
      | Inr (Some raw) \<Rightarrow>
          (case he_template env raw vars of
             ParseError \<Rightarrow> (st, http_Error (''parse preseed template: '' @ he_text env (ETemplate raw)) 500 w)
           | ExecError \<Rightarrow> (st, http_Error (''render preseed: '' @ he_text env (ETemplate raw)) 500 w)
           | Rendered b \<Rightarrow>
               (done, serve_bytes text_plain
                 (if p_CloudInit p \<noteq> [] \<or> p_Preseed p = [] then append_block b (renderCloudInitBridge opt mac) else b) w)))"

definition repo_base :: "string \<Rightarrow> string" where
  "repo_base boot =
     (if boot = ''rocky-9'' then ''https://download.rockylinux.org/pub/rocky/9/BaseOS/x86_64/os''
      else if boot = ''alma-9'' then ''https://repo.almalinux.org/almalinux/9/BaseOS/x86_64/os'' else [])"

definition handleKickstart :: handler where
  "handleKickstart env opt rq s =
     (case s of (st, w) \<Rightarrow>
      case fleetReady rq st w of Inl w' \<Rightarrow> (st, w') | Inr (f, t) \<Rightarrow>
      case extractMAC env rq w of Inl w' \<Rightarrow> (st, w') | Inr mac \<Rightarrow>
      let p = Lookup f mac;
          vars = base_vars opt p mac @ network_vars env opt mac @ [(''RepoBaseURL'', TString (repo_base (p_Boot p)))];
          done = note_event env mac EventUserDataFetched st in
      case install_file env opt (sv_fs st) ''kickstart'' (p_Kickstart p) (p_Boot p) [''rocky-9'', ''alma-9'']
          ''rhel-kickstart.cfg'' of
        Inl msg \<Rightarrow> (st, http_Error msg 500 w)
      | Inr None \<Rightarrow> (done, serve_bytes text_plain (no_kickstart mac (p_Boot p)) w)
      | Inr (Some raw) \<Rightarrow>
          (case he_template env raw vars of
             ParseError \<Rightarrow> (st, http_Error (''parse kickstart template: '' @ he_text env (ETemplate raw)) 500 w)
           | ExecError \<Rightarrow> (st, http_Error (''render kickstart: '' @ he_text env (ETemplate raw)) 500 w)
           | Rendered b \<Rightarrow> (done, serve_bytes text_plain b w)))"

section \<open>Rescue\<close>

definition rescueTemplateVars :: "http_options \<Rightarrow> string \<Rightarrow> Profile \<Rightarrow> template_value gomap" where
  "rescueTemplateVars opt mac p = base_vars opt p mac @ [(''Params'', TMap (p_Params p))]"

definition serveTemplated :: "http_env \<Rightarrow> http_options \<Rightarrow> string \<Rightarrow> string \<Rightarrow> Profile \<Rightarrow> string \<Rightarrow> string
    \<Rightarrow> ResponseWriter \<Rightarrow> ResponseWriter" where
  "serveTemplated env opt name raw p mac ctype w =
     (case he_template env raw (rescueTemplateVars opt mac p) of
        ParseError \<Rightarrow> http_Error (''parse '' @ name @ '' template: '' @ he_text env (ETemplate raw)) 500 w
      | ExecError \<Rightarrow> http_Error (''render '' @ name @ '': '' @ he_text env (ETemplate raw)) 500 w
      | Rendered b \<Rightarrow> serve_bytes ctype b w)"

definition handleSysrescueConfig :: handler where
  "handleSysrescueConfig env opt rq s =
     (case s of (st, w) \<Rightarrow>
      case fleetReady rq st w of Inl w' \<Rightarrow> (st, w') | Inr (f, t) \<Rightarrow>
      case extractMAC env rq w of Inl w' \<Rightarrow> (st, w') | Inr mac \<Rightarrow>
      let p = Lookup f mac;
          source = (if p_Rescue p \<noteq> [] then
              (case ReadFile (sv_fs st) (p_Rescue p) of
                 None \<Rightarrow> Inl (''read rescue: '' @ he_text env (ERead (p_Rescue p))) | Some raw \<Rightarrow> Inr raw)
            else case ReadDefault (he_embedded env) (sv_fs st) (o_DataDir opt) ''sysrescue.yaml'' of
              Inl e \<Rightarrow> Inl (''default sysrescue: '' @ he_text env (EAsset e)) | Inr raw \<Rightarrow> Inr raw)
      in case source of Inl msg \<Rightarrow> (st, http_Error msg 500 w)
         | Inr raw \<Rightarrow> (st, serveTemplated env opt ''sysrescue.yaml'' raw p mac text_yaml w))"

definition handleSysrescueSetup :: handler where
  "handleSysrescueSetup env opt rq s =
     (case s of (st, w) \<Rightarrow>
      case fleetReady rq st w of Inl w' \<Rightarrow> (st, w') | Inr (f, t) \<Rightarrow>
      case extractMAC env rq w of Inl w' \<Rightarrow> (st, w') | Inr mac \<Rightarrow>
      case ReadDefault (he_embedded env) (sv_fs st) (o_DataDir opt) ''sysrescue-setup.sh'' of
        Inl e \<Rightarrow> (st, http_Error (''default sysrescue-setup: '' @ he_text env (EAsset e)) 500 w)
      | Inr raw \<Rightarrow> (st, serveTemplated env opt ''sysrescue-setup.sh'' raw (Lookup f mac) mac
          ''text/x-shellscript; charset=utf-8'' w))"

section \<open>Callbacks\<close>

definition notePhase :: "http_env \<Rightarrow> string \<Rightarrow> Event \<Rightarrow> server_state \<Rightarrow> server_state" where
  "notePhase env mac phase st =
     (let st1 = note_event env mac phase st in
      case sv_pending st1 of
        Some pend \<Rightarrow>
          if phase = EventInstallerDone then
            (case Pending_Status (he_now env) mac pend of
               Some (action, at, exp) \<Rightarrow>
                 if action = ActionInstall then st1\<lparr>sv_pending := Some (snd (Cancel mac pend))\<rparr> else st1
             | None \<Rightarrow> st1)
          else st1
      | None \<Rightarrow> st1)"

definition parseEventPhase :: "http_env \<Rightarrow> request \<Rightarrow> string" where
  "parseEventPhase env rq =
     (if media_type rq = ''application/json'' then fst (he_phase env (fst (read_limited 8192 rq)))
      else get_value (rq_Form rq) ''phase'')"

definition phase_event :: "string \<Rightarrow> Event option" where
  "phase_event phase =
     (if phase \<in> set [[], ''installer-done'', ''done''] then Some EventInstallerDone
      else if phase \<in> set [''installer-failed'', ''failed''] then Some EventInstallerFailed else None)"

definition handleInstallEvent :: handler where
  "handleInstallEvent env opt rq s =
     (case s of (st, w) \<Rightarrow>
      case fleetReady rq st w of Inl w' \<Rightarrow> (st, w') | Inr (f, t) \<Rightarrow>
      case extractMAC env rq w of Inl w' \<Rightarrow> (st, w') | Inr mac \<Rightarrow>
      let p = Lookup f mac; phase = parseEventPhase env rq in
      case phase_event phase of
        None \<Rightarrow> (st, writeError rq 400 ErrCodeActionInvalid
          (''phase must be '' @ [CHR 0x22] @ ''installer-done'' @ [CHR 0x22] @ '' or '' @ [CHR 0x22] @ ''installer-failed'' @ [CHR 0x22])
          [(''got'', DetailString phase)] w)
      | Some ev \<Rightarrow>
          let st' = notePhase env mac ev st
          in (st', if wantsJSON rq then writeJSON (JMachine (buildMachineView env st' mac p)) w
                   else serve_bytes text_plain (''ok'' @ newline) w))"

definition handleInstallLog :: handler where
  "handleInstallLog env opt rq s =
     (case s of (st, w) \<Rightarrow>
      case sv_log st of None \<Rightarrow> (st, http_Error ''log capture disabled'' 404 w)
      | Some l \<Rightarrow>
      case extractMAC env rq w of Inl w' \<Rightarrow> (st, w') | Inr mac \<Rightarrow>
      (st\<lparr>sv_log := Some (Append mac (fst (read_limited MaxPerMAC rq)) l)\<rparr>,
       Write (Bytes (''ok'' @ newline)) (set_header ''Content-Type'' text_plain w)))"

definition handleGetLogs :: handler where
  "handleGetLogs env opt rq s =
     (case s of (st, w) \<Rightarrow>
      case sv_log st of None \<Rightarrow> (st, http_Error ''log capture disabled'' 404 w)
      | Some l \<Rightarrow>
      case extractMAC env rq w of Inl w' \<Rightarrow> (st, w') | Inr mac \<Rightarrow>
      (st, serve_bytes text_plain (case InstallLog_Get mac l of None \<Rightarrow> [] | Some b \<Rightarrow> b) w))"

end
