(* ===== verification/Http_Files.thy ===== *)
theory Http_Files
  imports Http_Provision Http_Api
begin

text \<open>
  The remaining public pages of \<^verbatim>\<open>internal/httpd/httpd.go\<close>: boot loaders, the boot
  script, assets, status and the debug endpoints.  Of \<^verbatim>\<open>http.ServeContent\<close> only the plain
  request is modelled, not ranges and conditional requests.
\<close>

section \<open>Construction\<close>

definition loadTemplate :: "filesys \<Rightarrow> embedded \<Rightarrow> string \<Rightarrow> go_error + string" where
  "loadTemplate fs emb override =
     (if override \<noteq> [] then (case ReadFile fs override of None \<Rightarrow> Inl (ERead override) | Some raw \<Rightarrow> Inr raw)
      else case ReadScript emb of Inl e \<Rightarrow> Inl (EAsset e) | Inr raw \<Rightarrow> Inr raw)"

text \<open>\<open>parses\<close> tells whether a template text parses.\<close>

definition httpd_New :: "(string \<Rightarrow> bool) \<Rightarrow> filesys \<Rightarrow> embedded \<Rightarrow> string \<Rightarrow> http_options \<Rightarrow> go_error + http_options" where
  "httpd_New parses fs emb override opt =
     (let opt1 = (if o_IPXEScriptPath opt = [] then opt\<lparr>o_IPXEScriptPath := ''/boot.ipxe''\<rparr> else opt);
          opt2 = (if o_ChainURL opt1 = [] then opt1\<lparr>o_ChainURL := ''https://boot.netboot.xyz/menu.ipxe''\<rparr> else opt1)
      in case loadTemplate fs emb override of Inl e \<Rightarrow> Inl e
         | Inr raw \<Rightarrow> if parses raw then Inr (opt2\<lparr>o_script := raw\<rparr>) else Inl (ETemplate raw))"

section \<open>Boot files\<close>

definition handleRoot :: handler where
  "handleRoot env opt rq s =
     (case s of (st, w) \<Rightarrow>
      if rq_Path rq \<noteq> ''/'' then (st, http_Error ''404 page not found'' 404 w)
      else (st, serve_bytes text_plain
        (''pxe-beacon HTTP server'' @ newline @ ''endpoints:'' @ newline
         @ ''  /boot.ipxe                - iPXE chain script (templated)'' @ newline
         @ ''  /netboot.xyz.efi          - UEFI x86_64 iPXE binary (HTTP boot)'' @ newline
         @ ''  /netboot.xyz-arm64.efi    - UEFI ARM64 iPXE binary'' @ newline
         @ ''  /netboot.xyz.kpxe         - legacy BIOS iPXE binary'' @ newline
         @ ''advertised-ip: '' @ o_AdvertisedIP opt @ newline
         @ ''chain-url:     '' @ o_ChainURL opt @ newline) w))"

definition octet_stream :: string where "octet_stream = ''application/octet-stream''"

text \<open>The answer to a HEAD request: the headers of the body and no bytes.\<close>

definition head_only :: "string \<Rightarrow> string \<Rightarrow> ResponseWriter \<Rightarrow> ResponseWriter" where
  "head_only ctype b w =
     WriteHeader 200 (set_header ''Content-Length'' (content_length b) (set_header ''Content-Type'' ctype w))"

definition serveIPXE :: "IPXEKind \<Rightarrow> handler" where
  "serveIPXE kind env opt rq s =
     (case s of (st, w) \<Rightarrow>
      case ReadIPXE (he_embedded env) kind of Inl e \<Rightarrow> (st, http_Error ''asset error'' 500 w)
      | Inr b \<Rightarrow>
          if rq_Method rq = ''HEAD'' then (st, head_only octet_stream b w)
          else (note_served ''http-anon'' st, serve_bytes octet_stream b w))"

definition handleScript :: handler where
  "handleScript env opt rq s =
     (case s of (st, w) \<Rightarrow>
      let rendered = (case o_IPXEDispatch opt of
            Some dispatch \<Rightarrow> Rendered (dispatch (he_now env) st)
          | None \<Rightarrow> he_boot_script env (o_script opt) \<lparr>sc_AdvertisedIP = o_AdvertisedIP opt,
              sc_ChainURL = o_ChainURL opt, sc_SetCrossCert = o_SetCrossCert opt\<rparr>)
      in case rendered of
           Rendered b \<Rightarrow>
             if rq_Method rq = ''HEAD'' then (st, head_only text_plain b w)
             else (note_served ''ipxe-anon'' st, serve_bytes text_plain b w)
         | _ \<Rightarrow> (st, http_Error ''template error'' 500 w))"

text \<open>Fetched assets: \<^verbatim>\<open>os.Open\<close> fails as not found on a path that holds nothing.\<close>

definition handleAsset :: handler where
  "handleAsset env opt rq s =
     (case s of (st, w) \<Rightarrow>
      let target = rq_PathValue rq ''target''; file = rq_PathValue rq ''file'' in
      if o_DataDir opt = [] then
        (st, http_Error (''asset serving disabled '' @ em_dash @ '' start pxe-beacon with -data-dir or run `pxe-beacon fetch ''
          @ target @ ''` first'') 404 w)
      else case Cache_New (he_ok env) (cwd (he_fleet env)) (o_DataDir opt) of
        Inl e \<Rightarrow> (st, http_Error (''data dir: '' @ he_text env (ECache e)) 500 w)
      | Inr root \<Rightarrow>
      case AssetPath root target file of
        Inl e \<Rightarrow> (st, http_Error (he_text env (ECache e)) 400 w)
      | Inr path \<Rightarrow>
      case sv_fs st path of
        None \<Rightarrow> (st, http_Error (''asset '' @ target @ ''/'' @ file @ '' not found '' @ em_dash @ '' run `pxe-beacon fetch ''
          @ target @ ''` to populate it'') 404 w)
      | Some Unreadable \<Rightarrow> (st, http_Error (''open: '' @ he_text env (ERead path)) 500 w)
      | Some (File b) \<Rightarrow>
          (st, if rq_Method rq = ''HEAD'' then head_only octet_stream b w else serve_bytes octet_stream b w))"

section \<open>Status\<close>

definition handleStatusJSON :: handler where
  "handleStatusJSON env opt rq s =
     (case s of (st, w) \<Rightarrow>
      case fleetReady rq st w of Inl w' \<Rightarrow> (st, w') | Inr (f, t) \<Rightarrow>
      let payload = \<lparr>sr_Server = \<lparr>si_AdvertisedIP = o_AdvertisedIP opt, si_HTTPPort = o_HTTPPort opt,
              si_UptimeS = uptime_s env opt, si_StartedAt = o_startedAt opt, si_PendingTTLs = pendingTTLSeconds st\<rparr>,
            sr_Machines = map (\<lambda>m. buildMachineView env st (m_MAC m) (m_Profile m)) (ListMachines f)\<rparr>
      in (st, Write (JStatus payload)
           (set_header ''Link'' (''</api/v1/machines>; rel='' @ [CHR 0x22] @ ''successor-version'' @ [CHR 0x22])
             (set_header ''Deprecation'' ''true'' (set_header ''Content-Type'' json_type w)))))"

definition handleStatusHTML :: handler where
  "handleStatusHTML env opt rq s =
     (case s of (st, w) \<Rightarrow>
      case fleetReady rq st w of Inl w' \<Rightarrow> (st, w') | Inr (f, t) \<Rightarrow>
      (st, Write (StatusPage \<lparr>sp_AdvertisedIP = o_AdvertisedIP opt, sp_HTTPPort = o_HTTPPort opt,
         sp_UptimeSec = uptime_s env opt, sp_StartedAt = o_startedAt opt,
         sp_Machines = Snapshot (sv_fleet st) (he_now env) t, sp_Now = he_now env\<rparr>)
         (set_header ''Content-Type'' ''text/html; charset=utf-8'' w)))"

text \<open>The template functions of the status page.\<close>

definition humanDuration :: "time \<Rightarrow> time \<Rightarrow> string" where
  "humanDuration now t =
     (if t = zero_time then em_dash
      else let d = now - t; secs = (if d < 0 then - (- d div second) else d div second) in
        if d < 60 * second then Itoa secs @ ''s''
        else if d < 3600 * second then Itoa (secs div 60) @ ''m''
        else Itoa (secs div 3600) @ ''h'' @ Itoa (secs div 60 mod 60) @ ''m'')"

definition statusDot :: "string \<Rightarrow> string" where
  "statusDot state =
     (if state = [] then [CHR 0xE2, CHR 0x97, CHR 0x8B]
      else if state = EventInstallerDone then [CHR 0xE2, CHR 0x97, CHR 0x8F]
      else [CHR 0xE2, CHR 0x97, CHR 0x90])"

section \<open>Debugging\<close>

definition handleDebugProbe :: handler where
  "handleDebugProbe env opt rq s =
     (fst s, Write (Bytes (''#!ipxe'' @ newline)) (WriteHeader 200 (set_header ''Content-Type'' text_plain (snd s))))"

definition handleDebugIPXEState :: handler where
  "handleDebugIPXEState env opt rq s =
     (fst s, Write (Bytes (''#!ipxe'' @ newline)) (WriteHeader 200 (set_header ''Content-Type'' text_plain (snd s))))"

definition handleDebugAutoexec :: handler where
  "handleDebugAutoexec env opt rq s =
     (case s of (st, w) \<Rightarrow>
      case o_TFTPAutoexec opt of
        None \<Rightarrow> (st, http_Error ''TFTP autoexec not configured (start pxe-beacon with -config)'' 404 w)
      | Some autoexec \<Rightarrow>
          (st, Write (Bytes (autoexec (he_now env) st))
            (set_header ''X-Pxe-Beacon-Note'' ''this is the EXACT byte stream TFTP serves for autoexec.ipxe''
              (set_header ''Content-Type'' text_plain w))))"

end
