(* ===== verification/Http_Admin.thy ===== *)
theory Http_Admin
  imports Http_Provision
begin

text \<open>
  The admin pages (\<^verbatim>\<open>internal/httpd/admin.go\<close>): template and per-machine cloud-init
  overrides on disk, and the reload of the fleet file.  A page is modelled by its view.
\<close>

definition html_type :: string where "html_type = ''text/html; charset=utf-8''"

definition escape :: "string \<Rightarrow> string" where
  "escape s = take (min (length s * 2) 200) (EncodeToString s)"

definition redirectFlash :: "string \<Rightarrow> string \<Rightarrow> ResponseWriter \<Rightarrow> ResponseWriter" where
  "redirectFlash kind msg w = http_Redirect (''/admin?flash='' @ escape msg @ ''&kind='' @ kind) 303 w"

definition cloudInitFlash :: "string \<Rightarrow> string \<Rightarrow> string \<Rightarrow> ResponseWriter \<Rightarrow> ResponseWriter" where
  "cloudInitFlash hyp kind msg w =
     http_Redirect (''/admin/machines/'' @ hyp @ ''/cloud-init?flash='' @ escape msg @ ''&kind='' @ kind) 303 w"

definition normalizeTemplateName :: "string \<Rightarrow> string" where
  "normalizeTemplateName s = TrimSpace s"

definition isEditableTemplate :: "string \<Rightarrow> bool" where
  "isEditableTemplate rel \<longleftrightarrow> list_ex (\<lambda>t. t = rel) ListEditableTemplates"

definition handleAdminIndex :: handler where
  "handleAdminIndex env opt rq s =
     (case s of (st, w) \<Rightarrow>
      case fleetReady rq st w of Inl w' \<Rightarrow> (st, w') | Inr (f, t) \<Rightarrow>
      let ttl = (case sv_pending st of None \<Rightarrow> None | Some p \<Rightarrow> if ps_ttl p > 0 then Some (ps_ttl p) else None)
      in (st, Write (AdminIndexPage \<lparr>ai_AdvertisedIP = o_AdvertisedIP opt, ai_HTTPPort = o_HTTPPort opt,
          ai_DataDir = o_DataDir opt, ai_Machines = ListMachines f, ai_Templates = ListEditableTemplates,
          ai_CSRF = o_csrf opt, ai_Flash = get_value (rq_Query rq) ''flash'',
          ai_FlashKind = get_value (rq_Query rq) ''kind'', ai_PendingTTL = ttl\<rparr>)
          (set_header ''Content-Type'' html_type w)))"

section \<open>Template overrides\<close>

definition handleAdminTemplateView :: handler where
  "handleAdminTemplateView env opt rq s =
     (case s of (st, w) \<Rightarrow>
      let rel = normalizeTemplateName (rq_PathValue rq ''name'') in
      if rel = [] then (st, http_Error ''missing template name'' 400 w)
      else if \<not> isEditableTemplate rel then (st, http_Error (''not an editable template: '' @ rel) 400 w)
      else case ReadEmbedded (he_embedded env) rel of
        Inl e \<Rightarrow> (st, http_Error (''read embedded: '' @ he_text env (EAsset e)) 500 w)
      | Inr embeddedBytes \<Rightarrow>
          let overridePath = (if o_DataDir opt \<noteq> [] then PathJoin [o_DataDir opt, ''templates'', rel] else []);
              override = (if o_DataDir opt \<noteq> [] then ReadFile (sv_fs st) overridePath else None)
          in (st, Write (TemplatePage \<lparr>te_Name = rel, te_HasOverride = (override \<noteq> None), te_OverridePath = overridePath,
               te_Content = (case override of Some b \<Rightarrow> b | None \<Rightarrow> embeddedBytes), te_EmbeddedContent = embeddedBytes,
               te_CSRF = o_csrf opt, te_Flash = get_value (rq_Query rq) ''flash'',
               te_FlashKind = get_value (rq_Query rq) ''kind''\<rparr>)
               (set_header ''Content-Type'' html_type w)))"

text \<open>
  Writing an override through \<^verbatim>\<open>path.tmp\<close> and a rename: the stage that failed, if one did, and
  the files.  What a failed write leaves in the temporary file is shown as an empty file.
\<close>

definition save_override :: "http_env \<Rightarrow> string \<Rightarrow> string \<Rightarrow> filesys \<Rightarrow> (string \<times> syscall) option \<times> filesys" where
  "save_override env path content fs =
     (let tmp = path @ ''.tmp'' in
      if \<not> he_ok env (Mkdir (Dir path)) then (Some (''mkdir: '', Mkdir (Dir path)), fs)
      else if \<not> he_ok env (WriteTo tmp) then (Some (''write: '', WriteTo tmp), fs(tmp \<mapsto> File []))
      else if \<not> he_ok env (RenameTo path) then (Some (''rename: '', RenameTo path), fs(tmp \<mapsto> File content))
      else (None, (fs(tmp := None))(path \<mapsto> File content)))"

text \<open>Removing an override; one that is not there counts as removed.\<close>

definition remove_override :: "http_env \<Rightarrow> string \<Rightarrow> filesys \<Rightarrow> syscall option \<times> filesys" where
  "remove_override env path fs =
     (if fs path = None then (None, fs)
      else if he_ok env (RemoveFile path) then (None, fs(path := None)) else (Some (RemoveFile path), fs))"

definition handleAdminTemplateSave :: handler where
  "handleAdminTemplateSave env opt rq s =
     (case s of (st, w) \<Rightarrow>
      let rel = normalizeTemplateName (rq_PathValue rq ''name'') in
      if rel = [] \<or> \<not> isEditableTemplate rel then (st, http_Error ''invalid template name'' 400 w)
      else if o_DataDir opt = [] then
        (st, http_Error ''no data-dir configured (start pxe-beacon with -data-dir to enable overrides)'' 400 w)
      else case save_override env (PathJoin [o_DataDir opt, ''templates'', rel]) (get_value (rq_Form rq) ''content'') (sv_fs st) of
        (Some (stage, c), fs) \<Rightarrow> (st\<lparr>sv_fs := fs\<rparr>, http_Error (stage @ he_text env (ESystem c)) 500 w)
      | (None, fs) \<Rightarrow> (st\<lparr>sv_fs := fs\<rparr>,
          http_Redirect (''/admin/templates/'' @ rq_PathValue rq ''name'' @ ''?flash=saved&kind=ok'') 303 w))"

definition handleAdminTemplateReset :: handler where
  "handleAdminTemplateReset env opt rq s =
     (case s of (st, w) \<Rightarrow>
      let rel = normalizeTemplateName (rq_PathValue rq ''name'') in
      if rel = [] \<or> \<not> isEditableTemplate rel then (st, http_Error ''invalid template name'' 400 w)
      else if o_DataDir opt = [] then (st, http_Error ''no data-dir configured'' 400 w)
      else case remove_override env (PathJoin [o_DataDir opt, ''templates'', rel]) (sv_fs st) of
        (Some c, fs) \<Rightarrow> (st\<lparr>sv_fs := fs\<rparr>, http_Error (''remove: '' @ he_text env (ESystem c)) 500 w)
      | (None, fs) \<Rightarrow> (st\<lparr>sv_fs := fs\<rparr>, http_Redirect (''/admin/templates/'' @ rel @ ''?flash=reset&kind=ok'') 303 w))"

section \<open>Per-machine cloud-init\<close>

text \<open>
  The content the editor starts from and where it comes from: a non-empty override or configured
  file, and the embedded default when there is no override and nothing was read.
\<close>

definition cloudinit_content :: "http_env \<Rightarrow> http_options \<Rightarrow> filesys \<Rightarrow> string \<Rightarrow> Profile \<Rightarrow> bool \<times> string \<times> string" where
  "cloudinit_content env opt fs mac p =
     (case machineCloudInitOverride opt fs mac of Some b \<Rightarrow> (True, b, [])
      | None \<Rightarrow>
          let first = (if p_CloudInit p \<noteq> [] then
                 (case ReadFile fs (p_CloudInit p) of Some b \<Rightarrow> (b, ''starting from fleet cloud_init: '' @ p_CloudInit p)
                  | None \<Rightarrow> ([], []))
               else ([], []))
          in if fst first = [] then
               (case ReadDefault (he_embedded env) fs (o_DataDir opt) ''cloud-init.yaml'' of
                  Inr b \<Rightarrow> (False, b, ''starting from embedded default'') | Inl _ \<Rightarrow> (False, first))
             else (False, first))"

definition handleAdminCloudInitView :: handler where
  "handleAdminCloudInitView env opt rq s =
     (case s of (st, w) \<Rightarrow>
      case fleetReady rq st w of Inl w' \<Rightarrow> (st, w') | Inr (f, t) \<Rightarrow>
      case CanonicalMAC (rq_PathValue rq ''mac'') of Inl e \<Rightarrow> (st, http_Error ''invalid MAC'' 400 w)
      | Inr mac \<Rightarrow>
      if o_DataDir opt = [] then (st, http_Error
        ''no data-dir configured (start pxe-beacon with -data-dir to enable per-machine overrides)'' 400 w)
      else let p = Lookup f mac in
      case cloudinit_content env opt (sv_fs st) mac p of (has, content, source) \<Rightarrow>
      (st, Write (CloudInitPage \<lparr>ce_Name = (if p_Name p = [] then mac else p_Name p), ce_MAC = mac,
          ce_MACHyp = hyphenated mac, ce_HasOverride = has, ce_OverridePath = machineCloudInitOverridePath opt mac,
          ce_Content = content, ce_Source = source, ce_CSRF = o_csrf opt,
          ce_Flash = get_value (rq_Query rq) ''flash'', ce_FlashKind = get_value (rq_Query rq) ''kind''\<rparr>)
          (set_header ''Content-Type'' html_type w)))"

definition handleAdminCloudInitSave :: handler where
  "handleAdminCloudInitSave env opt rq s =
     (case s of (st, w) \<Rightarrow>
      case CanonicalMAC (rq_PathValue rq ''mac'') of Inl e \<Rightarrow> (st, http_Error ''invalid MAC'' 400 w)
      | Inr mac \<Rightarrow>
      let ovPath = machineCloudInitOverridePath opt mac; content = get_value (rq_Form rq) ''content'' in
      if ovPath = [] then (st, http_Error ''no data-dir configured'' 400 w)
      else if DefinesPhoneHome content then
        (st, cloudInitFlash (hyphenated mac) ''err'' (''remove phone_home '' @ em_dash
          @ '' pxe-beacon appends its own tokenized phone_home (it owns the callback)'') w)
      else case save_override env ovPath content (sv_fs st) of
        (Some (stage, c), fs) \<Rightarrow> (st\<lparr>sv_fs := fs\<rparr>, http_Error (stage @ he_text env (ESystem c)) 500 w)
      | (None, fs) \<Rightarrow> (st\<lparr>sv_fs := fs\<rparr>, cloudInitFlash (hyphenated mac) ''ok'' ''saved'' w))"

definition handleAdminCloudInitReset :: handler where
  "handleAdminCloudInitReset env opt rq s =
     (case s of (st, w) \<Rightarrow>
      case CanonicalMAC (rq_PathValue rq ''mac'') of Inl e \<Rightarrow> (st, http_Error ''invalid MAC'' 400 w)
      | Inr mac \<Rightarrow>
      let ovPath = machineCloudInitOverridePath opt mac in
      if ovPath = [] then (st, http_Error ''no data-dir configured'' 400 w)
      else case remove_override env ovPath (sv_fs st) of
        (Some c, fs) \<Rightarrow> (st\<lparr>sv_fs := fs\<rparr>, http_Error (''remove: '' @ he_text env (ESystem c)) 500 w)
      | (None, fs) \<Rightarrow> (st\<lparr>sv_fs := fs\<rparr>, cloudInitFlash (hyphenated mac) ''ok'' ''override deleted'' w))"

section \<open>Reload\<close>

definition handleAdminReload :: handler where
  "handleAdminReload env opt rq s =
     (case s of (st, w) \<Rightarrow>
      case fleetReady rq st w of Inl w' \<Rightarrow> (st, w') | Inr (f, t) \<Rightarrow>
      case Reload (he_fleet env) (sv_fs st) f of
        (Some e, f') \<Rightarrow> (st\<lparr>sv_fleet := Some f'\<rparr>, redirectFlash ''err'' (''reload failed: '' @ he_text env (EFleet e)) w)
      | (None, f') \<Rightarrow>
          let machines = Machines f';
              st1 = st\<lparr>sv_fleet := Some f'\<rparr>;
              st2 = (case sv_pending st1 of None \<Rightarrow> st1
                     | Some pend \<Rightarrow> st1\<lparr>sv_pending := Some (snd (Pending_RetainOnly (\<lambda>mac. mac \<in> mkeys machines) pend))\<rparr>)
          in (st2, redirectFlash ''ok'' ''fleet reloaded from disk'' w))"

end
