(* ===== verification/Http_Routes.thy ===== *)
theory Http_Routes
  imports Http_Api Http_Files Http_Admin
begin

text \<open>
  The route table of \<^verbatim>\<open>routes\<close> (\<^verbatim>\<open>internal/httpd/httpd.go\<close>), with the guards
  each handler is wrapped in, and what a request to the server does.  A pattern is matched segment by
  segment; the catch-all \<^verbatim>\<open>/\<close> comes last, the order of the multiplexer's precedence.
  The redirects by which the multiplexer cleans a path or adds a final slash are not modelled.
\<close>

section \<open>Endpoints\<close>

datatype endpoint =
    ERoot | EIPXE IPXEKind | EScript | EAutoexec | EUserData | EMetaData | EPreseed | EKickstart
  | ESysrescueConfig | ESysrescueSetup | EInstallEvent | EInstallLog | EGetLogs | EStatusHTML | EStatusJSON
  | EHealthz | EReadyz | EOpenAPI | EAsset | ESetIntent | EGetIntent | ECreateMachine | EUpdateMachine
  | EDeleteMachine | EMachine | EList | EDiscovered | EDismissDiscovered | EDebugAutoexec | EDebugIPXEState
  | EDebugProbe | EAdminIndex | ETemplateView | ETemplateReset | ETemplateSave | EReload
  | ECloudInitView | ECloudInitSave | ECloudInitReset

datatype guard = Loopback | CSRF | Token

text \<open>The embedded OpenAPI document is the file \<^verbatim>\<open>openapi.yaml\<close>.\<close>

definition handleOpenAPI :: handler where
  "handleOpenAPI env opt rq s =
     (fst s, serve_bytes ''application/yaml; charset=utf-8''
       (case he_embedded env ''openapi.yaml'' of None \<Rightarrow> [] | Some b \<Rightarrow> b) (snd s))"

fun handler_of :: "endpoint \<Rightarrow> handler" where
  "handler_of ERoot = handleRoot"
| "handler_of (EIPXE k) = serveIPXE k"
| "handler_of EScript = handleScript"
| "handler_of EAutoexec = handleAutoexec"
| "handler_of EUserData = handleUserData"
| "handler_of EMetaData = handleMetaData"
| "handler_of EPreseed = handlePreseed"
| "handler_of EKickstart = handleKickstart"
| "handler_of ESysrescueConfig = handleSysrescueConfig"
| "handler_of ESysrescueSetup = handleSysrescueSetup"
| "handler_of EInstallEvent = handleInstallEvent"
| "handler_of EInstallLog = handleInstallLog"
| "handler_of EGetLogs = handleGetLogs"
| "handler_of EStatusHTML = handleStatusHTML"
| "handler_of EStatusJSON = handleStatusJSON"
| "handler_of EHealthz = handleHealthz"
| "handler_of EReadyz = handleReadyz"
| "handler_of EOpenAPI = handleOpenAPI"
| "handler_of EAsset = handleAsset"
| "handler_of ESetIntent = handleAPISetIntent"
| "handler_of EGetIntent = handleAPIGetIntent"
| "handler_of ECreateMachine = handleAPICreateMachine"
| "handler_of EUpdateMachine = handleAPIUpdateMachine"
| "handler_of EDeleteMachine = handleAPIDeleteMachine"
| "handler_of EMachine = handleAPIMachine"
| "handler_of EList = handleAPIList"
| "handler_of EDiscovered = handleAPIDiscovered"
| "handler_of EDismissDiscovered = handleAPIDismissDiscovered"
| "handler_of EDebugAutoexec = handleDebugAutoexec"
| "handler_of EDebugIPXEState = handleDebugIPXEState"
| "handler_of EDebugProbe = handleDebugProbe"
| "handler_of EAdminIndex = handleAdminIndex"
| "handler_of ETemplateView = handleAdminTemplateView"
| "handler_of ETemplateReset = handleAdminTemplateReset"
| "handler_of ETemplateSave = handleAdminTemplateSave"
| "handler_of EReload = handleAdminReload"
| "handler_of ECloudInitView = handleAdminCloudInitView"
| "handler_of ECloudInitSave = handleAdminCloudInitSave"
| "handler_of ECloudInitReset = handleAdminCloudInitReset"

fun guard_handler :: "guard \<Rightarrow> handler \<Rightarrow> handler" where
  "guard_handler Loopback h = loopbackOnly h"
| "guard_handler CSRF h = csrfGuard h"
| "guard_handler Token h = requireCallbackToken h"

section \<open>The table\<close>

datatype seg = Lit string | Var string | Rest string

record route =
  rt_Method :: string
  rt_Pattern :: "seg list"
  rt_Guards :: "guard list"
  rt_Endpoint :: endpoint

definition route :: "string \<Rightarrow> seg list \<Rightarrow> guard list \<Rightarrow> endpoint \<Rightarrow> route" where
  "route meth pat gs ep = \<lparr>rt_Method = meth, rt_Pattern = pat, rt_Guards = gs, rt_Endpoint = ep\<rparr>"

definition per_machine :: "string \<Rightarrow> seg list" where
  "per_machine leaf = [Lit ''autoinstall'', Var ''mac'', Lit leaf]"

definition api_machine :: "string list \<Rightarrow> seg list" where
  "api_machine rest = [Lit ''api'', Lit ''v1'', Lit ''machines'', Var ''mac''] @ map Lit rest"

definition script_segs :: "http_options \<Rightarrow> seg list" where
  "script_segs opt = map Lit (Split (TrimPrefix (o_IPXEScriptPath opt) ''/'') (CHR ''/''))"

definition public_routes :: "http_options \<Rightarrow> route list" where
  "public_routes opt =
     [route [] [Lit ''netboot.xyz.efi''] [] (EIPXE IPXEEFIx64),
      route [] [Lit ''netboot.xyz-snponly.efi''] [] (EIPXE IPXESNPOnly),
      route [] [Lit ''netboot.xyz-arm64.efi''] [] (EIPXE IPXEARM64),
      route [] [Lit ''netboot.xyz.kpxe''] [] (EIPXE IPXELegacyBIOS),
      route [] [Lit ''ipxe.efi''] [] (EIPXE IPXEEFIx64),
      route [] [Lit ''snponly.efi''] [] (EIPXE IPXESNPOnly),
      route [] [Lit ''ipxe-arm64.efi''] [] (EIPXE IPXEARM64),
      route [] [Lit ''undionly.kpxe''] [] (EIPXE IPXELegacyBIOS),
      route [] (script_segs opt) [] EScript,
      route ''GET'' (per_machine ''autoexec.ipxe'') [] EAutoexec,
      route ''GET'' (per_machine ''user-data'') [] EUserData,
      route ''GET'' (per_machine ''meta-data'') [] EMetaData,
      route ''GET'' (per_machine ''preseed.cfg'') [] EPreseed,
      route ''GET'' (per_machine ''kickstart.cfg'') [] EKickstart,
      route ''GET'' (per_machine ''sysrescue.yaml'') [] ESysrescueConfig,
      route ''GET'' (per_machine ''sysrescue-setup.sh'') [] ESysrescueSetup,
      route ''POST'' (per_machine ''done'') [Token] EInstallEvent,
      route ''POST'' (per_machine ''log'') [Token] EInstallLog,
      route ''GET'' [Lit ''status''] [] EStatusHTML,
      route ''GET'' [Lit ''status.json''] [] EStatusJSON,
      route ''GET'' [Lit ''healthz''] [] EHealthz,
      route ''GET'' [Lit ''readyz''] [] EReadyz,
      route ''GET'' [Lit ''openapi.yaml''] [] EOpenAPI,
      route ''GET'' [Lit ''assets'', Var ''target'', Rest ''file''] [] EAsset,
      route ''GET'' [Lit ''debug'', Lit ''tftp'', Lit ''autoexec.ipxe''] [] EDebugAutoexec,
      route ''GET'' [Lit ''debug'', Lit ''iPXE-state''] [] EDebugIPXEState,
      route ''GET'' [Lit ''debug'', Lit ''probe'', Var ''key''] [] EDebugProbe,
      route ''GET'' [Lit ''debug'', Lit ''probe'', Var ''key'', Rest ''value''] [] EDebugProbe]"

definition local_routes :: "route list" where
  "local_routes =
     [route ''POST'' (api_machine [''events'']) [Loopback] EInstallEvent,
      route ''GET'' (api_machine [''logs'']) [Loopback] EGetLogs,
      route ''PUT'' (api_machine [''intent'']) [Loopback] ESetIntent,
      route ''GET'' (api_machine [''intent'']) [Loopback] EGetIntent,
      route ''POST'' [Lit ''api'', Lit ''v1'', Lit ''machines''] [Loopback] ECreateMachine,
      route ''PUT'' (api_machine []) [Loopback] EUpdateMachine,
      route ''DELETE'' (api_machine []) [Loopback] EDeleteMachine,
      route ''GET'' (api_machine []) [Loopback] EMachine,
      route ''GET'' [Lit ''api'', Lit ''v1'', Lit ''machines''] [Loopback] EList,
      route ''GET'' [Lit ''api'', Lit ''v1'', Lit ''discovered''] [Loopback] EDiscovered,
      route ''DELETE'' [Lit ''api'', Lit ''v1'', Lit ''discovered'', Var ''mac''] [Loopback] EDismissDiscovered,
      route ''GET'' [Lit ''admin''] [Loopback] EAdminIndex,
      route ''GET'' [Lit ''admin'', Lit ''templates'', Rest ''name''] [Loopback] ETemplateView,
      route ''POST'' [Lit ''admin'', Lit ''templates-reset'', Rest ''name''] [Loopback, CSRF] ETemplateReset,
      route ''POST'' [Lit ''admin'', Lit ''templates'', Rest ''name''] [Loopback, CSRF] ETemplateSave,
      route ''POST'' [Lit ''admin'', Lit ''reload''] [Loopback, CSRF] EReload,
      route ''GET'' [Lit ''admin'', Lit ''machines'', Var ''mac'', Lit ''cloud-init''] [Loopback] ECloudInitView,
      route ''POST'' [Lit ''admin'', Lit ''machines'', Var ''mac'', Lit ''cloud-init''] [Loopback, CSRF] ECloudInitSave,
      route ''POST'' [Lit ''admin'', Lit ''machines'', Var ''mac'', Lit ''cloud-init-reset''] [Loopback, CSRF] ECloudInitReset]"

definition routes :: "http_options \<Rightarrow> route list" where
  "routes opt = public_routes opt @ local_routes @ [route [] [Rest []] [] ERoot]"

section \<open>Serving\<close>

fun match_segs :: "seg list \<Rightarrow> string list \<Rightarrow> string gomap option" where
  "match_segs [] [] = Some []"
| "match_segs [Rest x] segs = (if segs = [] then None else Some [(x, Join segs ''/'')])"
| "match_segs (Lit l # ps) (g # gs) = (if l = g then match_segs ps gs else None)"
| "match_segs (Var x # ps) (g # gs) =
     (if g = [] then None else case match_segs ps gs of None \<Rightarrow> None | Some b \<Rightarrow> Some ((x, g) # b))"
| "match_segs _ _ = None"

definition method_ok :: "string \<Rightarrow> string \<Rightarrow> bool" where
  "method_ok pattern meth \<longleftrightarrow> pattern = [] \<or> pattern = meth \<or> (pattern = ''GET'' \<and> meth = ''HEAD'')"

definition route_matches :: "request \<Rightarrow> route \<Rightarrow> bool" where
  "route_matches rq r \<longleftrightarrow> method_ok (rt_Method r) (rq_Method rq)
     \<and> match_segs (rt_Pattern r) (Split (TrimPrefix (rq_Path rq) ''/'') (CHR ''/'')) \<noteq> None"

definition bind_path :: "route \<Rightarrow> request \<Rightarrow> request" where
  "bind_path r rq =
     (case match_segs (rt_Pattern r) (Split (TrimPrefix (rq_Path rq) ''/'') (CHR ''/'')) of
        None \<Rightarrow> rq | Some b \<Rightarrow> rq\<lparr>rq_PathValue := get_value b\<rparr>)"

definition run_route :: "route \<Rightarrow> handler" where
  "run_route r env opt rq s = foldr guard_handler (rt_Guards r) (handler_of (rt_Endpoint r)) env opt (bind_path r rq) s"

definition serve :: handler where
  "serve env opt rq s =
     (case find (route_matches rq) (routes opt) of
        None \<Rightarrow> (fst s, http_Error ''404 page not found'' 404 (snd s))
      | Some r \<Rightarrow> run_route r env opt rq s)"

section \<open>Contracts of requests\<close>

text \<open>
  A contract between the server and a request: what holds before, and what a request does.  If every
  handler keeps it, bare or when it is refused, so does the server, whatever route and guards apply.
\<close>

locale request_contract =
  fixes pre :: "http_env \<Rightarrow> reply_state \<Rightarrow> bool"
    and post :: "http_env \<Rightarrow> http_options \<Rightarrow> reply_state \<Rightarrow> reply_state \<Rightarrow> bool"
  assumes handled: "pre env s \<Longrightarrow> post env opt s (handler_of e env opt rq s)"
    and refused: "pre env (st, w) \<Longrightarrow> post env opt (st, w) (st, http_Error msg code w)"
    and refused_json: "pre env (st, w) \<Longrightarrow> post env opt (st, w) (st, writeError rq code ec msg det w)"
begin

lemma guard_keeps:
  assumes "\<And>rq s. pre env s \<Longrightarrow> post env opt s (h env opt rq s)" "pre env s"
  shows "post env opt s (guard_handler g h env opt rq s)"
  using assms(2) assms(1) [OF assms(2)] refused [of env "fst s" "snd s"] refused_json [of env "fst s" "snd s"]
  by (cases g) (simp_all add: loopbackOnly_def csrfGuard_def requireCallbackToken_def Let_def
    split: option.split sum.split)

lemma guarded:
  assumes "pre env s"
  shows "post env opt s (foldr guard_handler gs (handler_of e) env opt rq s)"
  using assms by (induction gs arbitrary: rq s) (simp_all add: handled guard_keeps)

lemma served:
  assumes "pre env s"
  shows "post env opt s (serve env opt rq s)"
  using assms refused [of env "fst s" "snd s"]
  by (simp add: serve_def run_route_def guarded split: option.split)

end

end
