(* ===== verification/Http_Effects.thy ===== *)
theory Http_Effects
  imports Http_Routes
begin

text \<open>
  What a request can do to the server: every request gets one reply, a public page changes at most
  the record of what a machine fetched, and a callback touches one machine.
\<close>

section \<open>One reply\<close>

definition fresh :: "ResponseWriter \<Rightarrow> bool" where
  "fresh w \<longleftrightarrow> rw_sent w = None \<and> rw_body w = []"

definition one_reply :: "ResponseWriter \<Rightarrow> bool" where
  "one_reply w \<longleftrightarrow> rw_sent w \<noteq> None \<and> length (rw_body w) \<le> 1"

lemma fresh_set_header [simp]: "fresh (set_header k v w) = fresh w"
  by (simp add: fresh_def set_header_def)

lemma fresh_WriteHeader_body: "fresh w \<Longrightarrow> rw_body (WriteHeader s w) = []"
  by (simp add: fresh_def WriteHeader_def)

lemma one_reply_WriteHeader [simp]: "fresh w \<Longrightarrow> one_reply (WriteHeader s w)"
  by (simp add: fresh_def one_reply_def WriteHeader_def)

lemma rw_simps [simp]:
  "rw_sent (WriteHeader s w) \<noteq> None" "rw_body (WriteHeader s w) = rw_body w" "rw_body (set_header k v w) = rw_body w"
  "rw_sent (set_header k v w) = rw_sent w"
  by (simp_all add: WriteHeader_def set_header_def split: option.split)

lemma one_reply_Write [simp]: "rw_body w = [] \<Longrightarrow> one_reply (Write b w)"
  using rw_simps(1) [of 200 w] by (simp add: one_reply_def Write_def Let_def del: rw_simps(1))

lemma fresh_body: "fresh w \<Longrightarrow> rw_body w = []"
  by (simp add: fresh_def)

lemma one_reply_simps [simp]:
  assumes "fresh w"
  shows "one_reply (http_Error msg st w)" "one_reply (http_Redirect url st w)" "one_reply (writeJSON v w)"
    "one_reply (writeAPIError st c msg d w)" "one_reply (writeError rq st c msg d w)" "one_reply (serve_bytes ct b w)"
    "one_reply (head_only ct b w)" "one_reply (writeJSON v (WriteHeader st w))"
  using assms by (simp_all add: http_Error_def http_Redirect_def writeJSON_def writeAPIError_def writeError_def
    serve_bytes_def head_only_def fresh_body)

text \<open>A check that stops a request has answered it.\<close>

lemma check_answers:
  assumes "fresh w"
  shows "fleetReady rq st w = Inl w' \<Longrightarrow> one_reply w'" "extractMAC env rq w = Inl w' \<Longrightarrow> one_reply w'"
    "apiReady st w = Inl w' \<Longrightarrow> one_reply w'" "apiExtractFleetMAC env rq f w = Inl w' \<Longrightarrow> one_reply w'"
    "requireJSON rq w = Inl w' \<Longrightarrow> one_reply w'" "intent_action env rq w = Inl w' \<Longrightarrow> one_reply w'"
    "decodeMachineBody env rq w = Inl w' \<Longrightarrow> one_reply w'" "profileFromBody f b w = Inl w' \<Longrightarrow> one_reply w'"
  using assms
  by (auto simp: fleetReady_def extractMAC_def apiReady_def apiExtractFleetMAC_def requireJSON_def intent_action_def
      decodeMachineBody_def profileFromBody_def Let_def split: option.splits sum.splits prod.splits if_splits)

lemma paging_answers:
  assumes "fresh w"
  shows "parsePaging rq w = Inl w' \<Longrightarrow> one_reply w'"
  using assms by (auto simp: parsePaging_def parse_limit_def parse_offset_def paging_error_def Let_def
      split: option.splits sum.splits if_splits)

lemma serveTemplated_answers [simp]: "fresh w \<Longrightarrow> one_reply (serveTemplated env opt name raw p mac ct w)"
  by (simp add: serveTemplated_def split: template_result.split)

lemma flash_answers [simp]: "fresh w \<Longrightarrow> one_reply (redirectFlash k m w)"
  "fresh w \<Longrightarrow> one_reply (cloudInitFlash h k m w)"
  by (simp_all add: redirectFlash_def cloudInitFlash_def)

lemma mutation_error_answers [simp]: "fresh w \<Longrightarrow> one_reply (writeFleetMutationError env mac op e w)"
  by (simp add: writeFleetMutationError_def Let_def split: fleet_error.split)

lemmas answers = check_answers paging_answers fresh_body

text \<open>What a reply says plays no part here: the simplifier leaves the messages alone.\<close>

lemma message_congs:
  "w = w' \<Longrightarrow> http_Error msg st w = http_Error msg st w'" "w = w' \<Longrightarrow> writeAPIError st c msg d w = writeAPIError st c msg d w'"
  "w = w' \<Longrightarrow> writeError rq st c msg d w = writeError rq st c msg d w'"
  "w = w' \<Longrightarrow> serve_bytes ct b w = serve_bytes ct b w'" "w = w' \<Longrightarrow> http_Redirect url st w = http_Redirect url st w'"
  by simp_all

definition answers_always :: "handler \<Rightarrow> bool" where
  "answers_always h \<longleftrightarrow> (\<forall>env opt rq st w. fresh w \<longrightarrow> one_reply (snd (h env opt rq (st, w))))"

lemma provisioning_answers:
  "answers_always handleAutoexec" "answers_always handleUserData" "answers_always handleMetaData"
  "answers_always handlePreseed" "answers_always handleKickstart" "answers_always handleSysrescueConfig"
  "answers_always handleSysrescueSetup" "answers_always handleInstallEvent" "answers_always handleInstallLog"
  "answers_always handleGetLogs"
  unfolding answers_always_def
  by (auto simp: answers handleAutoexec_def handleUserData_def handleMetaData_def handlePreseed_def handleKickstart_def
      handleSysrescueConfig_def handleSysrescueSetup_def handleInstallEvent_def handleInstallLog_def handleGetLogs_def
      Let_def split: sum.splits prod.splits option.splits template_result.splits
      cong: message_congs)

lemma file_answers:
  "answers_always handleRoot" "answers_always (serveIPXE k)" "answers_always handleScript" "answers_always handleAsset"
  "answers_always handleStatusJSON" "answers_always handleStatusHTML" "answers_always handleDebugProbe"
  "answers_always handleDebugIPXEState" "answers_always handleDebugAutoexec" "answers_always handleOpenAPI"
  unfolding answers_always_def
  by (auto simp: answers handleRoot_def serveIPXE_def handleScript_def handleAsset_def handleStatusJSON_def
      handleStatusHTML_def handleDebugProbe_def handleDebugIPXEState_def handleDebugAutoexec_def handleOpenAPI_def
      Let_def split: sum.splits prod.splits option.splits template_result.splits fnode.splits
      cong: message_congs)

lemma api_answers:
  "answers_always handleAPISetIntent" "answers_always handleAPIGetIntent" "answers_always handleAPIMachine"
  "answers_always handleAPICreateMachine" "answers_always handleAPIUpdateMachine" "answers_always handleAPIDeleteMachine"
  "answers_always handleAPIList" "answers_always handleAPIDiscovered" "answers_always handleAPIDismissDiscovered"
  "answers_always handleHealthz" "answers_always handleReadyz"
  unfolding answers_always_def
  by (auto simp: answers handleAPISetIntent_def handleAPIGetIntent_def handleAPIMachine_def handleAPICreateMachine_def
      handleAPIUpdateMachine_def handleAPIDeleteMachine_def handleAPIList_def handleAPIDiscovered_def
      handleAPIDismissDiscovered_def handleHealthz_def handleReadyz_def
      Let_def split: sum.splits prod.splits option.splits
      cong: message_congs)

lemma admin_answers:
  "answers_always handleAdminIndex" "answers_always handleAdminTemplateView" "answers_always handleAdminTemplateSave"
  "answers_always handleAdminTemplateReset" "answers_always handleAdminCloudInitView"
  "answers_always handleAdminCloudInitSave" "answers_always handleAdminCloudInitReset" "answers_always handleAdminReload"
  unfolding answers_always_def
  by (auto simp: answers handleAdminIndex_def handleAdminTemplateView_def handleAdminTemplateSave_def
      handleAdminTemplateReset_def handleAdminCloudInitView_def handleAdminCloudInitSave_def
      handleAdminCloudInitReset_def handleAdminReload_def Let_def split: sum.splits prod.splits option.splits
      cong: message_congs)

lemma handler_answers: "answers_always (handler_of e)"
  by (cases e) (simp_all add: provisioning_answers file_answers api_answers admin_answers)

interpretation replies: request_contract "\<lambda>env s. fresh (snd s)" "\<lambda>env opt s s'. one_reply (snd s')"
  using handler_answers by unfold_locales (auto simp: answers_always_def split: prod.split)

section \<open>What a request changes\<close>

definition intent_of :: "server_state \<Rightarrow> string \<Rightarrow> pending_entry option" where
  "intent_of st c = (case sv_pending st of None \<Rightarrow> None | Some p \<Rightarrow> mget (ps_entries p) c)"

definition log_of :: "server_state \<Rightarrow> string \<Rightarrow> string option" where
  "log_of st c = (case sv_log st of None \<Rightarrow> None | Some l \<Rightarrow> mget (il_entries l) c)"

definition phase_of :: "server_state \<Rightarrow> string \<Rightarrow> Event" where
  "phase_of st c = (case sv_tracker st of None \<Rightarrow> [] | Some t \<Rightarrow> LastEvent t c)"

lemma note_served_keeps [simp]:
  "sv_fleet (note_served tag st) = sv_fleet st" "sv_fs (note_served tag st) = sv_fs st"
  "sv_sightings (note_served tag st) = sv_sightings st" "sv_tracker (note_served tag st) = sv_tracker st"
  "sv_pending (note_served tag st) = sv_pending st" "sv_log (note_served tag st) = sv_log st"
  by (simp_all add: note_served_def split: option.split)

lemma note_event_keeps [simp]:
  "sv_fleet (note_event env mac ev st) = sv_fleet st" "sv_fs (note_event env mac ev st) = sv_fs st"
  "sv_sightings (note_event env mac ev st) = sv_sightings st"
  "sv_pending (note_event env mac ev st) = sv_pending st" "sv_log (note_event env mac ev st) = sv_log st"
  by (simp_all add: note_event_def split: option.split)

text \<open>The effect of a public page: at most that a machine fetched its install files.\<close>

definition public_effect :: "server_state \<Rightarrow> server_state \<Rightarrow> bool" where
  "public_effect st st' \<longleftrightarrow> sv_fleet st' = sv_fleet st \<and> sv_fs st' = sv_fs st \<and> sv_sightings st' = sv_sightings st
     \<and> sv_pending st' = sv_pending st \<and> sv_log st' = sv_log st \<and> (sv_offers st' = None) = (sv_offers st = None)
     \<and> (sv_tracker st' = sv_tracker st \<or> (\<exists>env mac. sv_tracker st' = sv_tracker (note_event env mac EventUserDataFetched st)))"

lemma public_effect_refl [simp]: "public_effect st st"
  by (simp add: public_effect_def)

lemma public_effect_notes [simp]: "public_effect st (note_served tag st)"
  "public_effect st (note_event env mac EventUserDataFetched st)"
  "public_effect st (note_served tag (note_event env mac EventUserDataFetched st))"
  by (auto simp: public_effect_def note_served_def note_event_def split: option.splits)

lemma phase_of_note_event:
  assumes "CanonicalMAC mac = Inr c" "is_canonical d"
  shows "phase_of (note_event env mac ev st) d = (if d = c \<and> sv_tracker st \<noteq> None \<and>
     (ev = EventInstallerFailed \<or> rank ev \<ge> rank (phase_of st d)) then ev else phase_of st d)"
  using assms canonical_fixed [OF assms(2)]
  by (auto simp: note_event_def phase_of_def LastEvent_Note [OF assms(1)] split: option.splits)

lemma note_event_bad: "CanonicalMAC mac = Inl e \<Longrightarrow> phase_of (note_event env mac ev st) d = phase_of st d"
  by (simp add: note_event_def phase_of_def Tracker_Note_def split: option.split)

lemma public_effect_phase:
  assumes "public_effect st st'" "is_canonical c"
  shows "phase_of st' c = phase_of st c \<or> phase_of st' c = EventUserDataFetched"
proof -
  have "phase_of (note_event env mac EventUserDataFetched st) c \<in> {phase_of st c, EventUserDataFetched}" for env mac
    using phase_of_note_event [OF _ assms(2), of mac] note_event_bad [of mac]
    by (cases "CanonicalMAC mac") auto
  moreover obtain env mac where "sv_tracker st' = sv_tracker st
      \<or> sv_tracker st' = sv_tracker (note_event env mac EventUserDataFetched st)"
    using assms(1) by (auto simp: public_effect_def)
  then have "phase_of st' c \<in> {phase_of st c, phase_of (note_event env mac EventUserDataFetched st) c}"
    unfolding phase_of_def by (elim disjE) simp_all
  ultimately show ?thesis by (metis insertE singletonD)
qed

fun public_page :: "endpoint \<Rightarrow> bool" where
  "public_page EInstallEvent = False" | "public_page EInstallLog = False" | "public_page ESetIntent = False"
| "public_page ECreateMachine = False" | "public_page EUpdateMachine = False" | "public_page EDeleteMachine = False"
| "public_page EDismissDiscovered = False" | "public_page ETemplateReset = False" | "public_page ETemplateSave = False"
| "public_page EReload = False" | "public_page ECloudInitSave = False" | "public_page ECloudInitReset = False"
| "public_page _ = True"

lemma provisioning_effect:
  "public_effect st (fst (handleAutoexec env opt rq (st, w)))" "public_effect st (fst (handleUserData env opt rq (st, w)))"
  "public_effect st (fst (handleMetaData env opt rq (st, w)))" "public_effect st (fst (handlePreseed env opt rq (st, w)))"
  "public_effect st (fst (handleKickstart env opt rq (st, w)))"
  "public_effect st (fst (handleSysrescueConfig env opt rq (st, w)))"
  "public_effect st (fst (handleSysrescueSetup env opt rq (st, w)))" "public_effect st (fst (handleGetLogs env opt rq (st, w)))"
  by (auto simp: handleAutoexec_def handleUserData_def handleMetaData_def handlePreseed_def handleKickstart_def
      handleSysrescueConfig_def handleSysrescueSetup_def handleGetLogs_def Let_def
      split: sum.splits prod.splits option.splits template_result.splits)

lemma file_effect:
  "public_effect st (fst (handleRoot env opt rq (st, w)))" "public_effect st (fst (serveIPXE k env opt rq (st, w)))"
  "public_effect st (fst (handleScript env opt rq (st, w)))" "public_effect st (fst (handleAsset env opt rq (st, w)))"
  "public_effect st (fst (handleStatusJSON env opt rq (st, w)))" "public_effect st (fst (handleStatusHTML env opt rq (st, w)))"
  "public_effect st (fst (handleDebugProbe env opt rq (st, w)))" "public_effect st (fst (handleDebugIPXEState env opt rq (st, w)))"
  "public_effect st (fst (handleDebugAutoexec env opt rq (st, w)))" "public_effect st (fst (handleOpenAPI env opt rq (st, w)))"
  by (auto simp: handleRoot_def serveIPXE_def handleScript_def handleAsset_def handleStatusJSON_def
      handleStatusHTML_def handleDebugProbe_def handleDebugIPXEState_def handleDebugAutoexec_def handleOpenAPI_def
      Let_def split: sum.splits prod.splits option.splits template_result.splits fnode.splits)

lemma view_effect:
  "public_effect st (fst (handleAPIGetIntent env opt rq (st, w)))" "public_effect st (fst (handleAPIMachine env opt rq (st, w)))"
  "public_effect st (fst (handleAPIList env opt rq (st, w)))" "public_effect st (fst (handleAPIDiscovered env opt rq (st, w)))"
  "public_effect st (fst (handleHealthz env opt rq (st, w)))" "public_effect st (fst (handleReadyz env opt rq (st, w)))"
  "public_effect st (fst (handleAdminIndex env opt rq (st, w)))"
  "public_effect st (fst (handleAdminTemplateView env opt rq (st, w)))"
  "public_effect st (fst (handleAdminCloudInitView env opt rq (st, w)))"
  by (auto simp: handleAPIGetIntent_def handleAPIMachine_def handleAPIList_def handleAPIDiscovered_def handleHealthz_def
      handleReadyz_def handleAdminIndex_def handleAdminTemplateView_def handleAdminCloudInitView_def
      Let_def split: sum.splits prod.splits option.splits)

lemma page_effect: "public_page e \<Longrightarrow> public_effect st (fst (handler_of e env opt rq (st, w)))"
  by (cases e) (simp_all add: provisioning_effect file_effect view_effect)

section \<open>Callbacks\<close>

text \<open>What the token guard asks of a callback for a machine.\<close>

definition token_accepted :: "http_env \<Rightarrow> http_options \<Rightarrow> string \<Rightarrow> string \<Rightarrow> bool" where
  "token_accepted env opt mac tok \<longleftrightarrow>
     (case o_CallbackTokens opt of None \<Rightarrow> True
      | Some sn \<Rightarrow> if tok = [] then \<not> o_RequireCallbackToken opt
                   else Verify (he_hmac env) sn (he_now env) mac tok = None)"

text \<open>The effect of a callback: on the machine \<open>mac\<close> alone, and never a new intent.\<close>

definition callback_effect :: "string \<Rightarrow> server_state \<Rightarrow> server_state \<Rightarrow> bool" where
  "callback_effect mac st st' \<longleftrightarrow> sv_fleet st' = sv_fleet st \<and> sv_fs st' = sv_fs st \<and> sv_sightings st' = sv_sightings st
     \<and> (\<forall>c. intent_of st' c \<in> {None, intent_of st c})
     \<and> (\<forall>c. is_canonical c \<longrightarrow> c \<noteq> mac \<longrightarrow>
           intent_of st' c = intent_of st c \<and> log_of st' c = log_of st c \<and> phase_of st' c = phase_of st c)"

lemma callback_effect_refl [simp]: "callback_effect mac st st"
  by (simp add: callback_effect_def)

lemma intent_of_Cancel:
  assumes "CanonicalMAC mac = Inr m" "sv_pending st = Some p"
  shows "intent_of (st\<lparr>sv_pending := Some (snd (Cancel mac p))\<rparr>) c = (if c = m then None else intent_of st c)"
  using assms by (simp add: intent_of_def Cancel_entries canon_of_def mget_mdel)

lemma note_event_effect:
  assumes "CanonicalMAC mac = Inr mac"
  shows "callback_effect mac st (note_event env mac ev st)"
  using phase_of_note_event [OF assms] by (simp add: callback_effect_def intent_of_def log_of_def)

lemma notePhase_eq:
  "notePhase env mac ev st = (case sv_pending st of None \<Rightarrow> note_event env mac ev st
     | Some p \<Rightarrow> if ev = EventInstallerDone \<and> (\<exists>at exp. Pending_Status (he_now env) mac p = Some (ActionInstall, at, exp))
         then (note_event env mac ev st)\<lparr>sv_pending := Some (snd (Cancel mac p))\<rparr> else note_event env mac ev st)"
  by (auto simp: notePhase_def Let_def split: option.split)

lemma notePhase_effect:
  assumes "CanonicalMAC mac = Inr mac"
  shows "callback_effect mac st (notePhase env mac ev st)"
proof -
  let ?s = "note_event env mac ev st"
  note ne = note_event_effect [OF assms, of st env ev]
  have "notePhase env mac ev st = ?s \<or> (\<exists>p. sv_pending ?s = Some p
      \<and> notePhase env mac ev st = ?s\<lparr>sv_pending := Some (snd (Cancel mac p))\<rparr>)"
    by (simp add: notePhase_eq split: option.split)
  then consider "notePhase env mac ev st = ?s"
    | p where "sv_pending ?s = Some p" "notePhase env mac ev st = ?s\<lparr>sv_pending := Some (snd (Cancel mac p))\<rparr>"
    by blast
  then show ?thesis
  proof cases
    case 1
    with ne show ?thesis by simp
  next
    case 2
    note ic = intent_of_Cancel [OF assms 2(1)]
    have "phase_of (?s\<lparr>sv_pending := x\<rparr>) c = phase_of ?s c" "log_of (?s\<lparr>sv_pending := x\<rparr>) c = log_of ?s c" for x c
      by (simp_all add: phase_of_def log_of_def)
    with ne ic show ?thesis unfolding callback_effect_def 2(2) by auto
  qed
qed

lemma install_event_effect:
  "fst (handleInstallEvent env opt rq (st, w)) = st \<or>
    (\<exists>mac. CanonicalMAC (rq_PathValue rq ''mac'') = Inr mac
       \<and> callback_effect mac st (fst (handleInstallEvent env opt rq (st, w))))"
proof -
  have "fst (handleInstallEvent env opt rq (st, w)) = st \<or> (\<exists>mac ev. CanonicalMAC (rq_PathValue rq ''mac'') = Inr mac
      \<and> fst (handleInstallEvent env opt rq (st, w)) = notePhase env mac ev st)"
    by (auto simp: handleInstallEvent_def extractMAC_def Let_def split: sum.splits option.splits if_splits)
  then show ?thesis using notePhase_effect CanonicalMAC_idem by metis
qed

lemma install_log_effect:
  "fst (handleInstallLog env opt rq (st, w)) = st \<or>
    (\<exists>mac. CanonicalMAC (rq_PathValue rq ''mac'') = Inr mac
       \<and> callback_effect mac st (fst (handleInstallLog env opt rq (st, w))))"
proof -
  have e: "callback_effect mac st (st\<lparr>sv_log := Some (Append mac b l)\<rparr>)"
    if "sv_log st = Some l" "CanonicalMAC raw = Inr mac" for mac b l raw
    using that CanonicalMAC_idem [OF that(2)]
    by (auto simp: callback_effect_def intent_of_def phase_of_def log_of_def Append_entries canon_of_def mget_mput)
  show ?thesis
    by (auto simp: handleInstallLog_def extractMAC_def Let_def intro: e split: sum.splits option.splits if_splits)
qed

lemma token_guard:
  "requireCallbackToken h env opt rq (st, w) = h env opt rq (st, w)
     \<and> (\<forall>mac. CanonicalMAC (rq_PathValue rq ''mac'') = Inr mac \<longrightarrow>
           token_accepted env opt mac (get_value (rq_Query rq) ''t''))
   \<or> fst (requireCallbackToken h env opt rq (st, w)) = st"
  by (auto simp: requireCallbackToken_def token_accepted_def Let_def split: option.splits sum.splits)

end
