(* ===== verification/Http_Examples.thy ===== *)
theory Http_Examples
  imports Http_Effects
begin

text \<open>
  A concrete server for the instances of the properties: one machine, an install queued for it, callback
  tokens required, and libraries that do as little as they can.
\<close>

definition example_http :: "time \<Rightarrow> http_env" where
  "example_http now = \<lparr>he_fleet = example_env, he_save = example_io, he_ok = (\<lambda>_. True), he_now = now,
     he_hmac = (\<lambda>k m. k @ m), he_embedded = (\<lambda>_. Some ''default''), he_script = (\<lambda>_ _. Rendered ''#!ipxe''),
     he_template = (\<lambda>raw _. Rendered raw), he_boot_script = (\<lambda>_ _. Rendered ''#!ipxe''), he_yaml_map = (\<lambda>_. True),
     he_intent = Some, he_json_string = Some,
     he_machine = (\<lambda>raw. Some \<lparr>mc_MAC = raw, mc_Name = ''new'', mc_Boot = ''menu'', mc_Preseed = [], mc_Kickstart = [],
       mc_CloudInit = [], mc_Rescue = [], mc_IPXEScript = [], mc_Params = []\<rparr>),
     he_phase = (\<lambda>raw. (raw, [])), he_text = (\<lambda>_. ''error'')\<rparr>"

definition example_signer :: Signer where
  "example_signer = \<lparr>sn_secret = ''k'', sn_ttl = 3600 * second\<rparr>"

definition example_options :: http_options where
  "example_options = \<lparr>o_AdvertisedIP = ''10.0.0.5'', o_HTTPPort = 8080, o_ChainURL = ''http://menu'',
     o_IPXEScriptPath = ''/boot.ipxe'', o_SetCrossCert = False, o_DataDir = [], o_ClientNetmask = [],
     o_TFTPAutoexec = None, o_IPXEDispatch = None, o_CallbackTokens = Some example_signer,
     o_RequireCallbackToken = True, o_script = [], o_csrf = ''csrf'', o_startedAt = 0\<rparr>"

definition example_pending :: Pending where
  "example_pending = snd (Install 0 ''525400aabbcc'' (Pending_New (900 * second)))"

definition example_state :: server_state where
  "example_state = \<lparr>sv_fleet = Some example_fleet, sv_tracker = Some (NewTracker second),
     sv_pending = Some example_pending, sv_log = Some InstallLog_New, sv_sightings = None, sv_offers = None,
     sv_fs = example_fs\<rparr>"

definition example_call :: "string \<Rightarrow> string \<Rightarrow> string gomap \<Rightarrow> string \<Rightarrow> string \<Rightarrow> request" where
  "example_call meth path query payload peer = \<lparr>rq_Method = meth, rq_Path = path, rq_PathValue = (\<lambda>_. []), rq_Query = query,
     rq_Header = (\<lambda>h. if h = ''Content-Type'' then ''application/json'' else []), rq_Body = payload, rq_BodyError = False,
     rq_Form = [], rq_FormError = False, rq_RemoteAddr = peer\<rparr>"

definition example_mac :: string where
  "example_mac = ''52:54:00:aa:bb:cc''"

lemma example_mac_canonical: "is_canonical example_mac"
  by code_simp

end
