(* ===== verification/Http_Control.thy ===== *)
theory Http_Control
  imports Http_Examples
begin

text \<open>
  The JSON API as a client sees it: pages, boot intents, and fleet edits with their status codes and
  entity tags.
\<close>

section \<open>Replies\<close>

lemma reply_status_simps [simp]:
  assumes "fresh w"
  shows "reply_status (writeJSON v w) = 200" "reply_status (writeAPIError s c m d w) = s"
    "reply_status (WriteHeader s w) = s" "reply_status (http_Error m s w) = s" "reply_status (writeJSON v (WriteHeader s w)) = s"
  using assms
  by (simp_all add: writeJSON_def writeAPIError_def http_Error_def reply_status_def Write_def WriteHeader_def set_header_def
    fresh_def Let_def)

definition reply_body :: "ResponseWriter \<Rightarrow> body option" where
  "reply_body w = (case rw_body w of [] \<Rightarrow> None | b # _ \<Rightarrow> Some b)"

lemma reply_body_JSON [simp]: "fresh w \<Longrightarrow> reply_body (writeJSON v w) = Some v"
  by (simp add: reply_body_def writeJSON_def Write_def Let_def fresh_body)

lemma fleetReady_ok [simp]: "sv_fleet st = Some f \<Longrightarrow> sv_tracker st = Some t \<Longrightarrow> fleetReady rq st w = Inr (f, t)"
  by (simp add: fleetReady_def)

lemma apiReady_ok [simp]:
  "sv_fleet st = Some f \<Longrightarrow> sv_tracker st = Some t \<Longrightarrow> sv_pending st = Some p \<Longrightarrow> apiReady st w = Inr (f, t, p)"
  by (simp add: apiReady_def)

lemma CanonicalMAC_Nil: "CanonicalMAC raw = Inr c \<Longrightarrow> raw \<noteq> []"
  by (auto simp: CanonicalMAC_def)

lemma apiExtractFleetMAC_ok:
  "CanonicalMAC (rq_PathValue rq ''mac'') = Inr c \<Longrightarrow> p_Name (Lookup f c) \<noteq> [] \<Longrightarrow>
     apiExtractFleetMAC env rq f w = Inr (c, Lookup f c)"
  by (simp add: apiExtractFleetMAC_def Let_def CanonicalMAC_Nil)

section \<open>Pages\<close>

lemma page_window_nat: "page_window (int n) (int k) xs = take n (drop k xs)"
  by (auto simp: page_window_def Let_def nat_add_distrib take_all)

lemma concat_pages: "concat (map (\<lambda>i. take n (drop (i * n) xs)) [0..<k]) = take (k * n) xs"
proof (induction k)
  case (Suc k)
  have "Suc k * n = k * n + n" by simp
  with Suc show ?case by (simp only: take_add) simp
qed simp

text \<open>The machines of a list reply.\<close>

definition listed :: "reply_state \<Rightarrow> MachineView list" where
  "listed s = (case reply_body (snd s) of Some (JList r) \<Rightarrow> lr_Machines r | _ \<Rightarrow> [])"

definition page_request :: "request \<Rightarrow> nat \<Rightarrow> nat \<Rightarrow> request" where
  "page_request rq n k = rq\<lparr>rq_Query := [(''limit'', Itoa (int n)), (''offset'', Itoa (int k))]\<rparr>"

lemma parsePaging_page:
  assumes "0 < n" "n \<le> 500" "int k < 2 ^ 63"
  shows "parsePaging (page_request rq n k) w = Inr (int n, int k)"
proof -
  have "ParseInt (Itoa (int n)) = Some (int n)" "ParseInt (Itoa (int k)) = Some (int k)"
    using assms by simp_all
  then show ?thesis
    using assms by (simp add: parsePaging_def parse_limit_def parse_offset_def page_request_def get_value_def
      defaultPageLimit_def Let_def)
qed

section \<open>Intents\<close>

text \<open>What the API reports as desired for a machine, once an action was queued or cancelled at \<open>at\<close>.\<close>

definition desired_at :: "duration \<Rightarrow> time \<Rightarrow> string \<Rightarrow> time \<Rightarrow> Desired" where
  "desired_at ttl at action now =
     (if action = [] \<or> (ttl > 0 \<and> at + ttl \<le> now) then \<lparr>ds_Action = [], ds_RequestedAt = zero_time, ds_ExpiresAt = zero_time\<rparr>
      else \<lparr>ds_Action = action, ds_RequestedAt = at, ds_ExpiresAt = (if ttl > 0 then at + ttl else zero_time)\<rparr>)"

definition desired_of :: "body option \<Rightarrow> Desired option" where
  "desired_of b = (case b of Some (JIntent v) \<Rightarrow> Some (in_Desired v) | _ \<Rightarrow> None)"

text \<open>The store after a valid intent request.\<close>

definition put_intent :: "time \<Rightarrow> string \<Rightarrow> string \<Rightarrow> Pending \<Rightarrow> Pending" where
  "put_intent now c action p = snd (if action = [] then (Inr zero_time, snd (Cancel c p)) else queue now c action p)"

lemma set_intent:
  assumes "sv_fleet st = Some f" "sv_tracker st = Some t" "sv_pending st = Some p"
    "CanonicalMAC (rq_PathValue rq ''mac'') = Inr c" "p_Name (Lookup f c) \<noteq> []"
    "intent_action env rq w = Inr action" "action \<in> {ActionInstall, ActionRescue, []}"
  shows "handleAPISetIntent env opt rq (st, w) = (let st' = st\<lparr>sv_pending := Some (put_intent (he_now env) c action p)\<rparr>
    in (st', writeJSON (JIntent (buildIntentView env st' c)) w))"
proof -
  have c: "CanonicalMAC c = Inr c" using assms(4) by (rule CanonicalMAC_idem)
  note ready = apiReady_ok [OF assms(1-3)] apiExtractFleetMAC_ok [OF assms(4,5)] assms(6)
  consider "action = ''install''" | "action = ''rescue''" | "action = []"
    using assms(7) by (auto simp: ActionInstall_def ActionRescue_def)
  then show ?thesis
    by cases (simp_all add: handleAPISetIntent_def ready put_intent_def Install_def Rescue_def queue_def c
      ActionInstall_def ActionRescue_def Let_def)
qed

lemma Status_put_intent:
  assumes "CanonicalMAC c = Inr c"
  shows "buildDesired env (st\<lparr>sv_pending := Some (put_intent at c action p)\<rparr>) c = desired_at (ps_ttl p) at action (he_now env)"
  using assms by (auto simp: buildDesired_def put_intent_def desired_at_def Pending_Status_def queue_def Cancel_def
      mget_mput mget_mdel Let_def)

section \<open>Fleet edits\<close>

fun error_status :: "fleet_error \<Rightarrow> nat" where
  "error_status ErrMACExists = 409"
| "error_status ErrMACAbsent = 404"
| "error_status ErrPreconditionRequired = 428"
| "error_status ErrPreconditionFailed = 412"
| "error_status _ = 500"

fun success_status :: "crud_op \<Rightarrow> nat" where
  "success_status (CreateOp p) = 201" | "success_status (UpdateOp p t) = 200" | "success_status (DeleteOp t) = 204"

fun edit_handler :: "crud_op \<Rightarrow> handler" where
  "edit_handler (CreateOp p) = handleAPICreateMachine" | "edit_handler (UpdateOp p t) = handleAPIUpdateMachine"
| "edit_handler (DeleteOp t) = handleAPIDeleteMachine"

text \<open>A request that asks for an edit of the entry \<open>c\<close>, its body and its headers in order.\<close>

fun asks_for :: "http_env \<Rightarrow> Fleet \<Rightarrow> request \<Rightarrow> ResponseWriter \<Rightarrow> crud_op \<Rightarrow> string \<Rightarrow> bool" where
  "asks_for env f rq w (CreateOp p) c \<longleftrightarrow> media_type rq = ''application/json''
     \<and> (case decodeMachineBody env rq w of Inl _ \<Rightarrow> False
          | Inr b \<Rightarrow> CanonicalMAC (mc_MAC b) = Inr c \<and> profileFromBody f b w = Inr p)"
| "asks_for env f rq w (UpdateOp p t) c \<longleftrightarrow> media_type rq = ''application/json''
     \<and> CanonicalMAC (rq_PathValue rq ''mac'') = Inr c \<and> rq_Header rq ''If-Match'' = t
     \<and> (case decodeMachineBody env rq w of Inl _ \<Rightarrow> False | Inr b \<Rightarrow> profileFromBody f b w = Inr p)"
| "asks_for env f rq w (DeleteOp t) c \<longleftrightarrow> CanonicalMAC (rq_PathValue rq ''mac'') = Inr c \<and> rq_Header rq ''If-Match'' = t"

lemma fresh_reply_status:
  "fresh w \<Longrightarrow> reply_status (writeFleetMutationError env mac op e w) = error_status e"
  by (cases e) (simp_all add: writeFleetMutationError_def Let_def)

lemma put_fleet_simps [simp]: "sv_fleet (put_fleet st r) = Some (snd r)" "sv_fs (put_fleet st r) = fst r"
  "sv_pending (put_fleet st r) = sv_pending st" "sv_tracker (put_fleet st r) = sv_tracker st"
  "sv_pending st = q \<Longrightarrow> (put_fleet st r)\<lparr>sv_pending := q\<rparr> = put_fleet st r"
  by (auto simp: put_fleet_def)

fun removes :: "crud_op \<Rightarrow> bool" where
  "removes (DeleteOp t) = True" | "removes _ = False"

lemma DeleteAndSave_existed:
  assumes "DeleteAndSave env io c tag (fs, f) = ((ex, None), r)" "CanonicalMAC c = Inr c"
  shows "ex \<longleftrightarrow> c \<in> mkeys (f_machines f)"
  using assms by (auto simp: DeleteAndSave_def Let_def mget_None_iff dest: mget_Some_key
      split: option.splits if_splits prod.splits)

lemma asks_for_canonical: "asks_for env f rq w op c \<Longrightarrow> CanonicalMAC c = Inr c"
  by (cases op) (auto dest: CanonicalMAC_idem split: sum.splits)

lemma intent_of_edit:
  assumes "CanonicalMAC c = Inr c"
  shows "intent_of (s\<lparr>sv_pending := (if b then map_option (\<lambda>p. snd (Cancel c p)) (sv_pending st) else sv_pending st)\<rparr>) d
    = (if b \<and> d = c then None else intent_of st d)"
  using assms by (simp add: intent_of_def Cancel_entries canon_of_def mget_mdel split: option.split)

text \<open>An edit handler runs the fleet's operation and answers with its outcome.\<close>

lemma edit_handler_run:
  assumes "sv_fleet st = Some f" "sv_tracker st = Some t" "fresh w" "asks_for env f rq w op c"
  shows "case run_crud (he_fleet env) (he_save env) op c (sv_fs st, f) of (e, r) \<Rightarrow>
     \<exists>p'. fst (edit_handler op env opt rq (st, w)) = (put_fleet st r)\<lparr>sv_pending := p'\<rparr>
       \<and> p' = (if e = None \<and> removes op \<and> c \<in> mkeys (f_machines f)
               then map_option (\<lambda>p. snd (Cancel c p)) (sv_pending st) else sv_pending st)
       \<and> reply_status (snd (edit_handler op env opt rq (st, w)))
           = (case e of Some e \<Rightarrow> error_status e | None \<Rightarrow> success_status op)"
proof (cases op)
  case (CreateOp p)
  then obtain b where b: "media_type rq = ''application/json''" "decodeMachineBody env rq w = Inr b"
    "CanonicalMAC (mc_MAC b) = Inr c" "profileFromBody f b w = Inr p"
    using assms(4) by (auto split: sum.splits)
  have "handleAPICreateMachine env opt rq (st, w) =
     (case CreateAndSave (he_fleet env) (he_save env) \<lparr>m_MAC = c, m_Profile = p\<rparr> (sv_fs st, f) of
        (Inl e, r) \<Rightarrow> (put_fleet st r, writeFleetMutationError env c ''create'' e w)
      | (Inr etag, r) \<Rightarrow> (put_fleet st r, writeJSON (JMachine (buildMachineView env (put_fleet st r) c p))
          (WriteHeader 201 (set_header ''ETag'' etag w))))"
    using assms b by (simp add: handleAPICreateMachine_def requireJSON_def Let_def split: prod.split sum.split)
  then show ?thesis using CreateOp assms(3)
    by (auto simp: fresh_reply_status split: prod.split sum.split)
next
  case (UpdateOp p tag)
  then obtain b where b: "media_type rq = ''application/json''" "decodeMachineBody env rq w = Inr b"
    "CanonicalMAC (rq_PathValue rq ''mac'') = Inr c" "profileFromBody f b w = Inr p" "rq_Header rq ''If-Match'' = tag"
    using assms(4) by (auto split: sum.splits)
  have "handleAPIUpdateMachine env opt rq (st, w) =
     (case UpdateAndSave (he_fleet env) (he_save env) \<lparr>m_MAC = c, m_Profile = p\<rparr> tag (sv_fs st, f) of
        (Inl e, r) \<Rightarrow> (put_fleet st r, writeFleetMutationError env c ''update'' e w)
      | (Inr etag, r) \<Rightarrow> (put_fleet st r, writeJSON (JMachine (buildMachineView env (put_fleet st r) c p))
          (set_header ''ETag'' etag w)))"
    using assms b by (simp add: handleAPIUpdateMachine_def requireJSON_def Let_def split: prod.split sum.split)
  then show ?thesis using UpdateOp assms(3)
    by (auto simp: fresh_reply_status split: prod.split sum.split)
next
  case (DeleteOp tag)
  then have b: "CanonicalMAC (rq_PathValue rq ''mac'') = Inr c" "rq_Header rq ''If-Match'' = tag"
    using assms(4) by auto
  obtain ex e r where d: "DeleteAndSave (he_fleet env) (he_save env) c tag (sv_fs st, f) = ((ex, e), r)"
    by (metis prod.collapse)
  have ex: "e = None \<Longrightarrow> ex \<longleftrightarrow> c \<in> mkeys (f_machines f)"
    using DeleteAndSave_existed d asks_for_canonical [OF assms(4)] by metis
  have "handleAPIDeleteMachine env opt rq (st, w) =
     (case e of Some e \<Rightarrow> (put_fleet st r, writeFleetMutationError env c ''delete'' e w)
      | None \<Rightarrow> ((case sv_pending st of
           Some pend \<Rightarrow> if ex then (put_fleet st r)\<lparr>sv_pending := Some (snd (Cancel c pend))\<rparr> else put_fleet st r
         | None \<Rightarrow> put_fleet st r), WriteHeader 204 w))"
    using assms b d by (simp add: handleAPIDeleteMachine_def Let_def split: option.split)
  then show ?thesis using DeleteOp assms(3) d ex
    by (auto simp: fresh_reply_status split: option.split)
qed

text \<open>Its outcome is that of the conditional write of the register.\<close>

lemma edit_handler_outcome:
  assumes "sv_fleet st = Some f" "sv_tracker st = Some t" "fresh w" "asks_for env f rq w op c" "crud_valid (sv_fs st) op"
  shows "case edit_handler op env opt rq (st, w) of (st', w') \<Rightarrow>
     case cas_spec (profileETag (he_fleet env) c) (fst (Save (he_fleet env) (he_save env) (sv_fs st) (crud_edit op c f)))
         op c (mget (f_machines f)) of (e, M') \<Rightarrow>
       reply_status w' = (case e of Some e \<Rightarrow> error_status e | None \<Rightarrow> success_status op)
       \<and> (\<exists>f'. sv_fleet st' = Some f' \<and> mget (f_machines f') = M')
       \<and> (\<forall>d. intent_of st' d =
            (if d = c \<and> e = None \<and> removes op \<and> c \<in> mkeys (f_machines f) then None else intent_of st d))"
proof -
  note c = asks_for_canonical [OF assms(4)]
  let ?e = "he_fleet env" and ?io = "he_save env"
  obtain e fs' f' where run: "run_crud ?e ?io op c (sv_fs st, f) = (e, fs', f')" by (metis prod.collapse)
  have spec: "cas_spec (profileETag ?e c) (fst (Save ?e ?io (sv_fs st) (crud_edit op c f))) op c (mget (f_machines f))
      = (e, mget (f_machines f'))"
    using run_crud_register [OF c assms(5), of ?e ?io f] by (simp add: run)
  show ?thesis
    using edit_handler_run [OF assms(1-4), of opt] unfolding spec run
    by (simp add: case_prod_unfold intent_of_edit [OF c] conj_commute)
qed

section \<open>Headers\<close>

lemma reply_header_JSON [simp]:
  assumes "fresh w"
  shows "reply_header (writeJSON v (set_header ''ETag'' tag w)) ''ETag'' = Some tag"
    "reply_header (writeJSON v w) ''Content-Type'' = Some json_type"
    "reply_header (writeJSON v (WriteHeader 201 (set_header ''ETag'' tag w))) ''Content-Type'' = mget (rw_header w) ''Content-Type''"
  using assms
  by (simp_all add: reply_header_def writeJSON_def Write_def WriteHeader_def set_header_def fresh_def mget_mput Let_def)

lemma machine_ETag:
  assumes "sv_fleet st = Some f" "sv_tracker st = Some t" "fresh w" "CanonicalMAC (rq_PathValue rq ''mac'') = Inr c"
    "p_Name (Lookup f c) \<noteq> []" "mget (f_machines f) c = Some q"
  shows "reply_header (snd (handleAPIMachine env opt rq (st, w))) ''ETag'' = Some (profileETag (he_fleet env) c q)"
  using assms apiExtractFleetMAC_ok [OF assms(4,5)] CanonicalMAC_idem [OF assms(4)]
  by (simp add: handleAPIMachine_def ETag_def Let_def)

section \<open>Properties\<close>

text \<open>Paging is complete and exact: reading the machine list in pages of any size up to the limit gives,
  page after page, what the whole sorted list has at those positions, each machine once.\<close>

theorem pages_concatenate_to_list:
  assumes "sv_fleet st = Some f" "sv_tracker st = Some t" "fresh w" "0 < n" "n \<le> 500" "int (k * n) < 2 ^ 63"
  shows "concat (map (\<lambda>i. listed (handleAPIList env opt (page_request rq n (i * n)) (st, w))) [0..<k])
    = take (k * n) (map (\<lambda>m. buildMachineView env st (m_MAC m) (m_Profile m)) (ListMachines f))"
proof -
  let ?view = "\<lambda>m. buildMachineView env st (m_MAC m) (m_Profile m)"
  have "listed (handleAPIList env opt (page_request rq n (i * n)) (st, w))
      = take n (drop (i * n) (map ?view (ListMachines f)))" if "i < k" for i
  proof -
    have "i * n \<le> k * n" using that by simp
    then have "int (i * n) < 2 ^ 63" using assms(6) by linarith
    from parsePaging_page [OF assms(4,5) this] show ?thesis
      using assms(1-3) by (simp add: handleAPIList_def listed_def Let_def page_window_nat take_map drop_map del: of_nat_mult)
  qed
  then have "map (\<lambda>i. listed (handleAPIList env opt (page_request rq n (i * n)) (st, w))) [0..<k]
      = map (\<lambda>i. take n (drop (i * n) (map ?view (ListMachines f)))) [0..<k]" by simp
  then show ?thesis by (simp only: concat_pages)
qed

theorem pages_concatenate_to_list_witness:
  "listed (handleAPIList (example_http 1) example_options (page_request (example_call ''GET'' [] [] [] []) 1 0)
     (example_state, new_writer)) @
   listed (handleAPIList (example_http 1) example_options (page_request (example_call ''GET'' [] [] [] []) 1 1)
     (example_state, new_writer))
   = map (\<lambda>m. buildMachineView (example_http 1) example_state (m_MAC m) (m_Profile m)) (ListMachines example_fleet)"
proof -
  have f: "sv_fleet example_state = Some example_fleet" "sv_tracker example_state = Some (NewTracker second)"
    by (simp_all add: example_state_def)
  have w: "fresh new_writer" by (simp add: fresh_def new_writer_def)
  have len: "length (ListMachines example_fleet) = 1" by code_simp
  show ?thesis
    using pages_concatenate_to_list [OF f w, of 1 2 "example_http 1" example_options "example_call ''GET'' [] [] [] []"]
    by (simp add: upt_rec len numeral_2_eq_2)
qed

text \<open>C40: A boot intent is what was last put.  After PUT of install, rescue or null for a machine of the
  fleet, the reply and every later GET under any spelling of its MAC report that action with the time it
  was put, until the TTL is over and nothing from then on; putting it again starts a new term and has no
  other effect.\<close>

theorem intent_put_then_get:
  assumes "sv_fleet st = Some f" "sv_tracker st = Some t" "sv_pending st = Some p"
    "CanonicalMAC (rq_PathValue rq ''mac'') = Inr c" "p_Name (Lookup f c) \<noteq> []"
    "intent_action env rq w = Inr action" "action \<in> {ActionInstall, ActionRescue, []}"
    "CanonicalMAC (rq_PathValue rq2 ''mac'') = Inr c" "fresh w" "fresh w2"
  shows "case handleAPISetIntent env opt rq (st, w) of (st', w') \<Rightarrow>
     reply_status w' = 200 \<and> desired_of (reply_body w') = Some (desired_at (ps_ttl p) (he_now env) action (he_now env))
     \<and> (\<forall>env2. desired_of (reply_body (snd (handleAPIGetIntent env2 opt rq2 (st', w2))))
            = Some (desired_at (ps_ttl p) (he_now env) action (he_now env2)))
     \<and> (\<forall>d. d \<noteq> c \<longrightarrow> intent_of st' d = intent_of st d) \<and> sv_fleet st' = sv_fleet st \<and> sv_tracker st' = sv_tracker st"
proof -
  let ?st' = "st\<lparr>sv_pending := Some (put_intent (he_now env) c action p)\<rparr>"
  have c: "CanonicalMAC c = Inr c" using assms(4) by (rule CanonicalMAC_idem)
  have put: "handleAPISetIntent env opt rq (st, w) = (?st', writeJSON (JIntent (buildIntentView env ?st' c)) w)"
    using set_intent [OF assms(1-7)] by (simp add: Let_def)
  have get: "handleAPIGetIntent env2 opt rq2 (?st', w2) = (?st', writeJSON (JIntent (buildIntentView env2 ?st' c)) w2)" for env2
    using assms(1,2) apiExtractFleetMAC_ok [OF assms(8,5)] by (simp add: handleAPIGetIntent_def)
  have "intent_of ?st' d = intent_of st d" if "d \<noteq> c" for d
    using that c by (simp add: intent_of_def assms(3) put_intent_def queue_def Cancel_def mget_mput mget_mdel Let_def)
  then show ?thesis
    using assms(9,10) by (simp add: put get desired_of_def buildIntentView_def Status_put_intent [OF c])
qed

theorem intent_put_then_get_witness:
  "case handleAPISetIntent (example_http 5) example_options
       ((example_call ''PUT'' [] [] ''rescue'' [])\<lparr>rq_PathValue := (\<lambda>_. ''52-54-00-aa-bb-cc'')\<rparr>) (example_state, new_writer)
   of (st', w') \<Rightarrow> desired_of (reply_body (snd (handleAPIGetIntent (example_http 7) example_options
       ((example_call ''GET'' [] [] [] [])\<lparr>rq_PathValue := (\<lambda>_. ''525400aabbcc'')\<rparr>) (st', new_writer))))
     = Some \<lparr>ds_Action = ActionRescue, ds_RequestedAt = 5, ds_ExpiresAt = 5 + 900 * second\<rparr>"
proof -
  let ?put = "(example_call ''PUT'' [] [] ''rescue'' [])\<lparr>rq_PathValue := (\<lambda>_. ''52-54-00-aa-bb-cc'')\<rparr>"
  let ?get = "(example_call ''GET'' [] [] [] [])\<lparr>rq_PathValue := (\<lambda>_. ''525400aabbcc'')\<rparr>"
  have st: "sv_fleet example_state = Some example_fleet" "sv_tracker example_state = Some (NewTracker second)"
    "sv_pending example_state = Some example_pending" by (simp_all add: example_state_def)
  have m: "CanonicalMAC (rq_PathValue ?put ''mac'') = Inr example_mac" "CanonicalMAC (rq_PathValue ?get ''mac'') = Inr example_mac"
    by code_simp+
  have n: "p_Name (Lookup example_fleet example_mac) \<noteq> []" by code_simp
  have a: "intent_action (example_http 5) ?put new_writer = Inr ActionRescue" by code_simp
  have w: "fresh new_writer" by (simp add: fresh_def new_writer_def)
  have d: "desired_at (ps_ttl example_pending) 5 ActionRescue 7
      = \<lparr>ds_Action = ActionRescue, ds_RequestedAt = 5, ds_ExpiresAt = 5 + 900 * second\<rparr>" by code_simp
  have now: "he_now (example_http n) = n" for n by (simp add: example_http_def)
  show ?thesis
    using intent_put_then_get [OF st m(1) n a _ m(2) w w, of example_options]
    by (simp add: case_prod_unfold now d)
qed

text \<open>C18: A fleet edit over the API is a conditional write.  A well-formed create, update or delete with a
  valid profile answers with 201, 200 or 204 exactly when the conditional write of the machine's register
  succeeds, and otherwise with the status of its error: 409 exists, 404 absent, 428 no If-Match, 412 stale
  If-Match, 500 not saved.  The fleet afterwards holds what that write leaves, and only a delete of a
  machine that was there takes its boot intent along.\<close>

theorem api_edits_are_conditional_writes:
  assumes "sv_fleet st = Some f" "sv_tracker st = Some t" "fresh w" "asks_for env f rq w op c" "crud_valid (sv_fs st) op"
  shows "case edit_handler op env opt rq (st, w) of (st', w') \<Rightarrow>
     case cas_spec (profileETag (he_fleet env) c) (fst (Save (he_fleet env) (he_save env) (sv_fs st) (crud_edit op c f)))
         op c (mget (f_machines f)) of (e, M') \<Rightarrow>
       reply_status w' = (case e of Some e \<Rightarrow> error_status e | None \<Rightarrow> success_status op)
       \<and> (\<exists>f'. sv_fleet st' = Some f' \<and> mget (f_machines f') = M')
       \<and> (\<forall>d. intent_of st' d =
            (if d = c \<and> e = None \<and> removes op \<and> c \<in> mkeys (f_machines f) then None else intent_of st d))"
  using assms by (rule edit_handler_outcome)

theorem api_edits_are_conditional_writes_witness:
  "case handleAPIDeleteMachine (example_http 1) example_options
      ((example_call ''DELETE'' [] [] [] [])\<lparr>rq_PathValue := (\<lambda>_. ''52-54-00-AA-BB-CC'')\<rparr>) (example_state, new_writer)
   of (st', w') \<Rightarrow> reply_status w' = 204 \<and> intent_of st' example_mac = None"
proof -
  let ?rq = "(example_call ''DELETE'' [] [] [] [])\<lparr>rq_PathValue := (\<lambda>_. ''52-54-00-AA-BB-CC'')\<rparr>"
  have st: "sv_fleet example_state = Some example_fleet" "sv_tracker example_state = Some (NewTracker second)"
    by (simp_all add: example_state_def)
  have w: "fresh new_writer" by (simp add: fresh_def new_writer_def)
  have a: "asks_for (example_http 1) example_fleet ?rq new_writer (DeleteOp []) example_mac" by code_simp
  have v: "crud_valid (sv_fs example_state) (DeleteOp [])" by simp
  have "fst (Save (he_fleet (example_http 1)) (he_save (example_http 1)) (sv_fs example_state)
      (crud_edit (DeleteOp []) example_mac example_fleet)) = None" by code_simp
  moreover have "mget (f_machines example_fleet) example_mac \<noteq> None" by code_simp
  moreover have "example_mac \<in> mkeys (f_machines example_fleet)" by code_simp
  ultimately show ?thesis
    using api_edits_are_conditional_writes [OF st w a v, of example_options]
    by (auto simp: cas_spec_def split: option.splits)
qed

text \<open>The entity tag a GET hands out admits the next update: sent back as If-Match with a valid body, it is
  accepted while the entry is unchanged and the file can be saved; the tag in that reply is the one the
  next GET hands out, and the old tag is then refused with 412 unless the tags are equal.\<close>

theorem etag_admits_one_update:
  assumes "sv_fleet st = Some f" "sv_tracker st = Some t" "fresh w" "fresh w2"
    "CanonicalMAC (rq_PathValue rq ''mac'') = Inr c" "p_Name (Lookup f c) \<noteq> []" "c \<in> mkeys (f_machines f)"
    "reply_header (snd (handleAPIMachine env opt rq (st, w))) ''ETag'' = Some tag"
    "asks_for env f rq2 w2 (UpdateOp p tag) c" "crud_valid (sv_fs st) (UpdateOp p tag)" "p_Name p \<noteq> []"
    "fst (Save (he_fleet env) (he_save env) (sv_fs st) (crud_edit (UpdateOp p tag) c f)) = None"
  shows "case handleAPIUpdateMachine env opt rq2 (st, w2) of (st', w') \<Rightarrow>
     reply_status w' = 200
     \<and> reply_header w' ''ETag'' = reply_header (snd (handleAPIMachine env opt rq (st', w))) ''ETag''
     \<and> (\<forall>f'. sv_fleet st' = Some f' \<longrightarrow> asks_for env f' rq2 w2 (UpdateOp p tag) c \<longrightarrow> crud_valid (sv_fs st') (UpdateOp p tag) \<longrightarrow>
           reply_header w' ''ETag'' \<noteq> Some tag \<longrightarrow> reply_status (snd (handleAPIUpdateMachine env opt rq2 (st', w2))) = 412)"
proof -
  let ?e = "he_fleet env"
  obtain q where q: "mget (f_machines f) c = Some q" using mkeys_obtain [OF assms(7)] by blast
  have tag: "tag = profileETag ?e c q" using machine_ETag [OF assms(1-3,5,6) q] assms(8) by simp
  have c: "CanonicalMAC c = Inr c" using assms(5) by (rule CanonicalMAC_idem)
  let ?f' = "crud_edit (UpdateOp p tag) c f"
  obtain fs' where s: "Save ?e (he_save env) (sv_fs st) ?f' = (None, fs')" using assms(12) by (metis prod.collapse)
  obtain b where b: "media_type rq2 = ''application/json''" "CanonicalMAC (rq_PathValue rq2 ''mac'') = Inr c"
    "rq_Header rq2 ''If-Match'' = tag" "decodeMachineBody env rq2 w2 = Inr b" "profileFromBody f b w2 = Inr p"
    using assms(9) by (auto split: sum.splits)
  have upd: "UpdateAndSave ?e (he_save env) \<lparr>m_MAC = c, m_Profile = p\<rparr> tag (sv_fs st, f) = (Inr (profileETag ?e c p), fs', ?f')"
    using assms(10) s q by (simp add: UpdateAndSave_def c tag profileETag_def)
  have run: "handleAPIUpdateMachine env opt rq2 (st, w2) = (put_fleet st (fs', ?f'),
      writeJSON (JMachine (buildMachineView env (put_fleet st (fs', ?f')) c p)) (set_header ''ETag'' (profileETag ?e c p) w2))"
    using assms(1,2) b upd by (simp add: handleAPIUpdateMachine_def requireJSON_def Let_def)
  have st': "sv_fleet (put_fleet st (fs', ?f')) = Some ?f'" "sv_tracker (put_fleet st (fs', ?f')) = Some t"
    using assms(2) by simp_all
  have m': "mget (f_machines ?f') c = Some p" by (simp add: mget_mput)
  have "p_Name (Lookup ?f' c) \<noteq> []" using assms(11) unfolding Lookup_known [OF c m'] by simp
  note get = machine_ETag [OF st' assms(3,5) this m', of env opt]
  have "reply_status (snd (handleAPIUpdateMachine env opt rq2 (put_fleet st (fs', ?f'), w2))) = 412"
    if "asks_for env ?f' rq2 w2 (UpdateOp p tag) c" "crud_valid fs' (UpdateOp p tag)" "profileETag ?e c p \<noteq> tag"
  proof -
    have v: "crud_valid (sv_fs (put_fleet st (fs', ?f'))) (UpdateOp p tag)" using that(2) by simp
    have "tag \<noteq> []" by (simp add: tag profileETag_def)
    with that(3) m' have "cas_check (profileETag ?e c) (UpdateOp p tag) (mget (f_machines ?f') c) = Some ErrPreconditionFailed"
      by simp
    with edit_handler_outcome [OF st' assms(4) that(1) v, of opt] show ?thesis
      by (simp add: cas_spec_def case_prod_unfold del: cas_check.simps)
  qed
  then show ?thesis using assms(4) by (simp add: run get del: crud_edit.simps)
qed

text \<open>The reply to a create is not labelled as JSON.  Its status is sent before the content type is set, so
  the headers of a 201 carry no content type of the server's choosing, where the same body in the reply to
  an update is sent as \<^verbatim>\<open>application/json\<close>.\<close>

theorem created_reply_lacks_content_type:
  assumes "fresh w" "mget (rw_header w) ''Content-Type'' = None"
    "reply_status (snd (handleAPICreateMachine env opt rq (st, w))) = 201"
  shows "reply_header (snd (handleAPICreateMachine env opt rq (st, w))) ''Content-Type'' = None
     \<and> (reply_status (snd (handleAPIUpdateMachine env opt rq2 (st2, w))) = 200 \<longrightarrow>
         reply_header (snd (handleAPIUpdateMachine env opt rq2 (st2, w))) ''Content-Type'' = Some json_type)"
proof -
  have e: "error_status e \<noteq> 201" "error_status e \<noteq> 200" for e by (cases e; simp)+
  have stop: "fleetReady rq st w = Inl w' \<Longrightarrow> reply_status w' = 503" "requireJSON rq w = Inl w' \<Longrightarrow> reply_status w' = 415"
    "decodeMachineBody env rq w = Inl w' \<Longrightarrow> reply_status w' = 400"
    "profileFromBody f b w = Inl w' \<Longrightarrow> reply_status w' = 400" for rq st f b w'
    using assms(1) by (auto simp: fleetReady_def writeError_def requireJSON_def decodeMachineBody_def profileFromBody_def
      split: option.splits prod.splits if_splits)
  have "reply_header (snd (handleAPICreateMachine env opt rq (st, w))) ''Content-Type'' = None"
    using assms e by (auto simp: handleAPICreateMachine_def fresh_reply_status Let_def dest: stop
      split: sum.splits prod.splits)
  moreover have "reply_status (snd (handleAPIUpdateMachine env opt rq2 (st2, w))) = 200 \<Longrightarrow>
      reply_header (snd (handleAPIUpdateMachine env opt rq2 (st2, w))) ''Content-Type'' = Some json_type"
    using assms(1) e by (auto simp: handleAPIUpdateMachine_def fresh_reply_status Let_def dest: stop
      split: sum.splits prod.splits)
  ultimately show ?thesis by blast
qed

theorem created_reply_lacks_content_type_witness:
  "reply_header (snd (handleAPICreateMachine (example_http 1) example_options (example_call ''POST'' [] [] ''525400000001'' [])
     (example_state, new_writer))) ''Content-Type'' = None"
proof -
  have w: "fresh new_writer" "mget (rw_header new_writer) ''Content-Type'' = None"
    by (simp_all add: fresh_def new_writer_def)
  have s: "reply_status (snd (handleAPICreateMachine (example_http 1) example_options
      (example_call ''POST'' [] [] ''525400000001'' []) (example_state, new_writer))) = 201" by code_simp
  show ?thesis using created_reply_lacks_content_type [OF w s] by blast
qed

end
