(* ===== verification/Http_Callback.thy ===== *)
theory Http_Callback
  imports Http_Control
begin

text \<open>
  The phone-home loop: the callback that is appended to a served cloud-init document is one the server
  accepts, and what reporting an installation does.
\<close>

section \<open>Routing a callback\<close>

lemma hyphenated_mac_hyp [simp]: "hyphenated c = mac_hyp c"
  by (simp add: hyphenated_def mac_hyp_def)

lemma mac_hyp_no_slash: "is_canonical c \<Longrightarrow> CHR ''/'' \<notin> set (mac_hyp c)"
  using set_canonical [of c] set_ReplaceAll [of c "CHR '':''" "''-''"]
  by (auto simp: mac_hyp_def hex_digits_def)

lemma mac_hyp_not_Nil: "is_canonical c \<Longrightarrow> mac_hyp c \<noteq> []"
  using CanonicalMAC_mac_hyp [of c] CanonicalMAC_Nil by blast

definition done_path :: "string \<Rightarrow> string" where
  "done_path c = ''/autoinstall/'' @ mac_hyp c @ ''/done''"

lemma done_path_segs:
  assumes "is_canonical c"
  shows "Split (TrimPrefix (done_path c) ''/'') (CHR ''/'') = [''autoinstall'', mac_hyp c, ''done'']"
proof -
  have t: "TrimPrefix (done_path c) ''/'' = ''autoinstall'' @ CHR ''/'' # mac_hyp c @ CHR ''/'' # ''done''"
    by (simp add: done_path_def TrimPrefix_def)
  show ?thesis unfolding t using mac_hyp_no_slash [OF assms] by (simp add: Split_append_sep)
qed

definition done_route :: route where
  "done_route = route ''POST'' (per_machine ''done'') [Token] EInstallEvent"

lemma find_done_route:
  assumes "is_canonical c" "o_IPXEScriptPath opt = ''/boot.ipxe''" "rq_Method rq = ''POST''" "rq_Path rq = done_path c"
  shows "find (route_matches rq) (routes opt) = Some done_route"
proof -
  let ?segs = "[''autoinstall'', mac_hyp c, ''done'']"
  have m: "route_matches rq r \<longleftrightarrow> method_ok (rt_Method r) ''POST'' \<and> match_segs (rt_Pattern r) ?segs \<noteq> None" for r
    by (simp only: route_matches_def assms(3,4) done_path_segs [OF assms(1)])
  have script: "script_segs opt = [Lit ''boot.ipxe'']" by (simp add: script_segs_def assms(2) TrimPrefix_def)
  have "list_all (\<lambda>r. match_segs (rt_Pattern r) ?segs = None) (take 16 (public_routes opt))"
    unfolding public_routes_def script per_machine_def by (simp add: route_def)
  moreover have "routes opt = take 16 (public_routes opt) @ done_route # drop 17 (public_routes opt) @ local_routes
      @ [route [] [Rest []] [] ERoot]"
    by (simp add: routes_def public_routes_def done_route_def)
  moreover have "route_matches rq done_route"
    using mac_hyp_not_Nil [OF assms(1)] by (simp add: m done_route_def route_def method_ok_def per_machine_def)
  moreover have "find P (xs @ y # ys) = Some y" if "list_all (\<lambda>r. \<not> P r) xs" "P y" for P :: "route \<Rightarrow> bool" and xs y ys
    using that by (induction xs) simp_all
  ultimately show ?thesis by (simp add: m list_all_iff)
qed

lemma serve_done:
  assumes "is_canonical c" "o_IPXEScriptPath opt = ''/boot.ipxe''" "rq_Method rq = ''POST''" "rq_Path rq = done_path c"
  shows "serve env opt rq s
    = requireCallbackToken handleInstallEvent env opt (rq\<lparr>rq_PathValue := get_value [(''mac'', mac_hyp c)]\<rparr>) s"
  using mac_hyp_not_Nil [OF assms(1)]
  by (simp add: serve_def find_done_route [OF assms] run_route_def done_route_def route_def bind_path_def assms(4)
      done_path_segs [OF assms(1)] per_machine_def)

section \<open>The callback in a document\<close>

lemma Mint_not_Nil: "Mint h sn now c \<noteq> []"
  by (simp add: Mint_def Let_def)

definition done_url :: "http_options \<Rightarrow> string \<Rightarrow> string \<Rightarrow> string" where
  "done_url opt c tok = ''http://'' @ o_AdvertisedIP opt @ '':'' @ Itoa (o_HTTPPort opt) @ done_path c @ ''?t='' @ tok"

lemma phone_home_url:
  assumes "tok \<noteq> []"
  shows "\<exists>pre post. cloudInitPhoneHome opt c tok = pre @ done_url opt c tok @ newline @ post"
proof -
  have "cloudInitPhoneHome opt c tok = (newline
       @ ''# phone_home appended by pxe-beacon '' @ em_dash @ '' it owns this callback (carries the'' @ newline
       @ ''# auth token). Do NOT define your own phone_home; fleet load rejects it.'' @ newline
       @ ''phone_home:'' @ newline @ ''  url: '') @ done_url opt c tok @ newline
       @ (''  post: all'' @ newline @ ''  tries: 10'' @ newline)"
    unfolding cloudInitPhoneHome_def Let_def done_url_def done_path_def hyphenated_mac_hyp
    using assms by (simp only: append.assoc if_True if_False not_False_eq_True)
  then show ?thesis by blast
qed

lemma serve_bytes_reply [simp]:
  assumes "fresh w"
  shows "reply_status (serve_bytes ct b w) = 200" "reply_body (serve_bytes ct b w) = Some (Bytes b)"
  using assms by (simp_all add: serve_bytes_def reply_status_def reply_body_def Write_def WriteHeader_def set_header_def
    fresh_def Let_def)

text \<open>What a machine reports when its installation ends.\<close>

lemma install_event_run:
  assumes "sv_fleet st = Some f" "sv_tracker st = Some t" "CanonicalMAC (rq_PathValue rq ''mac'') = Inr c"
    "phase_event (parseEventPhase env rq) = Some ev" "fresh w"
  shows "fst (handleInstallEvent env opt rq (st, w)) = notePhase env c ev st"
    "reply_status (snd (handleInstallEvent env opt rq (st, w))) = 200"
proof -
  have "extractMAC env rq w = Inr c"
    using assms(3) CanonicalMAC_Nil by (simp add: extractMAC_def Let_def)
  then have "handleInstallEvent env opt rq (st, w) = (notePhase env c ev st,
      if wantsJSON rq then writeJSON (JMachine (buildMachineView env (notePhase env c ev st) c (Lookup f c))) w
      else serve_bytes text_plain (''ok'' @ newline) w)"
    using assms by (simp add: handleInstallEvent_def Let_def)
  then show "fst (handleInstallEvent env opt rq (st, w)) = notePhase env c ev st"
    "reply_status (snd (handleInstallEvent env opt rq (st, w))) = 200"
    using assms(5) by simp_all
qed

lemma rank_done_max: "rank ev \<le> rank EventInstallerDone"
  by (simp add: rank_def eventOrder_def event_names)

lemma notePhase_phase:
  assumes "is_canonical c" "sv_tracker st \<noteq> None"
  shows "phase_of (notePhase env c EventInstallerDone st) c = EventInstallerDone"
    "phase_of (notePhase env c EventInstallerFailed st) c = EventInstallerFailed"
proof -
  have c: "CanonicalMAC c = Inr c" using assms(1) by (simp add: is_canonical_def)
  have p: "phase_of (notePhase env c ev st) d = phase_of (note_event env c ev st) d" for ev d
    by (simp add: notePhase_eq phase_of_def split: option.split)
  show "phase_of (notePhase env c EventInstallerDone st) c = EventInstallerDone"
    "phase_of (notePhase env c EventInstallerFailed st) c = EventInstallerFailed"
    using assms rank_done_max by (simp_all add: p phase_of_note_event [OF c])
qed

lemma notePhase_intent:
  assumes "is_canonical c"
  shows "intent_of (notePhase env c ev st) d =
     (if d = c \<and> ev = EventInstallerDone \<and> ds_Action (buildDesired env st c) = ActionInstall then None else intent_of st d)"
proof -
  have c: "CanonicalMAC c = Inr c" using assms by (simp add: is_canonical_def)
  have a: "ActionInstall \<noteq> []" by (simp add: ActionInstall_def)
  show ?thesis
  proof (cases "sv_pending st")
    case None
    then show ?thesis using a by (simp add: notePhase_eq intent_of_def buildDesired_def)
  next
    case (Some p)
    then have "ds_Action (buildDesired env st c) = ActionInstall
        \<longleftrightarrow> (\<exists>at exp. Pending_Status (he_now env) c p = Some (ActionInstall, at, exp))"
      using a by (auto simp: buildDesired_def split: option.split)
    with Some show ?thesis
      by (auto simp: notePhase_eq intent_of_def Cancel_entries canon_of_def c mget_mdel)
  qed
qed

text \<open>A callback with an accepted token, from any peer and without a phase of its own.\<close>

definition reports_done :: "http_env \<Rightarrow> http_options \<Rightarrow> request \<Rightarrow> string \<Rightarrow> bool" where
  "reports_done env opt rq c \<longleftrightarrow> rq_Method rq = ''POST'' \<and> rq_Path rq = done_path c
     \<and> token_accepted env opt c (get_value (rq_Query rq) ''t'')
     \<and> media_type rq \<noteq> ''application/json'' \<and> get_value (rq_Form rq) ''phase'' = []"

lemma serve_reports_done:
  assumes "is_canonical c" "o_IPXEScriptPath opt = ''/boot.ipxe''" "reports_done env opt rq c"
    "sv_fleet st \<noteq> None" "sv_tracker st \<noteq> None" "fresh w"
  shows "fst (serve env opt rq (st, w)) = notePhase env c EventInstallerDone st" "reply_status (snd (serve env opt rq (st, w))) = 200"
proof -
  note d = assms(3) [unfolded reports_done_def]
  let ?rq = "rq\<lparr>rq_PathValue := get_value [(''mac'', mac_hyp c)]\<rparr>"
  have m: "CanonicalMAC (rq_PathValue ?rq ''mac'') = Inr c" by (simp add: get_value_def CanonicalMAC_mac_hyp [OF assms(1)])
  have s: "serve env opt rq (st, w) = handleInstallEvent env opt ?rq (st, w)"
    using serve_done [OF assms(1,2)] d m
    by (auto simp: requireCallbackToken_def token_accepted_def Let_def split: option.split if_splits)
  have ev: "phase_event (parseEventPhase env ?rq) = Some EventInstallerDone"
    using d by (simp add: parseEventPhase_def media_type_def phase_event_def)
  obtain f t where st: "sv_fleet st = Some f" "sv_tracker st = Some t" using assms(4,5) by blast
  show "fst (serve env opt rq (st, w)) = notePhase env c EventInstallerDone st" "reply_status (snd (serve env opt rq (st, w))) = 200"
    unfolding s using install_event_run [OF st m ev assms(6), of opt] by simp_all
qed

section \<open>Properties\<close>

text \<open>C9: The phone-home loop closes.  The cloud-init document served for a machine ends in a
  \<^verbatim>\<open>phone_home\<close> block whose URL is that of the machine's callback with a token; a POST to that URL
  before the token's last second, from any peer, passes the guards, is answered with 200, records that the
  installer is done and takes a live install intent of that machine away, and of no other.\<close>

theorem served_callback_closes_the_loop:
  assumes "sv_fleet st = Some f" "sv_tracker st = Some t" "fresh w" "o_CallbackTokens opt = Some sn"
    "CanonicalMAC (rq_PathValue rq ''mac'') = Inr c"
    "user_data_source env opt (sv_fs st) c (Lookup f c) = Inr raw"
    "he_template env raw (base_vars opt (Lookup f c) c @ [(''Params'', TMap (p_Params (Lookup f c))),
        (''CallbackToken'', TString (mintCallbackToken env opt c))]) = Rendered doc" "isYAMLCloudConfig env doc"
    "- (2 ^ 63) \<le> Unix (he_now env + sn_ttl sn)" "Unix (he_now env + sn_ttl sn) < 2 ^ 63"
    "he_hmac env (sn_secret sn) (sign_message c (Unix (he_now env + sn_ttl sn))) \<noteq> []"
  and post: "o_IPXEScriptPath opt = ''/boot.ipxe''" "he_hmac env2 = he_hmac env"
    "he_now env2 < Unix (he_now env + sn_ttl sn) * second"
    "rq_Method rq2 = ''POST''" "rq_Path rq2 = done_path c" "get_value (rq_Query rq2) ''t'' = Mint (he_hmac env) sn (he_now env) c"
    "media_type rq2 \<noteq> ''application/json''" "get_value (rq_Form rq2) ''phase'' = []"
    "sv_fleet st2 \<noteq> None" "sv_tracker st2 \<noteq> None" "fresh w2"
  shows "(\<exists>pre post. reply_body (snd (handleUserData env opt rq (st, w)))
      = Some (Bytes (doc @ pre @ done_url opt c (Mint (he_hmac env) sn (he_now env) c) @ newline @ post)))
   \<and> (case serve env2 opt rq2 (st2, w2) of (st', w') \<Rightarrow> reply_status w' = 200 \<and> phase_of st' c = EventInstallerDone
        \<and> (\<forall>d. intent_of st' d = (if d = c \<and> ds_Action (buildDesired env2 st2 c) = ActionInstall then None else intent_of st2 d)))"
proof -
  let ?tok = "Mint (he_hmac env) sn (he_now env) c"
  have c: "is_canonical c" "CanonicalMAC c = Inr c"
    using assms(5) canonical_result CanonicalMAC_idem by blast+
  have tok: "mintCallbackToken env opt c = ?tok" by (simp add: mintCallbackToken_def assms(4))
  have mac: "extractMAC env rq w = Inr c" using assms(5) CanonicalMAC_Nil by (simp add: extractMAC_def Let_def)
  have doc: "reply_body (snd (handleUserData env opt rq (st, w)))
      = Some (Bytes (append_block doc (cloudInitPhoneHome opt c ?tok)))"
    using assms(1-3,6-8) by (simp add: handleUserData_def mac Let_def user_data_body_def tok)
  obtain pre post where ph: "cloudInitPhoneHome opt c ?tok = pre @ done_url opt c ?tok @ newline @ post"
    using phone_home_url [OF Mint_not_Nil] by blast
  have "\<exists>pre post. reply_body (snd (handleUserData env opt rq (st, w)))
      = Some (Bytes (doc @ pre @ done_url opt c ?tok @ newline @ post))"
    unfolding doc append_block_def ph
    by (rule exI [of _ "(if HasSuffix doc newline then [] else newline) @ pre"], rule exI [of _ post]) simp
  moreover have "case serve env2 opt rq2 (st2, w2) of (st', w') \<Rightarrow> reply_status w' = 200 \<and> phase_of st' c = EventInstallerDone
        \<and> (\<forall>d. intent_of st' d = (if d = c \<and> ds_Action (buildDesired env2 st2 c) = ActionInstall then None else intent_of st2 d))"
  proof -
    have "Verify (he_hmac env2) sn (he_now env2) c ?tok = None"
      using Verify_Mint [where hmac = "he_hmac env", OF assms(9-11), of "he_now env2" c] post(3) by (simp add: post(2))
    then have "reports_done env2 opt rq2 c"
      using post by (simp add: reports_done_def token_accepted_def assms(4) Mint_not_Nil)
    from serve_reports_done [OF c(1) post(1) this post(9-11)] show ?thesis
      using notePhase_phase(1) [OF c(1) post(10)] notePhase_intent [OF c(1)] by (simp add: case_prod_unfold)
  qed
  ultimately show ?thesis by blast
qed

theorem served_callback_closes_the_loop_witness:
  "let tok = Mint (he_hmac (example_http 0)) example_signer 0 example_mac;
       st' = fst (serve (example_http 5) example_options ((example_call ''POST'' (done_path example_mac) [(''t'', tok)] [] ''10.0.0.9:77'')
         \<lparr>rq_Header := (\<lambda>_. [])\<rparr>) (example_state, new_writer))
   in phase_of st' example_mac = EventInstallerDone \<and> intent_of st' example_mac = None"
proof -
  let ?tok = "Mint (he_hmac (example_http 0)) example_signer 0 example_mac"
  let ?get = "(example_call ''GET'' [] [] [] [])\<lparr>rq_PathValue := (\<lambda>_. example_mac)\<rparr>"
  let ?post = "(example_call ''POST'' (done_path example_mac) [(''t'', ?tok)] [] ''10.0.0.9:77'')\<lparr>rq_Header := (\<lambda>_. [])\<rparr>"
  have st: "sv_fleet example_state = Some example_fleet" "sv_tracker example_state = Some (NewTracker second)"
    by (simp_all add: example_state_def)
  have w: "fresh new_writer" by (simp add: fresh_def new_writer_def)
  have o: "o_CallbackTokens example_options = Some example_signer" "o_IPXEScriptPath example_options = ''/boot.ipxe''"
    by (simp_all add: example_options_def)
  have c: "CanonicalMAC (rq_PathValue ?get ''mac'') = Inr example_mac" by code_simp
  have src: "user_data_source (example_http 0) example_options (sv_fs example_state) example_mac (Lookup example_fleet example_mac)
      = Inr ''default''" by code_simp
  have ren: "he_template (example_http 0) ''default'' vs = Rendered ''default''" for vs by (simp add: example_http_def)
  have y: "isYAMLCloudConfig (example_http 0) ''default''" by code_simp
  have u: "- (2 ^ 63) \<le> Unix (he_now (example_http 0) + sn_ttl example_signer)"
    "Unix (he_now (example_http 0) + sn_ttl example_signer) < 2 ^ 63"
    "he_hmac (example_http 0) (sn_secret example_signer)
       (sign_message example_mac (Unix (he_now (example_http 0) + sn_ttl example_signer))) \<noteq> []"
    "he_now (example_http 5) < Unix (he_now (example_http 0) + sn_ttl example_signer) * second"
    by (simp_all add: example_http_def example_signer_def Unix_def)
  have h: "he_hmac (example_http 5) = he_hmac (example_http 0)" "he_now (example_http 0) = 0" by (simp_all add: example_http_def)
  have q: "rq_Method ?post = ''POST''" "rq_Path ?post = done_path example_mac"
    "get_value (rq_Query ?post) ''t'' = Mint (he_hmac (example_http 0)) example_signer (he_now (example_http 0)) example_mac"
    "media_type ?post \<noteq> ''application/json''" "get_value (rq_Form ?post) ''phase'' = []"
    by (simp_all add: example_call_def get_value_def h media_type_def IndexByte_def TrimSpace_def, code_simp)
  have n: "sv_fleet example_state \<noteq> None" "sv_tracker example_state \<noteq> None" by (simp_all add: st)
  have d: "ds_Action (buildDesired (example_http 5) example_state example_mac) = ActionInstall" by code_simp
  show ?thesis
    using served_callback_closes_the_loop [OF st w o(1) c src ren y u(1-3) o(2) h(1) u(4) q n w]
    by (auto simp: case_prod_unfold Let_def d h(2))
qed

end
