(* ===== verification/Http_Remote.thy ===== *)
theory Http_Remote
  imports Http_Examples
begin

text \<open>
  What a peer that is not on the machine itself can change: the loopback gate, the token guard and the
  effect of every route together.
\<close>

section \<open>Routes and guards\<close>

definition token_route :: "route \<Rightarrow> bool" where
  "token_route r \<longleftrightarrow> rt_Method r = ''POST'' \<and> rt_Guards r = [Token]
     \<and> (rt_Endpoint r = EInstallEvent \<and> rt_Pattern r = per_machine ''done''
        \<or> rt_Endpoint r = EInstallLog \<and> rt_Pattern r = per_machine ''log'')"

lemma public_routes_classified:
  "list_all (\<lambda>r. rt_Guards r = [] \<and> public_page (rt_Endpoint r) \<or> token_route r) (public_routes opt)"
  unfolding public_routes_def list.pred_inject by (simp add: route_def token_route_def)

lemma local_routes_classified: "list_all (\<lambda>r. \<exists>gs. rt_Guards r = Loopback # gs) local_routes"
  unfolding local_routes_def list.pred_inject by (simp add: route_def)

lemma routes_classified:
  assumes "r \<in> set (routes opt)"
  obtains (public) "rt_Guards r = []" "public_page (rt_Endpoint r)"
    | (callback) "token_route r"
    | (loopback) gs where "rt_Guards r = Loopback # gs"
proof -
  consider "r \<in> set (public_routes opt)" | "r \<in> set local_routes" | "r = route [] [Rest []] [] ERoot"
    using assms by (auto simp: routes_def)
  then show thesis
  proof cases
    case 1
    with public_routes_classified show thesis using public callback by (auto simp: list_all_iff)
  next
    case 2
    with local_routes_classified show thesis using loopback by (auto simp: list_all_iff)
  next
    case 3
    then show thesis by (intro public) (simp_all add: route_def)
  qed
qed

lemma match_Lit_Cons: "match_segs (Lit l # ps) segs = Some b \<longleftrightarrow> (\<exists>gs. segs = l # gs \<and> match_segs ps gs = Some b)"
  by (cases segs) auto

lemma match_Var_Cons:
  "match_segs (Var x # ps) segs = Some b \<longleftrightarrow>
     (\<exists>g gs b'. segs = g # gs \<and> g \<noteq> [] \<and> match_segs ps gs = Some b' \<and> b = (x, g) # b')"
  by (cases segs) (auto split: option.splits)

lemma match_Nil: "match_segs [] segs = Some b \<longleftrightarrow> segs = [] \<and> b = []"
  by (cases segs) auto

lemma match_per_machine:
  "match_segs (per_machine leaf) segs = Some b \<longleftrightarrow>
     (\<exists>m. segs = [''autoinstall'', m, leaf] \<and> m \<noteq> [] \<and> b = [(''mac'', m)])"
  unfolding per_machine_def match_Lit_Cons match_Var_Cons match_Nil by blast

lemma bind_path_keeps [simp]:
  "rq_RemoteAddr (bind_path r rq) = rq_RemoteAddr rq" "rq_Query (bind_path r rq) = rq_Query rq"
  "rq_Method (bind_path r rq) = rq_Method rq" "rq_Form (bind_path r rq) = rq_Form rq"
  "rq_Body (bind_path r rq) = rq_Body rq" "rq_Header (bind_path r rq) = rq_Header rq"
  "rq_BodyError (bind_path r rq) = rq_BodyError rq" "rq_Path (bind_path r rq) = rq_Path rq"
  by (simp_all add: bind_path_def split: option.split)

text \<open>A request for the callback of the machine \<open>mac\<close>.\<close>

definition callback_request :: "request \<Rightarrow> string \<Rightarrow> bool" where
  "callback_request rq mac \<longleftrightarrow> rq_Method rq = ''POST'' \<and>
     (\<exists>m leaf. Split (TrimPrefix (rq_Path rq) ''/'') (CHR ''/'') = [''autoinstall'', m, leaf]
        \<and> leaf \<in> {''done'', ''log''} \<and> CanonicalMAC m = Inr mac)"

lemma token_route_request:
  assumes "token_route r" "route_matches rq r" "CanonicalMAC (rq_PathValue (bind_path r rq) ''mac'') = Inr mac"
  shows "callback_request rq mac"
proof -
  obtain leaf where leaf: "leaf = ''done'' \<or> leaf = ''log''" "rt_Pattern r = per_machine leaf"
    using assms(1) by (auto simp: token_route_def)
  obtain b where b: "match_segs (per_machine leaf) (Split (TrimPrefix (rq_Path rq) ''/'') (CHR ''/'')) = Some b"
    using assms(2) leaf(2) by (auto simp: route_matches_def)
  then obtain m where m: "Split (TrimPrefix (rq_Path rq) ''/'') (CHR ''/'') = [''autoinstall'', m, leaf]"
    "b = [(''mac'', m)]" by (auto simp: match_per_machine)
  have "rq_PathValue (bind_path r rq) = get_value b" by (simp add: bind_path_def leaf(2) b)
  then have "CanonicalMAC m = Inr mac" using assms(3) by (simp add: get_value_def m(2))
  moreover have "rq_Method rq = ''POST''"
    using assms(1,2) by (simp add: token_route_def route_matches_def method_ok_def)
  ultimately show ?thesis using m(1) leaf(1) unfolding callback_request_def by blast
qed

lemma remote_serve_cases:
  assumes "\<not> is_loopback (rq_RemoteAddr rq)"
  obtains (public) "public_effect st (fst (serve env opt rq (st, w)))"
    | (callback) mac where "callback_request rq mac" "token_accepted env opt mac (get_value (rq_Query rq) ''t'')"
        "callback_effect mac st (fst (serve env opt rq (st, w)))" "is_canonical mac"
proof (cases "find (route_matches rq) (routes opt)")
  case None
  then show ?thesis by (intro public) (simp add: serve_def)
next
  case (Some r)
  then have r: "r \<in> set (routes opt)" "route_matches rq r" by (auto simp: find_Some_iff)
  let ?rq = "bind_path r rq"
  have serve: "serve env opt rq (st, w)
      = foldr guard_handler (rt_Guards r) (handler_of (rt_Endpoint r)) env opt ?rq (st, w)"
    by (simp add: serve_def Some run_route_def)
  from r(1) show ?thesis
  proof (cases rule: routes_classified)
    case public
    then show ?thesis using page_effect that(1) by (simp add: serve)
  next
    case (loopback gs)
    then show ?thesis using assms that(1) by (simp add: serve loopbackOnly_def)
  next
    case callback
    let ?h = "handler_of (rt_Endpoint r)"
    have s: "serve env opt rq (st, w) = requireCallbackToken ?h env opt ?rq (st, w)"
      using callback by (simp add: serve token_route_def)
    show ?thesis
    proof (cases "fst (serve env opt rq (st, w)) = st")
      case True
      then show ?thesis by (intro that(1)) simp
    next
      case False
      then have h: "serve env opt rq (st, w) = ?h env opt ?rq (st, w)"
        and tok: "\<And>mac. CanonicalMAC (rq_PathValue ?rq ''mac'') = Inr mac \<Longrightarrow>
          token_accepted env opt mac (get_value (rq_Query rq) ''t'')"
        using token_guard [of ?h env opt ?rq st w] by (auto simp: s)
      have "?h = handleInstallEvent \<or> ?h = handleInstallLog" using callback by (auto simp: token_route_def)
      then obtain mac where mac: "CanonicalMAC (rq_PathValue ?rq ''mac'') = Inr mac"
        "callback_effect mac st (fst (serve env opt rq (st, w)))"
        using install_event_effect [of env opt ?rq st w] install_log_effect [of env opt ?rq st w] False
        by (auto simp: h)
      show ?thesis
        using that(2) [OF token_route_request [OF callback r(2) mac(1)] tok [OF mac(1)] mac(2) canonical_result [OF mac(1)]] .
    qed
  qed
qed

section \<open>Properties\<close>





text \<open>C8: The control plane is local.  A request over IPv4 that is routed to the JSON API or an admin page
  reaches its handler (behind the form-token check, where there is one) exactly when the peer's address is
  in 127.0.0.0/8; from any other address it is refused with status 403 and changes nothing.\<close>

theorem control_plane_is_local:
  assumes "find (route_matches rq) (routes opt) = Some r" "r \<in> set local_routes"
    "rq_RemoteAddr rq = ip4_string [a, b, c, d] @ CHR '':'' # dec_nat port"
  shows "serve env opt rq (st, w) =
     (if a = CHR 0x7F
      then foldr guard_handler (tl (rt_Guards r)) (handler_of (rt_Endpoint r)) env opt (bind_path r rq) (st, w)
      else (st, http_Error ''admin is loopback-only; use SSH tunnel for remote access'' 403 w))"
proof -
  obtain gs where gs: "rt_Guards r = Loopback # gs"
    using local_routes_classified assms(2) by (auto simp: list_all_iff)
  have "is_loopback (rq_RemoteAddr rq) \<longleftrightarrow> a = CHR 0x7F"
    by (simp add: assms(3) is_loopback_def SplitHostPort_plain [OF ip4_string_plain] ParseIP_dotted IsLoopback_v4)
  then show ?thesis by (simp add: serve_def assms(1) run_route_def gs loopbackOnly_def)
qed

theorem control_plane_is_local_witness:
  "serve (example_http 1) example_options
     (example_call ''DELETE'' ''/api/v1/machines/525400aabbcc'' [] [] ''192.168.7.20:99'') (example_state, new_writer)
   = (example_state, http_Error ''admin is loopback-only; use SSH tunnel for remote access'' 403 new_writer)"
proof -
  let ?rq = "example_call ''DELETE'' ''/api/v1/machines/525400aabbcc'' [] [] ''192.168.7.20:99''"
  let ?r = "route ''DELETE'' (api_machine []) [Loopback] EDeleteMachine"
  have f: "find (route_matches ?rq) (routes example_options) = Some ?r" by code_simp
  have l: "?r \<in> set local_routes" by (simp add: local_routes_def)
  have p: "rq_RemoteAddr ?rq = ip4_string [CHR 0xC0, CHR 0xA8, CHR 0x07, CHR 0x14] @ CHR '':'' # dec_nat 99"
    by code_simp
  show ?thesis unfolding control_plane_is_local [OF f l p] by simp
qed

end
