(* ===== verification/Tftp.thy ===== *)
theory Tftp
  imports Proxy_DHCP
begin

text \<open>
  The TFTP read handler (\<^verbatim>\<open>internal/tftp/tftp.go\<close>): which bytes a requested file name gets.
  The transfer is the TFTP library's: its error, if any, is the argument \<open>transfer\<close>.  The
  dispatch script is \<open>autoexec\<close>, \<open>None\<close> when no hook is configured.
\<close>

definition kindForLeaf :: "string \<Rightarrow> IPXEKind option" where
  "kindForLeaf leaf =
     (if leaf \<in> set [''ipxe.efi'', ''netboot.xyz.efi''] then Some IPXEEFIx64
      else if leaf \<in> set [''snponly.efi'', ''netboot.xyz-snponly.efi'', ''ipxe-snponly.efi''] then Some IPXESNPOnly
      else if leaf \<in> set [''ipxe-arm64.efi'', ''netboot.xyz-arm64.efi''] then Some IPXEARM64
      else if leaf \<in> set [''undionly.kpxe'', ''netboot.xyz.kpxe'', ''ipxe.kpxe''] then Some IPXELegacyBIOS
      else None)"

datatype tftp_error = TftpNotFound string | TftpAsset asset_error | TftpTransfer string

text \<open>The bytes handed to the transfer, the tag given to \<^verbatim>\<open>NoteServed\<close>, the error returned.\<close>

record tftp_result =
  tr_bytes :: "string option"
  tr_note :: "string option"
  tr_error :: "tftp_error option"

definition tftp_leaf :: "string \<Rightarrow> string" where
  "tftp_leaf filename = PathBase (ReplaceAll filename (CHR 0x5C) ''/'')"

definition is_probe :: "string \<Rightarrow> bool" where
  "is_probe filename =
     (let normalized = TrimPrefix (ReplaceAll filename (CHR 0x5C) ''/'') ''/''
      in HasPrefix normalized ''probe/'' \<or> HasPrefix normalized ''probe-'' \<or> HasPrefix normalized ''probe.'')"

definition tftp_transfer :: "string \<Rightarrow> string option \<Rightarrow> tftp_result" where
  "tftp_transfer body transfer =
     (case transfer of
        Some e \<Rightarrow> \<lparr>tr_bytes = Some body, tr_note = None, tr_error = Some (TftpTransfer e)\<rparr>
      | None \<Rightarrow> \<lparr>tr_bytes = Some body, tr_note = Some ''tftp-anon'', tr_error = None\<rparr>)"

definition readHandler :: "embedded \<Rightarrow> string option \<Rightarrow> string option \<Rightarrow> string \<Rightarrow> tftp_result" where
  "readHandler emb autoexec transfer filename =
     (let leaf = tftp_leaf filename
      in if is_probe filename
         then \<lparr>tr_bytes = Some [CHR 0x0A], tr_note = None, tr_error = None\<rparr>
         else if leaf = ''autoexec.ipxe'' then
           (case autoexec of
              Some body \<Rightarrow> tftp_transfer body transfer
            | None \<Rightarrow> \<lparr>tr_bytes = None, tr_note = None, tr_error = Some (TftpNotFound filename)\<rparr>)
         else case kindForLeaf leaf of
           None \<Rightarrow> \<lparr>tr_bytes = None, tr_note = None, tr_error = Some (TftpNotFound filename)\<rparr>
         | Some kind \<Rightarrow>
             (case ReadIPXE emb kind of
                Inl e \<Rightarrow> \<lparr>tr_bytes = None, tr_note = None, tr_error = Some (TftpAsset e)\<rparr>
              | Inr data \<Rightarrow> tftp_transfer data transfer))"

section \<open>Facts\<close>

lemma PathBase_leaf:
  assumes "leaf \<noteq> []" "CHR ''/'' \<notin> set leaf"
  shows "PathBase (dir @ ''/'' @ leaf) = leaf" and "PathBase leaf = leaf"
proof -
  have ne: "rev leaf \<noteq> []" "hd (rev leaf) \<noteq> CHR ''/''"
    using assms by (auto simp: hd_rev dest: last_in_set)
  then have drop: "dropWhile (\<lambda>c. c = CHR ''/'') (rev leaf @ r) = rev leaf @ r" for r
    by (cases "rev leaf") auto
  have take: "takeWhile (\<lambda>c. c \<noteq> CHR ''/'') (rev leaf @ CHR ''/'' # r) = rev leaf" for r
    by (subst takeWhile_append2) (use assms(2) in auto)
  have take': "takeWhile (\<lambda>c. c \<noteq> CHR ''/'') (rev leaf) = rev leaf"
    using assms(2) by (auto simp: takeWhile_eq_all_conv)
  show "PathBase (dir @ ''/'' @ leaf) = leaf"
    using assms(1) drop [of "CHR ''/'' # rev dir"] take [of "rev dir"] by (simp add: PathBase_def Let_def)
  show "PathBase leaf = leaf"
    unfolding PathBase_def Let_def drop [of "[]", unfolded append_Nil2] rev_rev_ident take'
    using assms(1) by simp
qed

lemma PathBase_no_slash: "CHR ''/'' \<in> set (PathBase p) \<Longrightarrow> PathBase p = ''/''"
  by (auto simp: PathBase_def Let_def split: if_splits dest: set_takeWhileD)

lemma boot_file_kind:
  "kindForLeaf (ap_BootFile (fst (LookupArch a))) = Some (ap_IPXEKind (fst (LookupArch a)))"
  by (cases a) (simp_all add: LookupArch_def kindForLeaf_def)

lemma boot_file_plain:
  "ap_BootFile (fst (LookupArch a)) \<noteq> []" "ap_BootFile (fst (LookupArch a)) \<noteq> ''autoexec.ipxe''"
  "CHR ''/'' \<notin> set (ap_BootFile (fst (LookupArch a)))" "CHR 0x5C \<notin> set (ap_BootFile (fst (LookupArch a)))"
  "\<not> is_probe (ap_BootFile (fst (LookupArch a)))"
  by (cases a; simp add: LookupArch_def; fail)+ (cases a; simp add: LookupArch_def; code_simp)

lemma canonical_not_probe:
  assumes "is_canonical c"
  shows "CHR 0x5C \<notin> set c" "\<not> HasPrefix (TrimPrefix (c @ r) ''/'') (CHR ''p'' # s)"
proof -
  have "set c \<subseteq> set hex_digits \<union> {CHR '':''}" "c \<noteq> []"
    using set_canonical [OF assms] canonical_not_Nil [OF assms] .
  then show "CHR 0x5C \<notin> set c" "\<not> HasPrefix (TrimPrefix (c @ r) ''/'') (CHR ''p'' # s)"
    by (cases c; auto simp: hex_digits_def TrimPrefix_def)+
qed

section \<open>Properties\<close>



text \<open>The TFTP server hands out nothing else than a newline for a probe, the dispatch script for a
  file called \<^verbatim>\<open>autoexec.ipxe\<close>, and the four embedded binaries; whatever path a client asks
  for, no file of the host is read, and the offer hints are cleared only by a completed transfer.\<close>

theorem tftp_serves_only:
  "(case tr_bytes (readHandler emb autoexec transfer filename) of
     None \<Rightarrow> tr_error (readHandler emb autoexec transfer filename) \<noteq> None
   | Some b \<Rightarrow> is_probe filename \<and> b = [CHR 0x0A]
       \<or> tftp_leaf filename = ''autoexec.ipxe'' \<and> autoexec = Some b
       \<or> (\<exists>k. kindForLeaf (tftp_leaf filename) = Some k \<and> emb (''ipxe/'' @ IPXEKind_String k) = Some b))
   \<and> (tr_note (readHandler emb autoexec transfer filename) \<noteq> None \<longleftrightarrow>
     \<not> is_probe filename \<and> tr_bytes (readHandler emb autoexec transfer filename) \<noteq> None \<and> transfer = None)"
  by (auto simp: readHandler_def Let_def tftp_transfer_def ReadIPXE_def read_embedded_def FilePath_def
      split: option.split sum.split)

end
