(* ===== verification/System.thy ===== *)
theory System
  imports Http_Callback Http_Remote Tftp
begin

text \<open>
  The running program (\<^verbatim>\<open>cmd/pxe-beacon/main.go\<close>): how \<^verbatim>\<open>main\<close> builds the stores
  and wires the three servers to them, what a SIGHUP does, and the steps the whole takes: a DHCP packet, a
  hint timer, a file transfer, an HTTP request, a SIGHUP, or somebody else editing a file.  Each handler
  runs as one step; the mutexes of the stores order them.
\<close>

section \<open>Start-up\<close>

text \<open>The command line, with the address that was picked and the token secret that is in force.\<close>

record flags =
  fl_Config :: string
  fl_AdvertisedIP :: net_ip
  fl_HTTPPort :: int
  fl_ChainURL :: string
  fl_IPXEScript :: string
  fl_CrossCert :: bool
  fl_HintAfter :: duration
  fl_DataDir :: string
  fl_LegacyRedirector :: bool
  fl_ClientNetmask :: string
  fl_PendingTTL :: duration
  fl_CallbackTTL :: duration
  fl_InsecureCallbacks :: bool
  fl_TokenSecret :: string

definition load_fleet :: "fleet_env \<Rightarrow> filesys \<Rightarrow> flags \<Rightarrow> fleet_error + Fleet" where
  "load_fleet env fs fl = (if fl_Config fl \<noteq> [] then Load env fs (fl_Config fl) else Inr Empty_Fleet)"

definition initial_state :: "flags \<Rightarrow> filesys \<Rightarrow> Fleet \<Rightarrow> server_state" where
  "initial_state fl fs f = \<lparr>sv_fleet = Some f, sv_tracker = Some (NewTracker (5 * 60 * second)),
     sv_pending = Some (Pending_New (fl_PendingTTL fl)), sv_log = Some InstallLog_New, sv_sightings = Some [],
     sv_offers = Some [], sv_fs = fs\<rparr>"

text \<open>The proxy-DHCP configuration; its hooks read the stores when a packet arrives.\<close>

definition dhcp_config :: "flags \<Rightarrow> time \<Rightarrow> server_state \<Rightarrow> Config" where
  "dhcp_config fl now st = \<lparr>cf_AdvertisedIP = fl_AdvertisedIP fl, cf_HTTPPort = fl_HTTPPort fl, cf_IPXEScriptPath = ''/boot.ipxe'',
     cf_IPXEUserClass = [], cf_Fleet = sv_fleet st,
     cf_Pending = map_option (\<lambda>p mac. IsPending now mac p) (sv_pending st),
     cf_LastEvent = map_option LastEvent (sv_tracker st), cf_NoteSighting = (sv_sightings st \<noteq> None)\<rparr>"

definition listener_options :: "flags \<Rightarrow> time \<Rightarrow> server_state \<Rightarrow> ServerOptions" where
  "listener_options fl now st =
     \<lparr>so_Config = dhcp_config fl now st, so_FollowUpTimeout = fl_HintAfter fl, so_BroadcastReply = None\<rparr>"

definition dispatch_context :: "flags \<Rightarrow> time \<Rightarrow> server_state \<Rightarrow> DispatchContext" where
  "dispatch_context fl now st = \<lparr>AdvertisedIP = ip4_string (fl_AdvertisedIP fl), HTTPPort = fl_HTTPPort fl,
     ClientNetmask = fl_ClientNetmask fl,
     RescueArmed = Some (\<lambda>mac. case sv_pending st of None \<Rightarrow> False
       | Some p \<Rightarrow> (case Pending_Status now mac p of None \<Rightarrow> False | Some (a, at, exp) \<Rightarrow> a = ActionRescue))\<rparr>"

text \<open>The script TFTP and HTTP hand out when a fleet file is configured.\<close>

definition autoexecFn :: "flags \<Rightarrow> (time \<Rightarrow> server_state \<Rightarrow> string) option" where
  "autoexecFn fl =
     (if fl_Config fl = [] then None
      else if fl_LegacyRedirector fl
        then Some (\<lambda>now st. RedirectorScript (ip4_string (fl_AdvertisedIP fl)) (fl_HTTPPort fl))
      else Some (\<lambda>now st. RenderDispatch (sv_fleet st) (dispatch_context fl now st)))"

definition main_options :: "(string \<Rightarrow> bool) \<Rightarrow> filesys \<Rightarrow> embedded \<Rightarrow> string \<Rightarrow> time \<Rightarrow> flags \<Rightarrow> go_error + http_options" where
  "main_options parses fs emb csrf now fl =
     httpd_New parses fs emb (fl_IPXEScript fl)
       \<lparr>o_AdvertisedIP = ip4_string (fl_AdvertisedIP fl), o_HTTPPort = fl_HTTPPort fl, o_ChainURL = fl_ChainURL fl,
        o_IPXEScriptPath = ''/boot.ipxe'', o_SetCrossCert = fl_CrossCert fl, o_DataDir = fl_DataDir fl,
        o_ClientNetmask = fl_ClientNetmask fl, o_TFTPAutoexec = autoexecFn fl, o_IPXEDispatch = autoexecFn fl,
        o_CallbackTokens = Some \<lparr>sn_secret = fl_TokenSecret fl, sn_ttl = fl_CallbackTTL fl\<rparr>,
        o_RequireCallbackToken = (\<not> fl_InsecureCallbacks fl), o_script = [], o_csrf = csrf, o_startedAt = now\<rparr>"

section \<open>Reload on SIGHUP\<close>

definition watchSIGHUP :: "fleet_env \<Rightarrow> server_state \<Rightarrow> server_state" where
  "watchSIGHUP env st =
     (case sv_fleet st of None \<Rightarrow> st
      | Some f \<Rightarrow>
          case Reload env (sv_fs st) f of
            (Some e, f') \<Rightarrow> st\<lparr>sv_fleet := Some f'\<rparr>
          | (None, f') \<Rightarrow>
              let known = (\<lambda>mac. mac \<in> mkeys (Machines f'))
              in st\<lparr>sv_fleet := Some f',
                    sv_pending := map_option (\<lambda>p. snd (Pending_RetainOnly known p)) (sv_pending st),
                    sv_log := map_option (\<lambda>l. snd (InstallLog_RetainOnly known l)) (sv_log st),
                    sv_sightings := map_option (\<lambda>s. snd (Sightings_RetainOnly (\<lambda>mac. \<not> known mac) s)) (sv_sightings st)\<rparr>)"

section \<open>Steps\<close>

definition packet_result :: "dhcp_lib \<Rightarrow> flags \<Rightarrow> time \<Rightarrow> string \<Rightarrow> udp_addr option \<Rightarrow> bool \<Rightarrow> Request \<Rightarrow> server_state
    \<Rightarrow> packet_effect" where
  "packet_result lib fl now source peer write_ok req st =
     handleOne lib (listener_options fl now st) (sv_fleet st) now source peer write_ok req
       (case sv_offers st of None \<Rightarrow> [] | Some m \<Rightarrow> m) (sv_tracker st)"

definition after_packet :: "time \<Rightarrow> packet_effect \<Rightarrow> server_state \<Rightarrow> server_state" where
  "after_packet now eff st = st\<lparr>sv_tracker := pk_tracker eff, sv_offers := Some (pk_offers eff),
     sv_sightings := (case pk_sighting eff of None \<Rightarrow> sv_sightings st
       | Some (mac, label, vc) \<Rightarrow> map_option (Sightings_Note now mac label vc) (sv_sightings st))\<rparr>"

definition tftp_read :: "embedded \<Rightarrow> flags \<Rightarrow> time \<Rightarrow> string option \<Rightarrow> string \<Rightarrow> server_state \<Rightarrow> tftp_result \<times> server_state" where
  "tftp_read emb fl now transfer filename st =
     (let r = readHandler emb (map_option (\<lambda>g. g now st) (autoexecFn fl)) transfer filename
      in (r, case tr_note r of None \<Rightarrow> st | Some tag \<Rightarrow> note_served tag st))"

text \<open>What is observed of a step.\<close>

datatype event = Packet time Request "(Reply \<times> udp_addr) option" | Timer bool | Transfer string tftp_result
  | Call http_env request ResponseWriter | Hangup fleet_env | Disk

text \<open>A decoded JSON object has each key once.\<close>

definition http_env_ok :: "http_env \<Rightarrow> bool" where
  "http_env_ok env \<longleftrightarrow> (\<forall>raw b. he_machine env raw = Some b \<longrightarrow> keys_ok (mc_Params b))"

inductive system_step :: "flags \<Rightarrow> http_options \<Rightarrow> server_state \<Rightarrow> event \<Rightarrow> server_state \<Rightarrow> bool" for fl opt where
  packet: "eff = packet_result lib fl now source peer write_ok req st \<Longrightarrow>
     system_step fl opt st (Packet now req (pk_sent eff)) (after_packet now eff st)"
| timer: "sv_offers st = Some m \<Longrightarrow> fire_hint h m = (hint, m') \<Longrightarrow>
     system_step fl opt st (Timer hint) (st\<lparr>sv_offers := Some m'\<rparr>)"
| transfer: "tftp_read emb fl now err filename st = (r, st') \<Longrightarrow> system_step fl opt st (Transfer filename r) st'"
| call: "http_env_ok env \<Longrightarrow> serve env opt rq (st, new_writer) = (st', w) \<Longrightarrow> system_step fl opt st (Call env rq w) st'"
| hangup: "fl_Config fl \<noteq> [] \<Longrightarrow> system_step fl opt st (Hangup env) (watchSIGHUP env st)"
| disk: "system_step fl opt st Disk (st\<lparr>sv_fs := fs\<rparr>)"

inductive_cases system_stepE: "system_step fl opt st e st'"
inductive_simps packet_step: "system_step fl opt st (Packet now req sent) st'"

inductive system_run :: "flags \<Rightarrow> http_options \<Rightarrow> server_state \<Rightarrow> event list \<Rightarrow> server_state \<Rightarrow> bool" for fl opt st where
  nil: "system_run fl opt st [] st"
| snoc: "system_run fl opt st tr st' \<Longrightarrow> system_step fl opt st' e st'' \<Longrightarrow> system_run fl opt st (tr @ [e]) st''"

end
