(* ===== verification/System_Stores.thy ===== *)
theory System_Stores
  imports System
begin

text \<open>
  The invariant of the stores: every handler keeps it, whatever the request, and so does every other
  step the program takes.
\<close>

section \<open>The invariant\<close>

definition log_ok :: "Install_Log \<Rightarrow> bool" where
  "log_ok l \<longleftrightarrow> ilog.well_keyed l \<and> (\<forall>c. length (entry_bytes l c) \<le> MaxPerMAC)"

definition all_stores :: "(Fleet \<Rightarrow> bool) \<Rightarrow> (Tracker \<Rightarrow> bool) \<Rightarrow> (Pending \<Rightarrow> bool) \<Rightarrow> (Install_Log \<Rightarrow> bool)
    \<Rightarrow> (Sightings \<Rightarrow> bool) \<Rightarrow> server_state \<Rightarrow> bool" where
  "all_stores F T P L S st \<longleftrightarrow> pred_option F (sv_fleet st) \<and> pred_option T (sv_tracker st)
     \<and> pred_option P (sv_pending st) \<and> pred_option L (sv_log st) \<and> pred_option S (sv_sightings st)"

text \<open>
  Every store is keyed by canonical MACs, the fleet's parameters have distinct keys, the tracker's
  records are consistent, the pending queue has the configured TTL, no log is longer than its bound and
  there are at most 256 sightings.
\<close>

definition stores_ok :: "duration \<Rightarrow> server_state \<Rightarrow> bool" where
  "stores_ok ttl = all_stores fleet_ok tracker_ok (\<lambda>p. pq.well_keyed p \<and> ps_ttl p = ttl) log_ok sight.well_keyed"

lemmas stores_defs = stores_ok_def all_stores_def

lemma log_ok_Append: "log_ok l \<Longrightarrow> log_ok (Append mac b l)"
  by (simp add: log_ok_def ilog.well_keyed_put entry_bytes_step length_tail_of)

lemma log_ok_Retain: "log_ok l \<Longrightarrow> log_ok (snd (InstallLog_RetainOnly keep l))"
  by (simp add: log_ok_def ilog.well_keyed_retain entry_bytes_step)

lemma queue_ok: "pq.well_keyed p \<and> ps_ttl p = ttl \<Longrightarrow>
    pq.well_keyed (snd (queue now mac a p)) \<and> ps_ttl (snd (queue now mac a p)) = ttl"
  using pq.well_keyed_put [of p mac "(now, a)"] by (simp add: queue_entries)

lemma Cancel_ok: "pq.well_keyed p \<and> ps_ttl p = ttl \<Longrightarrow>
    pq.well_keyed (snd (Cancel mac p)) \<and> ps_ttl (snd (Cancel mac p)) = ttl"
  using Cancel_within [of mac p]
  by (auto simp: pq.well_keyed_def pending_ok_Cancel Cancel_entries(2) intro: mac.canonical_keys_mono)

lemma Retain_ok: "pq.well_keyed p \<and> ps_ttl p = ttl \<Longrightarrow>
    pq.well_keyed (snd (Pending_RetainOnly keep p)) \<and> ps_ttl (snd (Pending_RetainOnly keep p)) = ttl"
  using pq.well_keyed_retain by (simp add: Pending_RetainOnly_entries(2))

lemma Forget_ok: "sight.well_keyed s \<Longrightarrow> sight.well_keyed (snd (Forget mac s))"
proof (cases "CanonicalMAC mac")
  case (Inr c)
  assume s: "sight.well_keyed s"
  have "length (mdel c s) \<le> length s" by (simp add: AList.delete_eq)
  with s have "sightings_ok (mdel c s)"
    by (auto simp: sight.well_keyed_def sightings_ok_def mkeys_mdel)
  with s Inr show ?thesis
    by (auto simp: sight.well_keyed_def Forget_def mkeys_mdel intro: mac.canonical_keys_mono)
qed (simp add: Forget_def)

lemma Sightings_Note_ok: "sight.well_keyed s \<Longrightarrow> sight.well_keyed (Sightings_Note now mac label vc s)"
  using sight.well_keyed_put [of s mac "(now, label, vc)"] by (simp add: note_sighting_def)

lemmas store_ops = log_ok_Append log_ok_Retain queue_ok Cancel_ok Retain_ok Forget_ok Sightings_Note_ok tracker_ok_Note

section \<open>Fleet edits\<close>

lemma fleet_ok_mput: "fleet_ok f \<Longrightarrow> is_canonical c \<Longrightarrow> keys_ok (p_Params p) \<Longrightarrow>
    fleet_ok (f\<lparr>f_machines := mput c p (f_machines f)\<rparr>)"
  by (simp add: fleet_ok_def machines_ok_mput)

lemma fleet_ok_mdel: "fleet_ok f \<Longrightarrow> fleet_ok (f\<lparr>f_machines := mdel c (f_machines f)\<rparr>)"
  by (simp add: fleet_ok_def machines_ok_mdel)

lemma Create_ok:
  assumes "fleet_ok f" "keys_ok (p_Params (m_Profile m))"
  shows "fleet_ok (snd (snd (CreateAndSave env io m (fs, f))))"
proof (cases "CanonicalMAC (m_MAC m)")
  case (Inr c)
  let ?f1 = "f\<lparr>f_machines := mput c (m_Profile m) (f_machines f)\<rparr>"
  have f1: "fleet_ok ?f1" using fleet_ok_mput [OF assms(1) canonical_result [OF Inr] assms(2)] .
  then have "fleet_ok (?f1\<lparr>f_machines := mdel c (f_machines ?f1)\<rparr>)" by (rule fleet_ok_mdel)
  with f1 assms(1) Inr show ?thesis
    by (simp add: CreateAndSave_def Let_def split: sum.split prod.split option.split)
qed (use assms in \<open>simp add: CreateAndSave_def\<close>)

lemma Update_ok:
  assumes "fleet_ok f" "keys_ok (p_Params (m_Profile m))"
  shows "fleet_ok (snd (snd (UpdateAndSave env io m tag (fs, f))))"
proof (cases "CanonicalMAC (m_MAC m)")
  case (Inr c)
  let ?f1 = "f\<lparr>f_machines := mput c (m_Profile m) (f_machines f)\<rparr>"
  have c: "is_canonical c" using Inr by (rule canonical_result)
  have f1: "fleet_ok ?f1" using fleet_ok_mput [OF assms(1) c assms(2)] .
  have "fleet_ok (?f1\<lparr>f_machines := mput c q (f_machines ?f1)\<rparr>)" if "mget (f_machines f) c = Some q" for q
    using fleet_ok_mput [OF f1 c] machines_ok_params [OF _ that] assms(1) by (simp add: fleet_ok_def)
  with f1 assms(1) Inr show ?thesis
    by (simp add: UpdateAndSave_def Let_def split: sum.split prod.split option.split)
qed (use assms in \<open>simp add: UpdateAndSave_def\<close>)

lemma Delete_ok:
  assumes "fleet_ok f"
  shows "fleet_ok (snd (snd (DeleteAndSave env io mac tag (fs, f))))"
proof (cases "CanonicalMAC mac")
  case (Inr c)
  let ?f1 = "f\<lparr>f_machines := mdel c (f_machines f)\<rparr>"
  have f1: "fleet_ok ?f1" using assms by (rule fleet_ok_mdel)
  have "fleet_ok (?f1\<lparr>f_machines := mput c q (f_machines ?f1)\<rparr>)" if "mget (f_machines f) c = Some q" for q
    using fleet_ok_mput [OF f1 canonical_result [OF Inr]] machines_ok_params [OF _ that] assms by (simp add: fleet_ok_def)
  with f1 assms Inr show ?thesis
    by (simp add: DeleteAndSave_def Let_def split: sum.split prod.split option.split)
qed (use assms in \<open>simp add: DeleteAndSave_def\<close>)

section \<open>Handlers\<close>

lemma stores_ok_fleet [intro]: "stores_ok ttl st \<Longrightarrow> sv_fleet st = Some f \<Longrightarrow> fleet_ok f"
  by (simp add: stores_defs)

lemma stores_ok_note [simp]: "stores_ok ttl (note_served tag st) = stores_ok ttl st"
  "stores_ok ttl st \<Longrightarrow> stores_ok ttl (note_event env mac ev st)"
  by (simp add: stores_defs) (auto simp: stores_defs note_event_def store_ops split: option.split)

lemma stores_ok_updates:
  assumes "stores_ok ttl st"
  shows "stores_ok ttl (st\<lparr>sv_fs := fs\<rparr>)" "stores_ok ttl (st\<lparr>sv_offers := m\<rparr>)"
    "fleet_ok f \<Longrightarrow> stores_ok ttl (st\<lparr>sv_fleet := Some f\<rparr>)"
    "fleet_ok (snd r) \<Longrightarrow> stores_ok ttl (put_fleet st r)"
    "sv_pending st = Some p \<Longrightarrow> stores_ok ttl (st\<lparr>sv_pending := Some (snd (Cancel mac p))\<rparr>)"
    "sv_pending st = Some p \<Longrightarrow> stores_ok ttl (st\<lparr>sv_pending := Some (snd (queue now mac a p))\<rparr>)"
    "sv_pending st = Some p \<Longrightarrow> stores_ok ttl (st\<lparr>sv_pending := Some (snd (Pending_RetainOnly keep p))\<rparr>)"
    "sv_log st = Some l \<Longrightarrow> stores_ok ttl (st\<lparr>sv_log := Some (Append mac b l)\<rparr>)"
    "sv_sightings st = Some s \<Longrightarrow> stores_ok ttl (st\<lparr>sv_sightings := Some (snd (Forget mac s))\<rparr>)"
  using assms by (auto simp: stores_defs put_fleet_def store_ops dest: queue_ok)

lemma page_keeps:
  assumes "stores_ok ttl st" "public_effect st st'"
  shows "stores_ok ttl st'"
proof -
  obtain env mac where "sv_tracker st' = sv_tracker st
      \<or> sv_tracker st' = sv_tracker (note_event env mac EventUserDataFetched st)"
    using assms(2) by (auto simp: public_effect_def)
  moreover have "pred_option tracker_ok (sv_tracker (note_event env mac EventUserDataFetched st))"
    using stores_ok_note(2) [OF assms(1)] by (simp add: stores_defs)
  ultimately have "pred_option tracker_ok (sv_tracker st')" using assms(1) by (auto simp: stores_defs)
  with assms show ?thesis by (simp add: stores_defs public_effect_def)
qed

lemma event_keeps: "stores_ok ttl st \<Longrightarrow> stores_ok ttl (fst (handleInstallEvent env opt rq (st, w)))"
  by (auto simp: handleInstallEvent_def notePhase_eq Let_def intro: stores_ok_updates
      split: sum.split prod.split option.split)

lemma log_keeps: "stores_ok ttl st \<Longrightarrow> stores_ok ttl (fst (handleInstallLog env opt rq (st, w)))"
  by (auto simp: handleInstallLog_def intro: stores_ok_updates split: sum.split prod.split option.split)

lemma intent_keeps:
  assumes "stores_ok ttl st"
  shows "stores_ok ttl (fst (handleAPISetIntent env opt rq (st, w)))"
proof -
  have "apiReady st w = Inr (f, t, p) \<Longrightarrow> sv_pending st = Some p" for f t p
    by (auto simp: apiReady_def split: option.splits)
  note up = stores_ok_updates(5,6) [OF assms this]
  show ?thesis
    using up assms by (auto simp: handleAPISetIntent_def Install_def Rescue_def Let_def split: sum.split prod.split)
      (metis snd_conv)+
qed

lemma fleetReady_fleet: "fleetReady rq st w = Inr (f, t) \<Longrightarrow> sv_fleet st = Some f"
  by (auto simp: fleetReady_def split: option.splits)

lemma body_params:
  "http_env_ok env \<Longrightarrow> decodeMachineBody env rq w = Inr b \<Longrightarrow> profileFromBody f b w2 = Inr p \<Longrightarrow> keys_ok (p_Params p)"
  by (auto simp: http_env_ok_def decodeMachineBody_def profileFromBody_def split: prod.splits if_splits option.splits)

lemma create_keeps:
  assumes "stores_ok ttl st" "http_env_ok env"
  shows "stores_ok ttl (fst (handleAPICreateMachine env opt rq (st, w)))"
proof -
  have r: "fleet_ok (snd r)" if "fleetReady rq st w = Inr (f, t)" "decodeMachineBody env rq w = Inr b"
    "profileFromBody f b w = Inr p" "CreateAndSave e io \<lparr>m_MAC = c, m_Profile = p\<rparr> (fs, f) = (x, r)" for f t b p e io c fs x r
    using Create_ok [of f "\<lparr>m_MAC = c, m_Profile = p\<rparr>" e io fs] body_params [OF assms(2) that(2,3)]
      stores_ok_fleet [OF assms(1) fleetReady_fleet [OF that(1)]] that(4) by simp
  show ?thesis
    using assms(1) by (auto simp: handleAPICreateMachine_def Let_def intro!: stores_ok_updates(4) [OF assms(1)] dest: r
      split: sum.split prod.split)
qed

lemma update_keeps:
  assumes "stores_ok ttl st" "http_env_ok env"
  shows "stores_ok ttl (fst (handleAPIUpdateMachine env opt rq (st, w)))"
proof -
  have r: "fleet_ok (snd r)" if "fleetReady rq st w = Inr (f, t)" "decodeMachineBody env rq w = Inr b"
    "profileFromBody f b w = Inr p" "UpdateAndSave e io \<lparr>m_MAC = c, m_Profile = p\<rparr> tag (fs, f) = (x, r)"
    for f t b p e io c tag fs x r
    using Update_ok [of f "\<lparr>m_MAC = c, m_Profile = p\<rparr>" e io tag fs] body_params [OF assms(2) that(2,3)]
      stores_ok_fleet [OF assms(1) fleetReady_fleet [OF that(1)]] that(4) by simp
  show ?thesis
    using assms(1) by (auto simp: handleAPIUpdateMachine_def Let_def intro!: stores_ok_updates(4) [OF assms(1)] dest: r
      split: sum.split prod.split)
qed

lemma delete_keeps:
  assumes "stores_ok ttl st"
  shows "stores_ok ttl (fst (handleAPIDeleteMachine env opt rq (st, w)))"
proof -
  have r: "stores_ok ttl (put_fleet st r)" if "fleetReady rq st w = Inr (f, t)"
    "DeleteAndSave e io c tag (fs, f) = (x, r)" for f t e io c tag fs x r
    using Delete_ok [of f e io c tag fs] stores_ok_fleet [OF assms fleetReady_fleet [OF that(1)]] that(2)
      stores_ok_updates(4) [OF assms] by simp
  show ?thesis
    using assms by (auto simp: handleAPIDeleteMachine_def Let_def intro: stores_ok_updates(5) r
      split: sum.split prod.split option.split)
qed

lemma reload_keeps:
  assumes "stores_ok ttl st"
  shows "stores_ok ttl (fst (handleAdminReload env opt rq (st, w)))"
proof -
  have r: "stores_ok ttl (st\<lparr>sv_fleet := Some f'\<rparr>)" if "fleetReady rq st w = Inr (f, t)" "Reload e fs f = (x, f')" for f t e fs x f'
    using Reload_ok [of f e fs] stores_ok_fleet [OF assms fleetReady_fleet [OF that(1)]] that(2)
      stores_ok_updates(3) [OF assms] by simp
  show ?thesis
    using assms by (auto simp: handleAdminReload_def Let_def intro: stores_ok_updates(7) r
      split: sum.split prod.split option.split)
qed

lemma override_keeps:
  assumes "stores_ok ttl st"
  shows "stores_ok ttl (fst (handleAdminTemplateSave env opt rq (st, w)))"
    "stores_ok ttl (fst (handleAdminTemplateReset env opt rq (st, w)))"
    "stores_ok ttl (fst (handleAdminCloudInitSave env opt rq (st, w)))"
    "stores_ok ttl (fst (handleAdminCloudInitReset env opt rq (st, w)))"
    "stores_ok ttl (fst (handleAPIDismissDiscovered env opt rq (st, w)))"
  using assms by (auto simp: handleAdminTemplateSave_def handleAdminTemplateReset_def handleAdminCloudInitSave_def
      handleAdminCloudInitReset_def handleAPIDismissDiscovered_def Let_def intro: stores_ok_updates
      split: sum.split prod.split option.split)

lemma handler_keeps:
  assumes "stores_ok ttl st" "http_env_ok env"
  shows "stores_ok ttl (fst (handler_of e env opt rq (st, w)))"
proof (cases "public_page e")
  case True
  from page_keeps [OF assms(1) page_effect [OF this]] show ?thesis .
next
  case False
  with assms show ?thesis
    by (cases e) (simp_all add: event_keeps log_keeps intent_keeps create_keeps update_keeps delete_keeps reload_keeps
      override_keeps)
qed

interpretation stores: request_contract "\<lambda>env s. http_env_ok env \<and> stores_ok ttl (fst s)"
  "\<lambda>env opt s s'. stores_ok ttl (fst s')" for ttl
  by unfold_locales (simp_all add: handler_keeps split: prod.split, metis handler_keeps prod.collapse)

section \<open>Nothing is unwired\<close>

definition wired :: "server_state \<Rightarrow> bool" where
  "wired st \<longleftrightarrow> sv_fleet st \<noteq> None \<and> sv_tracker st \<noteq> None \<and> sv_pending st \<noteq> None \<and> sv_log st \<noteq> None
     \<and> sv_sightings st \<noteq> None \<and> sv_offers st \<noteq> None"

lemma wired_note [simp]: "wired (note_event env mac ev st) = wired st" "wired (note_served tag st) = wired st"
  by (auto simp: wired_def note_event_def note_served_def split: option.split)

lemma wired_put_fleet [simp]: "wired st \<Longrightarrow> wired (put_fleet st r)"
  by (simp add: wired_def put_fleet_def)

lemma wired_updates [simp]:
  assumes "wired st"
  shows "wired (st\<lparr>sv_pending := Some p\<rparr>)" "wired (st\<lparr>sv_fleet := Some f\<rparr>)" "wired (st\<lparr>sv_log := Some l\<rparr>)"
    "wired (st\<lparr>sv_sightings := Some s\<rparr>)" "wired (st\<lparr>sv_fs := fs\<rparr>)" "wired (st\<lparr>sv_offers := Some m\<rparr>)"
  using assms by (simp_all add: wired_def)

lemma page_wired: "wired st \<Longrightarrow> public_effect st st' \<Longrightarrow> wired st'"
  by (auto simp: wired_def public_effect_def note_event_def split: option.splits)

lemma handlers_wired:
  assumes "wired st"
  shows "wired (fst (handleInstallEvent env opt rq (st, w)))" "wired (fst (handleInstallLog env opt rq (st, w)))"
    "wired (fst (handleAPISetIntent env opt rq (st, w)))" "wired (fst (handleAPICreateMachine env opt rq (st, w)))"
    "wired (fst (handleAPIUpdateMachine env opt rq (st, w)))" "wired (fst (handleAPIDeleteMachine env opt rq (st, w)))"
    "wired (fst (handleAPIDismissDiscovered env opt rq (st, w)))" "wired (fst (handleAdminReload env opt rq (st, w)))"
    "wired (fst (handleAdminTemplateSave env opt rq (st, w)))" "wired (fst (handleAdminTemplateReset env opt rq (st, w)))"
    "wired (fst (handleAdminCloudInitSave env opt rq (st, w)))" "wired (fst (handleAdminCloudInitReset env opt rq (st, w)))"
  using assms
  by (auto simp: handleInstallEvent_def notePhase_eq handleInstallLog_def handleAPISetIntent_def handleAPICreateMachine_def
      handleAPIUpdateMachine_def handleAPIDeleteMachine_def handleAPIDismissDiscovered_def handleAdminReload_def
      handleAdminTemplateSave_def handleAdminTemplateReset_def handleAdminCloudInitSave_def handleAdminCloudInitReset_def
      Let_def split: sum.split prod.split option.split)

lemma handler_wired: "wired st \<Longrightarrow> wired (fst (handler_of e env opt rq (st, w)))"
proof (cases "public_page e")
  case True
  assume "wired st"
  from this page_effect [OF True] show ?thesis by (rule page_wired)
next
  case False
  assume "wired st"
  with False show ?thesis by (cases e) (simp_all add: handlers_wired)
qed

interpretation wiring: request_contract "\<lambda>env s. wired (fst s)" "\<lambda>env opt s s'. wired (fst s')"
  by unfold_locales (simp_all add: handler_wired split: prod.split, metis handler_wired prod.collapse)

section \<open>Steps\<close>

lemma pred_option_map: "pred_option P x \<Longrightarrow> (\<And>y. P y \<Longrightarrow> P (g y)) \<Longrightarrow> pred_option P (map_option g x)"
  by (cases x) simp_all

lemma handleOne_tracker:
  "pred_option tracker_ok t \<Longrightarrow> pred_option tracker_ok (pk_tracker (handleOne lib opts fl now source peer write_ok req offers t))"
  by (auto simp: handleOne_def Let_def tracker_ok_Note split: prod.split sum.split option.split)

lemma packet_keeps:
  assumes "stores_ok ttl st"
  shows "stores_ok ttl (after_packet now (packet_result lib fl now source peer write_ok req st) st)"
proof -
  have "pred_option tracker_ok (pk_tracker (packet_result lib fl now source peer write_ok req st))"
    using assms unfolding packet_result_def by (intro handleOne_tracker) (simp add: stores_defs)
  then show ?thesis
    using assms by (auto simp: after_packet_def stores_defs Sightings_Note_ok intro: pred_option_map split: option.split)
qed

lemma sighup_keeps:
  assumes "stores_ok ttl st"
  shows "stores_ok ttl (watchSIGHUP env st)"
proof (cases "sv_fleet st")
  case (Some f)
  obtain x f' where r: "Reload env (sv_fs st) f = (x, f')" by (metis prod.collapse)
  have "fleet_ok f'" using Reload_ok [of f env "sv_fs st"] stores_ok_fleet [OF assms Some] r by simp
  then show ?thesis
    using assms Some r
    by (auto simp: watchSIGHUP_def stores_defs Let_def sight.well_keyed_retain log_ok_Retain pq.well_keyed_retain
        Pending_RetainOnly_entries(2) intro!: pred_option_map split: option.split)
qed (simp add: watchSIGHUP_def assms)

lemma step_keeps:
  assumes "system_step fl opt st ev st'" "stores_ok ttl st"
  shows "stores_ok ttl st'"
  using assms(1)
proof cases
  case (call env rq w)
  with stores.served [where s = "(st, new_writer)" and env = env and opt = opt and rq = rq] assms(2) show ?thesis by simp
qed (use assms(2) in \<open>auto simp: packet_keeps sighup_keeps tftp_read_def Let_def split: option.splits
      intro: stores_ok_updates\<close>)

lemma step_wired:
  assumes "system_step fl opt st ev st'" "wired st"
  shows "wired st'"
  using assms(1)
proof cases
  case (packet eff lib now source peer write_ok req)
  then show ?thesis
    using assms(2) by (auto simp: wired_def after_packet_def packet_result_def handleOne_def Let_def
        split: prod.split sum.split option.split)
next
  case (call env rq w)
  with wiring.served [where s = "(st, new_writer)" and env = env and opt = opt and rq = rq] assms(2) show ?thesis by simp
next
  case (hangup env)
  then show ?thesis using assms(2) by (auto simp: wired_def watchSIGHUP_def Let_def split: option.split prod.split)
qed (use assms(2) in \<open>auto simp: tftp_read_def Let_def split: option.splits\<close>)

lemma run_wired: "system_run fl opt st tr st' \<Longrightarrow> wired st \<Longrightarrow> wired st'"
  by (induction rule: system_run.induct) (auto intro: step_wired)

lemma initial_wired: "wired (initial_state fl fs f)"
  by (simp add: wired_def initial_state_def)

lemma initial_ok: "fleet_ok f \<Longrightarrow> stores_ok (fl_PendingTTL fl) (initial_state fl fs f)"
  by (simp add: stores_defs initial_state_def pq.well_keyed_def sight.well_keyed_def log_ok_def ilog.well_keyed_def
      mac.canonical_keys_def Pending_New_def InstallLog_New_def sightings_ok_def pending_ok_def entry_bytes_def)

lemma run_keeps: "system_run fl opt st tr st' \<Longrightarrow> stores_ok ttl st \<Longrightarrow> stores_ok ttl st'"
  by (induction rule: system_run.induct) (auto intro: step_keeps)

lemma load_fleet_ok: "load_fleet env fs fl = Inr f \<Longrightarrow> fleet_ok f"
  by (auto simp: load_fleet_def dest: Load_ok split: if_splits)

section \<open>Properties\<close>

text \<open>In every state the program reaches, by packets, transfers, requests of anybody, reloads and edits of
  files in any order: no store is missing; the fleet, the pending queue, the logs and the sightings are keyed by distinct
  canonical MACs, no log holds more than 64 KiB, there are at most 256 sightings, the tracker's records
  are consistent, and the pending queue has the configured TTL.\<close>

theorem stores_ok_always:
  assumes "load_fleet env fs fl = Inr f" "system_run fl opt (initial_state fl fs f) tr st"
  shows "wired st \<and> stores_ok (fl_PendingTTL fl) st"
  using run_keeps [OF assms(2) initial_ok [OF load_fleet_ok [OF assms(1)]]] run_wired [OF assms(2) initial_wired]
  by (rule conjI [rotated])

text \<open>A run of the example server: the operator queues a boot of the machine.\<close>

definition example_flags :: flags where
  "example_flags = \<lparr>fl_Config = ''/srv/fleet.yaml'', fl_AdvertisedIP = [CHR 0x0A, CHR 0x00, CHR 0x00, CHR 0x05],
     fl_HTTPPort = 99, fl_ChainURL = [], fl_IPXEScript = [], fl_CrossCert = False, fl_HintAfter = 0, fl_DataDir = [],
     fl_LegacyRedirector = False, fl_ClientNetmask = [], fl_PendingTTL = 900 * second, fl_CallbackTTL = 3600 * second,
     fl_InsecureCallbacks = False, fl_TokenSecret = ''k''\<rparr>"

definition example_put :: "string \<Rightarrow> request" where
  "example_put action = example_call ''PUT'' ''/api/v1/machines/525400aabbcc/intent'' [] action ''127.0.0.1:99''"

definition example_start :: server_state where
  "example_start = initial_state example_flags example_fs example_fleet"

definition example_queued :: "string \<Rightarrow> server_state \<times> ResponseWriter" where
  "example_queued action = serve (example_http 3) example_options (example_put action) (example_start, new_writer)"

definition example_entry :: "string \<Rightarrow> server_state" where
  "example_entry action = example_start\<lparr>sv_pending :=
     Some \<lparr>ps_entries = [(example_mac, \<lparr>pe_action = action, pe_requestedAt = 3\<rparr>)], ps_ttl = 900 * second\<rparr>\<rparr>"

lemma example_queued_entry: "fst (example_queued ''install'') = example_entry ''install''"
proof -
  let ?r = "route ''PUT'' (api_machine [''intent'']) [Loopback] ESetIntent"
  let ?rq = "bind_path ?r (example_put ''install'')"
  have route: "find (route_matches (example_put ''install'')) (routes example_options) = Some ?r" by code_simp
  have facts: "is_loopback (rq_RemoteAddr ?rq)" "rq_PathValue ?rq ''mac'' = ''525400aabbcc''"
    "CanonicalMAC ''525400aabbcc'' = Inr example_mac" "p_Name (Lookup example_fleet example_mac) \<noteq> []"
    "intent_action (example_http 3) ?rq new_writer = Inr ''install''" "CanonicalMAC example_mac = Inr example_mac"
    "he_now (example_http 3) = 3" by code_simp+
  have "fst (handleAPISetIntent (example_http 3) example_options ?rq (example_start, new_writer)) = example_entry ''install''"
    unfolding handleAPISetIntent_def apiExtractFleetMAC_def facts Let_def
    using facts(4) by (simp add: apiReady_def example_start_def initial_state_def example_entry_def example_flags_def
      Pending_New_def Install_def queue_def ActionInstall_def facts Let_def split: prod.split)
  moreover have "rt_Guards ?r = [Loopback]" "rt_Endpoint ?r = ESetIntent" by (simp_all add: route_def)
  ultimately show ?thesis
    using facts(1) unfolding example_queued_def serve_def route option.case run_route_def by (simp add: loopbackOnly_def)
qed

lemma example_entry_stores:
  "sv_fleet (example_entry a) = Some example_fleet" "sv_fs (example_entry a) = example_fs"
  by (simp_all add: example_entry_def example_start_def initial_state_def)

lemma example_http_ok: "http_env_ok (example_http now)"
  by (simp add: http_env_ok_def example_http_def)

lemma example_loads: "load_fleet example_env example_fs example_flags = Inr example_fleet"
  by code_simp

lemma example_run:
  "system_run example_flags example_options (initial_state example_flags example_fs example_fleet)
     [Call (example_http 3) (example_put action) (snd (example_queued action))] (fst (example_queued action))"
  using system_run.snoc [OF system_run.nil system_step.call [OF example_http_ok prod.collapse [symmetric]]]
  by (simp add: example_queued_def example_start_def)

theorem stores_ok_always_witness:
  "stores_ok (900 * second) (fst (example_queued ''rescue''))"
proof -
  have "fl_PendingTTL example_flags = 900 * second" by (simp add: example_flags_def)
  with stores_ok_always [OF example_loads example_run [of "''rescue''"]] show ?thesis by (simp only:)
qed

end
