(* ===== verification/System_Safety.thy ===== *)
theory System_Safety
  imports System_Stores
begin

text \<open>
  The program as a whole: what holds of its stores in every state it reaches, where boot intents come
  from, and what it takes for a machine to be booted into an installer.
\<close>

section \<open>Where intents come from\<close>

definition no_new_intent :: "server_state \<Rightarrow> server_state \<Rightarrow> bool" where
  "no_new_intent st st' \<longleftrightarrow> (\<forall>c e. intent_of st' c = Some e \<longrightarrow> intent_of st c = Some e)"

lemma no_new_intent_same: "sv_pending st' = sv_pending st \<Longrightarrow> no_new_intent st st'"
  by (simp add: no_new_intent_def intent_of_def)

lemma no_new_intent_Cancel:
  "sv_pending st = Some p \<Longrightarrow> sv_pending st' = Some (snd (Cancel mac p)) \<Longrightarrow> no_new_intent st st'"
  by (auto simp: no_new_intent_def intent_of_def Cancel_entries mget_mdel split: option.splits)

lemma no_new_intent_Retain:
  "sv_pending st = Some p \<Longrightarrow> sv_pending st' = Some (snd (Pending_RetainOnly keep p)) \<Longrightarrow> no_new_intent st st'"
  by (auto simp: no_new_intent_def intent_of_def Pending_RetainOnly_entries mget_filter_key split: if_splits)

lemma no_new_intent_callback: "callback_effect mac st st' \<Longrightarrow> no_new_intent st st'"
  unfolding callback_effect_def no_new_intent_def by (metis empty_iff insert_iff option.distinct(1))

lemma delete_no_new_intent: "no_new_intent st (fst (handleAPIDeleteMachine env opt rq (st, w)))"
  by (auto simp: handleAPIDeleteMachine_def Let_def intro: no_new_intent_same no_new_intent_Cancel
      split: sum.split prod.split option.split)

lemma reload_no_new_intent: "no_new_intent st (fst (handleAdminReload env opt rq (st, w)))"
  by (auto simp: handleAdminReload_def Let_def intro: no_new_intent_same no_new_intent_Retain
      split: sum.split prod.split option.split)

lemma edits_keep_pending:
  "sv_pending (fst (handleAPICreateMachine env opt rq (st, w))) = sv_pending st"
  "sv_pending (fst (handleAPIUpdateMachine env opt rq (st, w))) = sv_pending st"
  "sv_pending (fst (handleAPIDismissDiscovered env opt rq (st, w))) = sv_pending st"
  "sv_pending (fst (handleAdminTemplateSave env opt rq (st, w))) = sv_pending st"
  "sv_pending (fst (handleAdminTemplateReset env opt rq (st, w))) = sv_pending st"
  "sv_pending (fst (handleAdminCloudInitSave env opt rq (st, w))) = sv_pending st"
  "sv_pending (fst (handleAdminCloudInitReset env opt rq (st, w))) = sv_pending st"
  by (auto simp: handleAPICreateMachine_def handleAPIUpdateMachine_def handleAPIDismissDiscovered_def
      handleAdminTemplateSave_def handleAdminTemplateReset_def handleAdminCloudInitSave_def
      handleAdminCloudInitReset_def Let_def split: sum.split prod.split option.split)

lemma callbacks_no_new_intent:
  "no_new_intent st (fst (handleInstallEvent env opt rq (st, w)))" "no_new_intent st (fst (handleInstallLog env opt rq (st, w)))"
  using install_event_effect [of env opt rq st w] install_log_effect [of env opt rq st w] no_new_intent_callback
    no_new_intent_same [of st st] by auto

lemma handler_no_new_intent:
  assumes "e \<noteq> ESetIntent"
  shows "no_new_intent st (fst (handler_of e env opt rq (st, w)))"
proof (cases "public_page e")
  case True
  from page_effect [OF this] show ?thesis by (intro no_new_intent_same) (simp add: public_effect_def)
next
  case False
  with assms show ?thesis
    by (cases e) (simp_all add: callbacks_no_new_intent delete_no_new_intent reload_no_new_intent
      edits_keep_pending no_new_intent_same)
qed

lemma set_intent_pending:
  "sv_pending (fst (handleAPISetIntent env opt rq (st, w))) = sv_pending st
   \<or> (\<exists>mac p. CanonicalMAC (rq_PathValue rq ''mac'') = Inr mac \<and> sv_pending st = Some p
        \<and> sv_pending (fst (handleAPISetIntent env opt rq (st, w)))
            \<in> Some ` {snd (queue (he_now env) mac ActionInstall p), snd (queue (he_now env) mac ActionRescue p), snd (Cancel mac p)})"
proof (cases "apiReady st w")
  case (Inr ftp)
  then obtain f t p where r: "apiReady st w = Inr (f, t, p)" "sv_pending st = Some p"
    by (auto simp: apiReady_def split: option.splits)
  show ?thesis
  proof (cases "apiExtractFleetMAC env rq f w")
    case (Inr mp)
    then obtain m q where m: "apiExtractFleetMAC env rq f w = Inr (m, q)" by (cases mp) auto
    then have c: "CanonicalMAC (rq_PathValue rq ''mac'') = Inr m"
      by (auto simp: apiExtractFleetMAC_def Let_def split: if_splits sum.splits)
    show ?thesis
      using c by (simp add: handleAPISetIntent_def r m Install_def Rescue_def Let_def split: sum.split prod.split)
  qed (simp add: handleAPISetIntent_def r)
qed (simp add: handleAPISetIntent_def)

lemma set_intent_new:
  assumes "intent_of (fst (handleAPISetIntent env opt rq (st, w))) c = Some e"
  shows "intent_of st c = Some e \<or> CanonicalMAC (rq_PathValue rq ''mac'') = Inr c \<and> pe_requestedAt e = he_now env
     \<and> pe_action e \<in> {ActionInstall, ActionRescue}"
  using set_intent_pending [of env opt rq st w]
proof (elim disjE exE conjE)
  assume "sv_pending (fst (handleAPISetIntent env opt rq (st, w))) = sv_pending st"
  with assms show ?thesis by (simp add: intent_of_def)
next
  fix mac p
  assume m: "CanonicalMAC (rq_PathValue rq ''mac'') = Inr mac" and p: "sv_pending st = Some p"
    and "sv_pending (fst (handleAPISetIntent env opt rq (st, w)))
      \<in> Some ` {snd (queue (he_now env) mac ActionInstall p), snd (queue (he_now env) mac ActionRescue p), snd (Cancel mac p)}"
  with assms CanonicalMAC_idem [OF m] show ?thesis
    by (auto simp: intent_of_def queue_entries Cancel_entries canon_of_def mget_mput mget_mdel split: if_splits)
qed

text \<open>A request from the machine itself that queues the intent \<open>e\<close> for the machine \<open>c\<close>.\<close>

definition queues_intent :: "http_env \<Rightarrow> request \<Rightarrow> string \<Rightarrow> pending_entry \<Rightarrow> bool" where
  "queues_intent env rq c e \<longleftrightarrow> is_loopback (rq_RemoteAddr rq) \<and> rq_Method rq = ''PUT''
     \<and> (\<exists>m. Split (TrimPrefix (rq_Path rq) ''/'') (CHR ''/'') = [''api'', ''v1'', ''machines'', m, ''intent'']
           \<and> CanonicalMAC m = Inr c)
     \<and> pe_requestedAt e = he_now env \<and> pe_action e \<in> {ActionInstall, ActionRescue}"

lemma intent_route:
  "list_all (\<lambda>r. rt_Endpoint r = ESetIntent \<longrightarrow> r = route ''PUT'' (api_machine [''intent'']) [Loopback] ESetIntent) (routes opt)"
proof -
  have p: "list_all (\<lambda>r. rt_Endpoint r \<noteq> ESetIntent) (public_routes opt)"
    using public_routes_classified [of opt] by (auto simp: list_all_iff token_route_def)
  have "list_all (\<lambda>r. rt_Endpoint r = ESetIntent \<longrightarrow> r = route ''PUT'' (api_machine [''intent'']) [Loopback] ESetIntent) local_routes"
    unfolding local_routes_def list.pred_inject by (simp add: route_def)
  with p show ?thesis by (auto simp: routes_def list_all_iff route_def)
qed

lemma guard_state:
  "guard_handler g h env opt rq (st, w) = h env opt rq (st, w) \<or> fst (guard_handler g h env opt rq (st, w)) = st"
  by (cases g) (auto simp: loopbackOnly_def csrfGuard_def requireCallbackToken_def Let_def split: option.split sum.split)

lemma guards_state:
  "foldr guard_handler gs h env opt rq (st, w) = h env opt rq (st, w)
   \<or> fst (foldr guard_handler gs h env opt rq (st, w)) = st"
proof (induction gs)
  case (Cons g gs)
  then show ?case using guard_state [of g "foldr guard_handler gs h" env opt rq st w] by auto
qed simp

lemma match_api_machine:
  "match_segs (api_machine [leaf]) segs = Some b \<longleftrightarrow>
     (\<exists>m. segs = [''api'', ''v1'', ''machines'', m, leaf] \<and> m \<noteq> [] \<and> b = [(''mac'', m)])"
  unfolding api_machine_def append_Cons append_Nil list.map match_Lit_Cons match_Var_Cons match_Nil by (rule iffI; elim exE conjE; simp)

lemma serve_new_intent:
  assumes "intent_of (fst (serve env opt rq (st, w))) c = Some e"
  shows "intent_of st c = Some e \<or> queues_intent env rq c e"
proof (cases "find (route_matches rq) (routes opt)")
  case None
  with assms show ?thesis by (simp add: serve_def)
next
  case (Some r)
  then have r: "r \<in> set (routes opt)" "route_matches rq r" by (auto simp: find_Some_iff)
  let ?h = "handler_of (rt_Endpoint r)" and ?rq = "bind_path r rq"
  have s: "serve env opt rq (st, w) = foldr guard_handler (rt_Guards r) ?h env opt ?rq (st, w)"
    by (simp add: serve_def Some run_route_def)
  show ?thesis
  proof (cases "fst (serve env opt rq (st, w)) = st")
    case True
    with assms show ?thesis by simp
  next
    case False
    then have h: "serve env opt rq (st, w) = ?h env opt ?rq (st, w)"
      using guards_state [of "rt_Guards r" ?h env opt ?rq st w] by (auto simp: s)
    show ?thesis
    proof (cases "rt_Endpoint r = ESetIntent")
      case False
      with handler_no_new_intent [of "rt_Endpoint r" st env opt ?rq w] assms show ?thesis
        by (auto simp: h no_new_intent_def)
    next
      case True
      then have rr: "r = route ''PUT'' (api_machine [''intent'']) [Loopback] ESetIntent"
        using intent_route [of opt] r(1) by (auto simp: list_all_iff)
      have loop: "is_loopback (rq_RemoteAddr rq)"
        using False by (rule contrapos_np) (simp add: s rr route_def loopbackOnly_def)
      have meth: "rq_Method rq = ''PUT''" using r(2) by (simp add: rr route_def route_matches_def method_ok_def)
      obtain b where b: "match_segs (api_machine [''intent'']) (Split (TrimPrefix (rq_Path rq) ''/'') (CHR ''/'')) = Some b"
        using r(2) by (auto simp: rr route_def route_matches_def)
      then obtain m where m: "Split (TrimPrefix (rq_Path rq) ''/'') (CHR ''/'') = [''api'', ''v1'', ''machines'', m, ''intent'']"
        "b = [(''mac'', m)]" by (auto simp: match_api_machine)
      have "rq_PathValue ?rq ''mac'' = m" using b by (simp add: bind_path_def rr route_def get_value_def m(2))
      moreover have "intent_of (fst (handleAPISetIntent env opt ?rq (st, w))) c = Some e" using assms True by (simp add: h)
      ultimately show ?thesis
        using set_intent_new [of env opt ?rq st w c e] loop meth m(1) by (auto simp: queues_intent_def)
    qed
  qed
qed

text \<open>Every intent in the store was queued by a request of the run, at the time it is stamped with.\<close>

lemma step_new_intent:
  assumes "system_step fl opt st ev st'" "intent_of st' c = Some e"
  shows "intent_of st c = Some e \<or> (\<exists>env rq w. ev = Call env rq w \<and> queues_intent env rq c e)"
  using assms(1)
proof cases
  case (packet eff lib now source peer write_ok req)
  with assms(2) show ?thesis by (simp add: after_packet_def intent_of_def)
next
  case (timer m h hint m')
  with assms(2) show ?thesis by (simp add: intent_of_def)
next
  case (transfer emb now err filename r)
  with assms(2) show ?thesis by (auto simp: tftp_read_def Let_def intent_of_def split: option.splits)
next
  case (call env rq w)
  with assms(2) serve_new_intent [of env opt rq st new_writer c e] show ?thesis by auto
next
  case (hangup env)
  with assms(2) show ?thesis
    by (auto simp: watchSIGHUP_def intent_of_def Let_def Pending_RetainOnly_entries mget_filter_key
        split: option.splits prod.splits if_splits)
next
  case (disk fs)
  with assms(2) show ?thesis by (simp add: intent_of_def)
qed

lemma run_intent_origin:
  assumes "system_run fl opt st tr st'" "intent_of st' c = Some e"
  shows "intent_of st c = Some e \<or> (\<exists>env rq w. Call env rq w \<in> set tr \<and> queues_intent env rq c e)"
  using assms
proof induction
  case (snoc tr st1 ev st2)
  from step_new_intent [OF snoc.hyps(2) snoc.prems] show ?case
  proof (elim disjE exE conjE)
    assume "intent_of st1 c = Some e"
    from snoc.IH [OF this] show ?thesis by auto
  next
    fix env rq w
    assume "ev = Call env rq w" "queues_intent env rq c e"
    then have "Call env rq w \<in> set (tr @ [ev]) \<and> queues_intent env rq c e" by simp
    then show ?thesis by blast
  qed
qed simp

section \<open>Answered firmware\<close>

lemma client_config:
  "cf_Fleet (dhcp_config fl now st) = sv_fleet st" "defaultUserClass (dhcp_config fl now st) = ''iPXE''"
  "cf_Pending (dhcp_config fl now st) = map_option (\<lambda>p mac. IsPending now mac p) (sv_pending st)"
  "cf_LastEvent (dhcp_config fl now st) = map_option LastEvent (sv_tracker st)"
  by (simp_all add: dhcp_config_def defaultUserClass_def)

lemma answered_offer:
  assumes "pk_sent (packet_result lib fl now source peer write_ok req st) \<noteq> None"
  shows "\<exists>r. fst (BuildOffer lib (Some req) (dhcp_config fl now st)) = Inr r"
  using assms by (auto simp: packet_result_def handleOne_def listener_options_def Let_def split: prod.splits sum.splits)

lemma live_intent_entry:
  assumes "IsPending now mac p"
  shows "\<exists>c e. CanonicalMAC mac = Inr c \<and> mget (ps_entries p) c = Some e \<and> (0 < ps_ttl p \<longrightarrow> now < pe_requestedAt e + ps_ttl p)"
  using assms by (auto simp: IsPending_def Pending_Status_def Let_def split: sum.splits option.splits if_splits)

text \<open>Firmware of a named machine is answered only while an intent of that machine is alive.\<close>

lemma answered_firmware_intent:
  assumes "wired st" "stores_ok ttl st"
    "pk_sent (packet_result lib fl now source peer write_ok req st) \<noteq> None" "''iPXE'' \<notin> set (rq_UserClass req)"
    "sv_fleet st = Some g" "p_Name (Lookup g (client_mac req)) \<noteq> []"
  shows "\<exists>c e. CanonicalMAC (client_mac req) = Inr c \<and> intent_of st c = Some e \<and> (0 < ttl \<longrightarrow> now < pe_requestedAt e + ttl)"
proof -
  let ?cfg = "dhcp_config fl now st"
  obtain p where p: "sv_pending st = Some p" using assms(1) by (auto simp: wired_def)
  have ttl: "ps_ttl p = ttl" using assms(2) p by (simp add: stores_defs)
  obtain r where r: "fst (BuildOffer lib (Some req) ?cfg) = Inr r" using answered_offer [OF assms(3)] by blast
  have "\<not> gated req ?cfg"
  proof (cases rule: BuildOffer_cases [of lib req ?cfg])
    case (refused e)
    then show ?thesis using r by simp
  next
    case (ipxe ip4 r0 d1)
    then show ?thesis using assms(4) by (simp add: ipxe_request_def client_config)
  next
    case (gate d2)
    then show ?thesis using r by simp
  next
    case (firmware ip4 r0 d1 r' d2)
    then show ?thesis by simp
  qed
  moreover have "machine_known req ?cfg"
    using assms(5,6) by (simp add: machine_known_def client_config client_mac_def)
  ultimately have "IsPending now (client_mac req) p"
    by (simp add: gated_def has_pending_def client_config p)
  from live_intent_entry [OF this] show ?thesis by (auto simp: intent_of_def p ttl)
qed

section \<open>Properties\<close>

text \<open>C1: No machine is booted into an installer unasked.  Whenever the program, after any run, answers the
  firmware of a machine that is in the fleet by name, a request from the machine the program runs on had
  put an install or rescue intent for that very MAC, and less than the TTL ago if there is one.\<close>

theorem no_unprompted_boot:
  assumes "load_fleet env fs fl = Inr f" "system_run fl opt (initial_state fl fs f) tr st"
    "system_step fl opt st (Packet now req (Some sent)) st'" "''iPXE'' \<notin> set (rq_UserClass req)"
    "sv_fleet st = Some g" "p_Name (Lookup g (client_mac req)) \<noteq> []"
  shows "\<exists>c e env rq w. CanonicalMAC (client_mac req) = Inr c \<and> Call env rq w \<in> set tr \<and> queues_intent env rq c e
     \<and> (0 < fl_PendingTTL fl \<longrightarrow> now < he_now env + fl_PendingTTL fl)"
proof -
  have ok: "wired st" "stores_ok (fl_PendingTTL fl) st"
    using run_wired [OF assms(2) initial_wired] run_keeps [OF assms(2) initial_ok [OF load_fleet_ok [OF assms(1)]]] .
  obtain lib source peer write_ok where "pk_sent (packet_result lib fl now source peer write_ok req st) \<noteq> None"
    using assms(3) unfolding packet_step by (metis option.distinct(1))
  from answered_firmware_intent [OF ok this assms(4-6)] obtain c e where
    ce: "CanonicalMAC (client_mac req) = Inr c" "intent_of st c = Some e"
      "0 < fl_PendingTTL fl \<longrightarrow> now < pe_requestedAt e + fl_PendingTTL fl" by blast
  have "intent_of (initial_state fl fs f) c = None"
    by (simp add: intent_of_def initial_state_def Pending_New_def)
  with run_intent_origin [OF assms(2) ce(2)] obtain env rq w where
    "Call env rq w \<in> set tr" "queues_intent env rq c e" by auto
  moreover from this(2) have "pe_requestedAt e = he_now env" by (simp add: queues_intent_def)
  ultimately show ?thesis using ce by metis
qed

text \<open>The operator queues an install; two ticks later the firmware of the machine asks.\<close>

definition example_packet :: "server_state \<Rightarrow> packet_effect" where
  "example_packet st = packet_result example_lib example_flags 5 ''udp/67'' (Some ([], 68)) True example_request st"

theorem no_unprompted_boot_witness:
  "(\<exists>sent. pk_sent (example_packet (fst (example_queued ''install''))) = Some sent)
   \<and> (\<exists>e. queues_intent (example_http 3) (example_put ''install'') example_mac e)"
proof -
  let ?st = "fst (example_queued ''install'')"
  have "pk_sent (example_packet ?st) \<noteq> None" unfolding example_queued_entry by code_simp
  then obtain sent where sent: "pk_sent (example_packet ?st) = Some sent" by blast
  then have step: "system_step example_flags example_options ?st (Packet 5 example_request (Some sent))
      (after_packet 5 (example_packet ?st) ?st)"
    using system_step.packet [OF example_packet_def] by metis
  have fw: "''iPXE'' \<notin> set (rq_UserClass example_request)" by code_simp
  have fl: "sv_fleet ?st = Some example_fleet" unfolding example_queued_entry by (rule example_entry_stores)
  have nm: "p_Name (Lookup example_fleet (client_mac example_request)) \<noteq> []" by code_simp
  have m: "CanonicalMAC (client_mac example_request) = Inr example_mac" by code_simp
  have "\<exists>e. queues_intent (example_http 3) (example_put ''install'') example_mac e"
    using no_unprompted_boot [OF example_loads example_run step fw fl nm] by (auto simp: m)
  with sent show ?thesis by metis
qed

end
