(* ===== verification/System_Loop.thy ===== *)
theory System_Loop
  imports System_Safety
begin

text \<open>
  What the program promises over several steps and over its several servers: a finished installation is
  not started again, a reload reaches every store, and TFTP and HTTP hand out one script.
\<close>

section \<open>After the installation\<close>

lemma done_step:
  assumes "system_step fl opt st (Call env rq w) st'" "wired st" "is_canonical c" "o_IPXEScriptPath opt = ''/boot.ipxe''"
    "reports_done env opt rq c"
  shows "st' = notePhase env c EventInstallerDone st"
  using assms(1)
proof cases
  case call
  have "sv_fleet st \<noteq> None" "sv_tracker st \<noteq> None" "fresh new_writer"
    using assms(2) by (simp_all add: wired_def fresh_def new_writer_def)
  from serve_reports_done(1) [OF assms(3-5) this] call show ?thesis by simp
qed

lemma notePhase_fleet: "sv_fleet (notePhase env c ev st) = sv_fleet st"
  by (simp add: notePhase_eq split: option.split)

text \<open>No firmware of a machine is answered when a run began without an intent for it and brought none.\<close>

lemma no_answer_without_intent:
  assumes "system_run fl opt st tr st'" "intent_of st c = None"
    "\<forall>env rq w e. Call env rq w \<in> set tr \<longrightarrow> \<not> queues_intent env rq c e"
    "wired st" "stores_ok ttl st" "system_step fl opt st' (Packet now req sent) st''"
    "''iPXE'' \<notin> set (rq_UserClass req)" "CanonicalMAC (client_mac req) = Inr c"
    "sv_fleet st' = Some g" "p_Name (Lookup g (client_mac req)) \<noteq> []"
  shows "sent = None"
proof (rule ccontr)
  assume "sent \<noteq> None"
  then obtain lib source peer write_ok where "pk_sent (packet_result lib fl now source peer write_ok req st') \<noteq> None"
    using assms(6) unfolding packet_step by (elim exE conjE) auto
  from answered_firmware_intent [OF run_wired [OF assms(1,4)] run_keeps [OF assms(1,5)] this assms(7,9,10)]
  obtain e where e: "intent_of st' c = Some e" using assms(8) by auto
  from run_intent_origin [OF assms(1) e] assms(2,3) show False by auto
qed

section \<open>A reload\<close>

definition sighting_of_mac :: "server_state \<Rightarrow> string \<Rightarrow> sighting_entry option" where
  "sighting_of_mac st c = (case sv_sightings st of None \<Rightarrow> None | Some s \<Rightarrow> mget s c)"

lemma sighup_stores:
  assumes "sv_fleet st = Some f" "Reload env (sv_fs st) f = (None, f')"
  shows "intent_of (watchSIGHUP env st) c = (if c \<in> mkeys (Machines f') then intent_of st c else None)"
    "log_of (watchSIGHUP env st) c = (if c \<in> mkeys (Machines f') then log_of st c else None)"
    "sighting_of_mac (watchSIGHUP env st) c = (if c \<in> mkeys (Machines f') then None else sighting_of_mac st c)"
    "sv_fleet (watchSIGHUP env st) = Some f'" "sv_tracker (watchSIGHUP env st) = sv_tracker st"
  by (auto simp: watchSIGHUP_def assms intent_of_def log_of_def sighting_of_mac_def Let_def
      Pending_RetainOnly_entries InstallLog_RetainOnly_entries Sightings_RetainOnly_entries mget_filter_key
      split: option.split)

lemma sighup_failed:
  assumes "sv_fleet st = Some f" "Reload env (sv_fs st) f = (Some e, f')"
  shows "watchSIGHUP env st = st"
proof -
  have "f' = f" using Reload_error [of env "sv_fs st" f e] assms(2) by simp
  then show ?thesis by (simp add: watchSIGHUP_def assms)
qed

section \<open>Properties\<close>


definition example_done :: request where
  "example_done = (example_call ''POST'' (done_path example_mac)
     [(''t'', Mint (he_hmac (example_http 0)) example_signer 0 example_mac)] [] ''10.0.0.9:77'')\<lparr>rq_Header := (\<lambda>_. [])\<rparr>"

lemma example_reports: "reports_done (example_http 4) example_options example_done example_mac"
proof -
  have h: "he_hmac (example_http 0) = he_hmac (example_http 4)" by (simp add: example_http_def)
  have "Verify (he_hmac (example_http 4)) example_signer (he_now (example_http 4)) example_mac
      (Mint (he_hmac (example_http 0)) example_signer 0 example_mac) = None"
    unfolding h by (subst Verify_Mint [where hmac = "he_hmac (example_http 4)"])
      (simp_all add: example_http_def example_signer_def Unix_def)
  moreover have "media_type (example_done\<lparr>rq_Query := []\<rparr>) \<noteq> ''application/json''" by code_simp
  then have "media_type example_done \<noteq> ''application/json''" by (simp add: media_type_def)
  ultimately show ?thesis
    by (simp add: reports_done_def token_accepted_def Mint_not_Nil)
      (simp add: example_done_def example_call_def get_value_def example_options_def Mint_not_Nil)
qed

definition example_installed :: server_state where
  "example_installed = fst (serve (example_http 4) example_options example_done (fst (example_queued ''install''), new_writer))"


text \<open>C21: A reload on SIGHUP is all or nothing and reaches every store: when the file cannot be loaded nothing
  changes, and else the intents and logs kept are those of the machines of the new fleet, the sightings
  kept are those of the others, and no status is lost.\<close>

theorem sighup_prunes_every_store:
  assumes "sv_fleet st = Some f" "Reload env (sv_fs st) f = (r, f')"
  shows "if r = None
    then sv_fleet (watchSIGHUP env st) = Some f' \<and> (\<forall>c. phase_of (watchSIGHUP env st) c = phase_of st c
      \<and> intent_of (watchSIGHUP env st) c = (if c \<in> mkeys (Machines f') then intent_of st c else None)
      \<and> log_of (watchSIGHUP env st) c = (if c \<in> mkeys (Machines f') then log_of st c else None)
      \<and> sighting_of_mac (watchSIGHUP env st) c = (if c \<in> mkeys (Machines f') then None else sighting_of_mac st c))
    else watchSIGHUP env st = st"
  using sighup_stores [OF assms(1)] sighup_failed [OF assms(1)] assms(2)
  by (cases r) (simp_all add: phase_of_def)

theorem sighup_prunes_every_store_witness:
  "intent_of (watchSIGHUP example_env (fst (example_queued ''install''))) example_mac
     = intent_of (fst (example_queued ''install'')) example_mac"
proof -
  let ?st = "fst (example_queued ''install'')"
  have st: "sv_fleet ?st = Some example_fleet" "sv_fs ?st = example_fs"
    unfolding example_queued_entry by (rule example_entry_stores)+
  have r: "Reload example_env (sv_fs ?st) example_fleet = (None, example_fleet)" unfolding st(2) by code_simp
  have "example_mac \<in> mkeys (Machines example_fleet)" by code_simp
  with sighup_prunes_every_store [OF st(1) r] show ?thesis by simp
qed

text \<open>The admin page's reload does what SIGHUP does to the fleet and the queue, and leaves the logs of
  removed machines and the sightings of enrolled ones in place.\<close>

theorem admin_reload_versus_sighup:
  assumes "wired st"
  shows "fst (handleAdminReload env opt rq (st, w))
    = (watchSIGHUP (he_fleet env) st)\<lparr>sv_log := sv_log st, sv_sightings := sv_sightings st\<rparr>"
proof -
  obtain f t p where f: "sv_fleet st = Some f" "sv_tracker st = Some t" "sv_pending st = Some p"
    using assms by (auto simp: wired_def)
  obtain r f' where "Reload (he_fleet env) (sv_fs st) f = (r, f')" by (metis prod.collapse)
  then show ?thesis
    using f by (cases r) (simp_all add: handleAdminReload_def watchSIGHUP_def fleetReady_def Let_def)
qed

theorem admin_reload_versus_sighup_witness:
  "sv_pending (fst (handleAdminReload (example_http 6) example_options example_done (example_start, new_writer)))
     = sv_pending (watchSIGHUP (he_fleet (example_http 6)) example_start)"
proof -
  have "wired example_start" unfolding example_start_def by (rule initial_wired)
  from admin_reload_versus_sighup [OF this] show ?thesis by simp
qed

text \<open>C20: One script everywhere: as \<^verbatim>\<open>main\<close> wires the servers, the bytes TFTP sends for
  \<^verbatim>\<open>autoexec.ipxe\<close>, the body of the HTTP script and the body of the debug page that shows the TFTP bytes are
  the same at the same moment, and without a fleet file TFTP and the debug page have none.\<close>

theorem same_script_everywhere:
  assumes "main_options parses fs emb csrf t0 fl = Inr opt" "rq_Method rq \<noteq> ''HEAD''" "fresh w"
    "tftp_leaf filename = ''autoexec.ipxe''" "\<not> is_probe filename"
  shows "case autoexecFn fl of
      None \<Rightarrow> tr_bytes (fst (tftp_read emb2 fl (he_now env) err filename st)) = None
        \<and> reply_status (snd (handleDebugAutoexec env opt rq (st, w))) = 404
    | Some g \<Rightarrow> tr_bytes (fst (tftp_read emb2 fl (he_now env) err filename st)) = Some (g (he_now env) st)
        \<and> reply_body (snd (handleScript env opt rq (st, w))) = Some (Bytes (g (he_now env) st))
        \<and> reply_body (snd (handleDebugAutoexec env opt rq (st, w))) = Some (Bytes (g (he_now env) st))"
proof -
  have o: "o_TFTPAutoexec opt = autoexecFn fl" "o_IPXEDispatch opt = autoexecFn fl"
    using assms(1) by (auto simp: main_options_def httpd_New_def Let_def split: if_splits sum.splits)
  show ?thesis
    using assms(2-5) by (cases "autoexecFn fl")
      (simp_all add: o tftp_read_def Let_def readHandler_def tftp_transfer_def handleDebugAutoexec_def handleScript_def
        reply_body_def reply_status_def serve_bytes_def Write_def WriteHeader_def set_header_def fresh_def http_Error_def
        split: option.split)
qed

theorem same_script_everywhere_witness:
  "\<exists>opt. main_options (\<lambda>_. True) example_fs (\<lambda>_. Some ''#!ipxe'') ''csrf'' 0 example_flags = Inr opt
     \<and> tr_bytes (fst (tftp_read (\<lambda>_. None) example_flags 7 None ''52:54:00:aa:bb:cc/autoexec.ipxe'' example_start))
       = Some (RenderDispatch (sv_fleet example_start) (dispatch_context example_flags 7 example_start))
     \<and> reply_body (snd (handleScript (example_http 7) opt example_done (example_start, new_writer)))
       = Some (Bytes (RenderDispatch (sv_fleet example_start) (dispatch_context example_flags 7 example_start)))"
proof -
  have "fl_IPXEScript example_flags = []" by (simp add: example_flags_def)
  then obtain opt where opt: "main_options (\<lambda>_. True) example_fs (\<lambda>_. Some ''#!ipxe'') ''csrf'' 0 example_flags = Inr opt"
    by (simp add: main_options_def httpd_New_def loadTemplate_def ReadScript_def read_embedded_def Let_def)
  have meth: "rq_Method example_done \<noteq> ''HEAD''" by (simp add: example_done_def example_call_def)
  have w: "fresh new_writer" by (simp add: fresh_def new_writer_def)
  have leaf: "tftp_leaf ''52:54:00:aa:bb:cc/autoexec.ipxe'' = ''autoexec.ipxe''"
    "\<not> is_probe ''52:54:00:aa:bb:cc/autoexec.ipxe''" by code_simp+
  have now: "he_now (example_http 7) = 7" by (simp add: example_http_def)
  have fn: "autoexecFn example_flags = Some (\<lambda>now st. RenderDispatch (sv_fleet st) (dispatch_context example_flags now st))"
    by (simp add: autoexecFn_def example_flags_def)
  show ?thesis
    using same_script_everywhere [OF opt meth w leaf, where env = "example_http 7" and st = example_start and err = None
      and ?emb2.0 = "\<lambda>_. None"] opt by (simp add: now fn)
qed

end
