(* ===== verification/Machine_Life.thy ===== *)
theory Machine_Life
  imports System_Loop
begin

text \<open>
  The life of one machine, as an operator thinks of it: an intent, the phase of its installation and its
  installer log.  The program, whose stores hold all machines at once behind maps, pointers and
  spellings of MACs, is shown to refine it, machine by machine and step by step.
\<close>

section \<open>The abstract machine\<close>

record life =
  lf_intent :: "pending_entry option"
  lf_phase :: Event
  lf_log :: "string option"

definition newborn :: life where
  "newborn = \<lparr>lf_intent = None, lf_phase = [], lf_log = None\<rparr>"

definition life_of :: "server_state \<Rightarrow> string \<Rightarrow> life" where
  "life_of st c = \<lparr>lf_intent = intent_of st c, lf_phase = phase_of st c, lf_log = log_of st c\<rparr>"

text \<open>Who may report on an installation: the host itself, or whoever holds a token for this machine.\<close>

definition may_report :: "http_env \<Rightarrow> http_options \<Rightarrow> request \<Rightarrow> string \<Rightarrow> bool" where
  "may_report env opt rq c \<longleftrightarrow> is_loopback (rq_RemoteAddr rq)
     \<or> callback_request rq c \<and> token_accepted env opt c (get_value (rq_Query rq) ''t'')"

definition asked_stage :: "Request \<Rightarrow> Event" where
  "asked_stage req = (if ''iPXE'' \<in> set (rq_UserClass req) then EventIPXEDHCP else EventFirmwareDHCP)"

definition live_install :: "duration \<Rightarrow> time \<Rightarrow> life \<Rightarrow> bool" where
  "live_install ttl now m = (case lf_intent m of None \<Rightarrow> False
     | Some e \<Rightarrow> pe_action e = ActionInstall \<and> (0 < ttl \<longrightarrow> now < pe_requestedAt e + ttl))"

definition seen :: "Event \<Rightarrow> life \<Rightarrow> life" where
  "seen ev m = m\<lparr>lf_phase := advance (lf_phase m) ev\<rparr>"

definition reported :: "duration \<Rightarrow> time \<Rightarrow> Event \<Rightarrow> life \<Rightarrow> life" where
  "reported ttl now ev m =
     seen ev (if ev = EventInstallerDone \<and> live_install ttl now m then m\<lparr>lf_intent := None\<rparr> else m)"

definition posted :: "string \<Rightarrow> life \<Rightarrow> life" where
  "posted b m = m\<lparr>lf_log := Some (tail_of MaxPerMAC ((case lf_log m of None \<Rightarrow> [] | Some l \<Rightarrow> l) @ b))\<rparr>"

text \<open>The events that leave a machine no choice: an answered packet of it, and its report that it is done.\<close>

fun concerns :: "http_options \<Rightarrow> string \<Rightarrow> event \<Rightarrow> bool" where
  "concerns opt c (Packet now req (Some s)) = (CanonicalMAC (client_mac req) = Inr c)"
| "concerns opt c (Call env rq w) = reports_done env opt rq c"
| "concerns opt c ev = False"

inductive life_step :: "duration \<Rightarrow> http_options \<Rightarrow> string \<Rightarrow> life \<Rightarrow> event \<Rightarrow> life \<Rightarrow> bool" for ttl opt c m where
  idle: "\<not> concerns opt c ev \<Longrightarrow> life_step ttl opt c m ev m"
| asked: "CanonicalMAC (client_mac req) = Inr c \<Longrightarrow>
     life_step ttl opt c m (Packet now req (Some s)) (seen (asked_stage req) m)"
| fetched: "\<not> reports_done env opt rq c \<Longrightarrow>
     life_step ttl opt c m (Call env rq w) (seen EventUserDataFetched m)"
| reports: "may_report env opt rq c \<Longrightarrow> ev \<in> {EventInstallerDone, EventInstallerFailed} \<Longrightarrow>
     reports_done env opt rq c \<longrightarrow> ev = EventInstallerDone \<Longrightarrow>
     life_step ttl opt c m (Call env rq w) (reported ttl (he_now env) ev m)"
| logs: "may_report env opt rq c \<Longrightarrow> \<not> reports_done env opt rq c \<Longrightarrow>
     life_step ttl opt c m (Call env rq w) (posted (fst (read_limited MaxPerMAC rq)) m)"
| queues: "queues_intent env rq c e \<Longrightarrow> life_step ttl opt c m (Call env rq w) (m\<lparr>lf_intent := Some e\<rparr>)"
| cancels: "is_loopback (rq_RemoteAddr rq) \<Longrightarrow> \<not> reports_done env opt rq c \<Longrightarrow>
     life_step ttl opt c m (Call env rq w) (m\<lparr>lf_intent := None\<rparr>)"
| removed: "life_step ttl opt c m (Hangup env) (m\<lparr>lf_intent := None, lf_log := None\<rparr>)"

inductive_cases life_callE: "life_step ttl opt c m (Call env rq w) m'"

inductive life_run :: "duration \<Rightarrow> http_options \<Rightarrow> string \<Rightarrow> event list \<Rightarrow> life \<Rightarrow> bool" for ttl opt c where
  born: "life_run ttl opt c [] newborn"
| lives: "life_run ttl opt c tr m \<Longrightarrow> life_step ttl opt c m ev m' \<Longrightarrow> life_run ttl opt c (tr @ [ev]) m'"

section \<open>What each operation does to one machine\<close>

lemma life_eq_iff: "life_of st' c = life_of st c \<longleftrightarrow>
    intent_of st' c = intent_of st c \<and> phase_of st' c = phase_of st c \<and> log_of st' c = log_of st c"
  by (simp add: life_of_def)

lemma life_of_same:
  "sv_pending st' = sv_pending st \<Longrightarrow> sv_tracker st' = sv_tracker st \<Longrightarrow> sv_log st' = sv_log st \<Longrightarrow> life_of st' c = life_of st c"
  by (simp add: life_of_def intent_of_def phase_of_def log_of_def)

lemma life_of_updates [simp]:
  "life_of (st\<lparr>sv_fs := fs\<rparr>) c = life_of st c" "life_of (st\<lparr>sv_offers := m\<rparr>) c = life_of st c"
  "life_of (st\<lparr>sv_fleet := f\<rparr>) c = life_of st c" "life_of (st\<lparr>sv_sightings := s\<rparr>) c = life_of st c"
  by (rule life_of_same; simp)+

lemma Tracker_Note_phase:
  assumes "sv_tracker st = Some t" "sv_tracker st' = Some (Tracker_Note fl now mac ev t)" "is_canonical c"
  shows "phase_of st' c = (if CanonicalMAC mac = Inr c then advance (phase_of st c) ev else phase_of st c)"
proof (cases "CanonicalMAC mac")
  case (Inr d)
  then show ?thesis using assms canonical_fixed [OF assms(3)] by (auto simp: phase_of_def advance_def LastEvent_Note [OF Inr])
qed (use assms in \<open>simp add: phase_of_def Tracker_Note_def\<close>)

lemma life_note_event:
  assumes "is_canonical c" "sv_tracker st \<noteq> None"
  shows "life_of (note_event env mac ev st) c = (if CanonicalMAC mac = Inr c then seen ev (life_of st c) else life_of st c)"
proof -
  obtain t where t: "sv_tracker st = Some t" using assms(2) by blast
  have "sv_tracker (note_event env mac ev st) = Some (Tracker_Note (sv_fleet st) (he_now env) mac ev t)"
    by (simp add: note_event_def t)
  from Tracker_Note_phase [OF t this assms(1)] show ?thesis
    by (simp add: life_of_def seen_def intent_of_def log_of_def)
qed

lemma live_install_life:
  assumes "is_canonical c" "sv_pending st = Some p" "ps_ttl p = ttl"
  shows "live_install ttl now (life_of st c) \<longleftrightarrow> (\<exists>at exp. Pending_Status now c p = Some (ActionInstall, at, exp))"
  using assms canonical_fixed [OF assms(1)]
  by (auto simp: live_install_def life_of_def intent_of_def Pending_Status_def Let_def split: option.split)

lemma life_notePhase:
  assumes "is_canonical c" "wired st" "stores_ok ttl st" "CanonicalMAC mac = Inr mac"
  shows "life_of (notePhase env mac ev st) c = (if mac = c then reported ttl (he_now env) ev (life_of st c) else life_of st c)"
proof -
  obtain p where p: "sv_pending st = Some p" using assms(2) by (auto simp: wired_def)
  have ttl: "ps_ttl p = ttl" using assms(3) p by (simp add: stores_defs)
  have t: "sv_tracker st \<noteq> None" using assms(2) by (simp add: wired_def)
  note ne = life_note_event [OF assms(1) t, of env mac ev]
  have can: "life_of (st1\<lparr>sv_pending := Some (snd (Cancel mac p))\<rparr>) c
      = (if mac = c then (life_of st1 c)\<lparr>lf_intent := None\<rparr> else life_of st1 c)" if "sv_pending st1 = Some p" for st1
    using that assms(4) by (simp add: life_of_def intent_of_def phase_of_def log_of_def Cancel_entries canon_of_def mget_mdel)
  show ?thesis
    using ne can [of "note_event env mac ev st"] live_install_life [OF assms(1) p ttl, of "he_now env"] assms(4)
    by (auto simp: notePhase_eq p reported_def seen_def)
qed

lemma life_public:
  assumes "public_effect st st'" "is_canonical c" "sv_tracker st \<noteq> None"
  shows "life_of st' c \<in> {life_of st c, seen EventUserDataFetched (life_of st c)}"
proof -
  from assms(1) obtain env mac where st': "sv_pending st' = sv_pending st" "sv_log st' = sv_log st"
    "sv_tracker st' = sv_tracker st \<or> sv_tracker st' = sv_tracker (note_event env mac EventUserDataFetched st)"
    by (auto simp: public_effect_def)
  from st'(3) show ?thesis
  proof
    assume "sv_tracker st' = sv_tracker st"
    then have "life_of st' c = life_of st c" using st' by (intro life_of_same)
    then show ?thesis by simp
  next
    assume "sv_tracker st' = sv_tracker (note_event env mac EventUserDataFetched st)"
    then have "life_of st' c = life_of (note_event env mac EventUserDataFetched st) c"
      using st' by (intro life_of_same) simp_all
    then show ?thesis using life_note_event [OF assms(2,3), of env mac EventUserDataFetched] by auto
  qed
qed

section \<open>Requests\<close>

lemma life_install_event:
  assumes "is_canonical c" "wired st" "stores_ok ttl st"
  shows "life_of (fst (handleInstallEvent env opt rq (st, w))) c = life_of st c
    \<or> CanonicalMAC (rq_PathValue rq ''mac'') = Inr c \<and> (\<exists>ev \<in> {EventInstallerDone, EventInstallerFailed}.
        life_of (fst (handleInstallEvent env opt rq (st, w))) c = reported ttl (he_now env) ev (life_of st c))"
proof -
  have "fst (handleInstallEvent env opt rq (st, w)) = st \<or> (\<exists>mac ev. CanonicalMAC (rq_PathValue rq ''mac'') = Inr mac
      \<and> ev \<in> {EventInstallerDone, EventInstallerFailed} \<and> fst (handleInstallEvent env opt rq (st, w)) = notePhase env mac ev st)"
    by (auto simp: handleInstallEvent_def extractMAC_def phase_event_def Let_def split: sum.splits option.splits if_splits)
  then show ?thesis
  proof (elim disjE exE conjE)
    fix mac ev
    assume m: "CanonicalMAC (rq_PathValue rq ''mac'') = Inr mac" and ev: "ev \<in> {EventInstallerDone, EventInstallerFailed}"
      and st': "fst (handleInstallEvent env opt rq (st, w)) = notePhase env mac ev st"
    from life_notePhase [OF assms CanonicalMAC_idem [OF m], of env ev] m ev show ?thesis
      unfolding st' by (cases "mac = c") auto
  qed simp
qed

lemma life_install_log:
  assumes "is_canonical c"
  shows "life_of (fst (handleInstallLog env opt rq (st, w))) c = life_of st c
    \<or> CanonicalMAC (rq_PathValue rq ''mac'') = Inr c
      \<and> life_of (fst (handleInstallLog env opt rq (st, w))) c = posted (fst (read_limited MaxPerMAC rq)) (life_of st c)"
proof -
  have "fst (handleInstallLog env opt rq (st, w)) = st \<or> (\<exists>mac l. CanonicalMAC (rq_PathValue rq ''mac'') = Inr mac
      \<and> sv_log st = Some l
      \<and> fst (handleInstallLog env opt rq (st, w)) = st\<lparr>sv_log := Some (Append mac (fst (read_limited MaxPerMAC rq)) l)\<rparr>)"
    by (auto simp: handleInstallLog_def extractMAC_def Let_def split: sum.splits option.splits if_splits)
  then show ?thesis
  proof (elim disjE exE conjE)
    fix mac l
    assume m: "CanonicalMAC (rq_PathValue rq ''mac'') = Inr mac" and l: "sv_log st = Some l"
      and st': "fst (handleInstallLog env opt rq (st, w)) = st\<lparr>sv_log := Some (Append mac (fst (read_limited MaxPerMAC rq)) l)\<rparr>"
    have "life_of (st\<lparr>sv_log := Some (Append mac b l)\<rparr>) c = (if mac = c then posted b (life_of st c) else life_of st c)" for b
      using CanonicalMAC_idem [OF m] l
      by (simp add: life_of_def posted_def intent_of_def phase_of_def log_of_def Append_entries canon_of_def mget_mput)
    with m show ?thesis unfolding st' by (cases "mac = c") auto
  qed simp
qed

lemma operator_keeps:
  assumes "\<not> public_page e" "e \<noteq> EInstallEvent" "e \<noteq> EInstallLog"
  shows "sv_tracker (fst (handler_of e env opt rq (st, w))) = sv_tracker st
    \<and> sv_log (fst (handler_of e env opt rq (st, w))) = sv_log st"
  using assms
  by (cases e) (auto simp: handleAPISetIntent_def handleAPICreateMachine_def handleAPIUpdateMachine_def
      handleAPIDeleteMachine_def handleAPIDismissDiscovered_def handleAdminReload_def handleAdminTemplateSave_def
      handleAdminTemplateReset_def handleAdminCloudInitSave_def handleAdminCloudInitReset_def put_fleet_def Let_def
      split: sum.split prod.split option.split)

text \<open>A request that reaches its handler and changes the server, by who may send it.\<close>

lemma served_by:
  assumes "fst (serve env opt rq (st, w)) \<noteq> st"
  obtains r where "serve env opt rq (st, w) = handler_of (rt_Endpoint r) env opt (bind_path r rq) (st, w)"
    "public_page (rt_Endpoint r) \<or> is_loopback (rq_RemoteAddr rq) \<or> token_route r"
    "CanonicalMAC (rq_PathValue (bind_path r rq) ''mac'') = Inr c \<and> \<not> public_page (rt_Endpoint r) \<longrightarrow> may_report env opt rq c"
proof (cases "find (route_matches rq) (routes opt)")
  case None
  with assms show ?thesis by (simp add: serve_def)
next
  case (Some r)
  then have r: "r \<in> set (routes opt)" "route_matches rq r" by (auto simp: find_Some_iff)
  let ?h = "handler_of (rt_Endpoint r)" and ?rq = "bind_path r rq"
  have s: "serve env opt rq (st, w) = foldr guard_handler (rt_Guards r) ?h env opt ?rq (st, w)"
    by (simp add: serve_def Some run_route_def)
  then have h: "serve env opt rq (st, w) = ?h env opt ?rq (st, w)"
    using guards_state [of "rt_Guards r" ?h env opt ?rq st w] assms by auto
  from r(1) show ?thesis
  proof (cases rule: routes_classified)
    case public
    with that [OF h] show ?thesis by simp
  next
    case (loopback gs)
    have "is_loopback (rq_RemoteAddr rq)" using assms by (rule contrapos_np) (simp add: s loopback loopbackOnly_def)
    with that [OF h] show ?thesis by (simp add: may_report_def)
  next
    case callback
    have "token_accepted env opt c (get_value (rq_Query rq) ''t'')"
      if "CanonicalMAC (rq_PathValue ?rq ''mac'') = Inr c"
      using token_guard [of ?h env opt ?rq st w] assms that callback by (auto simp: s token_route_def)
    with that [OF h] callback token_route_request [OF callback r(2), of c] show ?thesis by (simp add: may_report_def)
  qed
qed

lemma reports_done_authorised:
  assumes "is_canonical c" "reports_done env opt rq c"
  shows "may_report env opt rq c"
  using assms done_path_segs [OF assms(1)] CanonicalMAC_mac_hyp [OF assms(1)]
  by (auto simp: may_report_def reports_done_def callback_request_def)

lemma serve_life:
  assumes "is_canonical c" "wired st" "stores_ok ttl st" "o_IPXEScriptPath opt = ''/boot.ipxe''"
  shows "life_step ttl opt c (life_of st c) (Call env rq w) (life_of (fst (serve env opt rq (st, new_writer))) c)"
proof (cases "reports_done env opt rq c")
  case True
  have c: "CanonicalMAC c = Inr c" using assms(1) by (simp add: is_canonical_def)
  have "sv_fleet st \<noteq> None" "sv_tracker st \<noteq> None" "fresh new_writer"
    using assms(2) by (simp_all add: wired_def fresh_def new_writer_def)
  from serve_reports_done(1) [OF assms(1,4) True this] life_notePhase [OF assms(1-3) c]
  show ?thesis by (simp add: life_step.reports [OF reports_done_authorised [OF assms(1) True]])
next
  case False
  let ?st' = "fst (serve env opt rq (st, new_writer))"
  have idle: "life_of ?st' c = life_of st c \<Longrightarrow> ?thesis" using life_step.idle [of opt c "Call env rq w"] False by simp
  show ?thesis
  proof (cases "?st' = st")
    case False
    then obtain r where h: "serve env opt rq (st, new_writer) = handler_of (rt_Endpoint r) env opt (bind_path r rq) (st, new_writer)"
      and who: "public_page (rt_Endpoint r) \<or> is_loopback (rq_RemoteAddr rq) \<or> token_route r"
      and auth: "CanonicalMAC (rq_PathValue (bind_path r rq) ''mac'') = Inr c \<and> \<not> public_page (rt_Endpoint r) \<longrightarrow> may_report env opt rq c"
      by (rule served_by [where c = c])
    consider (page) "public_page (rt_Endpoint r)" | (event) "rt_Endpoint r = EInstallEvent" | (log) "rt_Endpoint r = EInstallLog"
      | (operator) "\<not> public_page (rt_Endpoint r)" "rt_Endpoint r \<noteq> EInstallEvent" "rt_Endpoint r \<noteq> EInstallLog" by blast
    then show ?thesis
    proof cases
      case page
      have "sv_tracker st \<noteq> None" using assms(2) by (simp add: wired_def)
      with life_public [OF page_effect [OF page] assms(1)] have "life_of ?st' c \<in> {life_of st c, seen EventUserDataFetched (life_of st c)}"
        by (simp add: h)
      then show ?thesis using idle life_step.fetched [OF \<open>\<not> reports_done env opt rq c\<close>] by auto
    next
      case event
      from life_install_event [OF assms(1-3), of env opt "bind_path r rq" new_writer] show ?thesis
        using idle life_step.reports [OF mp [OF auth]] \<open>\<not> reports_done env opt rq c\<close> by (auto simp: h event)
    next
      case log
      have "read_limited MaxPerMAC (bind_path r rq) = read_limited MaxPerMAC rq" by (simp add: read_limited_def)
      with life_install_log [OF assms(1), of env opt "bind_path r rq" st new_writer] show ?thesis
        using idle life_step.logs [OF mp [OF auth]] \<open>\<not> reports_done env opt rq c\<close> by (auto simp: h log)
    next
      case operator
      then have loop: "is_loopback (rq_RemoteAddr rq)" using who by (auto simp: token_route_def)
      have "phase_of ?st' c = phase_of st c" "log_of ?st' c = log_of st c"
        using operator_keeps [OF operator, of env opt "bind_path r rq" st new_writer] by (simp_all add: h phase_of_def log_of_def)
      then have st': "life_of ?st' c = (life_of st c)\<lparr>lf_intent := intent_of ?st' c\<rparr>" by (simp add: life_of_def)
      show ?thesis
      proof (cases "intent_of ?st' c")
        case None
        then show ?thesis unfolding st' using life_step.cancels [OF loop \<open>\<not> reports_done env opt rq c\<close>] by simp
      next
        case (Some e)
        from serve_new_intent [OF Some] show ?thesis
        proof
          assume "intent_of st c = Some e"
          with st' Some have "life_of ?st' c = life_of st c" by (simp add: life_of_def)
          then show ?thesis by (rule idle)
        next
          assume "queues_intent env rq c e"
          from life_step.queues [OF this] show ?thesis unfolding st' Some .
        qed
      qed
    qed
  next
    case True
    then have "life_of ?st' c = life_of st c" by (rule arg_cong [where f = "\<lambda>s. life_of s c"])
    then show ?thesis by (rule idle)
  qed
qed

section \<open>Packets and reloads\<close>

lemma offer_stage:
  assumes "BuildOffer lib (Some req) cfg = (Inr r, d, s)"
  shows "dc_ClientMAC d = client_mac req"
    "stage_event (dc_Stage d) = (if ipxe_request req cfg then EventIPXEDHCP else EventFirmwareDHCP)"
proof -
  have stages: "stage_event StageFirmwareTFTP = EventFirmwareDHCP" "stage_event StageFirmwareHTTP = EventFirmwareDHCP"
    "stage_event StageIPXEScript = EventIPXEDHCP"
    by (simp_all add: stage_event_def StageFirmwareTFTP_def StageFirmwareHTTP_def StageIPXEScript_def)
  show "dc_ClientMAC d = client_mac req"
    "stage_event (dc_Stage d) = (if ipxe_request req cfg then EventIPXEDHCP else EventFirmwareDHCP)"
  proof (atomize (full), cases rule: BuildOffer_cases [of lib req cfg])
    case (ipxe ip4 r0 d1)
    with assms show "dc_ClientMAC d = client_mac req
        \<and> stage_event (dc_Stage d) = (if ipxe_request req cfg then EventIPXEDHCP else EventFirmwareDHCP)"
      by (auto simp: iPXE_reply_fields client_mac_def stages)
  next
    case (firmware ip4 r0 d1 r' d2)
    with assms firmware_reply_fields(5,8) [OF firmware(8)] show "dc_ClientMAC d = client_mac req
        \<and> stage_event (dc_Stage d) = (if ipxe_request req cfg then EventIPXEDHCP else EventFirmwareDHCP)"
      by (auto simp: client_mac_def Let_def stages split: if_splits)
  qed (use assms in simp_all)
qed

lemma packet_tracker:
  "pk_tracker (packet_result lib fl now source peer write_ok req st) =
     (if pk_sent (packet_result lib fl now source peer write_ok req st) = None then sv_tracker st
      else map_option (Tracker_Note (sv_fleet st) now (client_mac req) (asked_stage req)) (sv_tracker st))"
proof -
  let ?cfg = "dhcp_config fl now st"
  have "dc_ClientMAC d = client_mac req \<and> stage_event (dc_Stage d) = asked_stage req \<and> asked_stage req \<noteq> []"
    if "BuildOffer lib (Some req) ?cfg = (Inr r, d, s)" for r d s
    using offer_stage [OF that] by (simp add: asked_stage_def ipxe_request_def client_config event_names)
  then show ?thesis
    by (auto simp: packet_result_def handleOne_def listener_options_def Let_def split: prod.split sum.split option.split)
qed

lemma packet_life:
  assumes "is_canonical c" "wired st" "eff = packet_result lib fl now source peer write_ok req st"
  shows "life_step ttl opt c (life_of st c) (Packet now req (pk_sent eff)) (life_of (after_packet now eff st) c)"
proof -
  obtain t where t: "sv_tracker st = Some t" using assms(2) by (auto simp: wired_def)
  have st': "life_of (after_packet now eff st) c = (life_of st c)\<lparr>lf_phase := phase_of (after_packet now eff st) c\<rparr>"
    by (simp add: life_of_def intent_of_def log_of_def after_packet_def)
  show ?thesis
  proof (cases "pk_sent eff")
    case None
    then have "phase_of (after_packet now eff st) c = phase_of st c"
      by (simp add: phase_of_def after_packet_def packet_tracker assms(3))
    then have "life_of (after_packet now eff st) c = life_of st c" unfolding st' by (simp add: life_of_def)
    then show ?thesis by (simp add: None life_step.idle)
  next
    case (Some s)
    have "sv_tracker (after_packet now eff st) = Some (Tracker_Note (sv_fleet st) now (client_mac req) (asked_stage req) t)"
      using Some by (simp add: after_packet_def packet_tracker assms(3) t)
    from Tracker_Note_phase [OF t this assms(1)]
    have "life_of (after_packet now eff st) c
        = (if CanonicalMAC (client_mac req) = Inr c then seen (asked_stage req) (life_of st c) else life_of st c)"
      unfolding st' by (simp add: seen_def life_of_def)
    then show ?thesis by (simp add: Some life_step.asked life_step.idle)
  qed
qed

lemma hangup_life:
  "life_step ttl opt c (life_of st c) (Hangup env) (life_of (watchSIGHUP env st) c)"
proof (cases "sv_fleet st")
  case (Some f)
  obtain r f' where r: "Reload env (sv_fs st) f = (r, f')" by (metis prod.collapse)
  show ?thesis
  proof (cases r)
    case None
    note s = sighup_stores(1,2) [OF Some r [unfolded None], of c] sighup_stores(5) [OF Some r [unfolded None]]
    have "phase_of (watchSIGHUP env st) c = phase_of st c" by (simp add: phase_of_def s)
    then show ?thesis
      using s life_step.idle [of opt c "Hangup env"] life_step.removed [of ttl opt c "life_of st c" env]
      by (cases "c \<in> mkeys (Machines f')") (simp_all add: life_of_def)
  next
    case err: (Some e)
    show ?thesis using life_step.idle [of opt c "Hangup env"] by (simp add: sighup_failed [OF Some r [unfolded err]])
  qed
qed (use life_step.idle [of opt c "Hangup env"] in \<open>simp add: watchSIGHUP_def\<close>)

lemma step_life:
  assumes "system_step fl opt st ev st'" "is_canonical c" "wired st" "stores_ok ttl st" "o_IPXEScriptPath opt = ''/boot.ipxe''"
  shows "life_step ttl opt c (life_of st c) ev (life_of st' c)"
  using assms(1)
proof cases
  case (packet eff lib now source peer write_ok req)
  with packet_life [OF assms(2,3)] show ?thesis by simp
next
  case (transfer emb now err filename r)
  then have "life_of st' c = life_of st c"
    by (auto simp: tftp_read_def Let_def intro: life_of_same split: option.splits)
  then show ?thesis by (simp add: transfer(1) life_step.idle)
next
  case (call env rq w)
  with serve_life [OF assms(2-5), of env rq w] show ?thesis by simp
next
  case (hangup env)
  with hangup_life show ?thesis by simp
qed (simp_all add: life_step.idle)

lemma initial_life: "life_of (initial_state fl fs f) c = newborn"
  by (simp add: life_of_def newborn_def initial_state_def intent_of_def phase_of_def log_of_def Pending_New_def
      InstallLog_New_def NewTracker_def LastEvent_def split: sum.split)

lemma run_life:
  assumes "load_fleet env fs fl = Inr f" "o_IPXEScriptPath opt = ''/boot.ipxe''" "is_canonical c"
    "system_run fl opt (initial_state fl fs f) tr st"
  shows "life_run (fl_PendingTTL fl) opt c tr (life_of st c)"
  using assms(4)
proof induction
  case nil
  show ?case by (simp add: initial_life life_run.born)
next
  case (snoc tr st1 ev st2)
  have "wired st1" "stores_ok (fl_PendingTTL fl) st1"
    using run_wired [OF snoc.hyps(1) initial_wired] run_keeps [OF snoc.hyps(1) initial_ok [OF load_fleet_ok [OF assms(1)]]] .
  from life_run.lives [OF snoc.IH step_life [OF snoc.hyps(2) assms(3) this assms(2)]] show ?case .
qed

text \<open>A life keeps track of who reported: what only a report can bring about had one.\<close>

lemma life_reports:
  assumes "life_run ttl opt c tr m" "lf_phase m \<in> {EventInstallerDone, EventInstallerFailed} \<or> lf_log m \<noteq> None"
  shows "\<exists>env rq w. Call env rq w \<in> set tr \<and> may_report env opt rq c"
  using assms
proof (induction rule: life_run.induct)
  case born
  then show ?case by (simp add: newborn_def event_names)
next
  case (lives tr m ev m')
  have stages: "advance p ev' \<in> {p, ev'}" "asked_stage req \<notin> {EventInstallerDone, EventInstallerFailed}"
    "EventUserDataFetched \<notin> {EventInstallerDone, EventInstallerFailed}" for p ev' req
    by (simp_all add: advance_def asked_stage_def event_names)
  from lives.hyps(2) have "(lf_phase m \<in> {EventInstallerDone, EventInstallerFailed} \<or> lf_log m \<noteq> None)
      \<or> (\<exists>env rq w. ev = Call env rq w \<and> may_report env opt rq c)"
  proof cases
    case (asked req now s)
    with lives.prems stages(1) [of "lf_phase m" "asked_stage req"] stages(2) [of req] show ?thesis by (auto simp: seen_def)
  next
    case (fetched env rq w)
    with lives.prems stages(1) [of "lf_phase m" EventUserDataFetched] stages(3) show ?thesis by (auto simp: seen_def)
  qed (use lives.prems in auto)
  with lives.IH show ?case by (metis in_set_conv_decomp Un_iff set_append list.set_intros(1))
qed

section \<open>Properties\<close>

text \<open>C3: The program refines the life of each machine.  Whatever packets, timers, transfers, requests,
  reloads and edits of files came, in any order, the intent, the phase and the log the stores hold for a
  MAC are what a run of that machine's abstract life over the same events gives: an answered packet moves
  its phase on, a report by the host or with a token for it sets the phase, appends to the log or ends its
  live install, only the host queues or cancels, and only a reload forgets it.\<close>

theorem program_refines_machine_life:
  assumes "load_fleet env fs fl = Inr f" "o_IPXEScriptPath opt = ''/boot.ipxe''" "is_canonical c"
    "system_run fl opt (initial_state fl fs f) tr st"
  shows "life_run (fl_PendingTTL fl) opt c tr \<lparr>lf_intent = intent_of st c, lf_phase = phase_of st c, lf_log = log_of st c\<rparr>"
  using run_life [OF assms] by (simp only: life_of_def)

text \<open>The example machine is queued for an install by the operator and its firmware answered.\<close>

theorem program_refines_machine_life_witness:
  "life_run (900 * second) example_options example_mac
     [Call (example_http 3) (example_put ''install'') (snd (example_queued ''install''))]
     (life_of (fst (example_queued ''install'')) example_mac)
   \<and> lf_intent (life_of (fst (example_queued ''install'')) example_mac)
       = Some \<lparr>pe_action = ActionInstall, pe_requestedAt = 3\<rparr>"
proof
  have script: "o_IPXEScriptPath example_options = ''/boot.ipxe''" by (simp add: example_options_def)
  have "fl_PendingTTL example_flags = 900 * second" by (simp add: example_flags_def)
  with program_refines_machine_life [folded life_of_def, OF example_loads script example_mac_canonical example_run [of "''install''"]]
  show "life_run (900 * second) example_options example_mac
     [Call (example_http 3) (example_put ''install'') (snd (example_queued ''install''))]
     (life_of (fst (example_queued ''install'')) example_mac)" by (simp only:)
  show "lf_intent (life_of (fst (example_queued ''install'')) example_mac)
       = Some \<lparr>pe_action = ActionInstall, pe_requestedAt = 3\<rparr>" unfolding example_queued_entry by code_simp
qed



end
