(* ===== verification/Interleaving.thy ===== *)
theory Interleaving
  imports Machine_Life
begin

text \<open>
  Handlers that take the locks of the stores more than once.  Elsewhere in the development a handler is one
  step; here the report of a finished installation (\<open>notePhase\<close> of
  \<^verbatim>\<open>internal/httpd/httpd.go\<close>) and the reload on SIGHUP (\<open>watchSIGHUP\<close> of
  \<^verbatim>\<open>cmd/pxe-beacon/main.go\<close>) are the sequences of their critical sections, and the operator's
  request falls between any two of them.
\<close>

section \<open>Critical sections\<close>

text \<open>An action holds one lock: it maps the stores and the local variable of the handler that is disturbed.\<close>

type_synonym 'l action = "server_state \<times> 'l \<Rightarrow> server_state \<times> 'l"

definition run :: "'l action list \<Rightarrow> server_state \<times> 'l \<Rightarrow> server_state \<times> 'l" where
  "run = fold (\<lambda>a s. a s)"

definition note_action :: "http_env \<Rightarrow> string \<Rightarrow> Event \<Rightarrow> bool action" where
  "note_action env mac phase = (\<lambda>(st, b). (note_event env mac phase st, b))"

definition status_action :: "http_env \<Rightarrow> string \<Rightarrow> Event \<Rightarrow> bool action" where
  "status_action env mac phase = (\<lambda>(st, b). (st, phase = EventInstallerDone
     \<and> (case sv_pending st of None \<Rightarrow> False
        | Some p \<Rightarrow> case Pending_Status (he_now env) mac p of None \<Rightarrow> False | Some (a, at, exp) \<Rightarrow> a = ActionInstall)))"

definition cancel_action :: "string \<Rightarrow> bool action" where
  "cancel_action mac = (\<lambda>(st, b).
     (if b then st\<lparr>sv_pending := map_option (\<lambda>p. snd (Cancel mac p)) (sv_pending st)\<rparr> else st, b))"

definition report_actions :: "http_env \<Rightarrow> string \<Rightarrow> Event \<Rightarrow> bool action list" where
  "report_actions env mac phase = [note_action env mac phase, status_action env mac phase, cancel_action mac]"

text \<open>The one critical section of a request that queues an action.\<close>

definition queue_action :: "time \<Rightarrow> string \<Rightarrow> Action \<Rightarrow> 'l action" where
  "queue_action now mac a = (\<lambda>(st, b). (st\<lparr>sv_pending := map_option (\<lambda>p. snd (queue now mac a p)) (sv_pending st)\<rparr>, b))"

definition schedule :: "nat \<Rightarrow> 'l action \<Rightarrow> 'l action list \<Rightarrow> 'l action list" where
  "schedule n a as = take n as @ a # drop n as"

lemma run_simps [simp]: "run [] s = s" "run (a # as) s = run as (a s)"
  by (simp_all add: run_def)

text \<open>Undisturbed, the critical sections are the handlers of the model.\<close>

lemma report_serial: "fst (run (report_actions env mac phase) (st, b)) = notePhase env mac phase st"
  by (auto simp: report_actions_def note_action_def status_action_def cancel_action_def notePhase_eq
      split: option.split)

lemma queue_serial:
  assumes "sv_fleet st = Some f" "sv_tracker st = Some t" "sv_pending st = Some p"
    "CanonicalMAC (rq_PathValue rq ''mac'') = Inr c" "p_Name (Lookup f c) \<noteq> []"
    "intent_action env rq w = Inr action" "action \<in> {ActionInstall, ActionRescue}"
  shows "fst (handleAPISetIntent env opt rq (st, w)) = fst (queue_action (he_now env) c action (st, b))"
  using set_intent [OF assms(1-6)] assms(3,7)
  by (auto simp: queue_action_def put_intent_def Let_def ActionInstall_def ActionRescue_def)

section \<open>A reload in pieces\<close>

text \<open>The local variable is the set of MACs the reload took from the new fleet, once it has succeeded.\<close>

definition reload_action :: "fleet_env \<Rightarrow> string set option action" where
  "reload_action env = (\<lambda>(st, k). case sv_fleet st of None \<Rightarrow> (st, None)
     | Some f \<Rightarrow> case Reload env (sv_fs st) f of (r, f') \<Rightarrow> (st\<lparr>sv_fleet := Some f'\<rparr>, if r = None then Some {} else None))"

definition snapshot_action :: "string set option action" where
  "snapshot_action = (\<lambda>(st, k). (st, case sv_fleet st of None \<Rightarrow> None
     | Some f \<Rightarrow> map_option (\<lambda>_. mkeys (Machines f)) k))"

definition prune_action :: "((string \<Rightarrow> bool) \<Rightarrow> server_state \<Rightarrow> server_state) \<Rightarrow> string set option action" where
  "prune_action g = (\<lambda>(st, k). (case k of None \<Rightarrow> st | Some known \<Rightarrow> g (\<lambda>mac. mac \<in> known) st, k))"

definition sighup_actions :: "fleet_env \<Rightarrow> string set option action list" where
  "sighup_actions env = [reload_action env, snapshot_action,
     prune_action (\<lambda>known st. st\<lparr>sv_pending := map_option (\<lambda>p. snd (Pending_RetainOnly known p)) (sv_pending st)\<rparr>),
     prune_action (\<lambda>known st. st\<lparr>sv_log := map_option (\<lambda>l. snd (InstallLog_RetainOnly known l)) (sv_log st)\<rparr>),
     prune_action (\<lambda>known st.
       st\<lparr>sv_sightings := map_option (\<lambda>s. snd (Sightings_RetainOnly (\<lambda>mac. \<not> known mac) s)) (sv_sightings st)\<rparr>)]"

text \<open>The operator enrols a machine and queues an install of it, both while the reload is at one point.\<close>

definition enrol_action :: "fleet_env \<Rightarrow> save_io \<Rightarrow> time \<Rightarrow> string \<Rightarrow> Profile \<Rightarrow> 'l action" where
  "enrol_action env io now c p = (\<lambda>(st, k). case sv_fleet st of None \<Rightarrow> (st, k)
     | Some f \<Rightarrow> queue_action now c ActionInstall
         (put_fleet st (snd (CreateAndSave env io \<lparr>m_MAC = c, m_Profile = p\<rparr> (sv_fs st, f))), k))"

lemma sighup_serial: "fst (run (sighup_actions env) (st, None)) = watchSIGHUP env st"
  by (auto simp: sighup_actions_def reload_action_def snapshot_action_def prune_action_def watchSIGHUP_def Let_def
      split: option.split prod.split)

lemma Machines_keys: "mkeys (Machines f) = mkeys (f_machines f)"
proof -
  have "mkeys (foldl (\<lambda>out (k, v). mput k v out) acc xs) = mkeys acc \<union> mkeys xs" for acc xs :: "Profile gomap"
  proof (induction xs arbitrary: acc)
    case (Cons x xs)
    obtain k v where x: "x = (k, v)" by (cases x)
    from Cons.IH [of "mput k v acc"] mkeys_mput [of k v acc] show ?case by (simp add: x)
  qed simp
  then show ?thesis by (simp add: Machines_def)
qed

lemma created_machine:
  assumes "CreateAndSave env io \<lparr>m_MAC = c, m_Profile = p\<rparr> (fs, f) = (Inr tag, fs', f')" "is_canonical c"
  shows "c \<in> mkeys (f_machines f')"
  using assms by (auto simp: CreateAndSave_def is_canonical_def Let_def mkeys_mput split: sum.splits if_splits prod.splits option.splits)

section \<open>Properties\<close>

text \<open>C22: A report of a finished installation races with the operator.  The report looks at the intent and then
  cancels it, under two locks.  When it finds a live install, a rescue the operator queues between the two
  is dropped, although the request was answered as queued; queued at any other moment, before the look or
  after the cancel, the rescue stays, as the code means it to.\<close>

theorem report_races_with_rescue:
  assumes "is_canonical c" "sv_pending st \<noteq> None" "ds_Action (buildDesired env st c) = ActionInstall"
  shows "intent_of (fst (run (schedule n (queue_action now c ActionRescue) (report_actions env c EventInstallerDone))
        (st, b))) c
     = (if n = 2 then None else Some \<lparr>pe_action = ActionRescue, pe_requestedAt = now\<rparr>)"
proof -
  obtain p where p: "sv_pending st = Some p" using assms(2) by blast
  have c: "CanonicalMAC c = Inr c" using assms(1) by (simp add: is_canonical_def)
  have names: "ActionInstall \<noteq> []" "ActionRescue \<noteq> ActionInstall" by (simp_all add: ActionInstall_def ActionRescue_def)
  let ?q = "snd (queue now c ActionRescue p)"
  have live: "\<exists>at exp. Pending_Status (he_now env) c p = Some (ActionInstall, at, exp)"
    using assms(3) names(1) by (auto simp: buildDesired_def p split: option.splits)
  have queued: "mget (ps_entries ?q) c = Some \<lparr>pe_action = ActionRescue, pe_requestedAt = now\<rparr>"
    by (simp add: queue_entries canon_of_def c mget_mput)
  then have rescue: "Pending_Status (he_now env) c ?q \<noteq> Some (ActionInstall, at, exp)" for at exp
    using names(2) by (auto simp: Pending_Status_def c Let_def)
  note acts = report_actions_def schedule_def note_action_def status_action_def cancel_action_def queue_action_def intent_of_def
  consider "n = 0" | "n = 1" | "n = 2" | "n \<ge> 3" by linarith
  then show ?thesis
  proof cases
    case 1
    then show ?thesis using queued rescue by (auto simp: acts p split: option.split)
  next
    case 2
    then show ?thesis using queued rescue by (auto simp: acts p split: option.split)
  next
    case 3
    then show ?thesis using live by (auto simp: acts p numeral_2_eq_2 Cancel_entries canon_of_def c mget_mdel)
  next
    case 4
    then show ?thesis using live by (auto simp: acts p queue_entries Cancel_entries canon_of_def c mget_mput)
  qed
qed

theorem report_races_with_rescue_witness:
  "map (\<lambda>n. intent_of (fst (run (schedule n (queue_action 5 example_mac ActionRescue)
        (report_actions (example_http 4) example_mac EventInstallerDone)) (fst (example_queued ''install''), False))) example_mac)
     [0, 1, 2, 3]
   = [Some \<lparr>pe_action = ActionRescue, pe_requestedAt = 5\<rparr>, Some \<lparr>pe_action = ActionRescue, pe_requestedAt = 5\<rparr>,
      None, Some \<lparr>pe_action = ActionRescue, pe_requestedAt = 5\<rparr>]"
proof -
  let ?st = "fst (example_queued ''install'')"
  have "wired ?st" using run_wired [OF example_run initial_wired] .
  then have p: "sv_pending ?st \<noteq> None" unfolding wired_def by blast
  have live: "ds_Action (buildDesired (example_http 4) ?st example_mac) = ActionInstall"
    unfolding example_queued_entry by code_simp
  show ?thesis
    unfolding list.map report_races_with_rescue [OF example_mac_canonical p live] by simp
qed

text \<open>A reload on SIGHUP races with an enrolment: the install queued for a machine that is created after the reload
  took its list of machines and before it pruned the intents is dropped, although the machine is in the
  fleet; created at any other moment once the new file is in force, it keeps its intent.\<close>

theorem reload_races_with_enrolment:
  assumes "is_canonical c" "sv_pending st \<noteq> None" "sv_fleet st = Some f" "Reload env (sv_fs st) f = (None, f')"
    "CreateAndSave env2 io \<lparr>m_MAC = c, m_Profile = p\<rparr> (sv_fs st, f') = (Inr tag, fs2, f2)" "0 < n"
  shows "intent_of (fst (run (schedule n (enrol_action env2 io now c p) (sighup_actions env)) (st, None))) c
      = (if n = 2 then None else Some \<lparr>pe_action = ActionInstall, pe_requestedAt = now\<rparr>)"
proof -
  obtain q where q: "sv_pending st = Some q" using assms(2) by blast
  have c: "CanonicalMAC c = Inr c" using assms(1) by (simp add: is_canonical_def)
  have new: "c \<in> mkeys (Machines f2)" using created_machine [OF assms(5,1)] by (simp add: Machines_keys)
  have old: "c \<notin> mkeys (Machines f')" using assms(5) c by (auto simp: Machines_keys CreateAndSave_def split: sum.splits if_splits)
  note acts = sighup_actions_def schedule_def reload_action_def snapshot_action_def prune_action_def enrol_action_def
    queue_action_def intent_of_def put_fleet_def
  note ents = queue_entries Pending_RetainOnly_entries canon_of_def c mget_mput mget_filter_key
  consider "n = 1" | "n = 2" | "n = 3" | "n = 4" | "n \<ge> 5" using assms(6) by linarith
  then show ?thesis
    by cases (use new old in \<open>simp_all add: acts q assms(3-5) ents numeral_eq_Suc\<close>)
qed

end
