(* ===== verification/Threads.thy ===== *)
theory Threads
  imports Prelude
begin

text \<open>
  Concurrent activities as threads: a thread is what is left of a handler, one critical section after the
  other, with the lock that some of them hold across several sections.  A pool of threads shares one
  state, and any thread that is not blocked takes the next step.  Two rules carry over what is known of a thread
  to every interleaving: an invariant that each section keeps, and the order that a lock imposes.
\<close>

section \<open>Threads\<close>

text \<open>
  A section maps the shared state to the new one and to the rest of the thread, which knows what the section
  saw.  Between \<open>Lock\<close> and \<open>Unlock\<close> the thread holds the lock; it gives it up with an event.
\<close>

datatype ('s, 'e, 'r) thread =
    Return 'r
  | Sect "'s \<Rightarrow> 's \<times> ('s, 'e, 'r) thread"
  | Lock "('s, 'e, 'r) thread"
  | Unlock 'e "('s, 'e, 'r) thread"

text \<open>A section that only reads, and one that is a whole handler.\<close>

definition Look :: "('s \<Rightarrow> ('s, 'e, 'r) thread) \<Rightarrow> ('s, 'e, 'r) thread" where
  "Look g = Sect (\<lambda>s. (s, g s))"

definition Edit :: "('s \<Rightarrow> 's) \<Rightarrow> ('s, 'e, 'r) thread \<Rightarrow> ('s, 'e, 'r) thread" where
  "Edit f t = Sect (\<lambda>s. (f s, t))"

definition Atomic :: "('s \<Rightarrow> 's \<times> 'r) \<Rightarrow> ('s, 'e, 'r) thread" where
  "Atomic h = Sect (\<lambda>s. map_prod id Return (h s))"

text \<open>A thread by itself, with nothing in between.\<close>

primrec alone :: "('s, 'e, 'r) thread \<Rightarrow> 's \<Rightarrow> 's \<times> 'r" where
  "alone (Return r) = (\<lambda>s. (s, r))"
| "alone (Sect k) = (\<lambda>s. case map_prod id alone (k s) of (s', g) \<Rightarrow> g s')"
| "alone (Lock t) = alone t"
| "alone (Unlock e t) = alone t"


primrec events :: "('s, 'e, 'r) thread \<Rightarrow> 's \<Rightarrow> 'e list" where
  "events (Return r) = (\<lambda>s. [])"
| "events (Sect k) = (\<lambda>s. case map_prod id events (k s) of (s', g) \<Rightarrow> g s')"
| "events (Lock t) = events t"
| "events (Unlock e t) = (\<lambda>s. e # events t s)"

lemma alone_simps [simp]:
  "alone (Look g) s = alone (g s) s"
  "alone (Edit f t) s = alone t (f s)"
  "alone (Atomic h) s = h s"
  by (simp_all add: Look_def Edit_def Atomic_def prod.map_comp o_def prod.case_eq_if)

section \<open>The pool\<close>

text \<open>
  The shared state, the thread that holds the lock, and the threads in the order they arrived; \<open>A\<close> says which
  threads may arrive.  A thread at \<open>Lock\<close> waits until nobody holds it.
\<close>

type_synonym ('s, 'e, 'r) pool = "'s \<times> nat option \<times> ('s, 'e, 'r) thread list"

inductive pool_step :: "(('s, 'e, 'r) thread \<Rightarrow> bool) \<Rightarrow> ('s, 'e, 'r) pool \<Rightarrow> 'e list \<Rightarrow> ('s, 'e, 'r) pool \<Rightarrow> bool" for A where
  arrive: "A t \<Longrightarrow> pool_step A (s, l, ts) [] (s, l, ts @ [t])"
| sect: "i < length ts \<Longrightarrow> ts ! i = Sect k \<Longrightarrow> k s = (s', t) \<Longrightarrow> pool_step A (s, l, ts) [] (s', l, ts[i := t])"
| lock: "i < length ts \<Longrightarrow> ts ! i = Lock t \<Longrightarrow> pool_step A (s, None, ts) [] (s, Some i, ts[i := t])"
| unlock: "i < length ts \<Longrightarrow> ts ! i = Unlock e t \<Longrightarrow> pool_step A (s, Some i, ts) [e] (s, None, ts[i := t])"

inductive_cases pool_stepE: "pool_step A c es c'"

inductive pool_run :: "(('s, 'e, 'r) thread \<Rightarrow> bool) \<Rightarrow> ('s, 'e, 'r) pool \<Rightarrow> 'e list \<Rightarrow> ('s, 'e, 'r) pool \<Rightarrow> bool" for A c where
  nil: "pool_run A c [] c"
| snoc: "pool_run A c tr c' \<Longrightarrow> pool_step A c' es c'' \<Longrightarrow> pool_run A c (tr @ es) c''"

lemma pool_run_trans: "pool_run A c' tr' c'' \<Longrightarrow> pool_run A c tr c' \<Longrightarrow> pool_run A c (tr @ tr') c''"
  by (induction rule: pool_run.induct) (auto simp flip: append_assoc intro: pool_run.intros)

lemma pool_run_step: "pool_step A c es c' \<Longrightarrow> pool_run A c es c'"
  using pool_run.snoc [OF pool_run.nil] by fastforce

lemma pool_run_mono: "pool_run B c tr c' \<Longrightarrow> (\<And>t. B t \<Longrightarrow> A t) \<Longrightarrow> pool_run A c tr c'"
  by (induction rule: pool_run.induct) (auto elim!: pool_stepE intro: pool_run.intros pool_step.intros)

section \<open>Invariants\<close>

text \<open>Every section of the thread keeps \<open>I\<close>, whatever happens between its sections, as long as \<open>I\<close> holds there.\<close>

primrec keeps :: "('s \<Rightarrow> bool) \<Rightarrow> ('s, 'e, 'r) thread \<Rightarrow> bool" where
  "keeps I (Return r) = True"
| "keeps I (Sect k) = (\<forall>s. I s \<longrightarrow> (case map_prod id (keeps I) (k s) of (s', b) \<Rightarrow> I s' \<and> b))"
| "keeps I (Lock t) = keeps I t"
| "keeps I (Unlock e t) = keeps I t"

lemma keeps_simps [simp]:
  "keeps I (Look g) = (\<forall>s. I s \<longrightarrow> keeps I (g s))"
  "keeps I (Edit f t) = (\<forall>s. I s \<longrightarrow> I (f s) \<and> keeps I t)"
  "keeps I (Atomic h) = (\<forall>s. I s \<longrightarrow> I (fst (h s)))"
  by (simp_all add: Look_def Edit_def Atomic_def prod.map_comp o_def prod.case_eq_if)

lemma keeps_section: "keeps I (Sect k) \<Longrightarrow> I s \<Longrightarrow> k s = (s', t) \<Longrightarrow> I s' \<and> keeps I t"
  by (auto simp: prod.case_eq_if)

locale kept_pool =
  fixes I :: "'s \<Rightarrow> bool"
    and arrives :: "('s, 'e, 'r) thread \<Rightarrow> bool"
  assumes arrives_keep: "arrives t \<Longrightarrow> keeps I t"
begin

lemma step_kept: "pool_step arrives c es c' \<Longrightarrow> I (fst c) \<and> (\<forall>t \<in> set (snd (snd c)). keeps I t)
    \<Longrightarrow> I (fst c') \<and> (\<forall>t \<in> set (snd (snd c')). keeps I t)"
proof (induction rule: pool_step.induct)
  case (sect i ts k s s' t l)
  then have "keeps I (Sect k)" by (metis nth_mem snd_conv)
  with sect show ?case by (auto dest: keeps_section dest!: set_update_subset_insert [THEN subsetD])
next
  case (lock i ts t s)
  then have "keeps I (Lock t)" by (metis nth_mem snd_conv)
  with lock show ?case by (auto dest!: set_update_subset_insert [THEN subsetD])
next
  case (unlock i ts e t s)
  then have "keeps I (Unlock e t)" by (metis nth_mem snd_conv)
  with unlock show ?case by (auto dest!: set_update_subset_insert [THEN subsetD])
qed (auto simp: arrives_keep)

lemma run_kept: "pool_run arrives c tr c' \<Longrightarrow> I (fst c) \<Longrightarrow> \<forall>t \<in> set (snd (snd c)). keeps I t
    \<Longrightarrow> I (fst c') \<and> (\<forall>t \<in> set (snd (snd c')). keeps I t)"
  by (induction rule: pool_run.induct) (auto dest!: step_kept)

lemma invariant: "pool_run arrives (s, None, []) tr (s', l, ts) \<Longrightarrow> I s \<Longrightarrow> I s'"
  using run_kept by fastforce

end

section \<open>The lock\<close>

text \<open>
  A thread that keeps the discipline of the lock: it takes it once at a time and always gives it up, and it
  changes what the lock protects only while it holds it.  The flag says whether it does.
\<close>

primrec disciplined :: "('s \<Rightarrow> 'p) \<Rightarrow> ('s, 'e, 'r) thread \<Rightarrow> bool \<Rightarrow> bool" where
  "disciplined P (Return r) = Not"
| "disciplined P (Sect k) = (\<lambda>held. \<forall>s. case map_prod id (disciplined P) (k s) of (s', d) \<Rightarrow> (held \<or> P s' = P s) \<and> d held)"
| "disciplined P (Lock t) = (\<lambda>held. \<not> held \<and> disciplined P t True)"
| "disciplined P (Unlock e t) = (\<lambda>held. held \<and> disciplined P t False)"

lemma disciplined_simps [simp]:
  "disciplined P (Look g) held = (\<forall>s. disciplined P (g s) held)"
  "disciplined P (Edit f t) held = (\<forall>s. (held \<or> P (f s) = P s) \<and> disciplined P t held)"
  "disciplined P (Atomic h) held = (\<forall>s. \<not> held \<and> P (fst (h s)) = P s)"
  by (auto simp: Look_def Edit_def Atomic_def prod.case_eq_if)

lemma disciplined_section:
  "disciplined P (Sect k) held \<Longrightarrow> k s = (s', t) \<Longrightarrow> (held \<or> P s' = P s) \<and> disciplined P t held"
  by (auto simp: prod.case_eq_if dest: spec [of _ s])

text \<open>
  What a thread that holds the lock does to the protected part, from \<open>p\<close> to \<open>p'\<close>, until it gives it up with
  \<open>e\<close>, whatever the rest of the state is at each of its sections.
\<close>

inductive block :: "('s \<Rightarrow> 'p) \<Rightarrow> ('s, 'e, 'r) thread \<Rightarrow> 'p \<Rightarrow> 'e \<Rightarrow> 'p \<Rightarrow> bool" for P where
  unlock: "block P (Unlock e t) p e p"
| sect: "P s = p \<Longrightarrow> k s = (s', t) \<Longrightarrow> block P t (P s') e p' \<Longrightarrow> block P (Sect k) p e p'"

inductive_simps block_simps [simp]:
  "block P (Unlock e t) p e' p'"
  "block P (Lock t) p e p'"
  "block P (Return r) p e p'"

inductive_cases block_SectE: "block P (Sect k) p e p'"

lemma block_Sect: "block P (Sect k) p e p' \<longleftrightarrow> (\<exists>s. P s = p \<and> block P (snd (k s)) (P (fst (k s))) e p')"
  by (auto elim!: block_SectE) (metis block.sect prod.collapse)

lemma block_Look [simp]: "block P (Look g) p e p' \<longleftrightarrow> (\<exists>s. P s = p \<and> block P (g s) p e p')"
  by (auto simp: Look_def block_Sect)

lemma block_Edit [simp]: "block P (Edit f t) p e p' \<longleftrightarrow> (\<exists>s. P s = p \<and> block P t (P (f s)) e p')"
  by (auto simp: Edit_def block_Sect)

text \<open>Every time the thread takes the lock, what it does under it is an operation of \<open>spec\<close>.\<close>

primrec performs :: "('s \<Rightarrow> 'p) \<Rightarrow> ('p \<Rightarrow> 'e \<Rightarrow> 'p \<Rightarrow> bool) \<Rightarrow> ('s, 'e, 'r) thread \<Rightarrow> bool" where
  "performs P spec (Return r) = True"
| "performs P spec (Sect k) = (\<forall>s. snd (map_prod id (performs P spec) (k s)))"
| "performs P spec (Lock t) = ((\<forall>p e p'. block P t p e p' \<longrightarrow> spec p e p') \<and> performs P spec t)"
| "performs P spec (Unlock e t) = performs P spec t"

lemma performs_simps [simp]:
  "performs P spec (Look g) = (\<forall>s. performs P spec (g s))"
  "performs P spec (Edit f t) = performs P spec t"
  "performs P spec (Atomic h)"
  by (simp_all add: Look_def Edit_def Atomic_def)

inductive serial :: "('p \<Rightarrow> 'e \<Rightarrow> 'p \<Rightarrow> bool) \<Rightarrow> 'p \<Rightarrow> 'e list \<Rightarrow> 'p \<Rightarrow> bool" for spec p where
  nil: "serial spec p [] p"
| snoc: "serial spec p tr p' \<Longrightarrow> spec p' e p'' \<Longrightarrow> serial spec p (tr @ [e]) p''"

locale locked_pool =
  fixes P :: "'s \<Rightarrow> 'p"
    and spec :: "'p \<Rightarrow> 'e \<Rightarrow> 'p \<Rightarrow> bool"
    and arrives :: "('s, 'e, 'r) thread \<Rightarrow> bool"
  assumes discipline: "arrives t \<Longrightarrow> disciplined P t False"
    and performance: "arrives t \<Longrightarrow> performs P spec t"
begin

text \<open>At most one thread is between \<open>Lock\<close> and \<open>Unlock\<close>, the one that is recorded.\<close>

fun owned :: "('s, 'e, 'r) pool \<Rightarrow> bool" where
  "owned (s, l, ts) \<longleftrightarrow> (\<forall>i < length ts. disciplined P (ts ! i) (l = Some i)) \<and> (\<forall>i. l = Some i \<longrightarrow> i < length ts)
     \<and> (\<forall>t \<in> set ts. performs P spec t)"

text \<open>The events so far are a serial run of the operations, and the holder's is one more in progress.\<close>

fun linear :: "'p \<Rightarrow> 'e list \<Rightarrow> ('s, 'e, 'r) pool \<Rightarrow> bool" where
  "linear p0 tr (s, l, ts) \<longleftrightarrow> (\<exists>p. serial spec p0 tr p
     \<and> (case l of None \<Rightarrow> P s = p | Some i \<Rightarrow> \<forall>e p'. block P (ts ! i) (P s) e p' \<longrightarrow> spec p e p'))"

lemma performs_update: "performs P spec t \<Longrightarrow> \<forall>u \<in> set ts. performs P spec u \<Longrightarrow> \<forall>u \<in> set (ts[i := t]). performs P spec u"
  using set_update_subset_insert by fastforce

lemma owned_at:
  assumes "owned (s, l, ts)" "i < length ts" "ts ! i = t"
  shows "disciplined P t (l = Some i)" "performs P spec t"
  using assms by auto

lemma owned_update:
  assumes "owned (s, l, ts)" "i < length ts" "disciplined P t held" "performs P spec t"
    "\<And>j. j \<noteq> i \<Longrightarrow> (l' = Some j) = (l = Some j)" "(l' = Some i) = held"
  shows "owned (s', l', ts[i := t])"
  using assms performs_update [of t ts i] by (simp add: nth_list_update) metis

lemma owned_step: "pool_step arrives c es c' \<Longrightarrow> owned c \<Longrightarrow> owned c'"
proof (induction rule: pool_step.induct)
  case (arrive t s l ts)
  then have "l \<noteq> Some (length ts)" by auto
  with arrive show ?case using discipline [of t] performance [of t] by (auto simp: nth_append less_Suc_eq)
next
  case (sect i ts k s s' t l)
  note at = owned_at [OF sect(4,1,2)]
  from at(2) have "performs P spec t" using sect(3) by (auto dest: spec [of _ s])
  with disciplined_section [OF at(1) sect(3)] sect(1,4) show ?case by (intro owned_update [OF sect(4)]) auto
next
  case (lock i ts t s)
  from owned_at [OF lock(3,1,2)] lock(1,3) show ?case by (intro owned_update [OF lock(3), where held = True]) auto
next
  case (unlock i ts e t s)
  from owned_at [OF unlock(3,1,2)] unlock(1,3) show ?case by (intro owned_update [OF unlock(3), where held = False]) auto
qed

lemma linear_step: "pool_step arrives c es c' \<Longrightarrow> owned c \<Longrightarrow> linear p0 tr c \<Longrightarrow> linear p0 (tr @ es) c'"
proof (induction rule: pool_step.induct)
  case (arrive t s l ts)
  then show ?case by (auto simp: nth_append split: option.splits)
next
  case (sect i ts k s s' t l)
  show ?case
  proof (cases "l = Some i")
    case True
    have "block P (Sect k) (P s) e p'" if "block P t (P s') e p'" for e p'
      using that sect(3) by (auto intro: block.sect)
    with sect True show ?thesis by (auto simp: nth_list_update)
  next
    case False
    from disciplined_section [OF owned_at(1) [OF sect(4,1,2)] sect(3)] False have "P s' = P s" by simp
    with sect False show ?thesis by (auto split: option.splits)
  qed
next
  case (lock i ts t s)
  from owned_at(2) [OF lock(3,1,2)] lock show ?case by (auto simp del: owned.simps)
next
  case (unlock i ts e t s)
  then obtain p where "serial spec p0 tr p" "spec p e (P s)" by auto
  then show ?case by (auto intro: serial.snoc)
qed

lemma run_linear: "pool_run arrives c tr c' \<Longrightarrow> owned c \<Longrightarrow> linear p0 [] c \<Longrightarrow> owned c' \<and> linear p0 tr c'"
  by (induction rule: pool_run.induct) (auto dest: owned_step linear_step)

lemma serialised:
  assumes "pool_run arrives (s, None, []) tr (s', l, ts)"
  shows "\<exists>p. serial spec (P s) tr p \<and> (l = None \<longrightarrow> P s' = p)"
proof -
  have "linear (P s) tr (s', l, ts)" using run_linear [OF assms, of "P s"] by (simp add: serial.nil exI)
  then show ?thesis by (cases l) auto
qed

lemma mutual_exclusion:
  assumes "pool_run arrives (s, None, []) tr (s', l, ts)" "i < length ts"
  shows "disciplined P (ts ! i) (l = Some i)"
  using run_linear [OF assms(1), of "P s"] assms(2) by (auto intro: serial.nil)

text \<open>Run without interruption from here, a thread ends as it does alone, with the same events.\<close>

lemma solo:
  assumes "i < length ts" "ts ! i = t" "disciplined P t held"
  shows "pool_run A (s, if held then Some i else None, ts) (events t s)
    (fst (alone t s), None, ts[i := Return (snd (alone t s))])"
  using assms
proof (induction t arbitrary: ts held s)
  case (Return r)
  then have "\<not> held" "ts[i := Return r] = ts" by (auto simp: list_update_same_conv)
  then show ?case by (auto intro: pool_run.nil)
next
  case (Sect k)
  obtain s' t where k: "k s = (s', t)" by fastforce
  let ?c = "\<lambda>s ts. (s, if held then Some i else None, ts)"
  have "disciplined P t held" "k s \<in> range k" using disciplined_section [OF Sect.prems(3) k] by blast+
  with Sect.IH [of "k s" t "ts[i := t]" held s'] Sect.prems(1) k
  have run: "pool_run A (?c s' (ts[i := t])) (events t s') (fst (alone t s'), None, ts[i := Return (snd (alone t s'))])"
    by (auto simp: snds.simps)
  have "pool_step A (?c s ts) [] (?c s' (ts[i := t]))" by (rule pool_step.sect [OF Sect.prems(1,2) k])
  from pool_run_trans [OF run pool_run_step [OF this]] show ?case by (auto simp: k)
next
  case (Lock t)
  with Lock.IH [of "ts[i := t]" True s]
  have run: "pool_run A (s, Some i, ts[i := t]) (events t s) (fst (alone t s), None, ts[i := Return (snd (alone t s))])"
    by auto
  have "pool_step A (s, None, ts) [] (s, Some i, ts[i := t])" using Lock.prems by (intro pool_step.lock) auto
  from pool_run_trans [OF run pool_run_step [OF this]] Lock.prems show ?case by auto
next
  case (Unlock e t)
  with Unlock.IH [of "ts[i := t]" False s]
  have run: "pool_run A (s, None, ts[i := t]) (events t s) (fst (alone t s), None, ts[i := Return (snd (alone t s))])"
    by auto
  have "pool_step A (s, Some i, ts) [e] (s, None, ts[i := t])" using Unlock.prems by (intro pool_step.unlock) auto
  from pool_run_trans [OF run pool_run_step [OF this]] Unlock.prems show ?case by auto
qed

text \<open>Nothing blocks for ever: the holder can go on to its \<open>Unlock\<close>, and then the others, one after the other.\<close>

lemma release:
  assumes "owned (s, l, ts)"
  shows "\<exists>tr s' ts'. pool_run A (s, l, ts) tr (s', None, ts') \<and> length ts' = length ts \<and> (\<forall>t \<in> set ts'. disciplined P t False)"
proof (cases l)
  case None
  with assms show ?thesis by (auto simp: in_set_conv_nth intro!: exI pool_run.nil)
next
  case (Some i)
  from assms Some have i: "i < length ts" "disciplined P (ts ! i) True" by auto
  have "pool_run A (s, Some i, ts) (events (ts ! i) s)
      (fst (alone (ts ! i) s), None, ts[i := Return (snd (alone (ts ! i) s))])"
    using solo [OF i(1) refl i(2)] by simp
  moreover have "disciplined P (ts[i := Return r] ! j) False" if "j < length ts" for j r
    using assms Some that by (auto simp: nth_list_update)
  ultimately show ?thesis
    using Some by (intro exI [of _ "events (ts ! i) s"] exI [of _ "fst (alone (ts ! i) s)"] exI [of _ "ts[i := Return (snd (alone (ts ! i) s))]"])
      (auto simp: in_set_conv_nth)
qed

lemma finish_all:
  assumes "\<forall>t \<in> set ts. disciplined P t False"
  shows "\<exists>tr s' rs. pool_run A (s, None, us @ ts) tr (s', None, us @ map Return rs) \<and> length rs = length ts"
  using assms
proof (induction ts arbitrary: s us)
  case Nil
  then show ?case by (auto intro: pool_run.nil)
next
  case (Cons t ts)
  let ?r = "snd (alone t s)"
  have one: "pool_run A (s, None, us @ t # ts) (events t s) (fst (alone t s), None, (us @ [Return ?r]) @ ts)"
    using solo [of "length us" "us @ t # ts" t False A s] Cons.prems by auto
  obtain tr' s' rs where rest: "pool_run A (fst (alone t s), None, (us @ [Return ?r]) @ ts) tr'
      (s', None, (us @ [Return ?r]) @ map Return rs)" "length rs = length ts"
    using Cons.IH [of "fst (alone t s)" "us @ [Return ?r]"] Cons.prems by auto
  from pool_run_trans [OF rest(1) one] rest(2) show ?case by (intro exI [of _ "?r # rs"] exI conjI) auto
qed

lemma all_finish:
  assumes "pool_run arrives (s, None, []) tr (s', l, ts)"
  shows "\<exists>tr' s'' rs. pool_run A (s', l, ts) tr' (s'', None, map Return rs) \<and> length rs = length ts"
proof -
  have "owned (s', l, ts)" using run_linear [OF assms, of "P s"] by (simp add: serial.nil exI)
  from release [OF this] obtain tr1 s1 ts1 where
    1: "pool_run A (s', l, ts) tr1 (s1, None, ts1)" "length ts1 = length ts" "\<forall>t \<in> set ts1. disciplined P t False" by blast
  from finish_all [OF 1(3), of A s1 "[]"] obtain tr2 s2 rs where
    "pool_run A (s1, None, ts1) tr2 (s2, None, map Return rs)" "length rs = length ts1" by auto
  with pool_run_trans [OF this(1) 1(1)] 1(2) show ?thesis by auto
qed

end

end
