(* ===== verification/Fleet_Threads.thy ===== *)
theory Fleet_Threads
  imports Threads System_Stores
begin

text \<open>
  The fleet's write operations with the locks they take (\<^verbatim>\<open>internal/fleet/txn.go\<close>,
  \<^verbatim>\<open>fleet.go\<close>): \<^verbatim>\<open>saveMu\<close> is the lock of the pool, held from the
  check of the map to the answer, and each use of \<^verbatim>\<open>mu\<close> in between is a section of its own,
  so that a lookup may fall between the edit of the map, the save, and the roll-back.  Profiles are validated
  before the lock is taken.
\<close>

section \<open>Operations\<close>

text \<open>What a call that took the lock was, and what it answered when it gave it up.\<close>

datatype fleet_event =
    CreateAnswer Machine "fleet_error + string"
  | UpdateAnswer Machine string "fleet_error + string"
  | DeleteAnswer string string "bool \<times> fleet_error option"
  | ReloadAnswer "fleet_error option"

text \<open>How an activity ends: an HTTP answer, the reply to a packet, a transfer, or nothing to show.\<close>

datatype outcome = Replied ResponseWriter | Sent "(Reply \<times> udp_addr) option" | Transferred tftp_result | Quiet

type_synonym activity = "(server_state, fleet_event, outcome) thread"

text \<open>A handler comes here only once it has seen that there is a fleet.\<close>

definition the_fleet :: "server_state \<Rightarrow> Fleet" where
  "the_fleet st = (case sv_fleet st of None \<Rightarrow> Empty_Fleet | Some f \<Rightarrow> f)"

definition edit_machines :: "(Profile gomap \<Rightarrow> Profile gomap) \<Rightarrow> server_state \<Rightarrow> server_state" where
  "edit_machines g st = st\<lparr>sv_fleet := map_option (\<lambda>f. f\<lparr>f_machines := g (f_machines f)\<rparr>) (sv_fleet st)\<rparr>"

text \<open>\<^verbatim>\<open>Save\<close> copies the map under the read lock, and then writes the copy.\<close>

definition Save_thread :: "fleet_env \<Rightarrow> save_io \<Rightarrow> (fleet_error option \<Rightarrow> activity) \<Rightarrow> activity" where
  "Save_thread env io k =
     Look (\<lambda>st. let f = the_fleet st in
     Sect (\<lambda>st. case Save env io (sv_fs st) f of (e, fs') \<Rightarrow> (st\<lparr>sv_fs := fs'\<rparr>, k e)))"

definition CreateAndSave_check :: "fleet_env \<Rightarrow> save_io \<Rightarrow> Machine \<Rightarrow> string \<Rightarrow> (fleet_error + string \<Rightarrow> activity) \<Rightarrow> server_state \<Rightarrow> server_state \<times> activity" where
  "CreateAndSave_check env io m canon k st =
     (let unlock = (\<lambda>r. Unlock (CreateAnswer m r) (k r)) in
      if canon \<in> mkeys (f_machines (the_fleet st)) then (st, unlock (Inl ErrMACExists))
      else (edit_machines (mput canon (m_Profile m)) st,
        Save_thread env io (\<lambda>saved.
          case saved of
            Some e \<Rightarrow> Edit (edit_machines (mdel canon)) (unlock (Inl e))
          | None \<Rightarrow> unlock (Inr (profileETag env canon (m_Profile m))))))"

definition CreateAndSave_thread :: "fleet_env \<Rightarrow> save_io \<Rightarrow> Machine \<Rightarrow> (fleet_error + string \<Rightarrow> activity) \<Rightarrow> activity" where
  "CreateAndSave_thread env io m k =
     (case CanonicalMAC (m_MAC m) of Inl e \<Rightarrow> k (Inl (InvalidMAC e))
      | Inr canon \<Rightarrow> Look (\<lambda>st.
      case validateProfile (sv_fs st) (m_Profile m) of Inl e \<Rightarrow> k (Inl e)
      | Inr _ \<Rightarrow> Lock (Sect (CreateAndSave_check env io m canon k))))"

definition UpdateAndSave_check :: "fleet_env \<Rightarrow> save_io \<Rightarrow> Machine \<Rightarrow> string \<Rightarrow> string \<Rightarrow> (fleet_error + string \<Rightarrow> activity)
    \<Rightarrow> server_state \<Rightarrow> server_state \<times> activity" where
  "UpdateAndSave_check env io m ifMatch canon k st =
     (let unlock = (\<lambda>r. Unlock (UpdateAnswer m ifMatch r) (k r)) in
      case mget (f_machines (the_fleet st)) canon of
        None \<Rightarrow> (st, unlock (Inl ErrMACAbsent))
      | Some prior \<Rightarrow>
          if profileETag env canon prior \<noteq> ifMatch then (st, unlock (Inl ErrPreconditionFailed))
          else (edit_machines (mput canon (m_Profile m)) st,
            Save_thread env io (\<lambda>saved.
              case saved of
                Some e \<Rightarrow> Edit (edit_machines (mput canon prior)) (unlock (Inl e))
              | None \<Rightarrow> unlock (Inr (profileETag env canon (m_Profile m))))))"

definition UpdateAndSave_thread :: "fleet_env \<Rightarrow> save_io \<Rightarrow> Machine \<Rightarrow> string \<Rightarrow> (fleet_error + string \<Rightarrow> activity)
    \<Rightarrow> activity" where
  "UpdateAndSave_thread env io m ifMatch k =
     (case CanonicalMAC (m_MAC m) of Inl e \<Rightarrow> k (Inl (InvalidMAC e))
      | Inr canon \<Rightarrow> Look (\<lambda>st.
      case validateProfile (sv_fs st) (m_Profile m) of Inl e \<Rightarrow> k (Inl e)
      | Inr _ \<Rightarrow>
          if ifMatch = [] then k (Inl ErrPreconditionRequired)
          else Lock (Sect (UpdateAndSave_check env io m ifMatch canon k))))"

definition DeleteAndSave_check :: "fleet_env \<Rightarrow> save_io \<Rightarrow> string \<Rightarrow> string \<Rightarrow> string
    \<Rightarrow> (bool \<times> fleet_error option \<Rightarrow> activity) \<Rightarrow> server_state \<Rightarrow> server_state \<times> activity" where
  "DeleteAndSave_check env io mac ifMatch canon k st =
     (let unlock = (\<lambda>r. Unlock (DeleteAnswer mac ifMatch r) (k r)) in
      case mget (f_machines (the_fleet st)) canon of
        None \<Rightarrow> (st, unlock (False, None))
      | Some prior \<Rightarrow>
          if ifMatch \<noteq> [] \<and> profileETag env canon prior \<noteq> ifMatch
          then (st, unlock (True, Some ErrPreconditionFailed))
          else (edit_machines (mdel canon) st,
            Save_thread env io (\<lambda>saved.
              case saved of
                Some e \<Rightarrow> Edit (edit_machines (mput canon prior)) (unlock (True, Some e))
              | None \<Rightarrow> unlock (True, None))))"

definition DeleteAndSave_thread :: "fleet_env \<Rightarrow> save_io \<Rightarrow> string \<Rightarrow> string \<Rightarrow> (bool \<times> fleet_error option \<Rightarrow> activity)
    \<Rightarrow> activity" where
  "DeleteAndSave_thread env io mac ifMatch k =
     (case CanonicalMAC mac of Inl e \<Rightarrow> k (False, Some (InvalidMAC e))
      | Inr canon \<Rightarrow> Lock (Sect (DeleteAndSave_check env io mac ifMatch canon k)))"

text \<open>\<^verbatim>\<open>Reload\<close> reads and checks the file, and then swaps the fleet under \<^verbatim>\<open>mu\<close>.\<close>

definition Reload_locked :: "fleet_env \<Rightarrow> (fleet_error option \<Rightarrow> activity) \<Rightarrow> activity" where
  "Reload_locked env k =
     (let unlock = (\<lambda>r. Unlock (ReloadAnswer r) (k r)) in
      Look (\<lambda>st.
        case reload_fleet env (sv_fs st) (the_fleet st) of
          (Some e, _) \<Rightarrow> unlock (Some e)
        | (None, f') \<Rightarrow> Edit (\<lambda>st. st\<lparr>sv_fleet := map_option (\<lambda>_. f') (sv_fleet st)\<rparr>) (unlock None)))"

definition Reload_thread :: "fleet_env \<Rightarrow> (fleet_error option \<Rightarrow> activity) \<Rightarrow> activity" where
  "Reload_thread env k =
     Look (\<lambda>st. if f_path (the_fleet st) = [] then k (Some NoConfigPath) else Lock (Reload_locked env k))"

lemmas fleet_threads = CreateAndSave_thread_def CreateAndSave_check_def UpdateAndSave_thread_def UpdateAndSave_check_def
  DeleteAndSave_thread_def DeleteAndSave_check_def Reload_thread_def Reload_locked_def

lemma edit_machines_simps [simp]:
  "sv_fleet (edit_machines g st) = map_option (\<lambda>f. f\<lparr>f_machines := g (f_machines f)\<rparr>) (sv_fleet st)"
  "sv_fs (edit_machines g st) = sv_fs st"
  by (simp_all add: edit_machines_def)

lemma the_fleet_simps [simp]: "sv_fleet st = Some f \<Longrightarrow> the_fleet st = f" "the_fleet (st\<lparr>sv_fs := fs\<rparr>) = the_fleet st"
  by (simp_all add: the_fleet_def)

section \<open>Undisturbed\<close>

lemma put_fleet_same: "sv_fleet st = Some f \<Longrightarrow> put_fleet st (sv_fs st, f) = st"
  by (simp add: put_fleet_def)

lemma alone_Save: "sv_fleet st = Some f \<Longrightarrow> alone (Save_thread env io k) st
    = (case Save env io (sv_fs st) f of (e, fs') \<Rightarrow> alone (k e) (st\<lparr>sv_fs := fs'\<rparr>))"
  by (simp add: Save_thread_def prod.case_eq_if)

lemma alone_Create:
  "sv_fleet st = Some f \<Longrightarrow> alone (CreateAndSave_thread env io m k) st
     = (case CreateAndSave env io m (sv_fs st, f) of (r, st') \<Rightarrow> alone (k r) (put_fleet st st'))"
  by (cases st) (auto simp: fleet_threads CreateAndSave_def alone_Save Let_def put_fleet_def edit_machines_def
      split: sum.split prod.split option.split)

lemma alone_Update:
  "sv_fleet st = Some f \<Longrightarrow> alone (UpdateAndSave_thread env io m tag k) st
     = (case UpdateAndSave env io m tag (sv_fs st, f) of (r, st') \<Rightarrow> alone (k r) (put_fleet st st'))"
  by (cases st) (auto simp: fleet_threads UpdateAndSave_def alone_Save Let_def put_fleet_def edit_machines_def
      split: sum.split prod.split option.split)

lemma alone_Delete:
  "sv_fleet st = Some f \<Longrightarrow> alone (DeleteAndSave_thread env io mac tag k) st
     = (case DeleteAndSave env io mac tag (sv_fs st, f) of (r, st') \<Rightarrow> alone (k r) (put_fleet st st'))"
  by (cases st) (auto simp: fleet_threads DeleteAndSave_def alone_Save Let_def put_fleet_def edit_machines_def
      split: sum.split prod.split option.split)

lemma reload_fleet_same: "reload_fleet env fs f = (Some e, f') \<Longrightarrow> f' = f"
  by (auto simp: reload_fleet_def Let_def split: option.splits sum.splits prod.splits)

lemma alone_Reload:
  "sv_fleet st = Some f \<Longrightarrow> alone (Reload_thread env k) st
     = (case Reload env (sv_fs st) f of (r, f') \<Rightarrow> alone (k r) (st\<lparr>sv_fleet := Some f'\<rparr>))"
  by (cases st) (auto simp: fleet_threads Reload_def Let_def split: prod.split option.split dest: reload_fleet_same)

lemmas alone_fleet = alone_Create alone_Update alone_Delete alone_Reload

section \<open>Under the lock\<close>

text \<open>
  The call done in one piece: the fleet it found, what it answered, and the fleet it left, on some disk and with some
  outcome of the save.
\<close>

fun fleet_call :: "fleet_env \<Rightarrow> Fleet \<Rightarrow> fleet_event \<Rightarrow> Fleet \<Rightarrow> bool" where
  "fleet_call env f (CreateAnswer m r) f' \<longleftrightarrow> (\<exists>io fs fs'. CreateAndSave env io m (fs, f) = (r, fs', f'))"
| "fleet_call env f (UpdateAnswer m tag r) f' \<longleftrightarrow> (\<exists>io fs fs'. UpdateAndSave env io m tag (fs, f) = (r, fs', f'))"
| "fleet_call env f (DeleteAnswer mac tag r) f' \<longleftrightarrow> (\<exists>io fs fs'. DeleteAndSave env io mac tag (fs, f) = (r, fs', f'))"
| "fleet_call env f (ReloadAnswer r) f' \<longleftrightarrow> (\<exists>fs. reload_fleet env fs f = (r, f'))"

definition fleet_spec :: "fleet_env \<Rightarrow> Fleet option \<Rightarrow> fleet_event \<Rightarrow> Fleet option \<Rightarrow> bool" where
  "fleet_spec env p e p' \<longleftrightarrow> (\<forall>f. p = Some f \<longrightarrow> (\<exists>f'. p' = Some f' \<and> fleet_call env f e f'))"

lemma fleet_specI:
  "(\<And>f. p = Some f \<Longrightarrow> \<exists>io fs. let r = CreateAndSave env io m (fs, f) in e = CreateAnswer m (fst r) \<and> p' = Some (snd (snd r)))
     \<Longrightarrow> fleet_spec env p e p'"
  "(\<And>f. p = Some f \<Longrightarrow> \<exists>io fs. let r = UpdateAndSave env io m tag (fs, f) in e = UpdateAnswer m tag (fst r) \<and> p' = Some (snd (snd r)))
     \<Longrightarrow> fleet_spec env p e p'"
  "(\<And>f. p = Some f \<Longrightarrow> \<exists>io fs. let r = DeleteAndSave env io mac tag (fs, f) in e = DeleteAnswer mac tag (fst r) \<and> p' = Some (snd (snd r)))
     \<Longrightarrow> fleet_spec env p e p'"
  "(\<And>f. p = Some f \<Longrightarrow> \<exists>fs. let r = reload_fleet env fs f in e = ReloadAnswer (fst r) \<and> p' = Some (snd r))
     \<Longrightarrow> fleet_spec env p e p'"
  unfolding fleet_spec_def Let_def by (metis fleet_call.simps prod.collapse)+

text \<open>Whether a save works does not depend on what is on the disk.\<close>

lemma Save_result: "fst (Save env io fs f) = fst (Save env io fs' f)"
  by (auto simp: Save_def Let_def split: option.split save_fault.split)

lemma block_Save:
  assumes "block sv_fleet (Save_thread env io k) (Some f) e p'"
  shows "block sv_fleet (k (fst (Save env io fs f))) (Some f) e p'"
  using assms Save_result by (auto simp: Save_thread_def prod.case_eq_if block_Sect) metis

lemma performs_Save: "(\<And>e. performs P spec (k e)) \<Longrightarrow> performs P spec (Save_thread env io k)"
  by (simp add: Save_thread_def Let_def prod.case_eq_if)

lemma block_first:
  assumes "block sv_fleet (Sect g) (Some f) e p'"
  obtains s where "sv_fleet s = Some f" "block sv_fleet (snd (g s)) (sv_fleet (fst (g s))) e p'"
  using assms by (auto simp: block_Sect)

lemma Create_locked:
  assumes "CanonicalMAC (m_MAC m) = Inr c" "validateProfile fs (m_Profile m) = Inr u"
    "block sv_fleet (Sect (CreateAndSave_check env io m c k)) p e p'"
  shows "fleet_spec env p e p'"
proof (rule fleet_specI(1) [where m = m], rule exI [of _ io], rule exI [of _ fs])
  fix f assume p: "p = Some f"
  let ?saved = "fst (Save env io fs (f\<lparr>f_machines := mput c (m_Profile m) (f_machines f)\<rparr>))"
  note defs = CreateAndSave_def Let_def prod.case_eq_if assms(1,2)
  from assms(3) [unfolded p] show "let r = CreateAndSave env io m (fs, f) in e = CreateAnswer m (fst r) \<and> p' = Some (snd (snd r))"
  proof (rule block_first)
    fix s
    assume "sv_fleet s = Some f" and b: "block sv_fleet (snd (CreateAndSave_check env io m c k s))
      (sv_fleet (fst (CreateAndSave_check env io m c k s))) e p'"
    then show ?thesis
    proof (cases "c \<in> mkeys (f_machines f)")
      case False
      with b \<open>sv_fleet s = Some f\<close> show ?thesis
        by (simp add: CreateAndSave_check_def Let_def) (drule block_Save [where fs = fs], cases ?saved, auto simp: defs)
    qed (simp add: CreateAndSave_check_def defs)
  qed
qed

lemma Update_locked:
  assumes "CanonicalMAC (m_MAC m) = Inr c" "validateProfile fs (m_Profile m) = Inr u" "tag \<noteq> []"
    "block sv_fleet (Sect (UpdateAndSave_check env io m tag c k)) p e p'"
  shows "fleet_spec env p e p'"
proof (rule fleet_specI(2) [where m = m and tag = tag], rule exI [of _ io], rule exI [of _ fs])
  fix f assume p: "p = Some f"
  let ?saved = "fst (Save env io fs (f\<lparr>f_machines := mput c (m_Profile m) (f_machines f)\<rparr>))"
  note defs = UpdateAndSave_def Let_def prod.case_eq_if assms(1,2,3)
  from assms(4) [unfolded p]
  show "let r = UpdateAndSave env io m tag (fs, f) in e = UpdateAnswer m tag (fst r) \<and> p' = Some (snd (snd r))"
  proof (rule block_first)
    fix s
    assume s: "sv_fleet s = Some f" and b: "block sv_fleet (snd (UpdateAndSave_check env io m tag c k s))
      (sv_fleet (fst (UpdateAndSave_check env io m tag c k s))) e p'"
    show ?thesis
    proof (cases "\<exists>prior. mget (f_machines f) c = Some prior \<and> profileETag env c prior = tag")
      case True
      with b s show ?thesis
        by (elim exE conjE, simp add: UpdateAndSave_check_def Let_def)
          (drule block_Save [where fs = fs], cases ?saved, auto simp: defs)
    next
      case False
      with b s show ?thesis
        by (cases "mget (f_machines f) c") (simp_all add: UpdateAndSave_check_def defs)
    qed
  qed
qed

lemma Delete_locked:
  assumes "CanonicalMAC mac = Inr c" "block sv_fleet (Sect (DeleteAndSave_check env io mac tag c k)) p e p'"
  shows "fleet_spec env p e p'"
proof (rule fleet_specI(3) [where mac = mac and tag = tag], rule exI [of _ io], rule exI)
  fix f assume p: "p = Some f"
  let ?fs = "\<lambda>_. None"
  let ?saved = "fst (Save env io ?fs (f\<lparr>f_machines := mdel c (f_machines f)\<rparr>))"
  note defs = DeleteAndSave_def Let_def prod.case_eq_if assms(1)
  from assms(2) [unfolded p]
  show "let r = DeleteAndSave env io mac tag (?fs, f) in e = DeleteAnswer mac tag (fst r) \<and> p' = Some (snd (snd r))"
  proof (rule block_first)
    fix s
    assume s: "sv_fleet s = Some f" and b: "block sv_fleet (snd (DeleteAndSave_check env io mac tag c k s))
      (sv_fleet (fst (DeleteAndSave_check env io mac tag c k s))) e p'"
    show ?thesis
    proof (cases "\<exists>prior. mget (f_machines f) c = Some prior \<and> (tag = [] \<or> profileETag env c prior = tag)")
      case True
      then obtain prior where q: "mget (f_machines f) c = Some prior" "\<not> (tag \<noteq> [] \<and> profileETag env c prior \<noteq> tag)"
        by blast
      with b s show ?thesis
        by (simp add: DeleteAndSave_check_def Let_def del: de_Morgan_conj)
          (drule block_Save [where fs = ?fs], cases ?saved, auto simp add: defs simp del: de_Morgan_conj)
    next
      case False
      with b s show ?thesis
        by (cases "mget (f_machines f) c") (auto simp add: DeleteAndSave_check_def defs)
    qed
  qed
qed

lemma Reload_under_lock:
  assumes "block sv_fleet (Reload_locked env k) p e p'"
  shows "fleet_spec env p e p'"
proof (rule fleet_specI(4))
  fix f assume "p = Some f"
  with assms obtain fs where "block sv_fleet (case reload_fleet env fs f of
      (Some e, _) \<Rightarrow> Unlock (ReloadAnswer (Some e)) (k (Some e))
    | (None, f') \<Rightarrow> Edit (\<lambda>st. st\<lparr>sv_fleet := map_option (\<lambda>_. f') (sv_fleet st)\<rparr>) (Unlock (ReloadAnswer None) (k None)))
    (Some f) e p'"
    by (auto simp: Reload_locked_def Let_def)
  then show "\<exists>fs. let r = reload_fleet env fs f in e = ReloadAnswer (fst r) \<and> p' = Some (snd r)"
    by (intro exI [of _ fs]) (auto split: prod.splits option.splits dest: reload_fleet_same)
qed

section \<open>What the threads keep\<close>

lemma performs_fleet_threads:
  assumes "\<And>r. performs sv_fleet (fleet_spec env) (k r)"
  shows "performs sv_fleet (fleet_spec env) (CreateAndSave_thread env io m k)"
    "performs sv_fleet (fleet_spec env) (UpdateAndSave_thread env io m tag k)"
  using assms by (auto simp: CreateAndSave_thread_def CreateAndSave_check_def UpdateAndSave_thread_def UpdateAndSave_check_def
      Let_def performs_Save Create_locked Update_locked split: sum.split option.split)

lemma performs_fleet_threads2:
  assumes "\<And>r. performs sv_fleet (fleet_spec env) (k r)"
  shows "performs sv_fleet (fleet_spec env) (DeleteAndSave_thread env io mac tag k)"
  using assms by (auto simp: DeleteAndSave_thread_def DeleteAndSave_check_def
      Let_def performs_Save Delete_locked split: sum.split option.split)

lemma performs_Reload:
  assumes "\<And>r. performs sv_fleet (fleet_spec env) (k r)"
  shows "performs sv_fleet (fleet_spec env) (Reload_thread env k)"
  using assms Reload_under_lock [of env k] by (auto simp: Reload_thread_def) 
   (auto simp: Reload_locked_def Let_def split: prod.split option.split)

text \<open>The lock is taken before the fleet is touched, and given up on every path.\<close>

lemma disciplined_Save: "(\<And>e. disciplined sv_fleet (k e) True) \<Longrightarrow> disciplined sv_fleet (Save_thread env io k) True"
  by (simp add: Save_thread_def Let_def prod.case_eq_if)

lemma disciplined_fleet_threads:
  assumes "\<And>r. disciplined sv_fleet (k r) False"
  shows "disciplined sv_fleet (CreateAndSave_thread env io m k) False"
    "disciplined sv_fleet (UpdateAndSave_thread env io m tag k) False"
  using assms by (auto simp: fleet_threads Let_def disciplined_Save split: sum.split option.split prod.splits)

lemma disciplined_Delete:
  assumes "\<And>r. disciplined sv_fleet (k r) False"
  shows "disciplined sv_fleet (DeleteAndSave_thread env io mac tag k) False"
  using assms by (auto simp: fleet_threads Let_def disciplined_Save split: sum.split option.split prod.splits)

lemma disciplined_Reload:
  assumes "\<And>r. disciplined sv_fleet (k r) False"
  shows "disciplined sv_fleet (Reload_thread env k) False"
  using assms by (auto simp: fleet_threads Let_def disciplined_Save split: sum.split option.split prod.splits)

text \<open>The stores are well formed at every section: while a call is saving, and before it is rolled back, too.\<close>

definition sound :: "duration \<Rightarrow> server_state \<Rightarrow> bool" where
  "sound ttl st \<longleftrightarrow> wired st \<and> stores_ok ttl st"

lemma sound_edit:
  assumes "sound ttl st"
  shows "is_canonical c \<Longrightarrow> keys_ok (p_Params p) \<Longrightarrow> sound ttl (edit_machines (mput c p) st)"
    "sound ttl (edit_machines (mdel c) st)" "sound ttl (st\<lparr>sv_fs := fs\<rparr>)"
  using assms by (cases "sv_fleet st"; simp add: sound_def wired_def stores_defs edit_machines_def fleet_ok_mput fleet_ok_mdel)+

lemma sound_prior: "sound ttl st \<Longrightarrow> mget (f_machines (the_fleet st)) c = Some p \<Longrightarrow> keys_ok (p_Params p)"
  by (cases "sv_fleet st") (auto simp: sound_def the_fleet_def stores_defs fleet_ok_def Empty_Fleet_def dest: machines_ok_params)

lemma keeps_Save: "(\<And>e. keeps (sound ttl) (k e)) \<Longrightarrow> keeps (sound ttl) (Save_thread env io k)"
  by (simp add: Save_thread_def Let_def prod.case_eq_if sound_edit)

lemma keeps_Create:
  assumes "\<And>r. keeps (sound ttl) (k r)" "keys_ok (p_Params (m_Profile m))"
  shows "keeps (sound ttl) (CreateAndSave_thread env io m k)"
  using assms by (auto simp: fleet_threads Let_def intro!: keeps_Save sound_edit dest!: canonical_result
      split: sum.split option.split prod.splits if_splits)

lemma keeps_Update:
  assumes "\<And>r. keeps (sound ttl) (k r)" "keys_ok (p_Params (m_Profile m))"
  shows "keeps (sound ttl) (UpdateAndSave_thread env io m tag k)"
  using assms by (auto simp: fleet_threads Let_def intro!: keeps_Save sound_edit dest!: canonical_result dest: sound_prior
      split: sum.split option.split prod.splits if_splits)

lemma keeps_Delete:
  assumes "\<And>r. keeps (sound ttl) (k r)"
  shows "keeps (sound ttl) (DeleteAndSave_thread env io mac tag k)"
  using assms by (auto simp: fleet_threads Let_def intro!: keeps_Save sound_edit dest!: canonical_result dest: sound_prior
      split: sum.split option.split prod.splits if_splits)

lemma sound_fleet: "sound ttl st \<Longrightarrow> fleet_ok (the_fleet st)"
  by (cases "sv_fleet st") (auto simp: sound_def the_fleet_def stores_defs)

lemma sound_swap: "sound ttl st \<Longrightarrow> fleet_ok f \<Longrightarrow> sound ttl (st\<lparr>sv_fleet := map_option (\<lambda>_. f) (sv_fleet st)\<rparr>)"
  by (auto simp: sound_def wired_def stores_defs)

lemma keeps_Reload:
  assumes "\<And>r. keeps (sound ttl) (k r)"
  shows "keeps (sound ttl) (Reload_thread env k)"
proof -
  have "fleet_ok f'" if "sound ttl st" "reload_fleet env fs (the_fleet st) = (r, f')" for st fs r f'
    using reload_fleet_ok [OF sound_fleet [OF that(1)], of env fs] that(2) by simp
  with assms sound_swap show ?thesis
    by (auto simp: fleet_threads Let_def split: option.split prod.split)
qed

end
