(* ===== verification/Handler_Threads.thy ===== *)
theory Handler_Threads
  imports Fleet_Threads
begin

text \<open>
  The activities of the program as threads: every HTTP request, DHCP packet, hint timer, file transfer and SIGHUP.
  A handler that takes several locks for writing, one after the other, is the sequence of
  those sections; what it reads between two of them is one more section.  Every other handler writes at most once, and is
  one section.  Two reloads may overlap here, which the single loop of \<^verbatim>\<open>watchSIGHUP\<close> rules out.
\<close>

section \<open>Callbacks and intents\<close>

text \<open>The stores are wired once and for all: a section on the queue finds it where the check before found it.\<close>

definition with_pending :: "(Pending \<Rightarrow> 'a \<times> Pending) \<Rightarrow> ('a \<Rightarrow> activity) \<Rightarrow> activity" where
  "with_pending g k = Sect (\<lambda>st. case sv_pending st of None \<Rightarrow> (st, Return Quiet)
     | Some p \<Rightarrow> case g p of (a, p') \<Rightarrow> (st\<lparr>sv_pending := Some p'\<rparr>, k a))"

definition notePhase_thread :: "http_env \<Rightarrow> string \<Rightarrow> Event \<Rightarrow> activity \<Rightarrow> activity" where
  "notePhase_thread env mac phase k =
     Edit (note_event env mac phase) (Look (\<lambda>st.
       case sv_pending st of
         Some pend \<Rightarrow>
           if phase = EventInstallerDone then
             (case Pending_Status (he_now env) mac pend of
                Some (action, at, exp) \<Rightarrow>
                  if action = ActionInstall then with_pending (Cancel mac) (\<lambda>_. k) else k
              | None \<Rightarrow> k)
           else k
       | None \<Rightarrow> k))"

definition event_thread :: "http_env \<Rightarrow> http_options \<Rightarrow> request \<Rightarrow> ResponseWriter \<Rightarrow> activity" where
  "event_thread env opt rq w =
     Look (\<lambda>st.
      case fleetReady rq st w of Inl w' \<Rightarrow> Return (Replied w') | Inr (f, t) \<Rightarrow>
      case extractMAC env rq w of Inl w' \<Rightarrow> Return (Replied w') | Inr mac \<Rightarrow>
      let p = Lookup f mac; phase = parseEventPhase env rq in
      case phase_event phase of
        None \<Rightarrow> Return (Replied (writeError rq 400 ErrCodeActionInvalid
          (''phase must be '' @ [CHR 0x22] @ ''installer-done'' @ [CHR 0x22] @ '' or '' @ [CHR 0x22] @ ''installer-failed'' @ [CHR 0x22])
          [(''got'', DetailString phase)] w))
      | Some ev \<Rightarrow> notePhase_thread env mac ev (Look (\<lambda>st.
          Return (Replied (if wantsJSON rq then writeJSON (JMachine (buildMachineView env st mac p)) w
                           else serve_bytes text_plain (''ok'' @ newline) w)))))"

definition intent_thread :: "http_env \<Rightarrow> http_options \<Rightarrow> request \<Rightarrow> ResponseWriter \<Rightarrow> activity" where
  "intent_thread env opt rq w =
     Look (\<lambda>st.
      case apiReady st w of Inl w' \<Rightarrow> Return (Replied w') | Inr (f, t, pend) \<Rightarrow>
      case apiExtractFleetMAC env rq f w of Inl w' \<Rightarrow> Return (Replied w') | Inr (mac, p) \<Rightarrow>
      case intent_action env rq w of Inl w' \<Rightarrow> Return (Replied w') | Inr action \<Rightarrow>
      let view = Look (\<lambda>st. Return (Replied (writeJSON (JIntent (buildIntentView env st mac)) w)));
          queued = (\<lambda>what r. case r of
            Inl e \<Rightarrow> Return (Replied (writeAPIError 500 ErrCodePendingFailed (what @ he_text env (EMac e)) [] w))
          | Inr _ \<Rightarrow> view)
      in if action = ''install'' then with_pending (Install (he_now env) mac) (queued ''install: '')
         else if action = ''rescue'' then with_pending (Rescue (he_now env) mac) (queued ''rescue: '')
         else if action = [] then with_pending (Cancel mac) (\<lambda>_. view)
         else Return (Replied (writeAPIError 400 ErrCodeActionInvalid
           (''action must be '' @ [CHR 0x22] @ ''install'' @ [CHR 0x22] @ '', '' @ [CHR 0x22] @ ''rescue'' @ [CHR 0x22]
             @ '', or null; got '' @ action)
           [(''got'', DetailString action), (''accepted'', accepted_actions)] w)))"

section \<open>Fleet edits\<close>

definition create_thread :: "http_env \<Rightarrow> http_options \<Rightarrow> request \<Rightarrow> ResponseWriter \<Rightarrow> activity" where
  "create_thread env opt rq w =
     Look (\<lambda>st.
      case fleetReady rq st w of Inl w' \<Rightarrow> Return (Replied w') | Inr (f, t) \<Rightarrow>
      case requireJSON rq w of Inl w' \<Rightarrow> Return (Replied w') | Inr _ \<Rightarrow>
      case decodeMachineBody env rq w of Inl w' \<Rightarrow> Return (Replied w') | Inr b \<Rightarrow>
      case CanonicalMAC (mc_MAC b) of
        Inl e \<Rightarrow> Return (Replied (writeAPIError 400 ErrCodeMACInvalid (''invalid mac: '' @ he_text env (EMac e))
          [(''input'', DetailString (mc_MAC b))] w))
      | Inr canon \<Rightarrow>
      case profileFromBody f b w of Inl w' \<Rightarrow> Return (Replied w') | Inr p \<Rightarrow>
      CreateAndSave_thread (he_fleet env) (he_save env) \<lparr>m_MAC = canon, m_Profile = p\<rparr> (\<lambda>r.
        case r of
          Inl e \<Rightarrow> Return (Replied (writeFleetMutationError env canon ''create'' e w))
        | Inr etag \<Rightarrow> Look (\<lambda>st. Return (Replied
            (writeJSON (JMachine (buildMachineView env st canon p)) (WriteHeader 201 (set_header ''ETag'' etag w)))))))"

definition update_thread :: "http_env \<Rightarrow> http_options \<Rightarrow> request \<Rightarrow> ResponseWriter \<Rightarrow> activity" where
  "update_thread env opt rq w =
     Look (\<lambda>st.
      case fleetReady rq st w of Inl w' \<Rightarrow> Return (Replied w') | Inr (f, t) \<Rightarrow>
      case requireJSON rq w of Inl w' \<Rightarrow> Return (Replied w') | Inr _ \<Rightarrow>
      let raw = rq_PathValue rq ''mac'' in
      case CanonicalMAC raw of
        Inl e \<Rightarrow> Return (Replied (writeAPIError 400 ErrCodeMACInvalid (''invalid mac: '' @ he_text env (EMac e))
          [(''input'', DetailString raw)] w))
      | Inr canon \<Rightarrow>
      case decodeMachineBody env rq w of Inl w' \<Rightarrow> Return (Replied w') | Inr b \<Rightarrow>
      case profileFromBody f b w of Inl w' \<Rightarrow> Return (Replied w') | Inr p \<Rightarrow>
      UpdateAndSave_thread (he_fleet env) (he_save env) \<lparr>m_MAC = canon, m_Profile = p\<rparr> (rq_Header rq ''If-Match'') (\<lambda>r.
        case r of
          Inl e \<Rightarrow> Return (Replied (writeFleetMutationError env canon ''update'' e w))
        | Inr etag \<Rightarrow> Look (\<lambda>st. Return (Replied
            (writeJSON (JMachine (buildMachineView env st canon p)) (set_header ''ETag'' etag w))))))"

definition delete_thread :: "http_env \<Rightarrow> http_options \<Rightarrow> request \<Rightarrow> ResponseWriter \<Rightarrow> activity" where
  "delete_thread env opt rq w =
     Look (\<lambda>st.
      case fleetReady rq st w of Inl w' \<Rightarrow> Return (Replied w') | Inr (f, t) \<Rightarrow>
      let raw = rq_PathValue rq ''mac'' in
      case CanonicalMAC raw of
        Inl e \<Rightarrow> Return (Replied (writeAPIError 400 ErrCodeMACInvalid (''invalid mac: '' @ he_text env (EMac e))
          [(''input'', DetailString raw)] w))
      | Inr canon \<Rightarrow>
      DeleteAndSave_thread (he_fleet env) (he_save env) canon (rq_Header rq ''If-Match'') (\<lambda>(existed, err).
        case err of
          Some e \<Rightarrow> Return (Replied (writeFleetMutationError env canon ''delete'' e w))
        | None \<Rightarrow>
            let answer = Return (Replied (WriteHeader 204 w)) in
            Look (\<lambda>st. if existed \<and> sv_pending st \<noteq> None then with_pending (Cancel canon) (\<lambda>_. answer) else answer)))"

definition reload_thread :: "http_env \<Rightarrow> http_options \<Rightarrow> request \<Rightarrow> ResponseWriter \<Rightarrow> activity" where
  "reload_thread env opt rq w =
     Look (\<lambda>st.
      case fleetReady rq st w of Inl w' \<Rightarrow> Return (Replied w') | Inr (f, t) \<Rightarrow>
      Reload_thread (he_fleet env) (\<lambda>r.
        case r of
          Some e \<Rightarrow> Return (Replied (redirectFlash ''err'' (''reload failed: '' @ he_text env (EFleet e)) w))
        | None \<Rightarrow>
            let answer = Return (Replied (redirectFlash ''ok'' ''fleet reloaded from disk'' w)) in
            Look (\<lambda>st.
              if sv_pending st = None then answer
              else let machines = Machines (the_fleet st)
                   in with_pending (Pending_RetainOnly (\<lambda>mac. mac \<in> mkeys machines)) (\<lambda>_. answer))))"

section \<open>Requests\<close>

definition atomic_handler :: "handler \<Rightarrow> http_env \<Rightarrow> http_options \<Rightarrow> request \<Rightarrow> ResponseWriter \<Rightarrow> activity" where
  "atomic_handler h env opt rq w = Atomic (\<lambda>st. map_prod id Replied (h env opt rq (st, w)))"

fun handler_thread :: "endpoint \<Rightarrow> http_env \<Rightarrow> http_options \<Rightarrow> request \<Rightarrow> ResponseWriter \<Rightarrow> activity" where
  "handler_thread EInstallEvent = event_thread"
| "handler_thread ESetIntent = intent_thread"
| "handler_thread ECreateMachine = create_thread"
| "handler_thread EUpdateMachine = update_thread"
| "handler_thread EDeleteMachine = delete_thread"
| "handler_thread EReload = reload_thread"
| "handler_thread e = atomic_handler (handler_of e)"

text \<open>What a guard answers a request it does not let through.\<close>

definition loopback_refusal :: "request \<Rightarrow> ResponseWriter \<Rightarrow> ResponseWriter option" where
  "loopback_refusal rq w =
     (if \<not> is_loopback (rq_RemoteAddr rq)
      then Some (http_Error ''admin is loopback-only; use SSH tunnel for remote access'' 403 w) else None)"

definition csrf_refusal :: "http_env \<Rightarrow> http_options \<Rightarrow> request \<Rightarrow> ResponseWriter \<Rightarrow> ResponseWriter option" where
  "csrf_refusal env opt rq w =
     (if rq_Method rq = ''POST'' then
        (if rq_FormError rq then Some (http_Error (''parse form: '' @ he_text env EForm) 400 w)
         else if get_value (rq_Form rq) ''csrf'' \<noteq> o_csrf opt then Some (http_Error ''csrf token mismatch'' 403 w)
         else None)
      else None)"

definition token_refusal :: "http_env \<Rightarrow> http_options \<Rightarrow> request \<Rightarrow> ResponseWriter \<Rightarrow> ResponseWriter option" where
  "token_refusal env opt rq w =
     (case o_CallbackTokens opt of None \<Rightarrow> None
      | Some sn \<Rightarrow>
          case CanonicalMAC (rq_PathValue rq ''mac'') of
            Inl e \<Rightarrow> Some (writeError rq 400 ErrCodeMACInvalid ''invalid MAC in path''
              [(''mac'', DetailString (rq_PathValue rq ''mac''))] w)
          | Inr mac \<Rightarrow>
              let tok = get_value (rq_Query rq) ''t'' in
              if tok = [] then
                (if o_RequireCallbackToken opt then
                   Some (writeError rq 403 ErrCodeCallbackToken ''missing callback token'' [(''mac'', DetailString mac)] w)
                 else None)
              else case Verify (he_hmac env) sn (he_now env) mac tok of
                Some e \<Rightarrow> Some (writeError rq 403 ErrCodeCallbackToken ''invalid callback token'' [(''mac'', DetailString mac)] w)
              | None \<Rightarrow> None)"

fun refusal :: "guard \<Rightarrow> http_env \<Rightarrow> http_options \<Rightarrow> request \<Rightarrow> ResponseWriter \<Rightarrow> ResponseWriter option" where
  "refusal Loopback env opt rq w = loopback_refusal rq w"
| "refusal CSRF env opt rq w = csrf_refusal env opt rq w"
| "refusal Token env opt rq w = token_refusal env opt rq w"

fun guarded_thread :: "guard list \<Rightarrow> endpoint \<Rightarrow> http_env \<Rightarrow> http_options \<Rightarrow> request \<Rightarrow> ResponseWriter \<Rightarrow> activity" where
  "guarded_thread [] e env opt rq w = handler_thread e env opt rq w"
| "guarded_thread (g # gs) e env opt rq w =
     (case refusal g env opt rq w of Some w' \<Rightarrow> Return (Replied w') | None \<Rightarrow> guarded_thread gs e env opt rq w)"

definition request_thread :: "http_env \<Rightarrow> http_options \<Rightarrow> request \<Rightarrow> activity" where
  "request_thread env opt rq =
     (case find (route_matches rq) (routes opt) of
        None \<Rightarrow> Return (Replied (http_Error ''404 page not found'' 404 new_writer))
      | Some r \<Rightarrow> guarded_thread (rt_Guards r) (rt_Endpoint r) env opt (bind_path r rq) new_writer)"

section \<open>Packets, timers, transfers, SIGHUP\<close>

text \<open>The offer is decided on what the stores say when the packet is looked at.\<close>

definition packet_thread :: "dhcp_lib \<Rightarrow> flags \<Rightarrow> time \<Rightarrow> string \<Rightarrow> udp_addr option \<Rightarrow> bool \<Rightarrow> Request \<Rightarrow> activity" where
  "packet_thread lib fl now source peer write_ok req =
     Look (\<lambda>st.
      let opts = listener_options fl now st in
      case BuildOffer lib (Some req) (so_Config opts) of (res, dec, sighting) \<Rightarrow>
      let sight = (case sighting of None \<Rightarrow> id
            | Some (mac, label, vc) \<Rightarrow>
                Edit (\<lambda>st. st\<lparr>sv_sightings := map_option (Sightings_Note now mac label vc) (sv_sightings st)\<rparr>))
      in sight (case res of Inl e \<Rightarrow> Return (Sent None)
         | Inr reply \<Rightarrow>
             case peer of None \<Rightarrow> Return (Sent None)
             | Some addr \<Rightarrow>
                 let dst = (if source = ''udp/67'' \<and> broadcastReply opts then (IPv4bcast, 68) else addr);
                     answer = Return (Sent (Some (reply, dst)));
                     ev = stage_event (dc_Stage dec)
                 in if \<not> write_ok then Return (Sent None)
                    else Edit (\<lambda>st. st\<lparr>sv_offers := map_option (\<lambda>m. fst (notePending opts now (dc_ClientMAC dec) m)) (sv_offers st)\<rparr>)
                      (if ev = [] then answer
                       else Edit (\<lambda>st. st\<lparr>sv_tracker := map_option (Tracker_Note (sv_fleet st) now (dc_ClientMAC dec) ev)
                          (sv_tracker st)\<rparr>) answer)))"

definition sighup_thread :: "fleet_env \<Rightarrow> activity" where
  "sighup_thread env =
     Reload_thread env (\<lambda>r.
       case r of Some e \<Rightarrow> Return Quiet
       | None \<Rightarrow> Look (\<lambda>st.
           let machines = Machines (the_fleet st); known = (\<lambda>mac. mac \<in> mkeys machines)
           in Edit (\<lambda>st. st\<lparr>sv_pending := map_option (\<lambda>p. snd (Pending_RetainOnly known p)) (sv_pending st)\<rparr>)
             (Edit (\<lambda>st. st\<lparr>sv_log := map_option (\<lambda>l. snd (InstallLog_RetainOnly known l)) (sv_log st)\<rparr>)
             (Edit (\<lambda>st. st\<lparr>sv_sightings := map_option (\<lambda>s. snd (Sightings_RetainOnly (\<lambda>mac. \<not> known mac) s)) (sv_sightings st)\<rparr>)
               (Return Quiet)))))"

definition timer_thread :: "hint_timer \<Rightarrow> activity" where
  "timer_thread h = Edit (\<lambda>st. st\<lparr>sv_offers := map_option (\<lambda>m. snd (fire_hint h m)) (sv_offers st)\<rparr>) (Return Quiet)"

definition transfer_thread :: "embedded \<Rightarrow> flags \<Rightarrow> time \<Rightarrow> string option \<Rightarrow> string \<Rightarrow> activity" where
  "transfer_thread emb fl now err filename =
     Atomic (\<lambda>st. case tftp_read emb fl now err filename st of (r, st') \<Rightarrow> (st', Transferred r))"

text \<open>Somebody else edits files.\<close>

definition disk_thread :: "filesys \<Rightarrow> activity" where
  "disk_thread fs = Edit (\<lambda>st. st\<lparr>sv_fs := fs\<rparr>) (Return Quiet)"

text \<open>Whatever arrives, with one YAML library, one hash and one working directory for all.\<close>

inductive activity :: "fleet_env \<Rightarrow> flags \<Rightarrow> http_options \<Rightarrow> activity \<Rightarrow> bool" for fe fl opt where
  request: "http_env_ok env \<Longrightarrow> he_fleet env = fe \<Longrightarrow> activity fe fl opt (request_thread env opt rq)"
| packet: "activity fe fl opt (packet_thread lib fl now source peer write_ok req)"
| timer: "activity fe fl opt (timer_thread h)"
| transfer: "activity fe fl opt (transfer_thread emb fl now err filename)"
| hangup: "fl_Config fl \<noteq> [] \<Longrightarrow> activity fe fl opt (sighup_thread fe)"
| disk: "activity fe fl opt (disk_thread fs)"

section \<open>Undisturbed, they are the handlers\<close>

lemma alone_with_pending: "sv_pending st = Some p \<Longrightarrow>
    alone (with_pending g k) st = (case g p of (a, p') \<Rightarrow> alone (k a) (st\<lparr>sv_pending := Some p'\<rparr>))"
  by (simp add: with_pending_def prod.case_eq_if)

lemma alone_notePhase: "alone (notePhase_thread env mac phase k) st = alone k (notePhase env mac phase st)"
  by (auto simp: notePhase_thread_def notePhase_def Let_def alone_with_pending prod.case_eq_if split: option.split)

lemma alone_event: "alone (event_thread env opt rq w) st = map_prod id Replied (handleInstallEvent env opt rq (st, w))"
  by (auto simp: event_thread_def handleInstallEvent_def Let_def alone_notePhase split: sum.split prod.split option.split)

lemma alone_intent: "alone (intent_thread env opt rq w) st = map_prod id Replied (handleAPISetIntent env opt rq (st, w))"
proof -
  have "apiReady st w = Inr (f, t, p) \<Longrightarrow> sv_pending st = Some p" for f t p
    by (auto simp: apiReady_def split: option.splits)
  then show ?thesis
    by (auto simp: intent_thread_def handleAPISetIntent_def Let_def alone_with_pending prod.case_eq_if split: sum.split)
qed

lemma alone_create: "alone (create_thread env opt rq w) st = map_prod id Replied (handleAPICreateMachine env opt rq (st, w))"
  by (auto simp: create_thread_def handleAPICreateMachine_def Let_def alone_fleet dest!: fleetReady_fleet
      split: sum.split prod.split)


lemma alone_update: "alone (update_thread env opt rq w) st = map_prod id Replied (handleAPIUpdateMachine env opt rq (st, w))"
  by (auto simp: update_thread_def handleAPIUpdateMachine_def Let_def alone_fleet dest!: fleetReady_fleet
      split: sum.split prod.split)

lemma alone_delete: "alone (delete_thread env opt rq w) st = map_prod id Replied (handleAPIDeleteMachine env opt rq (st, w))"
  by (auto simp: delete_thread_def handleAPIDeleteMachine_def Let_def alone_fleet alone_with_pending dest!: fleetReady_fleet
      split: sum.split prod.split option.split)

lemma alone_reload: "alone (reload_thread env opt rq w) st = map_prod id Replied (handleAdminReload env opt rq (st, w))"
  by (auto simp: reload_thread_def handleAdminReload_def Let_def alone_fleet alone_with_pending dest!: fleetReady_fleet
      split: sum.split prod.split option.split)

lemma alone_handler: "alone (handler_thread e env opt rq w) st = map_prod id Replied (handler_of e env opt rq (st, w))"
  by (cases e) (simp_all add: alone_event alone_intent alone_create alone_update alone_delete alone_reload atomic_handler_def)

lemma guard_refusal: "guard_handler g h env opt rq (st, w)
    = (case refusal g env opt rq w of Some w' \<Rightarrow> (st, w') | None \<Rightarrow> h env opt rq (st, w))"
  by (cases g) (simp_all add: loopbackOnly_def csrfGuard_def requireCallbackToken_def loopback_refusal_def csrf_refusal_def
    token_refusal_def Let_def split: option.split sum.split)

lemma alone_guarded: "alone (guarded_thread gs e env opt rq w) st
    = map_prod id Replied (foldr guard_handler gs (handler_of e) env opt rq (st, w))"
  by (induction gs) (simp_all add: alone_handler guard_refusal id_def split: option.split)

lemma alone_request: "alone (request_thread env opt rq) st = map_prod id Replied (serve env opt rq (st, new_writer))"
  by (simp add: request_thread_def serve_def run_route_def alone_guarded split: option.split)

lemma alone_sighup: "wired st \<Longrightarrow> alone (sighup_thread env) st = (watchSIGHUP env st, Quiet)"
  by (cases st) (auto simp: sighup_thread_def watchSIGHUP_def wired_def Let_def alone_Reload split: prod.split option.split)

lemma alone_packet:
  assumes "wired st" "sv_offers st = Some m" "packet_result lib fl now source peer write_ok req st = eff"
  shows "alone (packet_thread lib fl now source peer write_ok req) st = (after_packet now eff st, Sent (pk_sent eff))"
  using assms(1,2) unfolding assms(3) [symmetric]
  by (cases st) (auto simp: packet_thread_def packet_result_def handleOne_def after_packet_def wired_def listener_options_def Let_def
      split: prod.split option.split sum.split)

lemma alone_transfer: "tftp_read emb fl now err filename st = (r, st') \<Longrightarrow>
    alone (transfer_thread emb fl now err filename) st = (st', Transferred r)"
  by (simp add: transfer_thread_def)

lemma alone_timer: "sv_offers st = Some m \<Longrightarrow> alone (timer_thread h) st = (st\<lparr>sv_offers := Some (snd (fire_hint h m))\<rparr>, Quiet)"
  by (simp add: timer_thread_def)

end
