(* ===== verification/Concurrent.thy ===== *)
theory Concurrent
  imports Handler_Threads Http_Control
begin

text \<open>
  The program as a pool of threads: whatever requests, packets, timers, transfers, reloads and edits of files arrive,
  and however their critical sections interleave.
\<close>

section \<open>What every activity keeps\<close>

lemma sound_updates:
  assumes "sound ttl st"
  shows "sound ttl (note_event env mac ev st)"
    "sound ttl (st\<lparr>sv_offers := map_option g (sv_offers st)\<rparr>)"
    "sound ttl (st\<lparr>sv_pending := map_option (\<lambda>p. snd (Pending_RetainOnly keep p)) (sv_pending st)\<rparr>)"
    "sound ttl (st\<lparr>sv_log := map_option (\<lambda>l. snd (InstallLog_RetainOnly keep l)) (sv_log st)\<rparr>)"
    "sound ttl (st\<lparr>sv_sightings := map_option (\<lambda>s. snd (Sightings_RetainOnly keep s)) (sv_sightings st)\<rparr>)"
    "sound ttl (st\<lparr>sv_sightings := map_option (Sightings_Note now mac label vc) (sv_sightings st)\<rparr>)"
    "sound ttl (st\<lparr>sv_tracker := map_option (Tracker_Note fl now mac ev) (sv_tracker st)\<rparr>)"
  using assms by (auto simp: sound_def wired_def stores_defs store_ops sight.well_keyed_retain note_event_def
      intro!: pred_option_map split: option.split)

text \<open>The operations the queue is changed by keep it well formed.\<close>

definition queue_operation :: "duration \<Rightarrow> (Pending \<Rightarrow> 'a \<times> Pending) \<Rightarrow> bool" where
  "queue_operation ttl g \<longleftrightarrow> (\<forall>p. pq.well_keyed p \<and> ps_ttl p = ttl \<longrightarrow> pq.well_keyed (snd (g p)) \<and> ps_ttl (snd (g p)) = ttl)"

lemma queue_operations [simp]:
  "queue_operation ttl (Cancel mac)" "queue_operation ttl (Install now mac)" "queue_operation ttl (Rescue now mac)"
  "queue_operation ttl (Pending_RetainOnly keep)"
  by (simp_all add: queue_operation_def Install_def Rescue_def store_ops)

lemma keeps_with_pending:
  assumes "queue_operation ttl g" "\<And>a. keeps (sound ttl) (k a)"
  shows "keeps (sound ttl) (with_pending g k)"
  using assms by (auto simp: with_pending_def queue_operation_def sound_def wired_def stores_defs prod.case_eq_if split: option.split)

lemma keeps_notePhase: "keeps (sound ttl) k \<Longrightarrow> keeps (sound ttl) (notePhase_thread env mac phase k)"
  by (auto simp: notePhase_thread_def sound_updates keeps_with_pending split: option.split)

lemma keeps_event: "keeps (sound ttl) (event_thread env opt rq w)"
  by (auto simp: event_thread_def Let_def keeps_notePhase split: sum.split option.split)

lemma keeps_intent: "keeps (sound ttl) (intent_thread env opt rq w)"
  by (auto simp: intent_thread_def Let_def keeps_with_pending split: sum.split)

lemma keeps_create: "http_env_ok env \<Longrightarrow> keeps (sound ttl) (create_thread env opt rq w)"
  by (auto simp: create_thread_def intro!: keeps_Create dest: body_params split: sum.split)

lemma keeps_update: "http_env_ok env \<Longrightarrow> keeps (sound ttl) (update_thread env opt rq w)"
  by (auto simp: update_thread_def Let_def intro!: keeps_Update dest: body_params split: sum.split)

lemma keeps_delete: "keeps (sound ttl) (delete_thread env opt rq w)"
  by (auto simp: delete_thread_def Let_def intro!: keeps_Delete keeps_with_pending split: sum.split option.split)

lemma keeps_reload: "keeps (sound ttl) (reload_thread env opt rq w)"
  by (auto simp: reload_thread_def Let_def intro!: keeps_Reload keeps_with_pending split: sum.split option.split)

lemma keeps_atomic: "http_env_ok env \<Longrightarrow> keeps (sound ttl) (atomic_handler (handler_of e) env opt rq w)"
  by (simp add: atomic_handler_def sound_def handler_keeps handler_wired)

lemma keeps_handler: "http_env_ok env \<Longrightarrow> keeps (sound ttl) (handler_thread e env opt rq w)"
  by (cases e) (simp_all only: handler_thread.simps keeps_event keeps_intent keeps_create keeps_update keeps_delete
      keeps_reload keeps_atomic)

lemma keeps_guarded: "http_env_ok env \<Longrightarrow> keeps (sound ttl) (guarded_thread gs e env opt rq w)"
  by (induction gs) (simp_all add: keeps_handler split: option.split)

lemma activity_keeps: "activity fe fl opt t \<Longrightarrow> keeps (sound ttl) t"
proof (induction rule: activity.induct)
  case (request env rq)
  then show ?case by (simp add: request_thread_def keeps_guarded split: option.split)
next
  case (packet lib now source peer write_ok req)
  show ?case by (auto simp: packet_thread_def Let_def sound_updates split: prod.split option.split sum.split)
next
  case (transfer emb now err filename)
  show ?case by (auto simp: transfer_thread_def tftp_read_def note_served_def Let_def sound_def wired_def stores_defs split: option.split)
next
  case hangup
  show ?case by (auto simp: sighup_thread_def Let_def sound_updates intro!: keeps_Reload split: option.split)
qed (simp_all add: timer_thread_def disk_thread_def sound_updates sound_edit)

interpretation conc: kept_pool "sound ttl" "activity fe fl opt" for ttl fe fl opt
  by unfold_locales (rule activity_keeps)

section \<open>The discipline of the lock\<close>

text \<open>Only the edits and reloads change the fleet, and only under the lock.\<close>

lemma handler_fleet:
  assumes "e \<notin> {ECreateMachine, EUpdateMachine, EDeleteMachine, EReload}"
  shows "sv_fleet (fst (handler_of e env opt rq (st, w))) = sv_fleet st"
proof (cases "public_page e")
  case True
  from page_effect [OF this, of st env opt rq w] show ?thesis by (simp add: public_effect_def)
next
  case False
  with assms show ?thesis
    by (cases e) (auto simp: handleInstallEvent_def notePhase_eq handleInstallLog_def handleAPISetIntent_def
        handleAPIDismissDiscovered_def handleAdminTemplateSave_def handleAdminTemplateReset_def handleAdminCloudInitSave_def
        handleAdminCloudInitReset_def note_event_def Let_def split: sum.split prod.split option.split)
qed

text \<open>What is shown of each activity: the discipline, and what it does under the lock.\<close>

definition locks_well :: "fleet_env \<Rightarrow> activity \<Rightarrow> bool" where
  "locks_well fe t \<longleftrightarrow> disciplined sv_fleet t False \<and> performs sv_fleet (fleet_spec fe) t"

lemma locks_well_simps [simp]:
  "locks_well fe (Return r)"
  "locks_well fe (Look g) = (\<forall>s. locks_well fe (g s))"
  "locks_well fe (Edit f t) \<longleftrightarrow> (\<forall>s. sv_fleet (f s) = sv_fleet s) \<and> locks_well fe t"
  "locks_well fe (Atomic h) = (\<forall>s. sv_fleet (fst (h s)) = sv_fleet s)"
  by (auto simp: locks_well_def)

lemma locks_well_fleet:
  "(\<And>r. locks_well fe (k r)) \<Longrightarrow> locks_well fe (CreateAndSave_thread fe io m k)"
  "(\<And>r. locks_well fe (k r)) \<Longrightarrow> locks_well fe (UpdateAndSave_thread fe io m tag k)"
  "(\<And>x e. locks_well fe (k' (x, e))) \<Longrightarrow> locks_well fe (DeleteAndSave_thread fe io mac tag k')"
  "(\<And>r. locks_well fe (k'' r)) \<Longrightarrow> locks_well fe (Reload_thread fe k'')"
  by (auto simp: locks_well_def intro!: disciplined_fleet_threads disciplined_Delete disciplined_Reload
      performs_fleet_threads performs_fleet_threads2 performs_Reload)

lemma locks_well_with_pending: "(\<And>a. locks_well fe (k a)) \<Longrightarrow> locks_well fe (with_pending g k)"
  by (auto simp: locks_well_def with_pending_def prod.case_eq_if split: option.split)

lemma locks_well_notePhase: "locks_well fe k \<Longrightarrow> locks_well fe (notePhase_thread env mac phase k)"
  by (auto simp: notePhase_thread_def note_event_def locks_well_with_pending split: option.split)

lemmas locks_well_intros = locks_well_fleet locks_well_with_pending locks_well_notePhase

lemma locks_well_handlers:
  "locks_well fe (event_thread env opt rq w)" "locks_well fe (intent_thread env opt rq w)"
  by (auto simp: event_thread_def intent_thread_def Let_def locks_well_intros split: sum.split option.split)

lemma locks_well_edits:
  assumes "he_fleet env = fe"
  shows "locks_well fe (create_thread env opt rq w)" "locks_well fe (update_thread env opt rq w)"
    "locks_well fe (delete_thread env opt rq w)" "locks_well fe (reload_thread env opt rq w)"
  by (auto simp: create_thread_def update_thread_def delete_thread_def reload_thread_def Let_def assms
      locks_well_intros split: sum.split option.split)

lemma locks_well_handler:
  assumes "he_fleet env = fe"
  shows "locks_well fe (handler_thread e env opt rq w)"
proof (cases "e \<in> {EInstallEvent, ESetIntent, ECreateMachine, EUpdateMachine, EDeleteMachine, EReload}")
  case True
  with assms show ?thesis by (auto simp: locks_well_handlers locks_well_edits)
next
  case False
  then have "handler_thread e = atomic_handler (handler_of e)" by (cases e) simp_all
  with False handler_fleet [of e] show ?thesis by (simp add: atomic_handler_def)
qed

lemma locks_well_guarded: "he_fleet env = fe \<Longrightarrow> locks_well fe (guarded_thread gs e env opt rq w)"
  by (induction gs) (simp_all add: locks_well_handler split: option.split)

lemma activity_locks_well: "activity fe fl opt t \<Longrightarrow> locks_well fe t"
proof (induction rule: activity.induct)
  case (request env rq)
  then show ?case by (simp add: request_thread_def locks_well_guarded split: option.split)
next
  case (packet lib now source peer write_ok req)
  show ?case by (auto simp: packet_thread_def Let_def split: prod.split option.split sum.split)
next
  case (transfer emb now err filename)
  show ?case by (auto simp: transfer_thread_def tftp_read_def note_served_def Let_def split: option.split)
next
  case hangup
  show ?case by (auto simp: sighup_thread_def Let_def locks_well_fleet split: option.split)
qed (simp_all add: timer_thread_def disk_thread_def)

interpretation saveMu: locked_pool sv_fleet "fleet_spec fe" "activity fe fl opt" for fe fl opt
  by unfold_locales (use activity_locks_well in \<open>auto simp: locks_well_def\<close>)

lemma initial_sound: "fleet_ok f \<Longrightarrow> sound (fl_PendingTTL fl) (initial_state fl fs f)"
  by (simp add: sound_def initial_wired initial_ok)

lemma serial_fleet:
  assumes "serial (fleet_spec fe) (Some f) tr p"
  obtains g where "p = Some g" "serial (fleet_call fe) f tr g"
  using assms
proof (induction arbitrary: thesis rule: serial.induct)
  case nil
  then show ?case by (blast intro: serial.nil)
next
  case (snoc tr p' e p'')
  from snoc.IH obtain g where g: "p' = Some g" "serial (fleet_call fe) f tr g" by blast
  with snoc.hyps(2) obtain h where "p'' = Some h" "fleet_call fe g e h" by (auto simp: fleet_spec_def)
  with g snoc.prems show ?case by (blast intro: serial.snoc)
qed

section \<open>The atomic model is one of the interleavings\<close>

text \<open>What a step of the atomic model is as a thread, and what the outside world has to be the same for.\<close>

definition same_world :: "fleet_env \<Rightarrow> event \<Rightarrow> bool" where
  "same_world fe ev = (case ev of Call env rq w \<Rightarrow> he_fleet env = fe | Hangup env \<Rightarrow> env = fe | _ \<Rightarrow> True)"

lemma step_is_thread:
  assumes "system_step fl opt st ev st'" "same_world fe ev" "wired st"
  obtains t where "activity fe fl opt t" "fst (alone t st) = st'"
  using assms(1)
proof cases
  case (packet eff lib now source peer write_ok req)
  from assms(3) obtain m where "sv_offers st = Some m" by (auto simp: wired_def)
  from alone_packet [OF assms(3) this packet(3) [symmetric]] packet(2) show ?thesis
    by (intro that [OF activity.packet [of _ _ _ lib now source peer write_ok req]]) simp
next
  case (timer m h hint m')
  with alone_timer [OF timer(3), of h] show ?thesis by (intro that [OF activity.timer [of _ _ _ h]]) simp
next
  case (transfer emb now err filename r)
  with alone_transfer [OF transfer(2)] show ?thesis
    by (intro that [OF activity.transfer [of _ _ _ emb now err filename]]) simp
next
  case (call env rq w)
  with assms(2) have "activity fe fl opt (request_thread env opt rq)" by (auto simp: same_world_def intro: activity.request)
  moreover have "fst (alone (request_thread env opt rq) st) = st'" using call(3) by (simp add: alone_request)
  ultimately show ?thesis by (rule that)
next
  case (hangup env)
  with assms(2,3) alone_sighup [of st env] show ?thesis
    by (intro that [OF activity.hangup]) (simp_all add: same_world_def)
next
  case (disk fs)
  then show ?thesis by (intro that [OF activity.disk [of _ _ _ fs]]) (simp add: disk_thread_def)
qed

lemma run_is_pool:
  assumes "system_run fl opt st evs st'" "\<forall>ev \<in> set evs. same_world fe ev" "wired st"
  shows "\<exists>tr rs. pool_run (activity fe fl opt) (st, None, []) tr (st', None, map Return rs) \<and> length rs = length evs"
  using assms
proof (induction rule: system_run.induct)
  case nil
  show ?case by (intro exI [of _ "[]"]) (simp add: pool_run.nil)
next
  case (snoc evs st1 ev st2)
  then obtain tr rs where run: "pool_run (activity fe fl opt) (st, None, []) tr (st1, None, map Return rs)" "length rs = length evs"
    by auto
  have "wired st1" using run_wired [OF snoc.hyps(1) snoc.prems(2)] .
  with snoc obtain t where t: "activity fe fl opt t" "fst (alone t st1) = st2"
    by (auto elim: step_is_thread [where fe = fe])
  let ?r = "snd (alone t st1)"
  have d: "disciplined sv_fleet ((map Return rs @ [t]) ! length rs) False"
    using activity_locks_well [OF t(1)] by (simp add: nth_append locks_well_def)
  have "pool_run (activity fe fl opt) (st1, None, map Return rs @ [t]) (events t st1) (st2, None, map Return (rs @ [?r]))"
    using saveMu.solo [OF _ refl d, of "activity fe fl opt" st1] t(2) by (simp add: nth_append list_update_append)
  from pool_run_trans [OF this pool_run.snoc [OF run(1) pool_step.arrive [of "activity fe fl opt", OF t(1)]]] run(2)
  show ?case by (intro exI [of _ "(tr @ []) @ events t st1"] exI [of _ "rs @ [?r]"]) simp
qed

section \<open>An example\<close>

text \<open>Two requests to delete the machine are in flight together.\<close>

definition example_delete :: request where
  "example_delete = example_call ''DELETE'' ''/api/v1/machines/525400aabbcc'' [] [] ''127.0.0.1:99''"

definition example_thread :: activity where
  "example_thread = request_thread (example_http 6) example_options example_delete"

abbreviation "example_activity \<equiv> activity example_env example_flags example_options"

lemma example_activity: "example_activity example_thread"
  unfolding example_thread_def by (rule activity.request [OF example_http_ok]) (simp add: example_http_def)

definition example_deleted :: "nat \<Rightarrow> server_state" where
  "example_deleted n = ((\<lambda>st. fst (alone example_thread st)) ^^ n) example_start"

lemma example_arrived: "pool_run example_activity (example_start, None, []) [] (example_start, None, [example_thread, example_thread])"
proof -
  have "pool_step example_activity (example_start, None, ts) [] (example_start, None, ts @ [example_thread])" for ts
    by (rule pool_step.arrive [where A = example_activity, OF example_activity])
  from pool_run.snoc [OF pool_run_step [OF this [of "[]", simplified]] this [of "[example_thread]"]] show ?thesis by simp
qed

definition example_for :: "string \<Rightarrow> request" where
  "example_for payload = (example_call [] [] [] payload [])\<lparr>rq_PathValue := (\<lambda>_. ''52-54-00-aa-bb-cc'')\<rparr>"

text \<open>The second finds that the first was there before it.\<close>

lemma example_pool:
  "\<exists>ts. pool_run example_activity (example_start, None, [])
     (events example_thread example_start @ events example_thread (example_deleted 1)) (example_deleted 2, None, ts)"
proof -
  have d: "disciplined sv_fleet example_thread False"
    using activity_locks_well [OF example_activity] by (simp add: locks_well_def)
  let ?r = "Return (snd (alone example_thread example_start))"
  have "pool_run example_activity (example_start, None, [example_thread, example_thread]) (events example_thread example_start)
      (example_deleted 1, None, [?r, example_thread])"
    using saveMu.solo [of 0 "[example_thread, example_thread]" example_thread False example_activity example_start] d
    by (simp add: example_deleted_def)
  moreover have "pool_run example_activity (example_deleted 1, None, [?r, example_thread]) (events example_thread (example_deleted 1))
      (example_deleted 2, None, [?r, Return (snd (alone example_thread (example_deleted 1)))])"
    using saveMu.solo [of 1 "[?r, example_thread]" example_thread False example_activity "example_deleted 1"] d
    by (simp add: example_deleted_def numeral_2_eq_2)
  ultimately show ?thesis using pool_run_trans example_arrived by (metis append_Nil)
qed

lemma example_events:
  "events example_thread example_start = [DeleteAnswer example_mac [] (True, None)]"
  "events example_thread (example_deleted 1) = [DeleteAnswer example_mac [] (False, None)]"
  by code_simp+

section \<open>Properties\<close>

text \<open>C5: However the critical sections of the handlers interleave, and wherever the edits of the fleet stand,
  the stores are of the right type: none is missing, the fleet, the intents, the logs and the sightings are keyed by
  distinct canonical MACs, the tracker's records are consistent, and the bounds on logs and sightings hold.\<close>

theorem stores_typed_under_interleaving:
  assumes "load_fleet lenv fs fl = Inr f" "pool_run (activity fe fl opt) (initial_state fl fs f, None, []) tr (st, l, ts)"
  shows "wired st \<and> stores_ok (fl_PendingTTL fl) st"
  using conc.invariant [OF assms(2) initial_sound [OF load_fleet_ok [OF assms(1)]]] by (simp add: sound_def)

theorem stores_typed_under_interleaving_witness:
  "wired (example_deleted 2) \<and> stores_ok (900 * second) (example_deleted 2)"
proof -
  have ttl: "fl_PendingTTL example_flags = 900 * second" by (simp add: example_flags_def)
  from example_pool obtain ts where "pool_run example_activity (initial_state example_flags example_fs example_fleet, None, [])
      (events example_thread example_start @ events example_thread (example_deleted 1)) (example_deleted 2, None, ts)"
    unfolding example_start_def by blast
  from stores_typed_under_interleaving [OF example_loads this] show ?thesis by (simp only: ttl)
qed

text \<open>C6: The edits of the fleet and its reloads are linearised by the save lock, whatever else runs between their sections:
  in the order in which they gave the lock up, each answered as it does in one piece on the fleet the one before
  left, and when nobody holds the lock the fleet in memory is what the last one left.  So no edit is lost, a failed save
  takes nothing with it but its own edit, and the tags of \<^verbatim>\<open>If-Match\<close> are compared with the
  entry that is replaced.\<close>

theorem fleet_edits_linearise:
  assumes "load_fleet lenv fs fl = Inr f" "pool_run (activity fe fl opt) (initial_state fl fs f, None, []) tr (st, l, ts)"
  shows "\<exists>g. serial (fleet_call fe) f tr g \<and> (l = None \<longrightarrow> sv_fleet st = Some g)"
proof -
  from saveMu.serialised [OF assms(2)] obtain p where "serial (fleet_spec fe) (Some f) tr p" "l = None \<longrightarrow> sv_fleet st = p"
    by (auto simp: initial_state_def)
  then show ?thesis by (metis serial_fleet)
qed

theorem fleet_edits_linearise_witness:
  "\<exists>g. serial (fleet_call example_env) example_fleet
      [DeleteAnswer example_mac [] (True, None), DeleteAnswer example_mac [] (False, None)] g
    \<and> sv_fleet (example_deleted 2) = Some g"
proof -
  from example_pool obtain ts where "pool_run example_activity (initial_state example_flags example_fs example_fleet, None, [])
      [DeleteAnswer example_mac [] (True, None), DeleteAnswer example_mac [] (False, None)] (example_deleted 2, None, ts)"
    unfolding example_start_def [symmetric] example_events by auto
  from fleet_edits_linearise [OF example_loads this] show ?thesis by simp
qed





section \<open>An edit between two sections\<close>

lemma deleted:
  assumes "sv_fleet st = Some f" "sv_tracker st = Some t" "sv_pending st = Some p" "CanonicalMAC (rq_PathValue rq ''mac'') = Inr c"
    "DeleteAndSave (he_fleet env) (he_save env) c (rq_Header rq ''If-Match'') (sv_fs st, f) = ((True, None), fs', f')"
  shows "alone (delete_thread env opt rq w) st
    = (put_fleet (st\<lparr>sv_pending := Some (snd (Cancel c p))\<rparr>) (fs', f'), Replied (WriteHeader 204 w))"
  unfolding alone_delete using assms
  by (cases st) (simp add: handleAPIDeleteMachine_def fleetReady_def put_fleet_def)

text \<open>The request has found the machine; all that is left is to queue the action and to answer.\<close>

lemma intent_looked:
  assumes "sv_fleet st = Some f" "sv_tracker st = Some t" "sv_pending st = Some p"
    "CanonicalMAC (rq_PathValue rq ''mac'') = Inr c" "p_Name (Lookup f c) \<noteq> []" "intent_action env rq w = Inr ActionInstall"
  obtains k g where "intent_thread env opt rq w = Sect k" "k st = (st, with_pending (Install (he_now env) c) g)"
    "\<And>u. g (Inr u) = Look (\<lambda>st. Return (Replied (writeJSON (JIntent (buildIntentView env st c)) w)))"
  using apiReady_ok [OF assms(1-3)] apiExtractFleetMAC_ok [OF assms(4,5)] assms(6)
  by (simp add: intent_thread_def Look_def Let_def ActionInstall_def)

text \<open>C23: A delete of a machine over the API takes its boot intent along when it comes after the request that queued
  it.  When it comes between the check of that request, that the machine is in the fleet, and the queueing, both requests
  succeed, the machine is gone, and its install intent stays behind, until it expires or the next reload.\<close>

theorem intent_outlives_deleted_machine:
  assumes "sv_fleet st = Some f" "sv_tracker st = Some t" "sv_pending st = Some p"
    "CanonicalMAC (rq_PathValue rq ''mac'') = Inr c" "p_Name (Lookup f c) \<noteq> []" "intent_action env rq w = Inr ActionInstall"
    "CanonicalMAC (rq_PathValue rq2 ''mac'') = Inr c"
    "DeleteAndSave (he_fleet env2) (he_save env2) c (rq_Header rq2 ''If-Match'') (sv_fs st, f) = ((True, None), fs', f')"
  shows "let put = intent_thread env opt rq w; delete = delete_thread env2 opt rq2 w2 in
     intent_of (fst (alone delete (fst (alone put st)))) c = None
     \<and> (\<exists>tr st' view. pool_run A (st, None, [put, delete]) tr (st', None,
           [Return (Replied (writeJSON view w)), Return (Replied (WriteHeader 204 w2))])
         \<and> sv_fleet st' = Some f' \<and> intent_of st' c = Some \<lparr>pe_action = ActionInstall, pe_requestedAt = he_now env\<rparr>)"
proof -
  let ?put = "intent_thread env opt rq w" and ?delete = "delete_thread env2 opt rq2 w2"
  let ?p1 = "put_intent (he_now env) c ActionInstall p"
  have c: "CanonicalMAC c = Inr c" using assms(4) by (rule CanonicalMAC_idem)
  have "fst (alone ?put st) = st\<lparr>sv_pending := Some ?p1\<rparr>"
    using set_intent [OF assms(1-6)] by (simp add: alone_intent Let_def)
  then have serial: "intent_of (fst (alone ?delete (fst (alone ?put st)))) c = None"
    using deleted [OF _ _ _ assms(7), of "st\<lparr>sv_pending := Some ?p1\<rparr>" f t ?p1 env2 fs' f'] assms(1,2,8)
    by (simp add: intent_of_def put_fleet_def Cancel_entries canon_of_def c mget_mdel)
  obtain k g where k: "?put = Sect k" "k st = (st, with_pending (Install (he_now env) c) g)"
    "\<And>u. g (Inr u) = Look (\<lambda>st. Return (Replied (writeJSON (JIntent (buildIntentView env st c)) w)))"
    using intent_looked [OF assms(1-6), where opt = opt] by metis
  let ?rest = "with_pending (Install (he_now env) c) g"
  let ?st1 = "put_fleet (st\<lparr>sv_pending := Some (snd (Cancel c p))\<rparr>) (fs', f')"
  let ?p2 = "snd (queue (he_now env) c ActionInstall (snd (Cancel c p)))"
  have look: "pool_run A (st, None, [?put, ?delete]) [] (st, None, [?rest, ?delete])"
    using pool_step.sect [of 0 "[?put, ?delete]" k st st ?rest A None] k by (simp add: pool_run_step)
  have d: "disciplined sv_fleet ?delete False" "disciplined sv_fleet ?rest False"
    using locks_well_edits(3) [OF refl] locks_well_handlers(2) [of "he_fleet env" env opt rq w]
      disciplined_section [of sv_fleet k False st st ?rest] k(1,2) by (auto simp: locks_well_def)
  let ?view = "JIntent (buildIntentView env (?st1\<lparr>sv_pending := Some ?p2\<rparr>) c)"
  let ?gone = "Return (Replied (WriteHeader 204 w2))"
  have "alone ?delete st = (?st1, Replied (WriteHeader 204 w2))" by (rule deleted [OF assms(1-3,7,8)])
  with saveMu.solo [of 1 "[?rest, ?delete]" ?delete False A st] d(1)
  have del: "pool_run A (st, None, [?rest, ?delete]) (events ?delete st) (?st1, None, [?rest, ?gone])" by auto
  have "alone ?rest ?st1 = (?st1\<lparr>sv_pending := Some ?p2\<rparr>, Replied (writeJSON ?view w))"
    by (simp add: alone_with_pending [where p = "snd (Cancel c p)"] put_fleet_def Install_def queue_def c k(3) Let_def)
  with saveMu.solo [of 0 "[?rest, ?gone]" ?rest False A ?st1] d(2)
  have put: "pool_run A (?st1, None, [?rest, ?gone]) (events ?rest ?st1)
      (?st1\<lparr>sv_pending := Some ?p2\<rparr>, None, [Return (Replied (writeJSON ?view w)), ?gone])" by auto
  note run = pool_run_trans [OF put pool_run_trans [OF del look]]
  have "intent_of (?st1\<lparr>sv_pending := Some ?p2\<rparr>) c = Some \<lparr>pe_action = ActionInstall, pe_requestedAt = he_now env\<rparr>"
    by (simp add: intent_of_def queue_entries canon_of_def c mget_mput)
  moreover have "sv_fleet (?st1\<lparr>sv_pending := Some ?p2\<rparr>) = Some f'" by (simp add: put_fleet_def)
  ultimately show ?thesis unfolding Let_def using serial run by blast
qed

theorem intent_outlives_deleted_machine_witness:
  "\<exists>tr st view. pool_run example_activity
      (example_start, None, [intent_thread (example_http 3) example_options (example_for ''install'') new_writer,
         delete_thread (example_http 6) example_options (example_for []) new_writer]) tr
      (st, None, [Return (Replied (writeJSON view new_writer)), Return (Replied (WriteHeader 204 new_writer))])
    \<and> intent_of st example_mac = Some \<lparr>pe_action = ActionInstall, pe_requestedAt = 3\<rparr>"
proof -
  let ?rq = "example_for ''install''" and ?rq2 = "example_for []"
  have st: "sv_fleet example_start = Some example_fleet" "sv_tracker example_start = Some (NewTracker (5 * 60 * second))"
    "sv_pending example_start = Some (Pending_New (900 * second))"
    by (simp_all add: example_start_def initial_state_def example_flags_def)
  have m: "CanonicalMAC (rq_PathValue ?rq ''mac'') = Inr example_mac" "CanonicalMAC (rq_PathValue ?rq2 ''mac'') = Inr example_mac"
    by code_simp+
  have n: "p_Name (Lookup example_fleet example_mac) \<noteq> []" by code_simp
  have i: "intent_action (example_http 3) ?rq new_writer = Inr ActionInstall" by code_simp
  have now: "he_now (example_http 3) = 3" by (simp add: example_http_def)
  have "fst (DeleteAndSave (he_fleet (example_http 6)) (he_save (example_http 6)) example_mac (rq_Header ?rq2 ''If-Match'')
      (sv_fs example_start, example_fleet)) = (True, None)" by code_simp
  then obtain fs' f' where d: "DeleteAndSave (he_fleet (example_http 6)) (he_save (example_http 6)) example_mac
      (rq_Header ?rq2 ''If-Match'') (sv_fs example_start, example_fleet) = ((True, None), fs', f')"
    by (metis prod.collapse)
  from intent_outlives_deleted_machine [OF st m(1) n i m(2) d, of example_options new_writer example_activity]
  show ?thesis unfolding Let_def now by blast
qed

end
