(* ===== verification/Netinfo.thy ===== *)
theory Netinfo
  imports Go_Net
begin

text \<open>
  The choice of the network interface and of the address the servers advertise
  (\<^verbatim>\<open>internal/netinfo/netinfo.go\<close>).  The interfaces of the machine are an argument, \<open>None\<close>
  when listing them fails; so are the addresses of an interface.
\<close>

datatype net_addr = IPNet net_ip | IPAddr net_ip | OtherAddr

record iface =
  if_Name :: string
  if_Up :: bool
  if_Loopback :: bool
  if_Addrs :: "net_addr list option"

record Picked =
  pd_Iface :: iface
  pd_AdvertiseIP :: net_ip
  pd_IsWireless :: bool

datatype pick_error = ListInterfaces | NoIPv4 string | NotFound string | NoSuitable

section \<open>Operations\<close>

fun addr_ip :: "net_addr \<Rightarrow> net_ip" where
  "addr_ip (IPNet ip) = ip"
| "addr_ip (IPAddr ip) = ip"
| "addr_ip OtherAddr = []"

fun first_v4 :: "net_addr list \<Rightarrow> net_ip option" where
  "first_v4 [] = None"
| "first_v4 (a # addrs) =
     (let ip = addr_ip a in
      if ip = [] then first_v4 addrs
      else case To4 ip of None \<Rightarrow> first_v4 addrs
        | Some v4 \<Rightarrow> if \<not> IsLoopback v4 then Some v4 else first_v4 addrs)"

definition firstIPv4 :: "iface \<Rightarrow> net_ip option" where
  "firstIPv4 i = (case if_Addrs i of None \<Rightarrow> None | Some addrs \<Rightarrow> first_v4 addrs)"

definition looksWireless :: "string \<Rightarrow> bool" where
  "looksWireless name =
     (let lname = ToLower name
      in list_ex (HasPrefix lname) [''wl'', ''wlan'', ''wlp'', ''wlx'', ''ath'', ''ra''])"

definition picked :: "iface \<Rightarrow> net_ip \<Rightarrow> Picked" where
  "picked i ip = \<lparr>pd_Iface = i, pd_AdvertiseIP = ip, pd_IsWireless = looksWireless (if_Name i)\<rparr>"

fun pick_auto :: "iface list \<Rightarrow> pick_error + Picked" where
  "pick_auto [] = Inl NoSuitable"
| "pick_auto (i # ifaces) =
     (if if_Loopback i then pick_auto ifaces
      else if \<not> if_Up i then pick_auto ifaces
      else case firstIPv4 i of None \<Rightarrow> pick_auto ifaces | Some ip \<Rightarrow> Inr (picked i ip))"

definition Pick :: "iface list option \<Rightarrow> string \<Rightarrow> pick_error + Picked" where
  "Pick interfaces name =
     (case interfaces of None \<Rightarrow> Inl ListInterfaces
      | Some ifaces \<Rightarrow>
          if name \<noteq> [] then
            (case find (\<lambda>i. if_Name i = name) ifaces of
               None \<Rightarrow> Inl (NotFound name)
             | Some i \<Rightarrow> (case firstIPv4 i of None \<Rightarrow> Inl (NoIPv4 name) | Some ip \<Rightarrow> Inr (picked i ip)))
          else pick_auto ifaces)"

section \<open>Facts\<close>

text \<open>An address that can be advertised: four bytes, and not of the loopback network.\<close>

definition advertisable :: "net_ip \<Rightarrow> bool" where
  "advertisable ip \<longleftrightarrow> length ip = 4 \<and> hd ip \<noteq> CHR 0x7F"

lemma advertisable_To4: "advertisable ip \<Longrightarrow> To4 ip = Some ip"
  by (simp add: advertisable_def To4_def)

lemma first_v4_advertisable: "first_v4 addrs = Some ip \<Longrightarrow> advertisable ip"
proof (induction addrs)
  case (Cons a addrs)
  have "advertisable v4" if "To4 (addr_ip a) = Some v4" "\<not> IsLoopback v4" for v4
    using that(2) length_To4 [OF that(1)] by (simp add: advertisable_def IsLoopback_def To4_def)
  with Cons show ?case by (auto simp: Let_def split: if_splits option.splits)
qed simp

lemma firstIPv4_advertisable: "firstIPv4 i = Some ip \<Longrightarrow> advertisable ip"
  by (auto simp: firstIPv4_def dest: first_v4_advertisable split: option.splits)

definition usable :: "iface \<Rightarrow> bool" where
  "usable i \<longleftrightarrow> if_Up i \<and> \<not> if_Loopback i \<and> firstIPv4 i \<noteq> None"

lemma pick_auto_find:
  "pick_auto ifaces = (case find usable ifaces of None \<Rightarrow> Inl NoSuitable | Some i \<Rightarrow> Inr (picked i (the (firstIPv4 i))))"
  by (induction ifaces) (auto simp: usable_def split: option.split)

lemma Pick_auto: "Pick (Some ifaces) [] = (case find usable ifaces of None \<Rightarrow> Inl NoSuitable
     | Some i \<Rightarrow> Inr (picked i (the (firstIPv4 i))))"
  by (simp add: Pick_def pick_auto_find)

lemma Pick_advertisable: "Pick interfaces name = Inr p \<Longrightarrow> advertisable (pd_AdvertiseIP p)"
  by (auto simp: Pick_def pick_auto_find picked_def usable_def find_Some_iff
      dest: firstIPv4_advertisable split: option.splits if_splits)

end
