(* ===== verification/Narrlog.thy ===== *)
theory Narrlog
  imports Go_Strings
begin

text \<open>
  The narrated log (\<^verbatim>\<open>internal/narrlog/log.go\<close>).  A message is formatted by its caller; the sink
  is the text written so far, and the time stamp is an argument.  A level is an integer, as in the code.
\<close>

type_synonym Level = int

definition LevelError :: Level where "LevelError = 0"
definition LevelWarn :: Level where "LevelWarn = 1"
definition LevelInfo :: Level where "LevelInfo = 2"
definition LevelDebug :: Level where "LevelDebug = 3"

definition ParseLevel :: "string \<Rightarrow> string + Level" where
  "ParseLevel s =
     (let k = ToLower (TrimSpace s) in
      if k = ''error'' then Inr LevelError
      else if k = ''warn'' \<or> k = ''warning'' then Inr LevelWarn
      else if k = ''info'' \<or> k = [] then Inr LevelInfo
      else if k = ''debug'' then Inr LevelDebug
      else Inl s)"

definition Level_String :: "Level \<Rightarrow> string" where
  "Level_String l =
     (if l = LevelError then ''error'' else if l = LevelWarn then ''warn'' else if l = LevelInfo then ''info''
      else if l = LevelDebug then ''debug'' else ''level('' @ Itoa l @ '')'')"

record Logger =
  lg_level :: Level
  lg_comp :: string

text \<open>\<^verbatim>\<open>New\<close>, and \<^verbatim>\<open>With\<close> of a logger that may be nil.\<close>

definition Narrlog_New :: "string \<Rightarrow> Level \<Rightarrow> Logger" where
  "Narrlog_New tag level = \<lparr>lg_level = level, lg_comp = tag\<rparr>"

definition With :: "string \<Rightarrow> Logger option \<Rightarrow> Logger" where
  "With tag l = (case l of None \<Rightarrow> Narrlog_New tag LevelInfo | Some lg \<Rightarrow> lg\<lparr>lg_comp := tag\<rparr>)"

definition SetLevel :: "Level \<Rightarrow> Logger \<Rightarrow> Logger" where
  "SetLevel level l = l\<lparr>lg_level := level\<rparr>"

text \<open>The verb \<^verbatim>\<open>%-ns\<close> for ASCII text, and the line break the standard logger adds.\<close>

definition pad_right :: "nat \<Rightarrow> string \<Rightarrow> string" where
  "pad_right n s = s @ replicate (n - length s) (CHR '' '')"

definition log_line :: "string \<Rightarrow> string" where
  "log_line s = (if HasSuffix s [CHR 0x0A] then s else s @ [CHR 0x0A])"

definition emit :: "string \<Rightarrow> Level \<Rightarrow> string \<Rightarrow> Logger \<Rightarrow> string \<Rightarrow> string" where
  "emit ts lvl msg l out =
     (if lvl > lg_level l then out
      else out @ log_line (ts @ '' '' @ pad_right 5 (Level_String lvl) @ '' '' @ pad_right 9 (lg_comp l) @ '' '' @ msg))"

definition Infof :: "string \<Rightarrow> string \<Rightarrow> Logger \<Rightarrow> string \<Rightarrow> string" where
  "Infof ts = emit ts LevelInfo"

definition decision_text :: "string \<Rightarrow> string \<Rightarrow> string \<Rightarrow> string \<Rightarrow> string \<Rightarrow> string" where
  "decision_text client arch userclass stage decision =
     ''client '' @ (if client = [] then ''<unknown>'' else client) @ '' arch='' @ arch @ '' userclass=''
     @ (if userclass = [] then ''<none>'' else userclass) @ '' stage='' @ stage @ '' -> decision: '' @ decision"

definition Log_Decision :: "string \<Rightarrow> string \<Rightarrow> string \<Rightarrow> string \<Rightarrow> string \<Rightarrow> string \<Rightarrow> Logger \<Rightarrow> string \<Rightarrow> string" where
  "Log_Decision ts client arch userclass stage decision = Infof ts (decision_text client arch userclass stage decision)"

definition Benign :: "string \<Rightarrow> string \<Rightarrow> Logger \<Rightarrow> string \<Rightarrow> string" where
  "Benign ts reason = Infof ts (''(benign: '' @ reason @ '')'')"

definition Hint :: "string \<Rightarrow> string \<Rightarrow> Logger \<Rightarrow> string \<Rightarrow> string" where
  "Hint ts msg = Infof ts (''hint: '' @ msg)"

section \<open>Hexadecimal dump\<close>

text \<open>The verb \<^verbatim>\<open>%04x\<close>.\<close>

fun hex_nat :: "nat \<Rightarrow> string" where
  "hex_nat n = (if n < 16 then [hex_digits ! n] else hex_nat (n div 16) @ [hex_digits ! (n mod 16)])"

declare hex_nat.simps [simp del]

definition hex4 :: "nat \<Rightarrow> string" where
  "hex4 n = replicate (4 - length (hex_nat n)) (CHR ''0'') @ hex_nat n"

definition dump_row :: "nat \<Rightarrow> string \<Rightarrow> string" where
  "dump_row i b = ''  '' @ hex4 i @ ''  '' @ concat (map (\<lambda>c. hex_byte c @ '' '') b) @ [CHR 0x0A]"

fun dump_rows :: "nat \<Rightarrow> string \<Rightarrow> string" where
  "dump_rows i [] = []"
| "dump_rows i (c # b) = dump_row i (take 16 (c # b)) @ dump_rows (i + 16) (drop 15 b)"

definition HexDump :: "string \<Rightarrow> string \<Rightarrow> string \<Rightarrow> Logger \<Rightarrow> string \<Rightarrow> string" where
  "HexDump ts label b l out =
     (if lg_level l < LevelDebug then out
      else emit ts LevelDebug (label @ '' ('' @ Itoa (int (length b)) @ '' bytes):'' @ [CHR 0x0A] @ dump_rows 0 b) l out)"

section \<open>Facts\<close>

lemma levels: "LevelError < LevelWarn" "LevelWarn < LevelInfo" "LevelInfo < LevelDebug"
  by (simp_all add: LevelError_def LevelWarn_def LevelInfo_def LevelDebug_def)

lemma ParseLevel_String:
  "l \<in> {LevelError, LevelWarn, LevelInfo, LevelDebug} \<Longrightarrow> ParseLevel (Level_String l) = Inr l"
proof -
  have "\<forall>l \<in> set [LevelError, LevelWarn, LevelInfo, LevelDebug]. ParseLevel (Level_String l) = Inr l" by code_simp
  then show "l \<in> {LevelError, LevelWarn, LevelInfo, LevelDebug} \<Longrightarrow> ?thesis" by auto
qed

lemma ParseLevel_range: "ParseLevel s = Inr l \<Longrightarrow> LevelError \<le> l \<and> l \<le> LevelDebug"
  using levels by (auto simp: ParseLevel_def Let_def split: if_splits)

text \<open>The log only grows, by one entry or nothing, and a quieter level writes nothing a louder one does not.\<close>

lemma emit_grows: "\<exists>e. emit ts lvl msg l out = out @ e \<and> (e = [] \<longleftrightarrow> lvl > lg_level l)"
  by (auto simp: emit_def log_line_def)

lemma emit_louder:
  assumes "lg_level l \<le> level" "emit ts lvl msg l out \<noteq> out"
  shows "emit ts lvl msg (SetLevel level l) out = emit ts lvl msg l out"
  using assms by (auto simp: emit_def SetLevel_def split: if_splits)

lemma HexDump_silent: "lg_level l < LevelDebug \<Longrightarrow> HexDump ts label b l out = out"
  by (simp add: HexDump_def)

end
