(* ===== verification/Startup.thy ===== *)
theory Startup
  imports System_Safety Netinfo Narrlog
begin

text \<open>
  From the command line to the running servers, and from there to the exit code
  (\<^verbatim>\<open>main\<close> of \<^verbatim>\<open>cmd/pxe-beacon/main.go\<close>, the \<^verbatim>\<open>Serve\<close> methods of the three servers).
  The flag package, the interfaces of the machine, the environment variable and the random bytes are
  arguments, and so is what happens to a socket.
\<close>

section \<open>Starting\<close>

record cli =
  cl_Interface :: string
  cl_HTTPPort :: int
  cl_LogLevel :: string
  cl_ChainURL :: string
  cl_IPXEScript :: string
  cl_AdvIP :: string
  cl_CrossCert :: bool
  cl_HintAfter :: duration
  cl_Config :: string
  cl_DataDir :: string
  cl_LegacyRdir :: bool
  cl_ClientNetmask :: string
  cl_PendingTTL :: duration
  cl_CallbackTTL :: duration
  cl_InsecureCB :: bool
  cl_PrintVer :: bool

text \<open>\<open>se_parse\<close> gives the exit code of the flag package or the flags, \<open>se_random\<close> thirty-two random bytes.\<close>

record start_env =
  se_parse :: "string list \<Rightarrow> int + cli"
  se_interfaces :: "iface list option"
  se_secret :: string
  se_random :: "string option"
  se_fleet :: fleet_env
  se_parses :: "string \<Rightarrow> bool"
  se_embedded :: embedded
  se_csrf :: string
  se_now :: time

datatype start_result = Exits int | Fetches "string list" | Serves flags Fleet http_options server_state

definition advertised :: "cli \<Rightarrow> Picked \<Rightarrow> net_ip option" where
  "advertised c p =
     (if cl_AdvIP c \<noteq> [] then (case ParseIP (cl_AdvIP c) of None \<Rightarrow> None | Some ip \<Rightarrow> To4 ip)
      else Some (pd_AdvertiseIP p))"

definition token_secret :: "start_env \<Rightarrow> string option" where
  "token_secret env = (if se_secret env \<noteq> [] then Some (se_secret env) else se_random env)"

definition serve_flags :: "cli \<Rightarrow> net_ip \<Rightarrow> string \<Rightarrow> flags" where
  "serve_flags c ip secret = \<lparr>fl_Config = cl_Config c, fl_AdvertisedIP = ip, fl_HTTPPort = cl_HTTPPort c,
     fl_ChainURL = cl_ChainURL c, fl_IPXEScript = cl_IPXEScript c, fl_CrossCert = cl_CrossCert c,
     fl_HintAfter = cl_HintAfter c, fl_DataDir = cl_DataDir c, fl_LegacyRedirector = cl_LegacyRdir c,
     fl_ClientNetmask = cl_ClientNetmask c, fl_PendingTTL = cl_PendingTTL c, fl_CallbackTTL = cl_CallbackTTL c,
     fl_InsecureCallbacks = cl_InsecureCB c, fl_TokenSecret = secret\<rparr>"

definition start_servers :: "start_env \<Rightarrow> filesys \<Rightarrow> cli \<Rightarrow> net_ip \<Rightarrow> start_result" where
  "start_servers env fs c ip =
     (case load_fleet (se_fleet env) fs (serve_flags c ip []) of Inl e \<Rightarrow> Exits 1
      | Inr f \<Rightarrow>
      case token_secret env of None \<Rightarrow> Exits 1
      | Some secret \<Rightarrow>
          let fl = serve_flags c ip secret
          in case main_options (se_parses env) fs (se_embedded env) (se_csrf env) (se_now env) fl of
               Inl e \<Rightarrow> Exits 1
             | Inr opt \<Rightarrow> Serves fl f opt (initial_state fl fs f))"

definition start_server :: "start_env \<Rightarrow> filesys \<Rightarrow> string list \<Rightarrow> start_result" where
  "start_server env fs args =
     (case se_parse env args of Inl code \<Rightarrow> Exits code
      | Inr c \<Rightarrow>
      if cl_PrintVer c then Exits 0
      else case ParseLevel (cl_LogLevel c) of Inl s \<Rightarrow> Exits 2
      | Inr lvl \<Rightarrow>
      case Pick (se_interfaces env) (cl_Interface c) of Inl e \<Rightarrow> Exits 1
      | Inr p \<Rightarrow>
      case advertised c p of None \<Rightarrow> Exits 2
      | Some ip \<Rightarrow> start_servers env fs c ip)"

definition main_start :: "start_env \<Rightarrow> filesys \<Rightarrow> string list \<Rightarrow> start_result" where
  "main_start env fs args =
     (case args of [] \<Rightarrow> start_server env fs []
      | a # rest \<Rightarrow>
          if a = ''fetch'' then Fetches rest
          else if a = ''serve'' then start_server env fs rest
          else start_server env fs args)"

section \<open>Serving and stopping\<close>

text \<open>The errors a server returns, with the text of the system's error.\<close>

datatype serve_error = BindError string string | ServeFailed string | ServerClosed | ContextCanceled

text \<open>How serving ends: by the shutdown signal, or because a server stopped by itself.\<close>

datatype serve_end = Shutdown | Stopped "serve_error option"

definition or_default :: "int \<Rightarrow> int \<Rightarrow> int" where
  "or_default p d = (if p = 0 then d else p)"

text \<open>The listener: the outcome of its two binds (\<open>None\<close> when they work), then how serving ends.\<close>

definition listener_Serve :: "int \<Rightarrow> int \<Rightarrow> string option \<Rightarrow> string option \<Rightarrow> serve_end \<Rightarrow> serve_error option" where
  "listener_Serve port67 port4011 bind67 bind4011 ending =
     (case bind67 of Some e \<Rightarrow> Some (BindError (''udp/'' @ Itoa (or_default port67 67)) e)
      | None \<Rightarrow>
      case bind4011 of Some e \<Rightarrow> Some (BindError (''udp/'' @ Itoa (or_default port4011 4011)) e)
      | None \<Rightarrow>
      case ending of Shutdown \<Rightarrow> None | Stopped err \<Rightarrow> None)"

definition tftp_Serve :: "string \<Rightarrow> string option \<Rightarrow> serve_end \<Rightarrow> serve_error option" where
  "tftp_Serve addr bind ending =
     (case bind of Some e \<Rightarrow> Some (BindError addr e)
      | None \<Rightarrow> case ending of Shutdown \<Rightarrow> None | Stopped err \<Rightarrow> err)"

definition http_Serve :: "string \<Rightarrow> string option \<Rightarrow> serve_end \<Rightarrow> serve_error option" where
  "http_Serve addr bind ending =
     (case bind of Some e \<Rightarrow> Some (BindError addr e)
      | None \<Rightarrow> case ending of Shutdown \<Rightarrow> None
        | Stopped err \<Rightarrow> if err = Some ServerClosed then None else err)"

text \<open>The exit code, from the result of the first server to return, or none when a signal came first.\<close>

definition main_exit :: "serve_error option option \<Rightarrow> int" where
  "main_exit first =
     (case first of None \<Rightarrow> 0
      | Some firstErr \<Rightarrow> if firstErr \<noteq> None \<and> firstErr \<noteq> Some ContextCanceled then 1 else 0)"

section \<open>What a start establishes\<close>

lemma ParseIP_To4: "advertised c p = Some ip \<Longrightarrow> length (pd_AdvertiseIP p) = 4 \<Longrightarrow> length ip = 4"
  by (auto simp: advertised_def dest: length_To4 split: if_splits option.splits)

lemma main_start_Serves:
  assumes "main_start env fs args = Serves fl f opt st"
  shows "load_fleet (se_fleet env) fs fl = Inr f" "st = initial_state fl fs f" "length (fl_AdvertisedIP fl) = 4"
    "main_options (se_parses env) fs (se_embedded env) (se_csrf env) (se_now env) fl = Inr opt"
    "token_secret env = Some (fl_TokenSecret fl)"
proof -
  obtain args' where "start_server env fs args' = Serves fl f opt st"
    using assms by (auto simp: main_start_def split: list.splits if_splits)
  then obtain c p ip where c: "Pick (se_interfaces env) (cl_Interface c) = Inr p" "advertised c p = Some ip"
    "start_servers env fs c ip = Serves fl f opt st"
    by (auto simp: start_server_def split: sum.splits if_splits option.splits)
  have len: "length ip = 4"
    using ParseIP_To4 [OF c(2)] Pick_advertisable [OF c(1)] by (simp add: advertisable_def)
  obtain secret where s: "token_secret env = Some secret" "fl = serve_flags c ip secret"
    "load_fleet (se_fleet env) fs (serve_flags c ip []) = Inr f" "st = initial_state fl fs f"
    "main_options (se_parses env) fs (se_embedded env) (se_csrf env) (se_now env) fl = Inr opt"
    using c(3) by (auto simp: start_servers_def Let_def split: sum.splits option.splits)
  have "load_fleet (se_fleet env) fs fl = load_fleet (se_fleet env) fs (serve_flags c ip [])"
    by (simp add: load_fleet_def s(2) serve_flags_def)
  then show "load_fleet (se_fleet env) fs fl = Inr f" "st = initial_state fl fs f" "length (fl_AdvertisedIP fl) = 4"
    "main_options (se_parses env) fs (se_embedded env) (se_csrf env) (se_now env) fl = Inr opt"
    "token_secret env = Some (fl_TokenSecret fl)"
    using s len by (simp_all add: serve_flags_def)
qed

lemma started_config_ok:
  "length (fl_AdvertisedIP fl) = 4 \<Longrightarrow> config_ok (dhcp_config fl now st) \<longleftrightarrow> 0 < fl_HTTPPort fl \<and> fl_HTTPPort fl \<le> 65535"
  by (simp add: config_ok_def dhcp_config_def To4_def)

lemma sent_iff_offer:
  "pk_sent (packet_result lib fl now source (Some addr) True req st) \<noteq> None
     \<longleftrightarrow> is_ok (fst (BuildOffer lib (Some req) (dhcp_config fl now st)))"
  by (auto simp: packet_result_def handleOne_def listener_options_def Let_def split: prod.splits sum.splits)

lemma offer_iff:
  assumes "config_ok cfg" "base_reply lib req \<noteq> None"
  shows "is_ok (fst (BuildOffer lib (Some req) cfg)) \<longleftrightarrow> pxe_request req \<and> (ipxe_request req cfg \<or> \<not> gated req cfg)"
  using assms by (cases rule: BuildOffer_cases [of lib req cfg]) auto

section \<open>Properties\<close>


definition example_cli :: cli where
  "example_cli = \<lparr>cl_Interface = [], cl_HTTPPort = 99, cl_LogLevel = ''info'', cl_ChainURL = [], cl_IPXEScript = [],
     cl_AdvIP = [], cl_CrossCert = False, cl_HintAfter = 0, cl_Config = ''/srv/fleet.yaml'', cl_DataDir = [],
     cl_LegacyRdir = False, cl_ClientNetmask = [], cl_PendingTTL = 900 * second, cl_CallbackTTL = 3600 * second,
     cl_InsecureCB = False, cl_PrintVer = False\<rparr>"

definition example_iface :: iface where
  "example_iface = \<lparr>if_Name = ''eth0'', if_Up = True, if_Loopback = False,
     if_Addrs = Some [IPNet [CHR 0x0A, CHR 0x00, CHR 0x00, CHR 0x05]]\<rparr>"

definition example_env0 :: start_env where
  "example_env0 = \<lparr>se_parse = (\<lambda>_. Inr example_cli), se_interfaces = Some [example_iface], se_secret = ''k'', se_random = None,
     se_fleet = example_env, se_parses = (\<lambda>_. True), se_embedded = (\<lambda>_. Some ''#!ipxe''), se_csrf = ''csrf'', se_now = 0\<rparr>"

lemma example_serves: "\<exists>opt. main_start example_env0 example_fs [''serve''] = Serves example_flags example_fleet opt example_start"
proof -
  have lvl: "ParseLevel ''info'' = Inr LevelInfo" by code_simp
  have pick: "Pick (Some [example_iface]) [] = Inr (picked example_iface [CHR 0x0A, CHR 0x00, CHR 0x00, CHR 0x05])" by code_simp
  have fl: "serve_flags example_cli [CHR 0x0A, CHR 0x00, CHR 0x00, CHR 0x05] ''k'' = example_flags"
    by (simp add: serve_flags_def example_cli_def example_flags_def)
  have load: "load_fleet example_env example_fs (serve_flags example_cli ip []) = Inr example_fleet" for ip
    using example_loads by (simp add: load_fleet_def serve_flags_def example_cli_def example_flags_def)
  obtain opt where "main_options (\<lambda>_. True) example_fs (\<lambda>_. Some ''#!ipxe'') ''csrf'' 0 example_flags = Inr opt"
    by (simp add: main_options_def httpd_New_def loadTemplate_def ReadScript_def read_embedded_def Let_def example_flags_def)
  then have "start_servers example_env0 example_fs example_cli [CHR 0x0A, CHR 0x00, CHR 0x00, CHR 0x05]
      = Serves example_flags example_fleet opt example_start"
    by (simp add: start_servers_def load example_env0_def token_secret_def fl Let_def example_start_def)
  then have "start_server example_env0 example_fs [] = Serves example_flags example_fleet opt example_start"
    using lvl pick by (simp add: start_server_def example_env0_def advertised_def picked_def example_cli_def)
  then show ?thesis by (intro exI [of _ opt]) (simp add: main_start_def)
qed


text \<open>The program stops with code 0 when a proxy-DHCP socket fails while it serves: the listener logs the
  error and returns none.  A failure of the other two servers gives code 1.\<close>

theorem dhcp_failure_exits_zero:
  "main_exit (Some (listener_Serve p67 p4011 None None (Stopped (Some (ServeFailed e))))) = 0"
  "main_exit (Some (tftp_Serve addr None (Stopped (Some (ServeFailed e))))) = 1"
  "main_exit (Some (http_Serve addr None (Stopped (Some (ServeFailed e))))) = 1"
  by (simp_all add: main_exit_def listener_Serve_def tftp_Serve_def http_Serve_def)

end
