(* ===== verification/Banner.thy ===== *)
theory Banner
  imports Startup
begin

text \<open>
  What the program tells its operator: the remaining verbs of the log
  (\<^verbatim>\<open>internal/narrlog/log.go\<close>) and the lines printed at start-up (\<open>printBanner\<close> of
  \<^verbatim>\<open>cmd/pxe-beacon/main.go\<close>).  The texts of durations and of errors, the version and the platform
  are arguments.
\<close>

section \<open>Verbs\<close>

definition Logger_Level :: "Logger \<Rightarrow> Level" where
  "Logger_Level l = lg_level l"

definition Errorf :: "string \<Rightarrow> string \<Rightarrow> Logger \<Rightarrow> string \<Rightarrow> string" where
  "Errorf ts = emit ts LevelError"

definition Warnf :: "string \<Rightarrow> string \<Rightarrow> Logger \<Rightarrow> string \<Rightarrow> string" where
  "Warnf ts = emit ts LevelWarn"

definition Debugf :: "string \<Rightarrow> string \<Rightarrow> Logger \<Rightarrow> string \<Rightarrow> string" where
  "Debugf ts = emit ts LevelDebug"

definition Log_Served :: "string \<Rightarrow> string \<Rightarrow> string \<Rightarrow> string \<Rightarrow> int \<Rightarrow> Logger \<Rightarrow> string \<Rightarrow> string" where
  "Log_Served ts proto what path n = Infof ts (proto @ '' RRQ/GET '' @ Quote path @ '' -> serving '' @ what
     @ '' ('' @ Itoa n @ '' bytes)'')"

section \<open>The banner\<close>

record banner_env =
  be_version :: string
  be_GOOS :: string
  be_GOARCH :: string
  be_duration :: "duration \<Rightarrow> string"
  be_error :: "asset_error \<Rightarrow> string"
  be_embedded :: embedded

definition intent_help :: string where
  "intent_help = ''  boot intent   : PUT /api/v1/machines/{mac}/intent {'' @ [CHR 0x22] @ ''action'' @ [CHR 0x22] @ '':''
     @ [CHR 0x22] @ ''install'' @ [CHR 0x22] @ ''|'' @ [CHR 0x22] @ ''rescue'' @ [CHR 0x22] @ ''|null} ''"

definition fleet_lines :: "banner_env \<Rightarrow> net_ip \<Rightarrow> int \<Rightarrow> string \<Rightarrow> duration \<Rightarrow> (Level \<times> string) list" where
  "fleet_lines env ip port config ttl =
     (if config \<noteq> []
      then [(LevelInfo, ''  fleet config  : '' @ config @ '' (SIGHUP reloads)''),
            (LevelInfo, ''  status page   : http://'' @ ip4_string ip @ '':'' @ Itoa port @ ''/status''),
            (LevelInfo, intent_help @ (if ttl > 0 then ''(TTL '' @ be_duration env ttl @ '')'' else ''(no expiry)''))]
      else [(LevelInfo, ''  fleet config  : (none '' @ Dispatch.em_dash @ '' single-machine mode; pass -config for fleet mode)'')])"

definition banner_lines :: "banner_env \<Rightarrow> Picked \<Rightarrow> net_ip \<Rightarrow> string \<Rightarrow> int \<Rightarrow> string \<Rightarrow> string \<Rightarrow> string \<Rightarrow> string
    \<Rightarrow> duration \<Rightarrow> Level \<Rightarrow> (Level \<times> string) list" where
  "banner_lines env p ip listen port tftpListen chainURL script config ttl lvl =
     [(LevelInfo, ''pxe-beacon '' @ be_version env @ '' ('' @ be_GOOS env @ ''/'' @ be_GOARCH env @ '')''),
      (LevelInfo, ''  interface     : '' @ if_Name (pd_Iface p)),
      (LevelInfo, ''  advertised-ip : '' @ ip4_string ip),
      (LevelInfo, ''  proxyDHCP     : udp/67 + udp/4011 on '' @ listen),
      (LevelInfo, ''  TFTP          : '' @ tftpListen),
      (LevelInfo, ''  HTTP          : '' @ listen @ '':'' @ Itoa port @ '' (chain script /boot.ipxe)''),
      (LevelInfo, ''  chain-url     : '' @ chainURL)]
     @ fleet_lines env ip port config ttl
     @ [(LevelInfo, ''  loglevel      : '' @ Level_String lvl)]
     @ (if pd_IsWireless p
        then [(LevelWarn, ''interface '' @ if_Name (pd_Iface p) @ '' looks wireless '' @ Dispatch.em_dash
          @ '' PXE TFTP frequently times out on WiFi; prefer wired'')] else [])
     @ (if script \<noteq> [] then [(LevelInfo, ''using custom iPXE script: '' @ script)] else [])
     @ [case ReadIPXE (be_embedded env) IPXEEFIx64 of
          Inl e \<Rightarrow> (LevelWarn, ''embedded asset check failed: '' @ be_error env e)
        | Inr b \<Rightarrow> (LevelInfo, ''embedded netboot.xyz.efi ready ('' @ Itoa (int (length b)) @ '' bytes)'')]"

definition printBanner :: "banner_env \<Rightarrow> string \<Rightarrow> Picked \<Rightarrow> net_ip \<Rightarrow> string \<Rightarrow> int \<Rightarrow> string \<Rightarrow> string \<Rightarrow> string
    \<Rightarrow> string \<Rightarrow> duration \<Rightarrow> Level \<Rightarrow> Logger \<Rightarrow> string \<Rightarrow> string" where
  "printBanner env ts p ip listen port tftpListen chainURL script config ttl lvl l out =
     foldl (\<lambda>out (level, msg). emit ts level msg l out) out
       (banner_lines env p ip listen port tftpListen chainURL script config ttl lvl)"

section \<open>What the operator sees\<close>

lemma emits_louder: "list_all (\<lambda>(level, msg). level > lg_level l) msgs \<Longrightarrow>
    foldl (\<lambda>out (level, msg). emit ts level msg l out) out msgs = out"
  by (induction msgs arbitrary: out) (auto simp: emit_def)

lemma emits_filter:
  "foldl (\<lambda>out (level, msg). emit ts level msg l out) out msgs
     = foldl (\<lambda>out (level, msg). emit ts level msg l out) out (filter (\<lambda>(level, msg). level \<le> lg_level l) msgs)"
  by (induction msgs arbitrary: out) (auto simp: emit_def)

lemma banner_levels:
  "list_all (\<lambda>(level, msg). level = LevelInfo \<or> level = LevelWarn)
     (banner_lines env p ip listen port tftpListen chainURL script config ttl lvl)"
  by (simp add: banner_lines_def fleet_lines_def split: sum.split)

text \<open>At the level of errors the banner is silent; at the level of warnings it says only what is wrong: that
  the interface looks wireless, or that the embedded boot file cannot be read.\<close>

theorem banner_quiet:
  "lg_level l = LevelError \<Longrightarrow> printBanner env ts p ip listen port tftpListen chainURL script config ttl lvl l out = out"
  "lg_level l = LevelWarn \<Longrightarrow>
     printBanner env ts p ip listen port tftpListen chainURL script config ttl lvl l out = out
     \<longleftrightarrow> \<not> pd_IsWireless p \<and> is_ok (ReadIPXE (be_embedded env) IPXEEFIx64)"
proof -
  show "lg_level l = LevelError \<Longrightarrow> printBanner env ts p ip listen port tftpListen chainURL script config ttl lvl l out = out"
    unfolding printBanner_def using banner_levels [of env p ip listen port tftpListen chainURL script config ttl lvl] levels
    by (intro emits_louder) (fastforce simp: list_all_iff)
  assume w: "lg_level l = LevelWarn"
  have f: "filter (\<lambda>(level, msg). level \<le> lg_level l) (banner_lines env p ip listen port tftpListen chainURL script config ttl lvl)
    = (if pd_IsWireless p
        then [(LevelWarn, ''interface '' @ if_Name (pd_Iface p) @ '' looks wireless '' @ Dispatch.em_dash
          @ '' PXE TFTP frequently times out on WiFi; prefer wired'')] else [])
      @ (case ReadIPXE (be_embedded env) IPXEEFIx64 of
          Inl e \<Rightarrow> [(LevelWarn, ''embedded asset check failed: '' @ be_error env e)] | Inr b \<Rightarrow> [])"
    using levels by (auto simp: banner_lines_def fleet_lines_def w split: sum.split)
  have "emit ts LevelWarn msg l out \<noteq> out" for msg out
    using emit_grows [of ts LevelWarn msg l out] w by auto
  moreover have "length (emit ts LevelWarn msg l out) > length out" for msg out
    using emit_grows [of ts LevelWarn msg l out] w by auto
  then have "length (emit ts LevelWarn m1 l (emit ts LevelWarn m2 l out)) > length out" for m1 m2 out
    using less_trans by blast
  then have "emit ts LevelWarn m1 l (emit ts LevelWarn m2 l out) \<noteq> out" for m1 m2 out by (metis less_irrefl)
  ultimately show "printBanner env ts p ip listen port tftpListen chainURL script config ttl lvl l out = out
     \<longleftrightarrow> \<not> pd_IsWireless p \<and> is_ok (ReadIPXE (be_embedded env) IPXEEFIx64)"
    unfolding printBanner_def
    by (subst emits_filter, subst f)
      (cases "ReadIPXE (be_embedded env) IPXEEFIx64"; auto)
qed

end
