(* ===== verification/Dispatch_Run.thy ===== *)
theory Dispatch_Run
  imports Dispatch
begin

text \<open>
  Running the dispatch script.  The rules are those of iPXE the source relies on: a script runs line
  by line, \<^verbatim>\<open>goto\<close> continues after the first line that defines the label, \<^verbatim>\<open>&& goto\<close>
  jumps when the two sides of \<^verbatim>\<open>iseq\<close> agree and falls through otherwise, \<^verbatim>\<open>|| goto\<close> jumps when the
  command fails.  A command may also never come back (\<^verbatim>\<open>boot\<close>, a replacing \<^verbatim>\<open>chain\<close>).
\<close>

datatype outcome = Succeeds | Fails | Leaves

record client =
  setting :: "string \<Rightarrow> string"
  runs :: "string \<Rightarrow> outcome"
  choice :: "string \<Rightarrow> string"

definition after_label :: "script_line list \<Rightarrow> string \<Rightarrow> script_line list option" where
  "after_label script l =
     (case dropWhile (\<lambda>x. x \<noteq> Label l) script of [] \<Rightarrow> None | _ # rest \<Rightarrow> Some rest)"

inductive ipxe_step :: "client \<Rightarrow> script_line list \<Rightarrow> script_line list \<Rightarrow> script_line list \<Rightarrow> bool"
  for c script where
  plain: "ipxe_step c script (Text s # r) r"
| at_label: "ipxe_step c script (Label l # r) r"
| item: "ipxe_step c script (MenuItem a l b # r) r"
| jump: "after_label script l = Some r' \<Longrightarrow> ipxe_step c script (Goto l # r) r'"
| jump_var: "after_label script (choice c v) = Some r' \<Longrightarrow> ipxe_step c script (GotoVar v # r) r'"
| iseq_match: "setting c v = w \<Longrightarrow> after_label script l = Some r' \<Longrightarrow> ipxe_step c script (IseqGoto v w l # r) r'"
| iseq_miss: "setting c v \<noteq> w \<Longrightarrow> ipxe_step c script (IseqGoto v w l # r) r"
| success: "runs c cmd = Succeeds \<Longrightarrow> ipxe_step c script (OrGoto cmd l # r) r"
| failure: "runs c cmd = Fails \<Longrightarrow> after_label script l = Some r' \<Longrightarrow> ipxe_step c script (OrGoto cmd l # r) r'"

abbreviation ipxe_runs :: "client \<Rightarrow> script_line list \<Rightarrow> script_line list \<Rightarrow> script_line list \<Rightarrow> bool" where
  "ipxe_runs c script \<equiv> (ipxe_step c script)\<^sup>*\<^sup>*"

text \<open>What a line prints or runs plays no part in where control goes: the simplifier leaves it alone.\<close>

lemma opaque_text [cong]: "Text s = Text s"
  by (rule refl)

lemma opaque_command [cong]: "l = l' \<Longrightarrow> OrGoto cmd l = OrGoto cmd l'"
  by simp

lemma opaque_item [cong]: "l = l' \<Longrightarrow> MenuItem a l b = MenuItem a l' b"
  by simp

inductive_cases step_textE: "ipxe_step c script (Text s # r) r'"
inductive_cases step_iseqE: "ipxe_step c script (IseqGoto v w l # r) r'"
inductive_simps step_reboot: "ipxe_step c script (Reboot # r) r'"

section \<open>Where a jump goes\<close>

lemma after_label_Nil [simp]: "after_label [] l = None"
  by (simp add: after_label_def)

lemma after_label_Cons [simp]: "after_label (x # xs) l = (if x = Label l then Some xs else after_label xs l)"
  by (simp add: after_label_def)

lemma after_label_append:
  "after_label (xs @ ys) l = (if Label l \<in> set xs then map_option (\<lambda>r. r @ ys) (after_label xs l) else after_label ys l)"
  by (induction xs) auto

lemma after_label_defined: "after_label xs l \<noteq> None \<longleftrightarrow> Label l \<in> set xs"
  by (induction xs) auto

lemma after_label_skip: "Label l \<notin> set xs \<Longrightarrow> after_label (xs @ ys) l = after_label ys l"
  by (simp add: after_label_append)

lemma after_label_hit:
  "Label l \<notin> set xs \<Longrightarrow> ys = xs @ Text t # Label l # r \<Longrightarrow> after_label ys l = Some r"
  by (simp add: after_label_skip)

fun straight :: "script_line \<Rightarrow> bool" where
  "straight (Text s) = True"
| "straight (Label l) = True"
| "straight (MenuItem a l b) = True"
| "straight _ = False"

lemma step_straight: "straight x \<Longrightarrow> ipxe_step c script (x # r) r"
  by (cases x) (auto intro: ipxe_step.intros)

lemma runs_straight: "list_all straight xs \<Longrightarrow> ipxe_runs c script (xs @ r) r"
  by (induction xs) (auto intro: converse_rtranclp_into_rtranclp step_straight)

lemma runs_mismatch:
  "\<forall>nic \<in> set ns. setting c nic \<noteq> w \<Longrightarrow> ipxe_runs c script (map (\<lambda>nic. IseqGoto nic w l) ns @ r) r"
  by (induction ns) (auto intro: converse_rtranclp_into_rtranclp ipxe_step.iseq_miss)

lemma runs_match:
  assumes "\<exists>nic \<in> set ns. setting c nic = w" "after_label script l = Some r'"
  shows "ipxe_runs c script (map (\<lambda>nic. IseqGoto nic w l) ns @ r) r'"
  using assms(1)
proof (induction ns)
  case (Cons n ns)
  show ?case
  proof (cases "setting c n = w")
    case True
    then have "ipxe_step c script (map (\<lambda>nic. IseqGoto nic w l) (n # ns) @ r) r'"
      using assms(2) by (simp add: ipxe_step.iseq_match)
    then show ?thesis by (rule r_into_rtranclp)
  next
    case False
    then have "ipxe_step c script (map (\<lambda>nic. IseqGoto nic w l) (n # ns) @ r) (map (\<lambda>nic. IseqGoto nic w l) ns @ r)"
      by (simp add: ipxe_step.iseq_miss)
    moreover have "ipxe_runs c script (map (\<lambda>nic. IseqGoto nic w l) ns @ r) r'" using Cons False by auto
    ultimately show ?thesis by (rule converse_rtranclp_into_rtranclp)
  qed
qed simp

section \<open>The labels of a machine's block\<close>

definition label_suffixes :: "string list" where
  "label_suffixes = [[], ''_shell'', ''_boot'', ''_fail_dhcp'', ''_fail_kernel'', ''_fail_initrd'', ''_fail_boot'',
     ''_fail_chain'']"

fun labels :: "script_line list \<Rightarrow> string list" where
  "labels [] = []"
| "labels (Label l # r) = l # labels r"
| "labels (_ # r) = labels r"

fun jumps :: "script_line list \<Rightarrow> string list" where
  "jumps [] = []"
| "jumps (Goto l # r) = l # jumps r"
| "jumps (IseqGoto v w l # r) = l # jumps r"
| "jumps (OrGoto c l # r) = l # jumps r"
| "jumps (MenuItem a l b # r) = l # jumps r"
| "jumps (_ # r) = jumps r"

lemma labels_append [simp]: "labels (xs @ ys) = labels xs @ labels ys"
  by (induction xs rule: labels.induct) auto

lemma jumps_append [simp]: "jumps (xs @ ys) = jumps xs @ jumps ys"
  by (induction xs rule: jumps.induct) auto

lemma set_labels_iff: "Label l \<in> set xs \<longleftrightarrow> l \<in> set (labels xs)"
  by (induction xs rule: labels.induct) auto

lemma labels_concat [simp]: "labels (concat xss) = concat (map labels xss)"
  by (induction xss) auto

lemma jumps_concat [simp]: "jumps (concat xss) = concat (map jumps xss)"
  by (induction xss) auto

lemmas arm_defs = debian_arm_def rhel_arm_def ubuntu_arm_def custom_arm_def menu_arm_def unknown_arm_def
  writeRescueArm_def writeMachineErrorBlocks_def

lemma labels_errors: "labels (writeMachineErrorBlocks label target url)
    = [label @ ''_fail_dhcp'', label @ ''_fail_kernel'', label @ ''_fail_initrd'', label @ ''_fail_boot'']"
  by (simp add: writeMachineErrorBlocks_def)

lemma jumps_errors: "jumps (writeMachineErrorBlocks label target url) = []"
  by (simp add: writeMachineErrorBlocks_def)

lemma last_errors: "last (writeMachineErrorBlocks label target url) = Reboot" "writeMachineErrorBlocks label target url \<noteq> []"
  by (simp_all add: writeMachineErrorBlocks_def)

text \<open>The labels an arm defines, and that it jumps nowhere else (but to the default arm).\<close>

definition arm_ok :: "string \<Rightarrow> script_line list \<Rightarrow> bool" where
  "arm_ok label arm \<longleftrightarrow> arm \<noteq> [] \<and> set (labels arm) \<subseteq> (\<lambda>s. label @ s) ` (set label_suffixes - {[], ''_shell'', ''_boot''})
     \<and> set (jumps arm) \<subseteq> insert ''target_default'' (set (labels arm))
     \<and> last arm \<in> {Reboot, Goto ''target_default''}"

lemma arm_suffixes: "set label_suffixes - {[], ''_shell'', ''_boot''}
    = set [''_fail_dhcp'', ''_fail_kernel'', ''_fail_initrd'', ''_fail_boot'', ''_fail_chain'']"
  unfolding label_suffixes_def by code_simp

lemma arm_okI:
  "arm \<noteq> [] \<Longrightarrow> list_all (\<lambda>l. l \<in> set (map (\<lambda>s. label @ s) [''_fail_dhcp'', ''_fail_kernel'', ''_fail_initrd'',
       ''_fail_boot'', ''_fail_chain''])) (labels arm)
   \<Longrightarrow> list_all (\<lambda>l. l = ''target_default'' \<or> l \<in> set (labels arm)) (jumps arm)
   \<Longrightarrow> last arm = Reboot \<or> last arm = Goto ''target_default'' \<Longrightarrow> arm_ok label arm"
  unfolding arm_ok_def arm_suffixes set_map list_all_iff by blast

lemma arms_ok:
  "arm_ok label (debian_arm v s mi m ctx label)" "arm_ok label (rhel_arm m ctx label)"
  "arm_ok label (ubuntu_arm m ctx label)" "arm_ok label (custom_arm m ctx label)"
  "arm_ok label (menu_arm label)" "arm_ok label (unknown_arm m)" "arm_ok label (writeRescueArm m ctx label)"
  by (rule arm_okI; simp add: debian_arm_def rhel_arm_def ubuntu_arm_def custom_arm_def menu_arm_def
      unknown_arm_def writeRescueArm_def Let_def labels_errors jumps_errors last_errors)+

lemma boot_arm_ok: "arm_ok label (boot_arm m ctx label)"
  by (simp add: boot_arm_def Let_def arms_ok)

lemma head_labels: "labels (machine_head m ctx r)
    = [machine_label m, machine_label m @ ''_shell'', machine_label m @ ''_boot'']"
  by (simp add: machine_head_def Let_def)

lemma head_jumps: "jumps (machine_head m ctx r)
    = [machine_label m @ ''_boot'', ''menu_netbootxyz'', machine_label m @ ''_shell'', machine_label m]"
  by (simp add: machine_head_def Let_def)

lemma head_starts: "machine_head m ctx r = Text [] # Label (machine_label m) # drop 2 (machine_head m ctx r)"
  by (simp add: machine_head_def Let_def)

definition block_body :: "Machine \<Rightarrow> DispatchContext \<Rightarrow> bool \<Rightarrow> script_line list" where
  "block_body m ctx r = drop 2 (writeMachineBlock m ctx r)"

lemma block_starts: "writeMachineBlock m ctx r = Text [] # Label (machine_label m) # block_body m ctx r"
  unfolding block_body_def writeMachineBlock_def by (subst head_starts) (subst (2) head_starts, simp)

lemma block_labels: "set (labels (writeMachineBlock m ctx r)) \<subseteq> (\<lambda>s. machine_label m @ s) ` set label_suffixes"
proof -
  have "arm_ok (machine_label m) (if r then writeRescueArm m ctx (machine_label m) else boot_arm m ctx (machine_label m))"
    by (simp add: arms_ok boot_arm_ok)
  then have "set (labels (if r then writeRescueArm m ctx (machine_label m) else boot_arm m ctx (machine_label m)))
      \<subseteq> (\<lambda>s. machine_label m @ s) ` set label_suffixes"
    unfolding arm_ok_def by blast
  moreover have "set (labels (machine_head m ctx r)) \<subseteq> (\<lambda>s. machine_label m @ s) ` set label_suffixes"
    unfolding head_labels label_suffixes_def by auto
  ultimately show ?thesis by (simp add: writeMachineBlock_def)
qed

lemma block_closed:
  "set (jumps (writeMachineBlock m ctx r))
     \<subseteq> set (labels (writeMachineBlock m ctx r)) \<union> {''target_default'', ''menu_netbootxyz''}"
  "last (writeMachineBlock m ctx r) \<in> {Reboot, Goto ''target_default''}"
proof -
  let ?arm = "if r then writeRescueArm m ctx (machine_label m) else boot_arm m ctx (machine_label m)"
  have a: "arm_ok (machine_label m) ?arm" by (simp add: arms_ok boot_arm_ok)
  then show "set (jumps (writeMachineBlock m ctx r))
      \<subseteq> set (labels (writeMachineBlock m ctx r)) \<union> {''target_default'', ''menu_netbootxyz''}"
    unfolding writeMachineBlock_def arm_ok_def jumps_append labels_append head_labels head_jumps by auto
  from a show "last (writeMachineBlock m ctx r) \<in> {Reboot, Goto ''target_default''}"
    unfolding writeMachineBlock_def arm_ok_def by (simp add: last_append)
qed

lemma label_char_basic: "label_char (CHR ''m'')" "label_char (CHR ''_'')"
  by (simp_all add: label_char_def)

lemma label_chars: "list_all label_char (labelOf mac name)"
  by (auto simp: labelOf_def Let_def list_all_iff label_char_basic)

lemma suffix_chars: "list_all (list_all label_char) label_suffixes"
  by code_simp

lemma label_m: "machine_label m @ s = ''m_'' @ drop 2 (machine_label m) @ s"
  by (simp add: machine_label_def labelOf_def Let_def)

lemma fixed_labels:
  "labels arch_check = [''arch_refuse'', ''arch_ok'']" "labels stage0 = []" "labels (netmask_stage ctx) = []"
  "labels (phone_home ctx) = []" "labels (dispatch_entry m) = []" "labels table_end = []"
  "labels (script_tail ctx) = [''target_default'', ''menu_netbootxyz'', ''top_fail_dhcp'', ''menu_netbootxyz_fail'']"
  by (simp_all add: arch_check_def stage0_def netmask_stage_def phone_home_def dispatch_entry_def table_end_def
      script_tail_def nics_def Let_def)

lemma fixed_jumps:
  "jumps arch_check = [''arch_refuse'', ''arch_refuse'', ''arch_ok'']" "jumps stage0 = [''top_fail_dhcp'']"
  "jumps (netmask_stage ctx) = []" "jumps (phone_home ctx) = []"
  "jumps (dispatch_entry m) = replicate 4 (machine_label m)" "jumps table_end = [''target_default'']"
  "jumps (script_tail ctx) = [''menu_netbootxyz'', ''menu_netbootxyz_fail'']"
  by (simp_all add: arch_check_def stage0_def netmask_stage_def phone_home_def dispatch_entry_def table_end_def
      script_tail_def nics_def Let_def numeral_eq_Suc)

definition machine_blocks :: "DispatchContext \<Rightarrow> Machine list \<Rightarrow> script_line list" where
  "machine_blocks ctx ms = concat (map (\<lambda>m. writeMachineBlock m ctx (rescue_armed ctx (m_MAC m))) ms)"

lemma script_parts: "dispatch_script f ctx = arch_check @ stage0 @ netmask_stage ctx @ phone_home ctx
    @ concat (map dispatch_entry (dispatch_machines f)) @ table_end
    @ machine_blocks ctx (dispatch_machines f) @ script_tail ctx"
  by (simp add: dispatch_script_def machine_blocks_def Let_def)

lemma entries_labels [simp]: "labels (concat (map dispatch_entry ms)) = []"
  by (induction ms) (simp_all add: fixed_labels)

lemma blocks_labels: "l \<in> set (labels (machine_blocks ctx ms))
    \<Longrightarrow> \<exists>m \<in> set ms. \<exists>s \<in> set label_suffixes. l = machine_label m @ s"
  unfolding machine_blocks_def using block_labels by fastforce

definition fixed_label_list :: "string list" where
  "fixed_label_list = [''arch_refuse'', ''arch_ok'', ''target_default'', ''menu_netbootxyz'', ''top_fail_dhcp'',
     ''menu_netbootxyz_fail'']"

lemma fixed_chars: "list_all (list_all label_char) fixed_label_list"
  by code_simp

lemma script_labels: "set (labels (dispatch_script f ctx))
    = set fixed_label_list \<union> set (labels (machine_blocks ctx (dispatch_machines f)))"
  unfolding script_parts labels_append fixed_labels entries_labels fixed_label_list_def by auto

section \<open>Running to the dispatch table\<close>

lemma into_steps: "ipxe_step c script x y \<Longrightarrow> ipxe_runs c script y z \<Longrightarrow> ipxe_runs c script x z"
  by (rule converse_rtranclp_into_rtranclp)

lemma runs_trans: "ipxe_runs c script x y \<Longrightarrow> ipxe_runs c script y z \<Longrightarrow> ipxe_runs c script x z"
  by (rule rtranclp_trans)

lemma runs_arch:
  assumes "setting c ''buildarch'' \<notin> {''arm64'', ''arm32''}" "script = arch_check @ r"
  shows "ipxe_runs c script script r"
proof -
  have "after_label script ''arch_ok'' = Some (Text [] # r)"
    unfolding assms(2) by (simp add: arch_check_def)
  then have "ipxe_runs c script (arch_check @ r) (Text [] # r)"
    unfolding arch_check_def append_Cons append_Nil using assms(1)
    by (intro into_steps [OF ipxe_step.plain] into_steps [OF ipxe_step.iseq_miss] r_into_rtranclp ipxe_step.jump)
      auto
  also have "ipxe_runs c script (Text [] # r) r" by (blast intro: ipxe_step.plain)
  finally show ?thesis by (simp add: assms(2))
qed

lemma runs_stages:
  assumes "runs c ''dhcp'' = Succeeds"
  shows "ipxe_runs c script (stage0 @ netmask_stage ctx @ phone_home ctx @ r) r"
proof -
  have "ipxe_runs c script (stage0 @ q) q" for q
    unfolding stage0_def append_Cons append_Nil using assms
    by (intro into_steps [OF ipxe_step.plain] into_steps [OF ipxe_step.success] rtranclp.rtrancl_refl)
  moreover have "ipxe_runs c script (netmask_stage ctx @ q) q" for q
    by (rule runs_straight) (simp add: netmask_stage_def)
  moreover have "ipxe_runs c script (phone_home ctx @ q) q" for q
    by (rule runs_straight) (simp add: phone_home_def Let_def)
  ultimately show ?thesis by (meson runs_trans)
qed

lemma runs_entries_miss:
  assumes "\<forall>m \<in> set ms. \<forall>nic \<in> set nics. setting c nic \<noteq> machyp m"
  shows "ipxe_runs c script (concat (map dispatch_entry ms) @ r) r"
  using assms
proof (induction ms)
  case (Cons m ms)
  have "ipxe_runs c script (dispatch_entry m @ q) q" for q
    unfolding dispatch_entry_def append_Cons
    by (rule into_steps [OF ipxe_step.plain], rule runs_mismatch) (use Cons.prems in auto)
  moreover have "ipxe_runs c script (concat (map dispatch_entry ms) @ r) r" using Cons by simp
  ultimately show ?case by simp (meson runs_trans)
qed simp

text \<open>The machines before the client's own have other MACs; its entry jumps.\<close>

lemma runs_entries_hit:
  assumes "ms = pre @ m # post" "\<forall>m' \<in> set pre. \<forall>nic \<in> set nics. setting c nic \<noteq> machyp m'"
    "\<exists>nic \<in> set nics. setting c nic = machyp m" "after_label script (machine_label m) = Some r'"
  shows "ipxe_runs c script (concat (map dispatch_entry ms) @ r) r'"
proof -
  have "ipxe_runs c script (dispatch_entry m @ q) r'" for q
    unfolding dispatch_entry_def append_Cons
    by (rule into_steps [OF ipxe_step.plain]) (rule runs_match [OF assms(3,4)])
  moreover have "ipxe_runs c script (concat (map dispatch_entry pre) @ q) q" for q
    using runs_entries_miss assms(2) by blast
  ultimately show ?thesis unfolding assms(1) by simp (meson runs_trans)
qed

text \<open>The label is first defined by the block of \<open>m\<close> when no earlier machine's block defines it.\<close>

lemma after_label_block:
  assumes "dispatch_machines f = pre @ m # post"
    "\<forall>m' \<in> set pre. \<forall>s \<in> set label_suffixes. machine_label m \<noteq> machine_label m' @ s"
  shows "\<exists>r. after_label (dispatch_script f ctx) (machine_label m)
    = Some (block_body m ctx (rescue_armed ctx (m_MAC m)) @ r)"
proof -
  have m: "machine_label m = ''m_'' @ drop 2 (machine_label m)" using label_m [of m "[]"] by simp
  have "machine_label m \<notin> set (labels (arch_check @ stage0 @ netmask_stage ctx @ phone_home ctx
      @ concat (map dispatch_entry (dispatch_machines f)) @ table_end))"
    by (subst m) (simp add: fixed_labels)
  moreover have "machine_label m \<notin> set (labels (machine_blocks ctx pre))"
    using blocks_labels assms(2) by blast
  ultimately have "Label (machine_label m) \<notin> set ((arch_check @ stage0 @ netmask_stage ctx @ phone_home ctx
      @ concat (map dispatch_entry (dispatch_machines f)) @ table_end) @ machine_blocks ctx pre)"
    by (simp only: set_labels_iff labels_append set_append Un_iff not_False_eq_True simp_thms)
  moreover have "dispatch_script f ctx = ((arch_check @ stage0 @ netmask_stage ctx @ phone_home ctx
      @ concat (map dispatch_entry (dispatch_machines f)) @ table_end) @ machine_blocks ctx pre)
      @ Text [] # Label (machine_label m) # (block_body m ctx (rescue_armed ctx (m_MAC m))
      @ machine_blocks ctx post @ script_tail ctx)"
    unfolding script_parts machine_blocks_def assms(1) by (simp add: block_starts)
  ultimately have "after_label (dispatch_script f ctx) (machine_label m)
      = Some (block_body m ctx (rescue_armed ctx (m_MAC m)) @ machine_blocks ctx post @ script_tail ctx)"
    by (rule after_label_hit)
  then show ?thesis by blast
qed

text \<open>A client that is no ARM machine and gets an address reaches the table.\<close>

definition boots :: "client \<Rightarrow> bool" where
  "boots c \<longleftrightarrow> setting c ''buildarch'' \<notin> {''arm64'', ''arm32''} \<and> runs c ''dhcp'' = Succeeds"

lemma runs_to_table:
  assumes "boots c" "script = dispatch_script f ctx"
  shows "ipxe_runs c script script (concat (map dispatch_entry (dispatch_machines f)) @ table_end
    @ machine_blocks ctx (dispatch_machines f) @ script_tail ctx)"
proof -
  have a: "setting c ''buildarch'' \<notin> {''arm64'', ''arm32''}" "runs c ''dhcp'' = Succeeds"
    using assms(1) by (auto simp: boots_def)
  note runs_arch [OF a(1) assms(2) [unfolded script_parts]]
  also note runs_stages [OF a(2)]
  finally show ?thesis .
qed

lemma runs_to_block:
  assumes "boots c" "dispatch_machines f = pre @ m' # post" "m \<in> set (dispatch_machines f)"
    "\<exists>nic \<in> set nics. setting c nic = machyp m"
    "\<forall>m1 \<in> set (dispatch_machines f). m1 \<noteq> m \<longrightarrow> (\<forall>nic \<in> set nics. setting c nic \<noteq> machyp m1)"
    "machine_label m' = machine_label m"
    "\<forall>m1 \<in> set pre. \<forall>s \<in> set label_suffixes. machine_label m \<noteq> machine_label m1 @ s"
  shows "\<exists>r. ipxe_runs c (dispatch_script f ctx) (dispatch_script f ctx)
    (block_body m' ctx (rescue_armed ctx (m_MAC m')) @ r)"
proof -
  obtain r where r: "after_label (dispatch_script f ctx) (machine_label m)
      = Some (block_body m' ctx (rescue_armed ctx (m_MAC m')) @ r)"
    using after_label_block [OF assms(2)] assms(6,7) by metis
  obtain p q where pq: "dispatch_machines f = p @ m # q" "m \<notin> set p"
    using split_list_first [OF assms(3)] by blast
  note runs_to_table [OF assms(1) refl]
  also have "ipxe_runs c (dispatch_script f ctx) (concat (map dispatch_entry (dispatch_machines f)) @ table_end
    @ machine_blocks ctx (dispatch_machines f) @ script_tail ctx)
    (block_body m' ctx (rescue_armed ctx (m_MAC m')) @ r)"
    by (rule runs_entries_hit [OF pq(1) _ assms(4) r]) (use assms(5) pq in auto)
  finally show ?thesis by blast
qed

lemma script_tail_shape:
  "\<exists>t a u b r. script_tail ctx = Text t # Label ''target_default'' # a
      @ Goto ''menu_netbootxyz'' # Text [] # Text u # Label ''menu_netbootxyz'' # b
      @ OrGoto ''chain --replace --autofree https://boot.netboot.xyz/menu.ipxe'' ''menu_netbootxyz_fail'' # r
    \<and> list_all straight a \<and> list_all straight b \<and> labels a = []"
  by (rule exI, rule exI [of _ "take 7 (drop 2 (script_tail ctx))"], rule exI,
      rule exI [of _ "take 6 (drop 13 (script_tail ctx))"]) (simp add: script_tail_def Let_def)

lemma script_jumps_defined: "set (jumps (dispatch_script f ctx)) \<subseteq> set (labels (dispatch_script f ctx))"
proof -
  let ?ms = "dispatch_machines f"
  let ?blocks = "machine_blocks ctx ?ms"
  have "set (jumps ?blocks) \<subseteq> set (labels ?blocks) \<union> {''target_default'', ''menu_netbootxyz''}"
    unfolding machine_blocks_def using block_closed(1) by fastforce
  moreover have "set (jumps (concat (map dispatch_entry ?ms))) \<subseteq> set (labels ?blocks)"
    by (auto simp: fixed_jumps machine_blocks_def block_starts)
  moreover have "list_all (\<lambda>l. l \<in> set fixed_label_list) (jumps arch_check @ jumps stage0 @ jumps table_end
      @ jumps (script_tail ctx) @ [''target_default'', ''menu_netbootxyz''])"
    unfolding fixed_jumps by code_simp
  ultimately have "set (jumps (dispatch_script f ctx)) \<subseteq> set (labels ?blocks) \<union> set fixed_label_list"
    unfolding script_parts jumps_append fixed_jumps(3,4) list_all_iff set_append list.set by blast
  then show ?thesis unfolding script_labels by blast
qed

section \<open>The properties\<close>

text \<open>The dispatch script is well formed for every fleet: each label a line jumps to, or a menu
  item names, is defined in it; labels are made of letters, digits and underscores only; and no
  machine's block falls through into the next one.\<close>

theorem dispatch_wellformed:
  "set (jumps (dispatch_script f ctx)) \<subseteq> set (labels (dispatch_script f ctx))
   \<and> list_all (list_all label_char) (labels (dispatch_script f ctx))
   \<and> last (writeMachineBlock m ctx rescue) \<in> {Reboot, Goto ''target_default''}"
proof (intro conjI script_jumps_defined block_closed(2))
  have "list_all label_char l" if "l \<in> set (labels (machine_blocks ctx (dispatch_machines f)))" for l
    using blocks_labels [OF that] label_chars suffix_chars by (auto simp: machine_label_def list_all_iff)
  moreover have "list_all label_char l" if "l \<in> set fixed_label_list" for l
    using that fixed_chars by (simp only: list_all_iff [of "list_all label_char"])
  ultimately show "list_all (list_all label_char) (labels (dispatch_script f ctx))"
    unfolding list_all_iff [of "list_all label_char"] script_labels by blast
qed

text \<open>A fleet with two names that share a label, and a client on its second NIC.\<close>

definition example_machine :: "string \<Rightarrow> string \<Rightarrow> string \<Rightarrow> Machine" where
  "example_machine mac name boot = \<lparr>m_MAC = mac, m_Profile = empty_profile\<lparr>p_Name := name, p_Boot := boot\<rparr>\<rparr>"

definition example_lab :: Fleet where
  "example_lab = \<lparr>f_path = ''/srv/fleet.yaml'', f_baseDir = ''/srv'',
     f_machines = map (\<lambda>m. (m_MAC m, m_Profile m)) [example_machine ''52:54:00:00:00:03'' ''db'' ''rocky-9'',
       example_machine ''52:54:00:00:00:02'' ''web.1'' ''debian-12'',
       example_machine ''52:54:00:00:00:01'' ''web-1'' ''menu''],
     f_defaults = empty_profile\<rparr>"

definition example_ctx :: DispatchContext where
  "example_ctx = \<lparr>AdvertisedIP = ''10.0.0.5'', HTTPPort = 8080, ClientNetmask = [], RescueArmed = None\<rparr>"

definition example_client :: "string \<Rightarrow> client" where
  "example_client mac = \<lparr>setting = (\<lambda>v. if v = ''net1/mac:hexhyp'' then mac else []),
     runs = (\<lambda>_. Succeeds), choice = (\<lambda>_. [])\<rparr>"

lemma example_boots: "boots (example_client mac)"
  by (simp add: boots_def example_client_def)

lemma example_machines: "dispatch_machines (Some example_lab) = [example_machine ''52:54:00:00:00:01'' ''web-1'' ''menu'',
    example_machine ''52:54:00:00:00:02'' ''web.1'' ''debian-12'', example_machine ''52:54:00:00:00:03'' ''db'' ''rocky-9'']"
  by code_simp



text \<open>Two machines whose names differ only in characters a label cannot hold share a label: the
  client of the later one is booted with the block of the earlier one, its boot target and its
  installer URLs included.\<close>

theorem label_collision_boots_other_machine:
  assumes "boots c" "dispatch_machines f = pre @ m1 # post" "m2 \<in> set post"
    "\<exists>nic \<in> set nics. setting c nic = machyp m2"
    "\<forall>m \<in> set (dispatch_machines f). m \<noteq> m2 \<longrightarrow> (\<forall>nic \<in> set nics. setting c nic \<noteq> machyp m)"
    "machine_label m1 = machine_label m2"
    "\<forall>m \<in> set pre. \<forall>s \<in> set label_suffixes. machine_label m2 \<noteq> machine_label m @ s"
  shows "\<exists>r. ipxe_runs c (dispatch_script f ctx) (dispatch_script f ctx)
    (drop 2 (writeMachineBlock m1 ctx (rescue_armed ctx (m_MAC m1))) @ r)"
  using runs_to_block [OF assms(1,2) _ assms(4,5,6,7)] assms(2,3) unfolding block_body_def by simp

theorem label_collision_boots_other_machine_witness:
  "\<exists>r. ipxe_runs (example_client ''52-54-00-00-00-02'') (dispatch_script (Some example_lab) example_ctx)
    (dispatch_script (Some example_lab) example_ctx)
    (drop 2 (writeMachineBlock (example_machine ''52:54:00:00:00:01'' ''web-1'' ''menu'') example_ctx False) @ r)"
proof -
  let ?m1 = "example_machine ''52:54:00:00:00:01'' ''web-1'' ''menu''"
  let ?m2 = "example_machine ''52:54:00:00:00:02'' ''web.1'' ''debian-12''"
  let ?m3 = "example_machine ''52:54:00:00:00:03'' ''db'' ''rocky-9''"
  have "rescue_armed example_ctx (m_MAC ?m1) = False" by code_simp
  moreover have "dispatch_machines (Some example_lab) = [] @ ?m1 # [?m2, ?m3]" by (simp add: example_machines)
  moreover have "\<exists>nic \<in> set nics. setting (example_client ''52-54-00-00-00-02'') nic = machyp ?m2" by code_simp
  moreover have "\<forall>m \<in> set (dispatch_machines (Some example_lab)). m \<noteq> ?m2 \<longrightarrow>
      (\<forall>nic \<in> set nics. setting (example_client ''52-54-00-00-00-02'') nic \<noteq> machyp m)"
    unfolding example_machines by code_simp
  moreover have "machine_label ?m1 = machine_label ?m2" by code_simp
  ultimately show ?thesis
    using label_collision_boots_other_machine [OF example_boots, of "Some example_lab" "[]" ?m1 "[?m2, ?m3]" ?m2
      "''52-54-00-00-00-02''" example_ctx]
    by simp
qed

text \<open>A client with none of the fleet's MACs runs through to the hosted netboot.xyz menu: it
  never reaches a machine's block.\<close>

theorem unknown_client_gets_menu:
  assumes "boots c" "\<forall>m \<in> set (dispatch_machines f). \<forall>nic \<in> set nics. setting c nic \<noteq> machyp m"
  shows "\<exists>r. ipxe_runs c (dispatch_script f ctx) (dispatch_script f ctx)
    (OrGoto ''chain --replace --autofree https://boot.netboot.xyz/menu.ipxe'' ''menu_netbootxyz_fail'' # r)"
proof -
  let ?s = "dispatch_script f ctx"
  define front where "front = arch_check @ stage0 @ netmask_stage ctx @ phone_home ctx
    @ concat (map dispatch_entry (dispatch_machines f)) @ table_end @ machine_blocks ctx (dispatch_machines f)"
  have s: "?s = front @ script_tail ctx" by (simp add: front_def script_parts)
  have no: "Label l \<notin> set front" if "l \<in> {''target_default'', ''menu_netbootxyz''}" for l
  proof -
    have "l \<noteq> machine_label m @ s" for m s using that by (subst label_m) auto
    then have "l \<notin> set (labels (machine_blocks ctx (dispatch_machines f)))" using blocks_labels by blast
    then show ?thesis using that unfolding set_labels_iff front_def labels_append by (auto simp: fixed_labels)
  qed
  obtain t a u b r where tail: "script_tail ctx = Text t # Label ''target_default'' # a
      @ Goto ''menu_netbootxyz'' # Text [] # Text u # Label ''menu_netbootxyz'' # b
      @ OrGoto ''chain --replace --autofree https://boot.netboot.xyz/menu.ipxe'' ''menu_netbootxyz_fail'' # r"
    and straights: "list_all straight a" "list_all straight b" "labels a = []"
    using script_tail_shape [of ctx] by blast
  define menu where "menu = b @ OrGoto ''chain --replace --autofree https://boot.netboot.xyz/menu.ipxe'' ''menu_netbootxyz_fail'' # r"
  have d: "after_label ?s ''target_default'' = Some (a @ Goto ''menu_netbootxyz'' # Text [] # Text u # Label ''menu_netbootxyz'' # menu)"
    by (rule after_label_hit [of _ front _ t]) (use no in \<open>simp_all add: s tail menu_def\<close>)
  have "Label ''menu_netbootxyz'' \<notin> set (front @ Text t # Label ''target_default'' # a @ [Goto ''menu_netbootxyz'', Text []])"
    using no straights(3) by (simp add: set_labels_iff)
  then have d': "after_label ?s ''menu_netbootxyz'' = Some menu"
    by (rule after_label_hit [where t = u]) (simp add: s menu_def tail)
  let ?d = "a @ Goto ''menu_netbootxyz'' # Text [] # Text u # Label ''menu_netbootxyz'' # menu"
  have 1: "ipxe_runs c ?s (table_end @ machine_blocks ctx (dispatch_machines f) @ script_tail ctx) ?d"
    unfolding table_end_def append_Cons append_Nil
    by (intro into_steps [OF ipxe_step.plain] r_into_rtranclp ipxe_step.jump d)
  have 2: "ipxe_runs c ?s (Goto ''menu_netbootxyz'' # Text [] # Text u # Label ''menu_netbootxyz'' # menu) menu"
    by (intro r_into_rtranclp ipxe_step.jump d')
  have 3: "ipxe_runs c ?s menu
      (OrGoto ''chain --replace --autofree https://boot.netboot.xyz/menu.ipxe'' ''menu_netbootxyz_fail'' # r)"
    unfolding menu_def by (rule runs_straight [OF straights(2)])
  have "ipxe_runs c ?s ?s
      (OrGoto ''chain --replace --autofree https://boot.netboot.xyz/menu.ipxe'' ''menu_netbootxyz_fail'' # r)"
    by (rule runs_trans [OF runs_to_table [OF assms(1) refl]], rule runs_trans [OF runs_entries_miss [OF assms(2)]],
        rule runs_trans [OF 1], rule runs_trans [OF runs_straight [OF straights(1)]], rule runs_trans [OF 2 3])
  then show ?thesis by blast
qed

theorem unknown_client_gets_menu_witness:
  "\<exists>r. ipxe_runs (example_client ''52-54-00-00-00-04'') (dispatch_script (Some example_lab) example_ctx)
    (dispatch_script (Some example_lab) example_ctx)
    (OrGoto ''chain --replace --autofree https://boot.netboot.xyz/menu.ipxe'' ''menu_netbootxyz_fail'' # r)"
proof (rule unknown_client_gets_menu [OF example_boots])
  show "\<forall>m \<in> set (dispatch_machines (Some example_lab)). \<forall>nic \<in> set nics.
      setting (example_client ''52-54-00-00-00-04'') nic \<noteq> machyp m"
    unfolding example_machines by code_simp
qed

end
