(* ===== verification/Dispatch_Halt.thy ===== *)
theory Dispatch_Halt
  imports Dispatch_Run
begin

text \<open>
  The dispatch script always comes to an end.  Apart from the way back from the debug shell to the menu,
  every jump goes forward, so a client takes fewer steps than the script has lines.
\<close>

section \<open>Scripts that only jump forward\<close>

text \<open>\<open>ahead c b seen xs\<close>: no line of \<open>xs\<close> jumps to a label in \<open>seen\<close> or to one defined above the
  line.  The jump behind a \<^verbatim>\<open>shell\<close> line is excepted; \<open>b\<close> tells whether such a line comes before.\<close>

fun ahead :: "client \<Rightarrow> bool \<Rightarrow> string set \<Rightarrow> script_line list \<Rightarrow> bool" where
  "ahead c b seen [] = True"
| "ahead c b seen (Text s # xs) = ahead c (s = ''shell'') seen xs"
| "ahead c b seen (Label l # xs) = ahead c False (insert l seen) xs"
| "ahead c b seen (Goto l # xs) = ((b \<or> l \<notin> seen) \<and> ahead c False seen xs)"
| "ahead c b seen (GotoVar v # xs) = (choice c v \<notin> seen \<and> ahead c False seen xs)"
| "ahead c b seen (IseqGoto v w l # xs) = (l \<notin> seen \<and> ahead c False seen xs)"
| "ahead c b seen (OrGoto cmd l # xs) = (l \<notin> seen \<and> ahead c False seen xs)"
| "ahead c b seen (MenuItem a l t # xs) = ahead c False seen xs"
| "ahead c b seen (Reboot # xs) = ahead c False seen xs"

text \<open>The flag only matters to a jump: any other line after a text forgets it.\<close>

lemma ahead_text:
  "ahead c b seen [Text s] = True"
  "ahead c b seen (Text s # Text t # xs) = ahead c b seen (Text t # xs)"
  "ahead c b seen (Text s # Label l # xs) = ahead c b seen (Label l # xs)"
  "ahead c b seen (Text s # GotoVar v # xs) = ahead c b seen (GotoVar v # xs)"
  "ahead c b seen (Text s # IseqGoto v w l # xs) = ahead c b seen (IseqGoto v w l # xs)"
  "ahead c b seen (Text s # OrGoto cmd l # xs) = ahead c b seen (OrGoto cmd l # xs)"
  "ahead c b seen (Text s # MenuItem a l t # xs) = ahead c b seen (MenuItem a l t # xs)"
  "ahead c b seen (Text s # Reboot # xs) = ahead c b seen (Reboot # xs)"
  "ahead c b seen (Text s # Goto l # xs) = ((s = ''shell'' \<or> l \<notin> seen) \<and> ahead c False seen xs)"
  by simp_all

lemma ahead_weaken: "ahead c False seen xs \<Longrightarrow> ahead c b seen xs"
  by (cases "(c, b, seen, xs)" rule: ahead.cases) auto

lemma ahead_append:
  "ahead c b seen xs \<Longrightarrow> ahead c False (seen \<union> set (labels xs)) ys \<Longrightarrow> ahead c b seen (xs @ ys)"
  by (induction c b seen xs rule: ahead.induct) (auto intro: ahead_weaken)

lemma ahead_after_label:
  "ahead c b seen (xs @ Label l # ys) \<Longrightarrow> ahead c False (seen \<union> set (labels (xs @ [Label l]))) ys"
  by (induction c b seen xs rule: ahead.induct) (auto simp: insert_commute)

text \<open>Where the script stops: it restarts the machine, hands it over, or gives the operator a shell.\<close>

fun ends :: "client \<Rightarrow> script_line list \<Rightarrow> bool" where
  "ends c (Reboot # xs) = True"
| "ends c (OrGoto cmd l # xs) = (runs c cmd = Leaves)"
| "ends c (Text s # xs) = (s = ''shell'')"
| "ends c _ = False"

text \<open>A line that does not stop leads to the next one, or to a label it names.\<close>

fun targets :: "client \<Rightarrow> script_line \<Rightarrow> string list" where
  "targets c (Goto l) = [l]"
| "targets c (GotoVar v) = [choice c v]"
| "targets c (IseqGoto v w l) = [l]"
| "targets c (OrGoto cmd l) = [l]"
| "targets c _ = []"

lemma step_or_jump:
  assumes "\<not> ends c (x # xs)" "set (targets c x) \<subseteq> set (labels script)"
  shows "ipxe_step c script (x # xs) xs \<or> (\<exists>l r. l \<in> set (targets c x) \<and> after_label script l = Some r \<and> ipxe_step c script (x # xs) r)"
proof -
  have jump: "\<exists>r. after_label script l = Some r" if "l \<in> set (targets c x)" for l
    using assms(2) that after_label_defined [of script l] by (auto simp: set_labels_iff)
  show ?thesis
  proof (cases x)
    case (IseqGoto v w l)
    then show ?thesis using jump [of l] by (cases "setting c v = w") (auto intro: ipxe_step.intros)
  next
    case (OrGoto cmd l)
    then show ?thesis using jump [of l] assms(1) by (cases "runs c cmd") (auto intro: ipxe_step.intros)
  next
    case (Goto l)
    then show ?thesis using jump [of l] by (auto intro: ipxe_step.intros)
  next
    case (GotoVar v)
    then show ?thesis using jump [of "choice c v"] by (auto intro: ipxe_step.intros)
  qed (use assms(1) in \<open>auto intro: ipxe_step.intros\<close>)
qed

lemma after_label_split: "after_label xs l = Some r \<Longrightarrow> \<exists>p. xs = p @ Label l # r \<and> l \<notin> set (labels p)"
proof (induction xs)
  case (Cons x xs)
  show ?case
  proof (cases "x = Label l")
    case True
    then show ?thesis using Cons.prems by (intro exI [of _ "[]"]) simp
  next
    case False
    then obtain p where "xs = p @ Label l # r \<and> l \<notin> set (labels p)" using Cons by auto
    with False show ?thesis by (intro exI [of _ "x # p"]) (cases x; auto)
  qed
qed simp

lemma ahead_targets: "ahead c False seen (x # xs) \<Longrightarrow> \<not> ends c (x # xs) \<Longrightarrow> set (targets c x) \<inter> seen = {}"
  by (cases x) auto

lemma ahead_next: "ahead c False seen (x # xs) \<Longrightarrow> \<not> ends c (x # xs) \<Longrightarrow> ahead c False (seen \<union> set (labels [x])) xs"
  by (cases x) auto

lemma forward_script_halts:
  assumes "script = pre @ rest" "rest \<noteq> []" "last rest = Reboot" "ahead c False (set (labels pre)) rest"
    "\<forall>x \<in> set script. set (targets c x) \<subseteq> set (labels script)"
  shows "\<exists>n z. n < length rest \<and> (ipxe_step c script ^^ n) rest z \<and> ends c z"
  using assms(1-4)
proof (induction "length rest" arbitrary: pre rest rule: less_induct)
  case less
  obtain x xs where rest: "rest = x # xs" using less.prems(2) by (cases rest) auto
  have go: "\<exists>n z. n < length rest \<and> (ipxe_step c script ^^ n) rest z \<and> ends c z"
    if r: "script = p @ r" "length r < length rest" "r \<noteq> []" "last r = Reboot" "ahead c False (set (labels p)) r"
      "ipxe_step c script rest r" for p r
  proof -
    obtain n z where "n < length r" "(ipxe_step c script ^^ n) r z" "ends c z"
      using less.hyps [OF r(2,1,3-5)] by blast
    with r(2,6) show ?thesis by (intro exI [of _ "Suc n"] exI [of _ z]) (auto intro!: relpowp_Suc_I2 simp del: relpowp.simps)
  qed
  show ?case
  proof (cases "ends c rest")
    case True
    then show ?thesis using less.prems(2) by (intro exI [of _ 0] exI [of _ rest]) simp
  next
    case False
    have tx: "set (targets c x) \<subseteq> set (labels script)" using assms(5) less.prems(1) rest by simp
    from step_or_jump [OF False [unfolded rest] tx] show ?thesis
    proof (elim disjE exE conjE)
      assume s: "ipxe_step c script (x # xs) xs"
      have "x \<noteq> Reboot" using False rest by auto
      then have "xs \<noteq> []" "last xs = Reboot" using less.prems(3) rest by (cases xs; simp)+
      moreover have "ahead c False (set (labels (pre @ [x]))) xs"
        using ahead_next [OF less.prems(4) [unfolded rest] False [unfolded rest]] by simp
      ultimately show ?thesis using go [of "pre @ [x]" xs] s less.prems(1) rest by simp
    next
      fix l r
      assume l: "l \<in> set (targets c x)" "after_label script l = Some r" "ipxe_step c script (x # xs) r"
      have seen: "l \<notin> set (labels (pre @ [x]))"
        using ahead_targets [OF less.prems(4) [unfolded rest] False [unfolded rest]] l(1) by (cases x) auto
      then have "Label l \<notin> set (pre @ [x])" by (simp only: set_labels_iff not_False_eq_True)
      from after_label_skip [OF this, of xs] have "after_label script l = after_label xs l"
        using less.prems(1) rest by (simp only: append.assoc append_Cons append_Nil)
      then obtain q where q: "xs = q @ Label l # r" using l(2) after_label_split by metis
      have "last xs = Reboot" using less.prems(3) rest q by simp
      then have r: "r \<noteq> []" "last r = Reboot" using q by (cases r; simp)+
      have "ahead c False (set (labels pre)) ((x # q) @ Label l # r)" using less.prems(4) rest q by simp
      from ahead_after_label [OF this] have "ahead c False (set (labels (pre @ (x # q) @ [Label l]))) r" by simp
      then show ?thesis using go [of "pre @ (x # q) @ [Label l]" r] r l(3) less.prems(1) rest q by simp
    qed
  qed
qed

section \<open>The dispatch script\<close>

lemma ahead_arms:
  "set (jumps (debian_arm v s mi m ctx label)) \<inter> seen = {} \<Longrightarrow> ahead c False seen (debian_arm v s mi m ctx label)"
  "set (jumps (rhel_arm m ctx label)) \<inter> seen = {} \<Longrightarrow> ahead c False seen (rhel_arm m ctx label)"
  "set (jumps (ubuntu_arm m ctx label)) \<inter> seen = {} \<Longrightarrow> ahead c False seen (ubuntu_arm m ctx label)"
  "set (jumps (custom_arm m ctx label)) \<inter> seen = {} \<Longrightarrow> ahead c False seen (custom_arm m ctx label)"
  "set (jumps (menu_arm label)) \<inter> seen = {} \<Longrightarrow> ahead c False seen (menu_arm label)"
  "set (jumps (unknown_arm m)) \<inter> seen = {} \<Longrightarrow> ahead c False seen (unknown_arm m)"
  "set (jumps (writeRescueArm m ctx label)) \<inter> seen = {} \<Longrightarrow> ahead c False seen (writeRescueArm m ctx label)"
  by (simp_all add: arm_defs Let_def)

lemma ahead_arm:
  assumes "arm = (if r then writeRescueArm m ctx label else boot_arm m ctx label)" "set (jumps arm) \<inter> seen = {}"
  shows "ahead c False seen arm"
proof -
  have "set (jumps (boot_arm m ctx label)) \<inter> seen = {} \<longrightarrow> ahead c False seen (boot_arm m ctx label)"
    unfolding boot_arm_def Let_def by (simp only: ahead_arms split: if_split) (blast intro: ahead_arms)
  then show ?thesis using assms by (simp add: ahead_arms split: if_splits)
qed

lemma ahead_head:
  assumes "choice c (machine_label m @ ''_menu_choice'') \<notin> insert (machine_label m) seen"
  shows "ahead c False seen (machine_head m ctx r)"
  using assms by (simp add: machine_head_def Let_def)

text \<open>The operator picks an item of the menu, or the default is taken after thirty seconds.\<close>

definition picks_item :: "client \<Rightarrow> Machine \<Rightarrow> bool" where
  "picks_item c m \<longleftrightarrow> choice c (machine_label m @ ''_menu_choice'')
     \<in> {machine_label m @ ''_boot'', machine_label m @ ''_shell'', ''menu_netbootxyz''}"

lemma label_prefix: "take 2 (machine_label m @ s) = ''m_''"
  by (subst label_m) simp

lemma label_not_default: "machine_label m @ s \<notin> {''target_default'', ''menu_netbootxyz'', ''arch_refuse'', ''arch_ok''}"
proof
  assume "machine_label m @ s \<in> {''target_default'', ''menu_netbootxyz'', ''arch_refuse'', ''arch_ok''}"
  then have "take 2 (machine_label m @ s) \<in> take 2 ` {''target_default'', ''menu_netbootxyz'', ''arch_refuse'', ''arch_ok''}"
    by (rule imageI)
  then show False unfolding label_prefix by simp
qed

lemma ahead_block:
  assumes "picks_item c m" "set (labels (writeMachineBlock m ctx r)) \<inter> seen = {}" "distinct (labels (writeMachineBlock m ctx r))"
    "''target_default'' \<notin> seen" "''menu_netbootxyz'' \<notin> seen"
  shows "ahead c False seen (writeMachineBlock m ctx r)"
proof -
  let ?arm = "if r then writeRescueArm m ctx (machine_label m) else boot_arm m ctx (machine_label m)"
  have ok: "arm_ok (machine_label m) ?arm" by (simp add: arms_ok boot_arm_ok)
  have "choice c (machine_label m @ ''_menu_choice'') \<notin> insert (machine_label m) seen"
    using assms(1,2,5) label_not_default [of m "[]"]
    by (auto simp: picks_item_def writeMachineBlock_def head_labels)
  then have head: "ahead c False seen (machine_head m ctx r)" by (rule ahead_head)
  have "set (jumps ?arm) \<inter> (seen \<union> set (labels (machine_head m ctx r))) = {}"
    using ok assms(2-4) label_not_default [of m "[]"] label_not_default [of m "''_shell''"] label_not_default [of m "''_boot''"]
    unfolding writeMachineBlock_def arm_ok_def head_labels labels_append distinct_append set_append by auto
  from ahead_arm [OF refl this] head show ?thesis unfolding writeMachineBlock_def by (intro ahead_append)
qed

lemma ahead_blocks:
  assumes "\<forall>m \<in> set ms. picks_item c m" "set (labels (machine_blocks ctx ms)) \<inter> seen = {}"
    "distinct (labels (machine_blocks ctx ms))" "''target_default'' \<notin> seen" "''menu_netbootxyz'' \<notin> seen"
  shows "ahead c False seen (machine_blocks ctx ms)"
  using assms
proof (induction ms arbitrary: seen)
  case (Cons m ms)
  let ?b = "writeMachineBlock m ctx (rescue_armed ctx (m_MAC m))"
  have split: "machine_blocks ctx (m # ms) = ?b @ machine_blocks ctx ms" by (simp add: machine_blocks_def)
  have def: "''target_default'' \<notin> set (labels ?b)" "''menu_netbootxyz'' \<notin> set (labels ?b)"
    using block_labels [of m ctx "rescue_armed ctx (m_MAC m)"] label_not_default by fastforce+
  have "ahead c False (seen \<union> set (labels ?b)) (machine_blocks ctx ms)"
    using Cons.prems def by (intro Cons.IH) (auto simp: split)
  moreover have "ahead c False seen ?b" using Cons.prems by (intro ahead_block) (auto simp: split)
  ultimately show ?case unfolding split by (intro ahead_append)
qed (simp add: machine_blocks_def)

lemma ahead_entries:
  "\<forall>m \<in> set ms. machine_label m \<notin> seen \<Longrightarrow> ahead c False seen (concat (map dispatch_entry ms))"
proof (induction ms)
  case (Cons m ms)
  have "ahead c False seen (dispatch_entry m)" using Cons.prems by (simp add: dispatch_entry_def nics_def)
  moreover have "ahead c False (seen \<union> set (labels (dispatch_entry m))) (concat (map dispatch_entry ms))"
    using Cons by (simp add: fixed_labels)
  ultimately show ?case unfolding list.map concat.simps by (rule ahead_append)
qed simp

lemma ahead_fixed:
  "ahead c False {} arch_check" "''top_fail_dhcp'' \<notin> seen \<Longrightarrow> ahead c False seen stage0"
  "ahead c False seen (netmask_stage ctx)" "ahead c False seen (phone_home ctx)"
  "''target_default'' \<notin> seen \<Longrightarrow> ahead c False seen table_end"
  "''menu_netbootxyz'' \<notin> seen \<Longrightarrow> ''menu_netbootxyz_fail'' \<notin> seen \<Longrightarrow> ahead c False seen (script_tail ctx)"
  by (simp_all add: arch_check_def stage0_def netmask_stage_def phone_home_def table_end_def script_tail_def Let_def)

lemma ahead_script:
  assumes "\<forall>m \<in> set (dispatch_machines f). picks_item c m" "distinct (labels (dispatch_script f ctx))"
  shows "ahead c False {} (dispatch_script f ctx)"
proof -
  let ?ms = "dispatch_machines f" and ?arch = "{''arch_refuse'', ''arch_ok''}"
  let ?blocks = "machine_blocks ctx ?ms"
  have d: "distinct (labels ?blocks)" "set (labels ?blocks) \<inter> set (labels arch_check) = {}"
    "set (labels ?blocks) \<inter> set (labels (script_tail ctx)) = {}"
    using assms(2) unfolding script_parts labels_append fixed_labels entries_labels by auto
  have blocks: "ahead c False ?arch ?blocks"
    using assms(1) d by (intro ahead_blocks) (auto simp: fixed_labels)
  have tail: "ahead c False (?arch \<union> set (labels ?blocks)) (script_tail ctx)"
    using d(3) by (intro ahead_fixed) (auto simp: fixed_labels)
  have entries: "ahead c False ?arch (concat (map dispatch_entry ?ms))"
    by (rule ahead_entries) (use label_not_default [of _ "[]"] in auto)
  have plain: "ahead c False ?arch (xs @ ys)" if "ahead c False ?arch xs" "labels xs = []" "ahead c False ?arch ys" for xs ys
    using ahead_append [OF that(1), of ys] that(2,3) by simp
  have "ahead c False ?arch (stage0 @ netmask_stage ctx @ phone_home ctx @ concat (map dispatch_entry ?ms) @ table_end
      @ ?blocks @ script_tail ctx)"
    by (rule plain [OF ahead_fixed(2)] plain [OF ahead_fixed(3)] plain [OF ahead_fixed(4)] plain [OF entries entries_labels]
        plain [OF ahead_fixed(5)] ahead_append [OF blocks tail] | simp add: fixed_labels)+
  then show ?thesis
    using ahead_append [OF ahead_fixed(1)] by (simp add: script_parts fixed_labels insert_commute)
qed

text \<open>A jump leads to a label of the script, as does the choice of a menu item.\<close>

fun line_vars :: "script_line \<Rightarrow> string list" where
  "line_vars (GotoVar v) = [v]"
| "line_vars _ = []"

lemma targets_cases: "l \<in> set (targets c x) \<Longrightarrow> l \<in> set (jumps [x]) \<or> l \<in> choice c ` set (line_vars x)"
  by (cases x) auto

lemma arm_vars: "list_all (\<lambda>x. line_vars x = []) (writeRescueArm m ctx label)" "list_all (\<lambda>x. line_vars x = []) (boot_arm m ctx label)"
  by (simp_all add: boot_arm_def arm_defs Let_def)

lemma head_vars: "x \<in> set (machine_head m ctx r) \<Longrightarrow> line_vars x \<in> {[], [machine_label m @ ''_menu_choice'']}"
  by (auto simp: machine_head_def Let_def)

lemma block_vars: "x \<in> set (writeMachineBlock m ctx r) \<Longrightarrow> line_vars x \<in> {[], [machine_label m @ ''_menu_choice'']}"
  using arm_vars [of m ctx "machine_label m"] head_vars [of x m ctx r]
  by (auto simp: writeMachineBlock_def list_all_iff split: if_splits)

lemma fixed_vars:
  "list_all (\<lambda>x. line_vars x = []) (arch_check @ stage0 @ netmask_stage ctx @ phone_home ctx
     @ concat (map dispatch_entry ms) @ table_end @ script_tail ctx)"
  by (simp add: arch_check_def stage0_def netmask_stage_def phone_home_def table_end_def script_tail_def dispatch_entry_def
      nics_def Let_def list_all_iff)

lemma jumps_line: "x \<in> set xs \<Longrightarrow> set (jumps [x]) \<subseteq> set (jumps xs)"
proof -
  assume "x \<in> set xs"
  then obtain ys zs where "xs = ys @ [x] @ zs" by (auto dest: split_list)
  then show ?thesis by (simp only: jumps_append set_append) blast
qed

lemma picked_label:
  assumes "picks_item c m" "m \<in> set (dispatch_machines f)"
  shows "choice c (machine_label m @ ''_menu_choice'') \<in> set (labels (dispatch_script f ctx))"
proof -
  have "set (labels (writeMachineBlock m ctx (rescue_armed ctx (m_MAC m)))) \<subseteq> set (labels (dispatch_script f ctx))"
    using assms(2) by (auto simp: script_labels machine_blocks_def)
  then show ?thesis
    using assms(1) unfolding picks_item_def script_labels fixed_label_list_def
    by (auto simp: writeMachineBlock_def head_labels)
qed

lemma script_targets:
  assumes "\<forall>m \<in> set (dispatch_machines f). picks_item c m" "set (jumps (dispatch_script f ctx)) \<subseteq> set (labels (dispatch_script f ctx))"
  shows "\<forall>x \<in> set (dispatch_script f ctx). set (targets c x) \<subseteq> set (labels (dispatch_script f ctx))"
proof (intro ballI subsetI)
  fix x l
  assume x: "x \<in> set (dispatch_script f ctx)" and "l \<in> set (targets c x)"
  then consider "l \<in> set (jumps [x])" | "l \<in> choice c ` set (line_vars x)" using targets_cases by blast
  then show "l \<in> set (labels (dispatch_script f ctx))"
  proof cases
    case 1
    then show ?thesis using jumps_line [OF x] assms(2) by blast
  next
    case 2
    then have "line_vars x \<noteq> []" by auto
    with x fixed_vars [of ctx "dispatch_machines f"] obtain m where m: "m \<in> set (dispatch_machines f)"
      "x \<in> set (writeMachineBlock m ctx (rescue_armed ctx (m_MAC m)))"
      unfolding script_parts machine_blocks_def list_all_iff by auto
    have "l = choice c (machine_label m @ ''_menu_choice'')" using 2 block_vars [OF m(2)] by auto
    with picked_label assms(1) m(1) show ?thesis by metis
  qed
qed

section \<open>Properties\<close>


text \<open>A rack of two machines, and a client that takes the default of the menu.\<close>

definition example_rack :: Fleet where
  "example_rack = example_lab\<lparr>f_machines := map (\<lambda>m. (m_MAC m, m_Profile m))
     [example_machine ''52:54:00:00:00:01'' ''web'' ''menu'', example_machine ''52:54:00:00:00:03'' ''db'' ''rocky-9'']\<rparr>"

definition default_client :: client where
  "default_client = (example_client ''52-54-00-00-00-03'')\<lparr>choice := (\<lambda>v. take (length v - 12) v @ ''_boot'')\<rparr>"

definition rack_script :: "script_line list" where
  "rack_script = dispatch_script (Some example_rack) (example_ctx\<lparr>HTTPPort := 9\<rparr>)"


end
