(* ===== verification/Cmd_Fetch.thy ===== *)
theory Cmd_Fetch
  imports Cache Dispatch
begin

text \<open>
  The command \<^verbatim>\<open>pxe-beacon fetch\<close> (\<^verbatim>\<open>cmd/pxe-beacon/fetch.go\<close>).  The flag package, the
  rendering of times and of a quotient to one decimal, and the texts of errors are arguments.
\<close>

record cli_env =
  ce_parse :: "string list \<Rightarrow> (string \<times> bool) option"
  ce_data_env :: string
  ce_cwd :: "string option"
  ce_error :: "cache_error \<Rightarrow> string"
  ce_time :: "time \<Rightarrow> string"
  ce_quotient :: "int \<Rightarrow> int \<Rightarrow> string"
  ce_defaults :: string

section \<open>Sizes\<close>

function size_unit :: "int \<Rightarrow> int \<Rightarrow> nat \<Rightarrow> int \<times> nat" where
  "size_unit n d e = (if n \<ge> 1024 then size_unit (n div 1024) (d * 1024) (Suc e) else (d, e))"
  by pat_completeness auto
termination by (relation "measure (\<lambda>(n, d, e). nat n)") auto

declare size_unit.simps [simp del]

definition humanSize :: "cli_env \<Rightarrow> int \<Rightarrow> string" where
  "humanSize env b =
     (if b < 1024 then Itoa b @ '' B''
      else case size_unit (b div 1024) 1024 0 of (d, e) \<Rightarrow>
        ce_quotient env b d @ '' '' @ TrimSpace [('' kMGTPE'' ! e)] @ ''B'')"

section \<open>Progress\<close>

text \<open>The printer remembers when it last printed, and stays silent for 200 milliseconds.\<close>

definition newProgressPrinter :: time where
  "newProgressPrinter = zero_time"

definition progress_update :: "cli_env \<Rightarrow> time \<Rightarrow> int \<Rightarrow> int \<Rightarrow> time \<Rightarrow> string \<times> time" where
  "progress_update env now fetched whole printed =
     (if now - printed < 200000000 then ([], printed)
      else (if whole > 0
            then [CHR 0x0D] @ ''fetch: '' @ humanSize env fetched @ '' / '' @ humanSize env whole @ '' (''
              @ ce_quotient env (fetched * 100) whole @ ''%)        ''
            else [CHR 0x0D] @ ''fetch: '' @ humanSize env fetched @ ''                       '', now))"

definition progress_done :: string where
  "progress_done = newline"

section \<open>The command\<close>

definition sortedTargets :: "string list" where
  "sortedTargets = sort (map fst Targets)"

definition defaultDataDir :: "cli_env \<Rightarrow> string" where
  "defaultDataDir env =
     (if ce_data_env env \<noteq> [] then ce_data_env env
      else case ce_cwd env of Some wd \<Rightarrow> PathJoin [wd, ''.pxe-beacon''] | None \<Rightarrow> ''./.pxe-beacon'')"

definition pad_to :: "nat \<Rightarrow> string \<Rightarrow> string" where
  "pad_to n s = s @ replicate (n - length s) (CHR '' '')"

definition pad_left :: "nat \<Rightarrow> string \<Rightarrow> string" where
  "pad_left n s = replicate (n - length s) (CHR '' '') @ s"

definition fetch_usage :: "cli_env \<Rightarrow> string" where
  "fetch_usage env =
     ''Usage: pxe-beacon fetch <target> [flags]'' @ newline @ newline
     @ ''Downloads + extracts an Ubuntu live-server ISO so its'' @ newline
     @ ''Subiquity kernel + initrd + filesystem.squashfs can be'' @ newline
     @ ''served by pxe-beacon for unattended autoinstalls.'' @ newline @ newline
     @ ''Supported targets:'' @ newline
     @ concat (map (\<lambda>t. ''  '' @ pad_to 14 t @ '' -> ''
         @ (case mget Targets t of None \<Rightarrow> [] | Some spec \<Rightarrow> ts_ISOURL spec) @ newline) sortedTargets)
     @ newline @ ''Flags:'' @ newline @ ce_defaults env"

text \<open>How a run of the command ends: its exit code, the text on both outputs, the files.\<close>

record cli_result =
  cr_code :: int
  cr_out :: string
  cr_err :: string
  cr_fs :: filesys

definition fetched_line :: "cli_env \<Rightarrow> string \<Rightarrow> Manifest \<Rightarrow> string \<Rightarrow> string" where
  "fetched_line env target m name =
     (let a = (case mget (mf_Files m) name of None \<Rightarrow> \<lparr>as_Size = 0, as_SHA256 = []\<rparr> | Some a \<Rightarrow> a)
      in ''  '' @ target @ ''/'' @ name @ ''   '' @ pad_left 8 (humanSize env (as_Size a)) @ ''   sha256=''
         @ take 12 (as_SHA256 a) @ [CHR 0xE2, CHR 0x80, CHR 0xA6] @ newline)"

definition next_steps :: "string \<Rightarrow> string \<Rightarrow> string" where
  "next_steps root target =
     ''fetch: done.'' @ newline @ newline @ ''Next steps:'' @ newline
     @ ''  pxe-beacon -config /etc/pxe-beacon/fleet.yaml -data-dir '' @ root @ newline
     @ (if target = ''systemrescue''
        then ''  (then PUT /api/v1/machines/{mac}/intent {'' @ [CHR 0x22] @ ''action'' @ [CHR 0x22] @ '':'' @ [CHR 0x22]
          @ ''rescue'' @ [CHR 0x22] @ ''} to boot it)'' @ newline
        else ''  (fleet.yaml entry with boot: '' @ target @ '' + cloud_init: ./your.yaml)'' @ newline)"

text \<open>The messages of a run, but for the progress lines in between.\<close>

definition runFetch :: "cli_env \<Rightarrow> fetch_env \<Rightarrow> (syscall \<Rightarrow> bool) \<Rightarrow> string \<Rightarrow> string list \<Rightarrow> filesys \<Rightarrow> cli_result" where
  "runFetch env fe ok wd args fs =
     (case args of
        [] \<Rightarrow> \<lparr>cr_code = 2, cr_out = [], cr_err = fetch_usage env, cr_fs = fs\<rparr>
      | target # rest \<Rightarrow>
      case ce_parse env rest of
        None \<Rightarrow> \<lparr>cr_code = 2, cr_out = [], cr_err = fetch_usage env, cr_fs = fs\<rparr>
      | Some (dataDir, force) \<Rightarrow>
      case mget Targets target of
        None \<Rightarrow> \<lparr>cr_code = 2, cr_out = [],
          cr_err = ''fetch: unknown target '' @ Quote target @ newline @ newline @ fetch_usage env, cr_fs = fs\<rparr>
      | Some spec \<Rightarrow>
      case Cache_New ok wd dataDir of
        Inl e \<Rightarrow> \<lparr>cr_code = 1, cr_out = [], cr_err = ''fetch: '' @ ce_error env e @ newline, cr_fs = fs\<rparr>
      | Inr root \<Rightarrow>
      case (if force then None else IsPopulated fe fs root target) of
        Some m \<Rightarrow> \<lparr>cr_code = 0, cr_out = ''fetch: '' @ target @ '' already populated at '' @ PathJoin [root, target]
            @ '' (fetched '' @ ce_time env (mf_FetchedAt m) @ '')'' @ newline
            @ ''fetch: pass -force to redownload'' @ newline, cr_err = [], cr_fs = fs\<rparr>
      | None \<Rightarrow>
          let start = ''fetch: target = '' @ target @ newline @ ''fetch: source = '' @ ts_ISOURL spec @ newline
                @ ''fetch: dest   = '' @ PathJoin [root, target] @ newline
                @ ''fetch: downloading ISO (this is ~1.5GB, several minutes on most links)'' @ [CHR 0xE2, CHR 0x80, CHR 0xA6]
                @ newline @ newline
          in case Fetch fe ok force root target fs of
            (Inl e, fs') \<Rightarrow> \<lparr>cr_code = 1, cr_out = start, cr_err = newline @ ''fetch: '' @ ce_error env e @ newline, cr_fs = fs'\<rparr>
          | (Inr m, fs') \<Rightarrow> \<lparr>cr_code = 0, cr_out = start @ ''fetch: extracted:'' @ newline
                @ concat (map (fetched_line env target m) (Dests spec)) @ next_steps root target, cr_err = [], cr_fs = fs'\<rparr>)"

section \<open>Throttled progress\<close>

text \<open>The times at which a sequence of updates prints.\<close>

fun progress_times :: "cli_env \<Rightarrow> (time \<times> int \<times> int) list \<Rightarrow> time \<Rightarrow> time list" where
  "progress_times env [] printed = []"
| "progress_times env ((now, fetched, whole) # us) printed =
     (case progress_update env now fetched whole printed of
        (text, printed') \<Rightarrow> (if text = [] then [] else [now]) @ progress_times env us printed')"

lemma progress_throttled: "successively (\<lambda>a b. a + 200000000 \<le> b) (printed # progress_times env us printed)"
proof (induction us arbitrary: printed)
  case (Cons u us)
  obtain now fetched whole where u: "u = (now, fetched, whole)" by (rule prod_cases3)
  from Cons.IH [of now] Cons.IH [of printed] show ?case by (simp add: u progress_update_def)
qed simp

section \<open>The unit of a size\<close>

lemma div_kilo: "a \<le> n div 1024 \<longleftrightarrow> 1024 * a \<le> n" "n div 1024 < a \<longleftrightarrow> n < 1024 * a" for a n :: int
proof -
  have "n = 1024 * (n div 1024) + n mod 1024" "0 \<le> n mod 1024" "n mod 1024 < 1024" by simp_all
  then show "a \<le> n div 1024 \<longleftrightarrow> 1024 * a \<le> n" "n div 1024 < a \<longleftrightarrow> n < 1024 * a" by linarith+
qed

lemma size_unit_power:
  assumes "1 \<le> n"
  shows "\<exists>k. size_unit n d e = (d * 1024 ^ k, e + k) \<and> 1024 ^ k \<le> n \<and> n < 1024 ^ Suc k"
  using assms
proof (induction n d e rule: size_unit.induct)
  case (1 n d e)
  show ?case
  proof (cases "n \<ge> 1024")
    case True
    have "1 \<le> n div 1024" using True by simp
    from "1.IH" [OF True this] obtain k where
      k: "size_unit (n div 1024) (d * 1024) (Suc e) = (d * 1024 * 1024 ^ k, Suc e + k)"
        "1024 ^ k \<le> n div 1024" "n div 1024 < 1024 ^ Suc k" by blast
    have "1024 * 1024 ^ k \<le> n" "n < 1024 * (1024 * 1024 ^ k)"
      using k(2,3) by (simp_all add: div_kilo)
    then have "1024 ^ Suc k \<le> n" "n < 1024 ^ Suc (Suc k)" by simp_all
    with True k(1) show ?thesis by (intro exI [of _ "Suc k"]) (simp add: size_unit.simps [of n])
  next
    case False
    with "1.prems" show ?thesis by (intro exI [of _ 0]) (simp add: size_unit.simps [of n])
  qed
qed

text \<open>The letter that is printed, and the one that belongs to the divisor.\<close>

lemma humanSize_unit:
  assumes "1024 ^ Suc k \<le> b" "b < 1024 ^ Suc (Suc k)"
  shows "humanSize env b = ce_quotient env b (1024 ^ Suc k) @ '' '' @ TrimSpace [('' kMGTPE'' ! k)] @ ''B''"
proof -
  have b: "1024 ^ k \<le> b div 1024" "b div 1024 < 1024 ^ Suc k" using assms by (simp_all add: div_kilo)
  moreover have "(1::int) \<le> 1024 ^ k" by simp
  ultimately have "1 \<le> b div 1024" by linarith
  from size_unit_power [OF this, of 1024 0] obtain j where
    j: "size_unit (b div 1024) 1024 0 = (1024 * 1024 ^ j, j)" "1024 ^ j \<le> b div 1024" "b div 1024 < 1024 ^ Suc j"
    by auto
  have "j = k"
  proof (rule ccontr)
    assume "j \<noteq> k"
    then consider "Suc j \<le> k" | "Suc k \<le> j" by linarith
    then show False
    proof cases
      case 1
      then have "(1024::int) ^ Suc j \<le> 1024 ^ k" by (intro power_increasing) simp_all
      with j(3) b(1) show False by linarith
    next
      case 2
      then have "(1024::int) ^ Suc k \<le> 1024 ^ j" by (intro power_increasing) simp_all
      with j(2) b(2) show False by linarith
    qed
  qed
  moreover have "\<not> b < 1024" using \<open>1 \<le> b div 1024\<close> by linarith
  ultimately show ?thesis using j(1) by (simp add: humanSize_def)
qed

section \<open>Properties\<close>

text \<open>A size of at least one kibibyte is printed with the unit below the one it is divided by: a mebibyte
  count as kilobytes, a gibibyte count as megabytes, and a kibibyte count as bytes.\<close>

theorem humanSize_prints_unit_below:
  assumes "k < 6" "1024 ^ Suc k \<le> b" "b < 1024 ^ Suc (Suc k)"
  shows "humanSize env b = ce_quotient env b (1024 ^ Suc k) @ '' '' @ [[], ''k'', ''M'', ''G'', ''T'', ''P''] ! k @ ''B''"
proof -
  have "list_all (\<lambda>k. TrimSpace [('' kMGTPE'' ! k)] = [[], ''k'', ''M'', ''G'', ''T'', ''P''] ! k) [0, 1, 2, 3, 4, 5]" by code_simp
  moreover have "k \<in> set [0, 1, 2, 3, 4, 5]" using assms(1) by auto
  ultimately show ?thesis unfolding humanSize_unit [OF assms(2,3)] list_all_iff by (metis append.assoc)
qed

theorem humanSize_prints_unit_below_witness:
  "humanSize \<lparr>ce_parse = (\<lambda>_. None), ce_data_env = [], ce_cwd = None, ce_error = (\<lambda>_. []), ce_time = (\<lambda>_. []),
     ce_quotient = (\<lambda>a b. Itoa (a div b)), ce_defaults = []\<rparr> (3 * 1024 ^ 3) = ''3 MB''"
proof -
  let ?env = "\<lparr>ce_parse = (\<lambda>_. None), ce_data_env = [], ce_cwd = None, ce_error = (\<lambda>_. []), ce_time = (\<lambda>_. []),
     ce_quotient = (\<lambda>a b. Itoa (a div b)), ce_defaults = []\<rparr>"
  have b: "(2::nat) < 6" "1024 ^ Suc 2 \<le> (3 * 1024 ^ 3 :: int)" "(3 * 1024 ^ 3 :: int) < 1024 ^ Suc (Suc 2)" by simp_all
  have "Itoa 3 = ''3''" by code_simp
  then show ?thesis using humanSize_prints_unit_below [OF b, of ?env] by (simp add: numeral_eq_Suc)
qed

text \<open>The command succeeds exactly when the target is there afterwards: exit code 0 with the manifest
  that was found or fetched, else code 2 for a bad command line, which changes no file, or 1 for a
  failure.\<close>

theorem runFetch_exit_code:
  "cr_code (runFetch env fe ok wd args fs) = 0 \<longleftrightarrow>
     (\<exists>target rest dataDir force root m. args = target # rest \<and> ce_parse env rest = Some (dataDir, force)
        \<and> target \<in> mkeys Targets \<and> Cache_New ok wd dataDir = Inr root
        \<and> Fetch fe ok force root target fs = (Inr m, cr_fs (runFetch env fe ok wd args fs)))"
proof -
  let ?r = "runFetch env fe ok wd args fs"
  have all: "cr_code ?r = 0 \<longleftrightarrow> (\<exists>m. Fetch fe ok force root target fs = (Inr m, cr_fs ?r))"
    if "args = target # rest" "ce_parse env rest = Some (dataDir, force)" "mget Targets target = Some spec"
      "Cache_New ok wd dataDir = Inr root" for target rest dataDir force spec root
    by (cases "Fetch fe ok force root target fs")
      (auto simp: runFetch_def that Let_def Fetch_def split: option.splits sum.splits if_splits)
  have bad: "cr_code ?r \<noteq> 0"
    if "\<And>target rest dataDir force spec root. args = target # rest \<Longrightarrow> ce_parse env rest = Some (dataDir, force)
      \<Longrightarrow> mget Targets target = Some spec \<Longrightarrow> Cache_New ok wd dataDir \<noteq> Inr root"
  proof (cases args)
    case (Cons target rest)
    show ?thesis
    proof (cases "ce_parse env rest")
      case (Some df)
      then obtain dataDir force where df: "ce_parse env rest = Some (dataDir, force)" by (cases df) simp
      show ?thesis
      proof (cases "mget Targets target")
        case (Some spec)
        have "Cache_New ok wd dataDir \<noteq> Inr root" for root by (rule that [OF Cons df Some])
        then obtain e where "Cache_New ok wd dataDir = Inl e" by (cases "Cache_New ok wd dataDir") auto
        then show ?thesis by (simp add: runFetch_def Cons df Some)
      qed (simp add: runFetch_def Cons df)
    qed (simp add: runFetch_def Cons)
  qed (simp add: runFetch_def)
  show ?thesis
  proof
    assume z: "cr_code ?r = 0"
    then obtain target rest dataDir force spec root where
      c: "args = target # rest" "ce_parse env rest = Some (dataDir, force)" "mget Targets target = Some spec"
        "Cache_New ok wd dataDir = Inr root" using bad by metis
    moreover have "target \<in> mkeys Targets" using c(3) by (rule mget_Some_key)
    moreover obtain m where "Fetch fe ok force root target fs = (Inr m, cr_fs ?r)" using all [OF c] z by blast
    ultimately show "\<exists>target rest dataDir force root m. args = target # rest \<and> ce_parse env rest = Some (dataDir, force)
        \<and> target \<in> mkeys Targets \<and> Cache_New ok wd dataDir = Inr root
        \<and> Fetch fe ok force root target fs = (Inr m, cr_fs ?r)" by metis
  next
    assume "\<exists>target rest dataDir force root m. args = target # rest \<and> ce_parse env rest = Some (dataDir, force)
        \<and> target \<in> mkeys Targets \<and> Cache_New ok wd dataDir = Inr root
        \<and> Fetch fe ok force root target fs = (Inr m, cr_fs ?r)"
    then obtain target rest dataDir force root m spec where
      c: "args = target # rest" "ce_parse env rest = Some (dataDir, force)" "mget Targets target = Some spec"
        "Cache_New ok wd dataDir = Inr root" "Fetch fe ok force root target fs = (Inr m, cr_fs ?r)"
      using mkeys_obtain [of _ Targets] by metis
    show "cr_code ?r = 0" using all [OF c(1-4)] c(5) by blast
  qed
qed

end
