(* ===== verification/Decision_Log.thy ===== *)
theory Decision_Log
  imports Listener Narrlog Dispatch
begin

text \<open>
  What the listener writes about a packet (\<^verbatim>\<open>logDecision\<close> of
  \<^verbatim>\<open>internal/proxydhcp/listener.go\<close>).  The library's numeric code of an architecture is an argument,
  and an error comes with its text.
\<close>

definition defaultStr :: "string \<Rightarrow> string \<Rightarrow> string" where
  "defaultStr s d = (if s = [] then d else s)"

definition hex2 :: "nat \<Rightarrow> string" where
  "hex2 n = replicate (2 - length (hex_nat n)) (CHR ''0'') @ hex_nat n"

definition arch_text :: "dhcp_lib \<Rightarrow> (Arch \<Rightarrow> nat) \<Rightarrow> Decision \<Rightarrow> string" where
  "arch_text lib code d =
     (case dc_Archs d of [] \<Rightarrow> ''<absent>''
      | a # _ \<Rightarrow> ''0x'' @ hex2 (code a) @ ''('' @ arch_string lib a @ '')'')"

definition client_label :: "Decision \<Rightarrow> string" where
  "client_label d = (if dc_MachineName d \<noteq> [] then dc_MachineName d @ '' ('' @ dc_ClientMAC d @ '')'' else dc_ClientMAC d)"

definition stage_note :: "Decision \<Rightarrow> string" where
  "stage_note d =
     (if dc_Stage d = StageFirmwareHTTP then '' (UEFI HTTP boot)'' else [])
     @ (if dc_BootTarget d \<noteq> [] \<and> dc_BootTarget d \<noteq> ''menu'' then '' [target='' @ dc_BootTarget d @ '']'' else [])"

definition logDecision :: "dhcp_lib \<Rightarrow> (Arch \<Rightarrow> nat) \<Rightarrow> string \<Rightarrow> Logger \<Rightarrow> string \<Rightarrow> Decision
    \<Rightarrow> (offer_error \<times> string) option \<Rightarrow> string \<Rightarrow> string" where
  "logDecision lib code ts log source d err out =
     (let archStr = arch_text lib code d;
          vc = (if dc_VendorClass d = [] then ''<absent>'' else dc_VendorClass d);
          clientLabel = client_label d
      in case err of
           Some (e, msg) \<Rightarrow>
             if e = ErrSkip \<and> IsBenignSkip d
             then Benign ts (source @ '' from '' @ clientLabel @ '': '' @ dc_SkipReason d) log out
             else if e = ErrSkip
             then Infof ts (source @ '' skip: client='' @ clientLabel @ '' reason='' @ dc_SkipReason d) log out
             else emit ts LevelError (source @ '' build offer failed for '' @ clientLabel @ '': '' @ msg) log out
         | None \<Rightarrow>
             let out1 = (if dc_UnknownArch d
                   then emit ts LevelWarn (''unrecognized option-93 arch from '' @ clientLabel @ '' ('' @ archStr
                     @ ''); falling back to '' @ Transport_String (dc_Transport d)) log out
                   else out);
                 out2 = Log_Decision ts clientLabel archStr (defaultStr (dc_UserClass d) ''<none>'') (dc_Stage d)
                   (''serve '' @ dc_BootFile d @ '' via '' @ Transport_String (dc_Transport d) @ '' from ''
                    @ dc_NextServer d @ stage_note d) log out1
             in emit ts LevelDebug (''parsed: vendor-class='' @ Quote vc @ '' user-class='' @ Quote (dc_UserClass d)
                  @ '' archs=['' @ Join (map (arch_string lib) (dc_Archs d)) '' '' @ ''] selected=''
                  @ arch_string lib (dc_SelectedArch d)) log out2)"

text \<open>At the default level no decision is silent, and nothing written before is lost.\<close>

lemma emit_info:
  assumes "lvl \<le> LevelInfo" "LevelInfo \<le> lg_level l"
  shows "\<exists>e. emit ts lvl msg l out = out @ e \<and> e \<noteq> []"
  using emit_grows [of ts lvl msg l out] assms by auto

lemma logDecision_speaks:
  assumes "LevelInfo \<le> lg_level log"
  shows "\<exists>e. logDecision lib code ts log source d err out = out @ e \<and> e \<noteq> []"
proof (cases err)
  case None
  define o1 where "o1 = (if dc_UnknownArch d
      then emit ts LevelWarn (''unrecognized option-93 arch from '' @ client_label d @ '' ('' @ arch_text lib code d
        @ ''); falling back to '' @ Transport_String (dc_Transport d)) log out else out)"
  obtain e1 where e1: "o1 = out @ e1"
    using emit_grows [of ts LevelWarn _ log out] by (cases "dc_UnknownArch d") (auto simp: o1_def emit_def)
  obtain dbg info where r: "logDecision lib code ts log source d err out
      = emit ts LevelDebug dbg log (emit ts LevelInfo info log o1)"
    unfolding logDecision_def None Let_def o1_def option.case Log_Decision_def Infof_def by blast
  obtain e2 where e2: "emit ts LevelInfo info log o1 = o1 @ e2" "e2 \<noteq> []"
    using emit_info [OF order_refl assms] by blast
  obtain e3 where "emit ts LevelDebug dbg log (o1 @ e2) = (o1 @ e2) @ e3"
    using emit_grows by blast
  then have "logDecision lib code ts log source d err out = out @ e1 @ e2 @ e3"
    unfolding r e2(1) by (simp add: e1)
  with e2(2) show ?thesis by blast
next
  case (Some em)
  have "\<exists>lvl msg. lvl \<le> LevelInfo \<and> logDecision lib code ts log source d err out = emit ts lvl msg log out"
    using levels unfolding logDecision_def Some Let_def Benign_def Infof_def
    by (cases em) (simp, metis less_imp_le less_trans order_refl)
  with emit_info [OF _ assms] show ?thesis by metis
qed

end
