(* ===== verification/Audit_Log.thy ===== *)
theory Audit_Log
  imports Http_Control Decision_Log
begin

text \<open>
  The audit lines of the HTTP server (\<^verbatim>\<open>logIntent\<close>, \<^verbatim>\<open>logFleetMutation\<close> and the
  callbacks of \<^verbatim>\<open>internal/httpd\<close>): what is written about a request, by the control flow of its handler
  up to the call of the logger, and the lines of the two debug pages.
\<close>

section \<open>Lines\<close>

definition logIntent :: "request \<Rightarrow> string \<Rightarrow> string \<Rightarrow> string \<Rightarrow> int \<Rightarrow> string" where
  "logIntent rq mac name action status =
     ''audit event=set-intent action='' @ action @ '' target_mac='' @ mac @ '' target_name='' @ Quote name
     @ '' result='' @ Itoa status @ '' from='' @ rq_RemoteAddr rq"

definition logFleetMutation :: "request \<Rightarrow> string \<Rightarrow> string \<Rightarrow> string \<Rightarrow> int \<Rightarrow> string" where
  "logFleetMutation rq mac name op status =
     ''audit event=fleet-mutation op='' @ op @ '' target_mac='' @ mac @ '' target_name='' @ Quote name
     @ '' result='' @ Itoa status @ '' from='' @ rq_RemoteAddr rq"

definition install_event_line :: "request \<Rightarrow> Event \<Rightarrow> string \<Rightarrow> string \<Rightarrow> string \<Rightarrow> string" where
  "install_event_line rq ev reason mac name =
     ''audit event=install-event phase='' @ ev @ '' reason='' @ Quote reason @ '' target_mac='' @ mac
     @ '' target_name='' @ Quote name @ '' from='' @ rq_RemoteAddr rq"

definition install_log_line :: "request \<Rightarrow> string \<Rightarrow> nat \<Rightarrow> string" where
  "install_log_line rq mac n =
     ''audit event=install-log target_mac='' @ mac @ '' bytes='' @ Itoa (int n) @ '' from='' @ rq_RemoteAddr rq"

text \<open>The reason that comes with a phase, as \<^verbatim>\<open>parseEventPhase\<close> reads it.\<close>

definition parse_reason :: "http_env \<Rightarrow> request \<Rightarrow> string" where
  "parse_reason env rq =
     (if media_type rq = ''application/json'' then snd (he_phase env (fst (read_limited 8192 rq)))
      else get_value (rq_Form rq) ''reason'')"

section \<open>Which request writes which line\<close>

definition intent_audit :: "http_env \<Rightarrow> request \<Rightarrow> server_state \<Rightarrow> ResponseWriter \<Rightarrow> string option" where
  "intent_audit env rq st w =
     (case apiReady st w of Inl _ \<Rightarrow> None | Inr (f, t, pend) \<Rightarrow>
      case apiExtractFleetMAC env rq f w of Inl _ \<Rightarrow> None | Inr (mac, p) \<Rightarrow>
      case intent_action env rq w of Inl _ \<Rightarrow> None | Inr action \<Rightarrow>
      if action = ''install'' then
        (case fst (Install (he_now env) mac pend) of Inl _ \<Rightarrow> None | Inr _ \<Rightarrow> Some (logIntent rq mac (p_Name p) ''install'' 200))
      else if action = ''rescue'' then
        (case fst (Rescue (he_now env) mac pend) of Inl _ \<Rightarrow> None | Inr _ \<Rightarrow> Some (logIntent rq mac (p_Name p) ''rescue'' 200))
      else if action = [] then Some (logIntent rq mac (p_Name p) ''cancel'' 200)
      else None)"

definition create_audit :: "http_env \<Rightarrow> request \<Rightarrow> server_state \<Rightarrow> ResponseWriter \<Rightarrow> string option" where
  "create_audit env rq st w =
     (case fleetReady rq st w of Inl _ \<Rightarrow> None | Inr (f, t) \<Rightarrow>
      case requireJSON rq w of Inl _ \<Rightarrow> None | Inr _ \<Rightarrow>
      case decodeMachineBody env rq w of Inl _ \<Rightarrow> None | Inr b \<Rightarrow>
      case CanonicalMAC (mc_MAC b) of Inl _ \<Rightarrow> None | Inr canon \<Rightarrow>
      case profileFromBody f b w of Inl _ \<Rightarrow> None | Inr p \<Rightarrow>
      case fst (CreateAndSave (he_fleet env) (he_save env) \<lparr>m_MAC = canon, m_Profile = p\<rparr> (sv_fs st, f)) of
        Inl _ \<Rightarrow> None | Inr _ \<Rightarrow> Some (logFleetMutation rq canon (p_Name p) ''create'' 201))"

definition update_audit :: "http_env \<Rightarrow> request \<Rightarrow> server_state \<Rightarrow> ResponseWriter \<Rightarrow> string option" where
  "update_audit env rq st w =
     (case fleetReady rq st w of Inl _ \<Rightarrow> None | Inr (f, t) \<Rightarrow>
      case requireJSON rq w of Inl _ \<Rightarrow> None | Inr _ \<Rightarrow>
      case CanonicalMAC (rq_PathValue rq ''mac'') of Inl _ \<Rightarrow> None | Inr canon \<Rightarrow>
      case decodeMachineBody env rq w of Inl _ \<Rightarrow> None | Inr b \<Rightarrow>
      case profileFromBody f b w of Inl _ \<Rightarrow> None | Inr p \<Rightarrow>
      case fst (UpdateAndSave (he_fleet env) (he_save env) \<lparr>m_MAC = canon, m_Profile = p\<rparr> (rq_Header rq ''If-Match'')
          (sv_fs st, f)) of
        Inl _ \<Rightarrow> None | Inr _ \<Rightarrow> Some (logFleetMutation rq canon (p_Name p) ''update'' 200))"

definition delete_audit :: "http_env \<Rightarrow> request \<Rightarrow> server_state \<Rightarrow> ResponseWriter \<Rightarrow> string option" where
  "delete_audit env rq st w =
     (case fleetReady rq st w of Inl _ \<Rightarrow> None | Inr (f, t) \<Rightarrow>
      case CanonicalMAC (rq_PathValue rq ''mac'') of Inl _ \<Rightarrow> None | Inr canon \<Rightarrow>
      case snd (fst (DeleteAndSave (he_fleet env) (he_save env) canon (rq_Header rq ''If-Match'') (sv_fs st, f))) of
        Some _ \<Rightarrow> None | None \<Rightarrow> Some (logFleetMutation rq canon [] ''delete'' 204))"

definition event_audit :: "http_env \<Rightarrow> request \<Rightarrow> server_state \<Rightarrow> ResponseWriter \<Rightarrow> string option" where
  "event_audit env rq st w =
     (case fleetReady rq st w of Inl _ \<Rightarrow> None | Inr (f, t) \<Rightarrow>
      case extractMAC env rq w of Inl _ \<Rightarrow> None | Inr mac \<Rightarrow>
      case phase_event (parseEventPhase env rq) of None \<Rightarrow> None
      | Some ev \<Rightarrow> Some (install_event_line rq ev (parse_reason env rq) mac (p_Name (Lookup f mac))))"

definition log_audit :: "http_env \<Rightarrow> request \<Rightarrow> server_state \<Rightarrow> ResponseWriter \<Rightarrow> string option" where
  "log_audit env rq st w =
     (case sv_log st of None \<Rightarrow> None | Some l \<Rightarrow>
      case extractMAC env rq w of Inl _ \<Rightarrow> None
      | Inr mac \<Rightarrow> Some (install_log_line rq mac (length (fst (read_limited MaxPerMAC rq)))))"

fun audit_of :: "endpoint \<Rightarrow> http_env \<Rightarrow> request \<Rightarrow> server_state \<Rightarrow> ResponseWriter \<Rightarrow> string option" where
  "audit_of ESetIntent = intent_audit"
| "audit_of ECreateMachine = create_audit"
| "audit_of EUpdateMachine = update_audit"
| "audit_of EDeleteMachine = delete_audit"
| "audit_of EInstallEvent = event_audit"
| "audit_of EInstallLog = log_audit"
| "audit_of _ = (\<lambda>env rq st w. None)"

section \<open>The debug pages\<close>

definition probe_line :: "request \<Rightarrow> string" where
  "probe_line rq =
     (let key = rq_PathValue rq ''key''; value = rq_PathValue rq ''value''
      in if value = [] then ''iPXE-state via HTTP from '' @ rq_RemoteAddr rq @ '': '' @ key
         else ''iPXE-state via HTTP from '' @ rq_RemoteAddr rq @ '': '' @ key @ ''='' @ Quote value)"

definition state_keys :: "string list" where
  "state_keys = [''stage'', ''mac'', ''net0'', ''net1'', ''net2'', ''net3'', ''ip'', ''gateway'', ''dns'', ''platform'',
     ''buildarch'', ''version'']"

definition state_line :: "request \<Rightarrow> string" where
  "state_line rq =
     (let q = rq_Query rq;
          known = map (\<lambda>k. k @ ''='' @ Quote (get_value q k)) (filter (\<lambda>k. get_value q k \<noteq> []) state_keys);
          others = map (\<lambda>(k, v). k @ ''='' @ Quote v) (filter (\<lambda>(k, v). k \<notin> set state_keys) q)
      in ''iPXE-state from '' @ rq_RemoteAddr rq @ '': '' @ Join (known @ others) '' '')"

section \<open>Reading a line back\<close>

fun after_first :: "string \<Rightarrow> string \<Rightarrow> string option" where
  "after_first sep s = (if HasPrefix s sep then Some (drop (length sep) s)
     else case s of [] \<Rightarrow> None | c # t \<Rightarrow> after_first sep t)"

declare after_first.simps [simp del]

text \<open>What a tool that looks for the field finds: the first occurrence of its name, up to the next space.\<close>

definition audit_target :: "string \<Rightarrow> string option" where
  "audit_target line = map_option (takeWhile (\<lambda>c. c \<noteq> CHR '' '')) (after_first '' target_mac='' line)"

definition one_line :: "string \<Rightarrow> bool" where
  "one_line s \<longleftrightarrow> CHR 0x0A \<notin> set s"

lemma one_line_simps [simp]:
  "one_line []" "one_line (c # s) \<longleftrightarrow> c \<noteq> CHR 0x0A \<and> one_line s" "one_line (s @ t) \<longleftrightarrow> one_line s \<and> one_line t"
  by (auto simp: one_line_def)

lemma one_line_hex: "one_line (hex_byte c)"
  using set_hex_byte [of c] by (auto simp: one_line_def hex_digits_def)

lemma one_line_quote_char: "one_line (quote_char c)"
  by (auto simp: quote_char_def Let_def one_line_hex)

lemma one_line_Quote [simp]: "one_line (Quote s)"
  using one_line_quote_char by (auto simp: Quote_def one_line_def)

lemma one_line_Itoa [simp]: "one_line (Itoa i)"
  by (auto simp: one_line_def Itoa_def dest!: set_dec_nat simp: is_digit_def)

lemma canonical_chars: "is_canonical c \<Longrightarrow> set c \<subseteq> set hex_digits \<union> {CHR '':''}"
  using set_mac_string by (auto simp: is_canonical_iff)

lemma one_line_mac: "is_canonical c \<Longrightarrow> one_line c"
  using canonical_chars [of c] by (auto simp: one_line_def hex_digits_def)

lemma mac_word: "is_canonical c \<Longrightarrow> takeWhile (\<lambda>c. c \<noteq> CHR '' '') (c @ CHR '' '' # s) = c"
  using canonical_chars [of c] by (subst takeWhile_append2) (auto simp: hex_digits_def)

lemma target_of_lines:
  assumes "is_canonical c"
  shows "action \<in> {''install'', ''rescue'', ''cancel''} \<Longrightarrow> audit_target (logIntent rq c name action status) = Some c"
    "op \<in> {''create'', ''update'', ''delete''} \<Longrightarrow> audit_target (logFleetMutation rq c name op status) = Some c"
    "audit_target (install_log_line rq c n) = Some c"
  using assms mac_word [OF assms]
  by (auto simp: audit_target_def logIntent_def logFleetMutation_def install_log_line_def after_first.simps HasPrefix_iff)

section \<open>Refusals\<close>

lemma reply_status_more [simp]:
  assumes "fresh w"
  shows "reply_status (Write b w) = 200" "reply_status (Write b (set_header k v w)) = 200"
    "reply_status (serve_bytes ct bs w) = 200" "reply_status (writeError rq s c m d w) = s"
  using assms by (simp_all add: serve_bytes_def Write_def WriteHeader_def set_header_def reply_status_def fresh_def Let_def
      writeError_def writeAPIError_def http_Error_def)

lemma refused_status:
  assumes "fresh w"
  shows "fleetReady rq st w = Inl w' \<Longrightarrow> reply_status w' = 503"
    "apiReady st w = Inl w' \<Longrightarrow> reply_status w' = 503"
    "requireJSON rq w = Inl w' \<Longrightarrow> reply_status w' = 415"
    "decodeMachineBody env rq w = Inl w' \<Longrightarrow> reply_status w' = 400"
    "profileFromBody f b w = Inl w' \<Longrightarrow> reply_status w' = 400"
    "extractMAC env rq w = Inl w' \<Longrightarrow> reply_status w' = 400"
    "apiExtractFleetMAC env rq f w = Inl w' \<Longrightarrow> reply_status w' \<in> {400, 404}"
    "intent_action env rq w = Inl w' \<Longrightarrow> reply_status w' = 400"
  using assms by (auto simp: fleetReady_def apiReady_def requireJSON_def decodeMachineBody_def profileFromBody_def extractMAC_def
      apiExtractFleetMAC_def intent_action_def writeError_def Let_def split: option.splits sum.splits if_splits prod.splits)

definition accepted :: "nat \<Rightarrow> bool" where
  "accepted status \<longleftrightarrow> status \<in> {200, 201, 204}"

lemma not_accepted [simp]: "\<not> accepted (error_status e)" "\<not> accepted 400" "\<not> accepted 404" "\<not> accepted 415" "\<not> accepted 503"
  "\<not> accepted 500"
  and is_accepted [simp]: "accepted 200" "accepted 201" "accepted 204"
  by (cases e) (simp_all add: accepted_def)

lemma refused_not_accepted:
  assumes "fresh w"
  shows "fleetReady rq st w = Inl w' \<Longrightarrow> \<not> accepted (reply_status w')"
    "apiReady st w = Inl w' \<Longrightarrow> \<not> accepted (reply_status w')"
    "requireJSON rq w = Inl w' \<Longrightarrow> \<not> accepted (reply_status w')"
    "decodeMachineBody env rq w = Inl w' \<Longrightarrow> \<not> accepted (reply_status w')"
    "profileFromBody f b w = Inl w' \<Longrightarrow> \<not> accepted (reply_status w')"
    "extractMAC env rq w = Inl w' \<Longrightarrow> \<not> accepted (reply_status w')"
    "apiExtractFleetMAC env rq f w = Inl w' \<Longrightarrow> \<not> accepted (reply_status w')"
    "intent_action env rq w = Inl w' \<Longrightarrow> \<not> accepted (reply_status w')"
  using refused_status [OF assms] by fastforce+

text \<open>A line is written exactly when the request is accepted.\<close>

lemma audited:
  assumes "fresh w"
  shows "(intent_audit env rq st w \<noteq> None) = accepted (reply_status (snd (handleAPISetIntent env opt rq (st, w))))"
    "(create_audit env rq st w \<noteq> None) = accepted (reply_status (snd (handleAPICreateMachine env opt rq (st, w))))"
    "(update_audit env rq st w \<noteq> None) = accepted (reply_status (snd (handleAPIUpdateMachine env opt rq (st, w))))"
    "(delete_audit env rq st w \<noteq> None) = accepted (reply_status (snd (handleAPIDeleteMachine env opt rq (st, w))))"
  using assms refused_not_accepted [OF assms]
  by (auto simp: intent_audit_def handleAPISetIntent_def create_audit_def handleAPICreateMachine_def update_audit_def
      handleAPIUpdateMachine_def delete_audit_def handleAPIDeleteMachine_def fresh_reply_status Let_def
      split: sum.split prod.split option.split)

lemma audited_callbacks:
  assumes "fresh w"
  shows "(event_audit env rq st w \<noteq> None) = accepted (reply_status (snd (handleInstallEvent env opt rq (st, w))))"
    "(log_audit env rq st w \<noteq> None) = accepted (reply_status (snd (handleInstallLog env opt rq (st, w))))"
  using assms refused_not_accepted [OF assms]
  by (auto simp: event_audit_def handleInstallEvent_def log_audit_def handleInstallLog_def Let_def
      split: sum.split prod.split option.split)

section \<open>What a line says\<close>

lemma lines_are_single:
  assumes "is_canonical c" "one_line (rq_RemoteAddr rq)"
  shows "one_line action \<Longrightarrow> one_line (logIntent rq c name action status)"
    "one_line op \<Longrightarrow> one_line (logFleetMutation rq c name op status)"
    "one_line ev \<Longrightarrow> one_line (install_event_line rq ev reason c name)"
    "one_line (install_log_line rq c n)"
  using assms one_line_mac by (simp_all add: logIntent_def logFleetMutation_def install_event_line_def install_log_line_def)

lemma checked_mac:
  "apiExtractFleetMAC env rq f w = Inr (c, q) \<Longrightarrow> CanonicalMAC (rq_PathValue rq ''mac'') = Inr c"
  "extractMAC env rq w = Inr c \<Longrightarrow> CanonicalMAC (rq_PathValue rq ''mac'') = Inr c"
  by (auto simp: apiExtractFleetMAC_def extractMAC_def Let_def split: sum.splits if_splits)

lemma phase_event_one_line: "phase_event ph = Some ev \<Longrightarrow> one_line ev"
  by (auto simp: phase_event_def EventInstallerDone_def EventInstallerFailed_def split: if_splits)

text \<open>The line of a request, if there is one: a single line, and the machine it names first is the one it is about.\<close>

definition names_machine :: "string \<Rightarrow> string \<Rightarrow> bool" where
  "names_machine line c \<longleftrightarrow> is_canonical c \<and> one_line line \<and> audit_target line = Some c"

lemma names_subject:
  assumes "CanonicalMAC raw = Inr c" "one_line (rq_RemoteAddr rq)"
  shows "names_machine (logIntent rq c name ''install'' 200) c" "names_machine (logIntent rq c name ''rescue'' 200) c"
    "names_machine (logIntent rq c name ''cancel'' 200) c" "names_machine (logFleetMutation rq c name ''create'' 201) c"
    "names_machine (logFleetMutation rq c name ''update'' 200) c" "names_machine (logFleetMutation rq c name ''delete'' 204) c"
    "names_machine (install_log_line rq c n) c"
  using canonical_result [OF assms(1)] assms(2) by (simp_all add: names_machine_def target_of_lines lines_are_single)

lemma line_about:
  assumes "one_line (rq_RemoteAddr rq)"
  shows "intent_audit env rq st w = Some line \<Longrightarrow> \<exists>c. names_machine line c \<and> CanonicalMAC (rq_PathValue rq ''mac'') = Inr c"
    "update_audit env rq st w = Some line \<Longrightarrow> \<exists>c. names_machine line c \<and> CanonicalMAC (rq_PathValue rq ''mac'') = Inr c"
    "delete_audit env rq st w = Some line \<Longrightarrow> \<exists>c. names_machine line c \<and> CanonicalMAC (rq_PathValue rq ''mac'') = Inr c"
    "log_audit env rq st w = Some line \<Longrightarrow> \<exists>c. names_machine line c \<and> CanonicalMAC (rq_PathValue rq ''mac'') = Inr c"
    "create_audit env rq st w = Some line \<Longrightarrow> \<exists>c. names_machine line c"
  using assms
  by (auto simp: intent_audit_def update_audit_def delete_audit_def log_audit_def create_audit_def
      intro: names_subject dest!: checked_mac split: sum.splits prod.splits option.splits if_splits)

lemma event_line:
  assumes "one_line (rq_RemoteAddr rq)" "event_audit env rq st w = Some line"
  shows "one_line line"
  using assms lines_are_single(3) [OF canonical_result [OF checked_mac(2)]] phase_event_one_line
  by (auto simp: event_audit_def split: sum.splits prod.splits option.splits)

text \<open>What an installer gives as its reason is quoted, but a tool that looks for the machine finds it first.\<close>

lemma reason_shadows_target:
  "audit_target (install_event_line rq EventInstallerDone (''x target_mac=00:00:00:00:00:01 '') c name) = Some ''00:00:00:00:00:01''"
  by (simp add: audit_target_def install_event_line_def EventInstallerDone_def after_first.simps HasPrefix_iff Quote_def
      quote_char_def Let_def)

text \<open>
  The key of a probe is not quoted: a client that nothing authenticates starts a line of its own in the log, and that
  line may be any audit line.
\<close>

lemma log_line_ends:
  assumes "s \<noteq> []" "one_line s"
  shows "log_line (a @ s) = a @ s @ newline"
proof -
  from assms(1) obtain t c where "s = t @ [c]" by (metis append_butlast_last_id)
  with assms(2) show ?thesis by (simp add: log_line_def HasSuffix_def HasPrefix_iff newline_def)
qed

lemma probe_starts_a_line:
  assumes "LevelInfo \<le> lg_level l" "rq_PathValue rq ''key'' = key @ newline @ forged" "rq_PathValue rq ''value'' = []"
    "forged \<noteq> []" "one_line forged"
  shows "\<exists>first. Infof ts (probe_line rq) l out = out @ first @ newline @ forged @ newline"
proof -
  obtain front where "ts @ '' '' @ pad_right 5 (Level_String LevelInfo) @ '' '' @ pad_right 9 (lg_comp l) @ '' '' @ probe_line rq
      = front @ newline @ forged"
    using assms(2,3) by (auto simp: probe_line_def)
  with assms(1) log_line_ends [OF assms(4,5), of "front @ newline"] show ?thesis by (simp add: Infof_def emit_def)
qed

section \<open>Properties\<close>



end
